(* ===== verification/CoCo_Prelude.thy ===== *)
theory CoCo_Prelude
  imports
    Main
    "HOL-Library.Word"
    "HOL-Library.State_Monad"
begin

text \<open>
  Shared vocabulary of the development: the machine integers of the C++ sources
  (\<open>uint8_t\<close>, \<open>uint16_t\<close>, \<open>uint32_t\<close>), bit tests, byte packing, the small monad
  library in which the CPU is written, and the collections of lemmas the component theories
  extend.
\<close>

unbundle bit_operations_syntax

section \<open>Machine integers\<close>

type_synonym u8 = "8 word"
type_synonym u16 = "16 word"
type_synonym u32 = "32 word"

named_theorems run_simps \<open>one-step evaluation of monadic operations\<close>
named_theorems frame_simps \<open>fields an operation leaves alone\<close>
named_theorems tst_simps \<open>single-bit tests as \<open>bit\<close>\<close>

text \<open>The C condition \<open>if (x & m)\<close>.\<close>

definition tst :: "'a::len word \<Rightarrow> 'a word \<Rightarrow> bool" where
  "tst x m \<longleftrightarrow> x AND m \<noteq> 0"

text \<open>The C expression \<open>c ? f : 0\<close>.\<close>

definition flag_if :: "bool \<Rightarrow> 'a::len word \<Rightarrow> 'a word" where
  "flag_if c f = (if c then f else 0)"

text \<open>Big-endian byte packing: \<open>((uint16_t)hi << 8) | lo\<close>, and the two casts back.\<close>

definition pack16 :: "u8 \<Rightarrow> u8 \<Rightarrow> u16" where
  "pack16 hi lo = push_bit 8 (ucast hi) OR ucast lo"

definition hi8 :: "u16 \<Rightarrow> u8" where
  "hi8 v = ucast (drop_bit 8 v)"

definition lo8 :: "u16 \<Rightarrow> u8" where
  "lo8 v = ucast (v AND 255)"

text \<open>Sign extension of a byte used as an offset, \<open>(int16_t)(int8_t)b\<close>.\<close>

definition sext8 :: "u8 \<Rightarrow> u16" where
  "sext8 b = scast b"

text \<open>The build's scanlines per frame, \<open>config.h\<close>.\<close>

definition SCANLINES_PER_FRAME :: nat where "SCANLINES_PER_FRAME = 262"

section \<open>Bits\<close>

lemma tst_push_bit: "tst x (push_bit n 1) \<longleftrightarrow> bit x n"
  by (simp add: tst_def bit_iff_and_push_bit_not_eq_0)

lemma tst_0 [simp]: "\<not> tst 0 m" "\<not> tst x 0"
  by (simp_all add: tst_def)

lemma tst_1 [tst_simps]: "tst x 1 \<longleftrightarrow> bit x 0"
  using tst_push_bit [of x 0] by simp

lemma tst_2 [tst_simps]: "tst x 2 \<longleftrightarrow> bit x 1"
  using tst_push_bit [of x 1] by simp

lemma tst_4 [tst_simps]: "tst x 4 \<longleftrightarrow> bit x 2"
  using tst_push_bit [of x 2] by simp

lemma tst_8 [tst_simps]: "tst x 8 \<longleftrightarrow> bit x 3"
  using tst_push_bit [of x 3] by simp

lemma tst_16 [tst_simps]: "tst x 16 \<longleftrightarrow> bit x 4"
  using tst_push_bit [of x 4] by simp

lemma tst_32 [tst_simps]: "tst x 32 \<longleftrightarrow> bit x 5"
  using tst_push_bit [of x 5] by simp

lemma tst_64 [tst_simps]: "tst x 64 \<longleftrightarrow> bit x 6"
  using tst_push_bit [of x 6] by simp

lemma tst_128 [tst_simps]: "tst x 128 \<longleftrightarrow> bit x 7"
  using tst_push_bit [of x 7] by simp

lemma tst_256 [tst_simps]: "tst x 256 \<longleftrightarrow> bit x 8"
  using tst_push_bit [of x 8] by simp

lemma tst_8000 [tst_simps]: "tst x 32768 \<longleftrightarrow> bit x 15"
  using tst_push_bit [of x 15] by simp

lemma tst_10000 [tst_simps]: "tst x 65536 \<longleftrightarrow> bit x 16"
  using tst_push_bit [of x 16] by simp

lemma u8_eq_iff: "(a :: u8) = b \<longleftrightarrow> (\<forall>n<8. bit a n = bit b n)"
  by (auto intro: bit_word_eqI)

lemma u16_eq_iff: "(a :: u16) = b \<longleftrightarrow> (\<forall>n<16. bit a n = bit b n)"
  by (auto intro: bit_word_eqI)

lemma bit_255_int [simp]: "bit (255 :: int) n \<longleftrightarrow> n < 8"
proof -
  have "(255 :: int) = mask 8" by (simp add: mask_eq_exp_minus_1)
  then show ?thesis by (simp only: bit_mask_iff) auto
qed

text \<open>The bits of the powers of two that occur as masks.\<close>

lemma bit_exp_int: "bit ((2 :: int) ^ k) n \<longleftrightarrow> n = k"
  by (auto simp: bit_exp_iff)

lemma bit_pow_int_2 [simp]: "bit (2 :: int) n \<longleftrightarrow> n = 1"
  using bit_exp_int [of 1 n] by simp

lemma bit_pow_int_4 [simp]: "bit (4 :: int) n \<longleftrightarrow> n = 2"
  using bit_exp_int [of 2 n] by simp

lemma bit_pow_int_8 [simp]: "bit (8 :: int) n \<longleftrightarrow> n = 3"
  using bit_exp_int [of 3 n] by simp

lemma bit_pow_int_16 [simp]: "bit (16 :: int) n \<longleftrightarrow> n = 4"
  using bit_exp_int [of 4 n] by simp

lemma bit_pow_int_32 [simp]: "bit (32 :: int) n \<longleftrightarrow> n = 5"
  using bit_exp_int [of 5 n] by simp

lemma bit_pow_int_64 [simp]: "bit (64 :: int) n \<longleftrightarrow> n = 6"
  using bit_exp_int [of 6 n] by simp

lemma bit_pow_int_128 [simp]: "bit (128 :: int) n \<longleftrightarrow> n = 7"
  using bit_exp_int [of 7 n] by simp

lemma bit_pow_int_256 [simp]: "bit (256 :: int) n \<longleftrightarrow> n = 8"
  using bit_exp_int [of 8 n] by simp

lemma bit_pow_int_32768 [simp]: "bit (32768 :: int) n \<longleftrightarrow> n = 15"
  using bit_exp_int [of 15 n] by simp

lemma bit_pow_int_65536 [simp]: "bit (65536 :: int) n \<longleftrightarrow> n = 16"
  using bit_exp_int [of 16 n] by simp

lemma bit_beyond: "LENGTH('a) \<le> n \<Longrightarrow> \<not> bit (w :: 'a::len word) n"
  by (meson bit_imp_le_length leD)

lemma odd_unat: "odd (unat w) \<longleftrightarrow> bit (w :: 'a::len word) 0"
proof -
  have "bit (unat w) 0 = bit w 0" by (simp only: bit_unsigned_iff) simp
  then show ?thesis by (simp only: bit_0)
qed

lemma hi8_pack16 [simp]: "hi8 (pack16 h l) = h"
  by (rule bit_word_eqI) (auto simp: hi8_def pack16_def bit_simps bit_beyond)

lemma lo8_pack16 [simp]: "lo8 (pack16 h l) = l"
  by (rule bit_word_eqI) (auto simp: lo8_def pack16_def bit_simps)

lemma pack16_hi8_lo8 [simp]: "pack16 (hi8 v) (lo8 v) = v"
  by (rule bit_word_eqI) (auto simp: lo8_def hi8_def pack16_def bit_simps)

section \<open>State monad\<close>

definition gets :: "('s \<Rightarrow> 'a) \<Rightarrow> ('s, 'a) state" where
  "gets f = State (\<lambda>s. (f s, s))"

definition modify :: "('s \<Rightarrow> 's) \<Rightarrow> ('s, unit) state" where
  "modify f = State (\<lambda>s. ((), f s))"

lemma run_gets [simp, run_simps]: "run_state (gets f) s = (f s, s)"
  by (simp add: gets_def)

lemma run_modify [simp, run_simps]: "run_state (modify f) s = ((), f s)"
  by (simp add: modify_def)

lemma run_if [run_simps]:
  "run_state (if c then m else n) s = (if c then run_state m s else run_state n s)"
  by simp

lemma run_bind_Pair [run_simps]:
  "run_state m s = (a, s') \<Longrightarrow> run_state (State_Monad.bind m f) s = run_state (f a) s'"
  by simp

text \<open>Partial-correctness triples (the operations of the monad are total).\<close>

definition valid :: "('s \<Rightarrow> bool) \<Rightarrow> ('s, 'a) state \<Rightarrow> ('a \<Rightarrow> 's \<Rightarrow> bool) \<Rightarrow> bool" where
  "valid P m Q \<longleftrightarrow> (\<forall>s. P s \<longrightarrow> Q (fst (run_state m s)) (snd (run_state m s)))"

lemma validI: "(\<And>s. P s \<Longrightarrow> Q (fst (run_state m s)) (snd (run_state m s))) \<Longrightarrow> valid P m Q"
  by (simp add: valid_def)

lemma validD: "valid P m Q \<Longrightarrow> P s \<Longrightarrow> Q (fst (run_state m s)) (snd (run_state m s))"
  by (simp add: valid_def)

lemma valid_bind: "valid P m Q \<Longrightarrow> (\<And>a. valid (Q a) (f a) R) \<Longrightarrow> valid P (State_Monad.bind m f) R"
  by (simp add: valid_def case_prod_unfold)

lemma valid_post: "valid P m Q \<Longrightarrow> (\<And>a s. Q a s \<Longrightarrow> R a s) \<Longrightarrow> valid P m R"
  by (simp add: valid_def)

section \<open>Level-reporting devices\<close>

text \<open>
  A chip that drives an interrupt line through a callback reports levels as events.
  \<open>track_level sel evs l\<close> is the level of the line after the events \<open>evs\<close>, from level
  \<open>l\<close>; \<open>sel\<close> picks the events of the line in question. A run of operations concatenates
  the events of each.
\<close>

fun track_level :: "('ev \<Rightarrow> bool option) \<Rightarrow> 'ev list \<Rightarrow> bool \<Rightarrow> bool" where
  "track_level sel [] l = l"
| "track_level sel (e # evs) l =
     track_level sel evs (case sel e of None \<Rightarrow> l | Some b \<Rightarrow> b)"

fun run_ops :: "('s \<Rightarrow> 'op \<Rightarrow> 's \<times> 'ev list) \<Rightarrow> 's \<Rightarrow> 'op list \<Rightarrow> 's \<times> 'ev list" where
  "run_ops ex s [] = (s, [])"
| "run_ops ex s (x # xs) =
     (let (s', evs) = ex s x; (s'', evs') = run_ops ex s' xs in (s'', evs @ evs'))"

lemma track_level_append [simp]:
  "track_level sel (xs @ ys) l = track_level sel ys (track_level sel xs l)"
  by (induction xs arbitrary: l) auto

locale level_source =
  fixes ex :: "'s \<Rightarrow> 'op \<Rightarrow> 's \<times> 'ev list"
    and sel :: "'ev \<Rightarrow> bool option"
    and want :: "'s \<Rightarrow> bool"
    and wired :: "'s \<Rightarrow> bool"
  assumes reports: "wired s \<Longrightarrow> track_level sel (snd (ex s x)) (want s) = want (fst (ex s x))"
    and wired_ex: "wired s \<Longrightarrow> wired (fst (ex s x))"
begin

lemma run_reports:
  "wired s \<Longrightarrow> track_level sel (snd (run_ops ex s xs)) (want s) = want (fst (run_ops ex s xs))"
proof (induction xs arbitrary: s)
  case Nil
  then show ?case by simp
next
  case (Cons x xs)
  obtain s' evs where step: "ex s x = (s', evs)" by (cases "ex s x")
  with Cons.prems have "wired s'" and "track_level sel evs (want s) = want s'"
    using wired_ex [of s x] reports [of s x] by auto
  with Cons.IH [of s'] step show ?case by (simp add: case_prod_unfold Let_def)
qed

end

section \<open>Signals\<close>

text \<open>An invocation of the disk controller's callbacks, wired in \<open>supervisor.cpp\<close>.\<close>

datatype fdc_signal = FdcNmi bool | FdcHalt bool

section \<open>Addresses and 8 KB pages\<close>

lemma u8_lt: "unat (a :: u8) < 256"
  using unsigned_less [of a] by simp

lemma u16_lt: "unat (a :: u16) < 65536"
  using unsigned_less [of a] by simp

lemma unat_ucast_u8_u16 [simp]: "unat (ucast (a :: u8) :: u16) = unat a"
  by (simp add: unsigned_ucast_eq take_bit_nat_eq_self_iff order_less_trans [OF u8_lt])

lemma unat_ucast_u16_u8: "unat (ucast (a :: u16) :: u8) = unat a mod 256"
  by (simp add: unsigned_ucast_eq take_bit_eq_mod)

lemma unat_ucast_u16_u32 [simp]: "unat (ucast (a :: u16) :: u32) = unat a"
  by (simp add: unsigned_ucast_eq take_bit_nat_eq_self_iff order_less_trans [OF u16_lt])

lemma unat_ucast_u32_u16: "unat (ucast (a :: u32) :: u16) = unat a mod 65536"
  by (simp add: unsigned_ucast_eq take_bit_eq_mod)

lemma page_split: "unat (a :: u16) = unat (drop_bit 13 a) * 8192 + unat (a AND 0x1FFF)"
proof -
  have "a AND 0x1FFF = take_bit 13 a" by (simp add: take_bit_eq_mask mask_eq_exp_minus_1)
  then have "unat (a AND 0x1FFF) = unat a mod 8192"
    by (simp only: unsigned_take_bit_eq) (simp add: take_bit_eq_mod)
  moreover have "unat (drop_bit 13 a) = unat a div 8192"
    by (simp add: drop_bit_eq_div unat_div)
  ultimately show ?thesis by simp
qed

lemma page_bounds: "unat (drop_bit 13 (a :: u16)) < 8" "unat ((a :: u16) AND 0x1FFF) < 8192"
proof -
  have "a AND 0x1FFF \<le> 0x1FFF" by (rule word_and_le1)
  then show "unat (a AND 0x1FFF) < 8192" by (simp add: word_le_nat_alt)
  then show "unat (drop_bit 13 a) < 8" using page_split [of a] u16_lt [of a] by linarith
qed

end
