(* ===== verification/Mc6809_State.thy ===== *)
theory Mc6809_State
  imports CoCo_Prelude
begin

text \<open>
  The state of the 6809 interpreter (\<open>src/src/core/mc6809.h\<close>) and its access helpers
  (\<open>src/src/core/mc6809_core_impl.h\<close>, the build with \<open>CPU_HD6309 = 0\<close>): memory access with the
  direct-page-table path, the two stacks, the condition-code helpers and the arithmetic units.

  The C code holds the machine behind two function pointers, \<open>read\<close> and \<open>write\<close>, and two
  tables of 8 KB page pointers. Here the interpreter runs over any extension
  \<open>'m mc6809_scheme\<close> of the CPU record, \<open>'m\<close> being the rest of the machine, and takes these as
  a record \<open>bus\<close>; a callback may change the CPU's own interrupt lines, as the PIA callbacks of
  the machine do. Whether the pointers \<open>read\<close> and \<open>write\<close> are set is kept in the CPU record.
\<close>

section \<open>State\<close>

record mc6809 =
  r_pc :: u16
  r_d :: u16
  r_x :: u16
  r_y :: u16
  r_u :: u16
  r_s :: u16
  r_dp :: u8
  r_cc :: u8
  cycles :: u32
  halted :: bool
  wait_for_interrupt :: bool
  cwai_state :: bool
  nmi_armed :: bool
  nmi_line :: bool
  nmi_pending :: bool
  firq_pending :: bool
  irq_pending :: bool
  read_cb :: bool
  write_cb :: bool
  fast_limit :: u16
  r_w :: u16
  r_v :: u16
  r_md :: u8
  variant :: u8
  tfm_busy :: bool
  tfm_pc :: u16
  idle_skip :: bool
  idle_rej :: u32
  idle_br :: int
  idle_cyc :: u32
  idle_budget :: int

text \<open>
  The memory callbacks and page tables. A page-table entry is \<open>None\<close> for a null pointer; a
  read entry is the contents of the 8 KB block it points at, a write entry stores into it.
\<close>

record 's bus =
  bus_read :: "u16 \<Rightarrow> 's \<Rightarrow> u8 \<times> 's"
  bus_write :: "u16 \<Rightarrow> u8 \<Rightarrow> 's \<Rightarrow> 's"
  bus_rd_page :: "nat \<Rightarrow> 's \<Rightarrow> (nat \<Rightarrow> u8) option"
  bus_wr_page :: "nat \<Rightarrow> 's \<Rightarrow> (nat \<Rightarrow> u8 \<Rightarrow> 's) option"

type_synonym ('m, 'a) cpu_op = "('m mc6809_scheme, 'a) state"
type_synonym 'm cpu_bus = "'m mc6809_scheme bus"

definition MC6809_FLAG_E :: u8 where "MC6809_FLAG_E = 0x80"
definition MC6809_FLAG_F :: u8 where "MC6809_FLAG_F = 0x40"
definition MC6809_FLAG_H :: u8 where "MC6809_FLAG_H = 0x20"
definition MC6809_FLAG_I :: u8 where "MC6809_FLAG_I = 0x10"
definition MC6809_FLAG_N :: u8 where "MC6809_FLAG_N = 0x08"
definition MC6809_FLAG_Z :: u8 where "MC6809_FLAG_Z = 0x04"
definition MC6809_FLAG_V :: u8 where "MC6809_FLAG_V = 0x02"
definition MC6809_FLAG_C :: u8 where "MC6809_FLAG_C = 0x01"

lemmas flag_defs = MC6809_FLAG_E_def MC6809_FLAG_F_def MC6809_FLAG_H_def MC6809_FLAG_I_def
  MC6809_FLAG_N_def MC6809_FLAG_Z_def MC6809_FLAG_V_def MC6809_FLAG_C_def

section \<open>Accumulators and condition codes\<close>

definition get_a :: "'m mc6809_scheme \<Rightarrow> u8" where "get_a s = hi8 (r_d s)"
definition get_b :: "'m mc6809_scheme \<Rightarrow> u8" where "get_b s = lo8 (r_d s)"

definition set_a :: "u8 \<Rightarrow> ('m, unit) cpu_op" where
  "set_a v = modify (\<lambda>s. s\<lparr>r_d := (r_d s AND 0x00FF) OR push_bit 8 (ucast v)\<rparr>)"

definition set_b :: "u8 \<Rightarrow> ('m, unit) cpu_op" where
  "set_b v = modify (\<lambda>s. s\<lparr>r_d := (r_d s AND 0xFF00) OR ucast v\<rparr>)"

definition cc_set :: "u8 \<Rightarrow> ('m, unit) cpu_op" where
  "cc_set f = modify (\<lambda>s. s\<lparr>r_cc := r_cc s OR f\<rparr>)"

definition cc_clr :: "u8 \<Rightarrow> ('m, unit) cpu_op" where
  "cc_clr f = modify (\<lambda>s. s\<lparr>r_cc := r_cc s AND NOT f\<rparr>)"

definition cc_put :: "u8 \<Rightarrow> bool \<Rightarrow> ('m, unit) cpu_op" where
  "cc_put f c = modify (\<lambda>s. s\<lparr>r_cc := (r_cc s AND NOT f) OR (if c then f else 0)\<rparr>)"

definition add_cycles :: "nat \<Rightarrow> ('m, unit) cpu_op" where
  "add_cycles n = modify (\<lambda>s. s\<lparr>cycles := cycles s + of_nat n\<rparr>)"

section \<open>Memory access\<close>

definition mem_read :: "'m cpu_bus \<Rightarrow> u16 \<Rightarrow> ('m, u8) cpu_op" where
  "mem_read b addr = State (\<lambda>s.
     if addr < fast_limit s then
       case bus_rd_page b (unat (drop_bit 13 addr)) s of
         Some p \<Rightarrow> (p (unat (addr AND 0x1FFF)), s)
       | None \<Rightarrow> bus_read b addr s
     else bus_read b addr s)"

definition mem_write :: "'m cpu_bus \<Rightarrow> u16 \<Rightarrow> u8 \<Rightarrow> ('m, unit) cpu_op" where
  "mem_write b addr val = State (\<lambda>s.
     ((), if addr < fast_limit s then
            case bus_wr_page b (unat (drop_bit 13 addr)) s of
              Some p \<Rightarrow> p (unat (addr AND 0x1FFF)) val
            | None \<Rightarrow> bus_write b addr val s
          else bus_write b addr val s))"

definition mem_read16 :: "'m cpu_bus \<Rightarrow> u16 \<Rightarrow> ('m, u16) cpu_op" where
  "mem_read16 b addr = do {
     hi \<leftarrow> mem_read b addr;
     lo \<leftarrow> mem_read b (addr + 1);
     State_Monad.return (pack16 hi lo)
   }"

definition mem_write16 :: "'m cpu_bus \<Rightarrow> u16 \<Rightarrow> u16 \<Rightarrow> ('m, unit) cpu_op" where
  "mem_write16 b addr val = do {
     mem_write b addr (hi8 val);
     mem_write b (addr + 1) (lo8 val)
   }"

definition fetch8 :: "'m cpu_bus \<Rightarrow> ('m, u8) cpu_op" where
  "fetch8 b = do {
     pc \<leftarrow> gets r_pc;
     modify (\<lambda>s. s\<lparr>r_pc := pc + 1\<rparr>);
     mem_read b pc
   }"

definition fetch16 :: "'m cpu_bus \<Rightarrow> ('m, u16) cpu_op" where
  "fetch16 b = do {
     hi \<leftarrow> fetch8 b;
     lo \<leftarrow> fetch8 b;
     State_Monad.return (pack16 hi lo)
   }"

section \<open>Stacks\<close>

definition push8s :: "'m cpu_bus \<Rightarrow> u8 \<Rightarrow> ('m, unit) cpu_op" where
  "push8s b val = do {
     modify (\<lambda>s. s\<lparr>r_s := r_s s - 1\<rparr>);
     a \<leftarrow> gets r_s;
     mem_write b a val
   }"

definition pull8s :: "'m cpu_bus \<Rightarrow> ('m, u8) cpu_op" where
  "pull8s b = do {
     a \<leftarrow> gets r_s;
     val \<leftarrow> mem_read b a;
     modify (\<lambda>s. s\<lparr>r_s := r_s s + 1\<rparr>);
     State_Monad.return val
   }"

definition push16s :: "'m cpu_bus \<Rightarrow> u16 \<Rightarrow> ('m, unit) cpu_op" where
  "push16s b val = do { push8s b (lo8 val); push8s b (hi8 val) }"

definition pull16s :: "'m cpu_bus \<Rightarrow> ('m, u16) cpu_op" where
  "pull16s b = do {
     hi \<leftarrow> pull8s b;
     lo \<leftarrow> pull8s b;
     State_Monad.return (pack16 hi lo)
   }"

definition push8u :: "'m cpu_bus \<Rightarrow> u8 \<Rightarrow> ('m, unit) cpu_op" where
  "push8u b val = do {
     modify (\<lambda>s. s\<lparr>r_u := r_u s - 1\<rparr>);
     a \<leftarrow> gets r_u;
     mem_write b a val
   }"

definition pull8u :: "'m cpu_bus \<Rightarrow> ('m, u8) cpu_op" where
  "pull8u b = do {
     a \<leftarrow> gets r_u;
     val \<leftarrow> mem_read b a;
     modify (\<lambda>s. s\<lparr>r_u := r_u s + 1\<rparr>);
     State_Monad.return val
   }"

definition push16u :: "'m cpu_bus \<Rightarrow> u16 \<Rightarrow> ('m, unit) cpu_op" where
  "push16u b val = do { push8u b (lo8 val); push8u b (hi8 val) }"

definition pull16u :: "'m cpu_bus \<Rightarrow> ('m, u16) cpu_op" where
  "pull16u b = do {
     hi \<leftarrow> pull8u b;
     lo \<leftarrow> pull8u b;
     State_Monad.return (pack16 hi lo)
   }"

section \<open>Flag updates and arithmetic\<close>

definition update_nz8 :: "u8 \<Rightarrow> ('m, unit) cpu_op" where
  "update_nz8 val = modify (\<lambda>s.
     let f = flag_if (tst val 0x80) MC6809_FLAG_N OR flag_if (val = 0) MC6809_FLAG_Z
     in s\<lparr>r_cc := (r_cc s AND NOT (MC6809_FLAG_N OR MC6809_FLAG_Z)) OR f\<rparr>)"

definition update_nz16 :: "u16 \<Rightarrow> ('m, unit) cpu_op" where
  "update_nz16 val = modify (\<lambda>s.
     let f = flag_if (tst val 0x8000) MC6809_FLAG_N OR flag_if (val = 0) MC6809_FLAG_Z
     in s\<lparr>r_cc := (r_cc s AND NOT (MC6809_FLAG_N OR MC6809_FLAG_Z)) OR f\<rparr>)"

definition op_add8 :: "u8 \<Rightarrow> u8 \<Rightarrow> u8 \<Rightarrow> ('m, u8) cpu_op" where
  "op_add8 a b carry = State (\<lambda>s.
     let result = (ucast a :: u16) + ucast b + ucast carry;
         r8 = (ucast result :: u8);
         f = flag_if (tst (a XOR b XOR r8) 0x10) MC6809_FLAG_H
           OR flag_if (tst r8 0x80) MC6809_FLAG_N
           OR flag_if (r8 = 0) MC6809_FLAG_Z
           OR flag_if (tst ((a XOR r8) AND (b XOR r8)) 0x80) MC6809_FLAG_V
           OR flag_if (tst result 0x100) MC6809_FLAG_C
     in (r8, s\<lparr>r_cc := (r_cc s AND NOT (MC6809_FLAG_H OR MC6809_FLAG_N OR MC6809_FLAG_Z
                          OR MC6809_FLAG_V OR MC6809_FLAG_C)) OR f\<rparr>))"

definition op_sub8 :: "u8 \<Rightarrow> u8 \<Rightarrow> u8 \<Rightarrow> ('m, u8) cpu_op" where
  "op_sub8 a b carry = State (\<lambda>s.
     let result = (ucast a :: u16) - ucast b - ucast carry;
         r8 = (ucast result :: u8);
         f = flag_if (tst r8 0x80) MC6809_FLAG_N
           OR flag_if (r8 = 0) MC6809_FLAG_Z
           OR flag_if (tst ((a XOR b) AND (a XOR r8)) 0x80) MC6809_FLAG_V
           OR flag_if (tst result 0x100) MC6809_FLAG_C
     in (r8, s\<lparr>r_cc := (r_cc s AND NOT (MC6809_FLAG_N OR MC6809_FLAG_Z
                          OR MC6809_FLAG_V OR MC6809_FLAG_C)) OR f\<rparr>))"

definition op_add16 :: "u16 \<Rightarrow> u16 \<Rightarrow> ('m, u16) cpu_op" where
  "op_add16 a b = State (\<lambda>s.
     let result = (ucast a :: u32) + ucast b;
         r16 = (ucast result :: u16);
         f = flag_if (tst r16 0x8000) MC6809_FLAG_N
           OR flag_if (r16 = 0) MC6809_FLAG_Z
           OR flag_if (tst ((a XOR r16) AND (b XOR r16)) 0x8000) MC6809_FLAG_V
           OR flag_if (tst result 0x10000) MC6809_FLAG_C
     in (r16, s\<lparr>r_cc := (r_cc s AND NOT (MC6809_FLAG_N OR MC6809_FLAG_Z
                           OR MC6809_FLAG_V OR MC6809_FLAG_C)) OR f\<rparr>))"

definition op_sub16 :: "u16 \<Rightarrow> u16 \<Rightarrow> ('m, u16) cpu_op" where
  "op_sub16 a b = State (\<lambda>s.
     let result = (ucast a :: u32) - ucast b;
         r16 = (ucast result :: u16);
         f = flag_if (tst r16 0x8000) MC6809_FLAG_N
           OR flag_if (r16 = 0) MC6809_FLAG_Z
           OR flag_if (tst ((a XOR b) AND (a XOR r16)) 0x8000) MC6809_FLAG_V
           OR flag_if (tst result 0x10000) MC6809_FLAG_C
     in (r16, s\<lparr>r_cc := (r_cc s AND NOT (MC6809_FLAG_N OR MC6809_FLAG_Z
                           OR MC6809_FLAG_V OR MC6809_FLAG_C)) OR f\<rparr>))"

end
