(* ===== verification/Mc6809_Exec.thy ===== *)
theory Mc6809_Exec
  imports Mc6809_State
begin

text \<open>
  Addressing modes, instruction bodies, opcode dispatch, interrupts and the run loop of
  \<open>src/src/core/mc6809_core_impl.h\<close> (MC6809 build) and the interrupt-line functions of
  \<open>src/src/core/mc6809.cpp\<close>. The C source writes the sixteen opcodes of a row out once per
  addressing mode with the same body; here a row is one definition over the address computation
  and its extra cycles, and \<open>exec_row0\<close> \dots \<open>exec_rowF\<close> instantiate it row by row.
  Evaluation order follows the source; where C++ leaves the order of two operands open (a
  register read beside a memory read), memory is read first, which makes no difference for
  callbacks that leave the registers alone.
\<close>

section \<open>Addressing modes\<close>

definition addr_direct :: "'m cpu_bus \<Rightarrow> ('m, u16) cpu_op" where
  "addr_direct b = do {
     lo \<leftarrow> fetch8 b;
     dp \<leftarrow> gets r_dp;
     State_Monad.return (pack16 dp lo)
   }"

definition addr_extended :: "'m cpu_bus \<Rightarrow> ('m, u16) cpu_op" where
  "addr_extended b = fetch16 b"

text \<open>\<open>idx_reg\<close> returns a pointer to X, Y, U or S; the model reads and writes through it.\<close>

definition idx_reg :: "u8 \<Rightarrow> 'm mc6809_scheme \<Rightarrow> u16" where
  "idx_reg postbyte s =
     (let r = drop_bit 5 postbyte AND 3 in
      if r = 0 then r_x s else if r = 1 then r_y s else if r = 2 then r_u s else r_s s)"

definition set_idx_reg :: "u8 \<Rightarrow> u16 \<Rightarrow> ('m, unit) cpu_op" where
  "set_idx_reg postbyte v = modify (\<lambda>s.
     let r = drop_bit 5 postbyte AND 3 in
     if r = 0 then s\<lparr>r_x := v\<rparr> else if r = 1 then s\<lparr>r_y := v\<rparr>
     else if r = 2 then s\<lparr>r_u := v\<rparr> else s\<lparr>r_s := v\<rparr>)"

text \<open>The switch over the postbyte modes: effective address before indirection, and whether
  the mode returned at once (no indirection possible).\<close>

definition indexed_mode :: "'m cpu_bus \<Rightarrow> u8 \<Rightarrow> bool \<Rightarrow> ('m, u16 \<times> bool) cpu_op" where
  "indexed_mode b postbyte indirect =
     (let mode = postbyte AND 0x0F;
          cyc = (\<lambda>i d. add_cycles (if indirect then i else d));
          go = (\<lambda>ea. State_Monad.return (ea, False));
          stop = (\<lambda>ea. State_Monad.return (ea, True)) in
      if mode = 0x00 then do {
        ea \<leftarrow> gets (idx_reg postbyte); set_idx_reg postbyte (ea + 1); add_cycles 2; stop ea }
      else if mode = 0x01 then do {
        ea \<leftarrow> gets (idx_reg postbyte); set_idx_reg postbyte (ea + 2); cyc 6 3; go ea }
      else if mode = 0x02 then do {
        r \<leftarrow> gets (idx_reg postbyte); set_idx_reg postbyte (r - 1); add_cycles 2; stop (r - 1) }
      else if mode = 0x03 then do {
        r \<leftarrow> gets (idx_reg postbyte); set_idx_reg postbyte (r - 2); cyc 6 3; go (r - 2) }
      else if mode = 0x04 then do {
        ea \<leftarrow> gets (idx_reg postbyte); cyc 3 0; go ea }
      else if mode = 0x05 then do {
        ea \<leftarrow> gets (\<lambda>s. idx_reg postbyte s + sext8 (get_b s)); cyc 4 1; go ea }
      else if mode = 0x06 then do {
        ea \<leftarrow> gets (\<lambda>s. idx_reg postbyte s + sext8 (get_a s)); cyc 4 1; go ea }
      else if mode = 0x08 then do {
        ofs \<leftarrow> fetch8 b; r \<leftarrow> gets (idx_reg postbyte); cyc 4 1; go (r + sext8 ofs) }
      else if mode = 0x09 then do {
        ofs \<leftarrow> fetch16 b; r \<leftarrow> gets (idx_reg postbyte); cyc 7 4; go (r + ofs) }
      else if mode = 0x0B then do {
        ea \<leftarrow> gets (\<lambda>s. idx_reg postbyte s + r_d s); cyc 7 4; go ea }
      else if mode = 0x0C then do {
        ofs \<leftarrow> fetch8 b; pc \<leftarrow> gets r_pc; cyc 4 1; go (pc + sext8 ofs) }
      else if mode = 0x0D then do {
        ofs \<leftarrow> fetch16 b; pc \<leftarrow> gets r_pc; cyc 8 5; go (pc + ofs) }
      else if mode = 0x0F then
        (if indirect then do { ea \<leftarrow> fetch16 b; add_cycles 5; go ea }
         else do { ea \<leftarrow> gets (idx_reg postbyte); add_cycles 0; go ea })
      else do { ea \<leftarrow> gets (idx_reg postbyte); go ea })"

definition addr_indexed :: "'m cpu_bus \<Rightarrow> ('m, u16) cpu_op" where
  "addr_indexed b = do {
     postbyte \<leftarrow> fetch8 b;
     if \<not> tst postbyte 0x80 then do {
       let ofs = (if tst postbyte 0x10 then (postbyte AND 0x1F) OR 0xE0 else postbyte AND 0x1F);
       r \<leftarrow> gets (idx_reg postbyte);
       add_cycles 1;
       State_Monad.return (r + sext8 ofs)
     } else do {
       let indirect = tst postbyte 0x10;
       let mode = postbyte AND 0x0F;
       r \<leftarrow> indexed_mode b postbyte indirect;
       if snd r then State_Monad.return (fst r)
       else if indirect \<and> mode \<noteq> 0x0F then mem_read16 b (fst r)
       else if mode = 0x0F then mem_read16 b (fst r)
       else State_Monad.return (fst r)
     }
   }"

section \<open>TFR/EXG registers\<close>

definition tfr_read_reg :: "u8 \<Rightarrow> 'm mc6809_scheme \<Rightarrow> u16" where
  "tfr_read_reg code s =
     (let c = code AND 0x0F in
      if c = 0x0 then r_d s else if c = 0x1 then r_x s else if c = 0x2 then r_y s
      else if c = 0x3 then r_u s else if c = 0x4 then r_s s else if c = 0x5 then r_pc s
      else if c = 0x8 then ucast (get_a s) else if c = 0x9 then ucast (get_b s)
      else if c = 0xA then ucast (r_cc s) else if c = 0xB then ucast (r_dp s)
      else 0xFF)"

definition tfr_write_reg :: "u8 \<Rightarrow> u16 \<Rightarrow> ('m, unit) cpu_op" where
  "tfr_write_reg code val =
     (let c = code AND 0x0F in
      if c = 0x0 then modify (\<lambda>s. s\<lparr>r_d := val\<rparr>)
      else if c = 0x1 then modify (\<lambda>s. s\<lparr>r_x := val\<rparr>)
      else if c = 0x2 then modify (\<lambda>s. s\<lparr>r_y := val\<rparr>)
      else if c = 0x3 then modify (\<lambda>s. s\<lparr>r_u := val\<rparr>)
      else if c = 0x4 then modify (\<lambda>s. s\<lparr>r_s := val\<rparr>)
      else if c = 0x5 then modify (\<lambda>s. s\<lparr>r_pc := val\<rparr>)
      else if c = 0x8 then set_a (ucast val)
      else if c = 0x9 then set_b (ucast val)
      else if c = 0xA then modify (\<lambda>s. s\<lparr>r_cc := ucast val\<rparr>)
      else if c = 0xB then modify (\<lambda>s. s\<lparr>r_dp := ucast val\<rparr>)
      else State_Monad.return ())"

section \<open>Push and pull\<close>

text \<open>One line \<open>if (postbyte & m) { push(...); count += n; }\<close> of the four helpers.\<close>

definition when_bit :: "u8 \<Rightarrow> u8 \<Rightarrow> ('m, unit) cpu_op \<Rightarrow> nat \<Rightarrow> nat \<Rightarrow> ('m, nat) cpu_op" where
  "when_bit postbyte m act n count =
     (if tst postbyte m then do { act; State_Monad.return (count + n) }
      else State_Monad.return count)"

definition do_pshs :: "'m cpu_bus \<Rightarrow> u8 \<Rightarrow> ('m, nat) cpu_op" where
  "do_pshs b postbyte = do {
     n \<leftarrow> when_bit postbyte 0x80 (do { v \<leftarrow> gets r_pc; push16s b v }) 2 0;
     n \<leftarrow> when_bit postbyte 0x40 (do { v \<leftarrow> gets r_u; push16s b v }) 2 n;
     n \<leftarrow> when_bit postbyte 0x20 (do { v \<leftarrow> gets r_y; push16s b v }) 2 n;
     n \<leftarrow> when_bit postbyte 0x10 (do { v \<leftarrow> gets r_x; push16s b v }) 2 n;
     n \<leftarrow> when_bit postbyte 0x08 (do { v \<leftarrow> gets r_dp; push8s b v }) 1 n;
     n \<leftarrow> when_bit postbyte 0x04 (do { v \<leftarrow> gets get_b; push8s b v }) 1 n;
     n \<leftarrow> when_bit postbyte 0x02 (do { v \<leftarrow> gets get_a; push8s b v }) 1 n;
     when_bit postbyte 0x01 (do { v \<leftarrow> gets r_cc; push8s b v }) 1 n
   }"

definition do_puls :: "'m cpu_bus \<Rightarrow> u8 \<Rightarrow> ('m, nat) cpu_op" where
  "do_puls b postbyte = do {
     n \<leftarrow> when_bit postbyte 0x01 (do { v \<leftarrow> pull8s b; modify (\<lambda>s. s\<lparr>r_cc := v\<rparr>) }) 1 0;
     n \<leftarrow> when_bit postbyte 0x02 (do { v \<leftarrow> pull8s b; set_a v }) 1 n;
     n \<leftarrow> when_bit postbyte 0x04 (do { v \<leftarrow> pull8s b; set_b v }) 1 n;
     n \<leftarrow> when_bit postbyte 0x08 (do { v \<leftarrow> pull8s b; modify (\<lambda>s. s\<lparr>r_dp := v\<rparr>) }) 1 n;
     n \<leftarrow> when_bit postbyte 0x10 (do { v \<leftarrow> pull16s b; modify (\<lambda>s. s\<lparr>r_x := v\<rparr>) }) 2 n;
     n \<leftarrow> when_bit postbyte 0x20 (do { v \<leftarrow> pull16s b; modify (\<lambda>s. s\<lparr>r_y := v\<rparr>) }) 2 n;
     n \<leftarrow> when_bit postbyte 0x40 (do { v \<leftarrow> pull16s b; modify (\<lambda>s. s\<lparr>r_u := v\<rparr>) }) 2 n;
     when_bit postbyte 0x80 (do { v \<leftarrow> pull16s b; modify (\<lambda>s. s\<lparr>r_pc := v\<rparr>) }) 2 n
   }"

definition do_pshu :: "'m cpu_bus \<Rightarrow> u8 \<Rightarrow> ('m, nat) cpu_op" where
  "do_pshu b postbyte = do {
     n \<leftarrow> when_bit postbyte 0x80 (do { v \<leftarrow> gets r_pc; push16u b v }) 2 0;
     n \<leftarrow> when_bit postbyte 0x40 (do { v \<leftarrow> gets r_s; push16u b v }) 2 n;
     n \<leftarrow> when_bit postbyte 0x20 (do { v \<leftarrow> gets r_y; push16u b v }) 2 n;
     n \<leftarrow> when_bit postbyte 0x10 (do { v \<leftarrow> gets r_x; push16u b v }) 2 n;
     n \<leftarrow> when_bit postbyte 0x08 (do { v \<leftarrow> gets r_dp; push8u b v }) 1 n;
     n \<leftarrow> when_bit postbyte 0x04 (do { v \<leftarrow> gets get_b; push8u b v }) 1 n;
     n \<leftarrow> when_bit postbyte 0x02 (do { v \<leftarrow> gets get_a; push8u b v }) 1 n;
     when_bit postbyte 0x01 (do { v \<leftarrow> gets r_cc; push8u b v }) 1 n
   }"

definition do_pulu :: "'m cpu_bus \<Rightarrow> u8 \<Rightarrow> ('m, nat) cpu_op" where
  "do_pulu b postbyte = do {
     n \<leftarrow> when_bit postbyte 0x01 (do { v \<leftarrow> pull8u b; modify (\<lambda>s. s\<lparr>r_cc := v\<rparr>) }) 1 0;
     n \<leftarrow> when_bit postbyte 0x02 (do { v \<leftarrow> pull8u b; set_a v }) 1 n;
     n \<leftarrow> when_bit postbyte 0x04 (do { v \<leftarrow> pull8u b; set_b v }) 1 n;
     n \<leftarrow> when_bit postbyte 0x08 (do { v \<leftarrow> pull8u b; modify (\<lambda>s. s\<lparr>r_dp := v\<rparr>) }) 1 n;
     n \<leftarrow> when_bit postbyte 0x10 (do { v \<leftarrow> pull16u b; modify (\<lambda>s. s\<lparr>r_x := v\<rparr>) }) 2 n;
     n \<leftarrow> when_bit postbyte 0x20 (do { v \<leftarrow> pull16u b; modify (\<lambda>s. s\<lparr>r_y := v\<rparr>) }) 2 n;
     n \<leftarrow> when_bit postbyte 0x40 (do { v \<leftarrow> pull16u b; modify (\<lambda>s. s\<lparr>r_s := v\<rparr>) }) 2 n;
     when_bit postbyte 0x80 (do { v \<leftarrow> pull16u b; modify (\<lambda>s. s\<lparr>r_pc := v\<rparr>) }) 2 n
   }"

text \<open>The push of the entire state, written out at SWI, SWI2, SWI3, CWAI and the interrupts.\<close>

definition push_entire :: "'m cpu_bus \<Rightarrow> ('m, unit) cpu_op" where
  "push_entire b = do {
     v \<leftarrow> gets r_pc; push16s b v;
     v \<leftarrow> gets r_u; push16s b v;
     v \<leftarrow> gets r_y; push16s b v;
     v \<leftarrow> gets r_x; push16s b v;
     v \<leftarrow> gets r_dp; push8s b v;
     v \<leftarrow> gets get_b; push8s b v;
     v \<leftarrow> gets get_a; push8s b v;
     v \<leftarrow> gets r_cc; push8s b v
   }"

section \<open>Branch conditions\<close>

definition eval_branch :: "u8 \<Rightarrow> u8 \<Rightarrow> bool" where
  "eval_branch cc cond =
     (let C = tst cc MC6809_FLAG_C; Z = tst cc MC6809_FLAG_Z;
          N = tst cc MC6809_FLAG_N; V = tst cc MC6809_FLAG_V in
      if cond = 0x0 then True
      else if cond = 0x1 then False
      else if cond = 0x2 then \<not> (C \<or> Z)
      else if cond = 0x3 then C \<or> Z
      else if cond = 0x4 then \<not> C
      else if cond = 0x5 then C
      else if cond = 0x6 then \<not> Z
      else if cond = 0x7 then Z
      else if cond = 0x8 then \<not> V
      else if cond = 0x9 then V
      else if cond = 0xA then \<not> N
      else if cond = 0xB then N
      else if cond = 0xC then \<not> (N \<noteq> V)
      else if cond = 0xD then N \<noteq> V
      else if cond = 0xE then \<not> (Z \<or> N \<noteq> V)
      else if cond = 0xF then Z \<or> N \<noteq> V
      else False)"

end
