(* ===== verification/Mc6809_Opcodes.thy ===== *)
theory Mc6809_Opcodes
  imports Mc6809_Exec
begin

text \<open>
  The opcode bodies and \<open>execute_page2\<close>, \<open>execute_page3\<close>, \<open>execute_one\<close>, the interrupt
  dispatch \<open>check_interrupts\<close> and the run loop \<open>mc6809_run\<close> of
  \<open>src/src/core/mc6809_core_impl.h\<close>, MC6809 build.
\<close>

section \<open>Read-modify-write rows\<close>

text \<open>Each shift or arithmetic body sets carry and overflow before the result is stored and N, Z
  after it; the two halves are \<open>pre\<close> (giving the value to store) and \<open>post\<close>.\<close>

definition carry_of :: "('m, bool) cpu_op" where
  "carry_of = gets (\<lambda>s. tst (r_cc s) MC6809_FLAG_C)"

definition rmw_pre :: "u8 \<Rightarrow> u8 \<Rightarrow> ('m, u8) cpu_op" where
  "rmw_pre lo val =
     (if lo = 0x0 then op_sub8 0 val 0
      else if lo = 0x3 then State_Monad.return (NOT val)
      else if lo = 0x4 then do {
        cc_put MC6809_FLAG_C (tst val 0x01); State_Monad.return (drop_bit 1 val) }
      else if lo = 0x6 then do {
        c \<leftarrow> carry_of; cc_put MC6809_FLAG_C (tst val 0x01);
        State_Monad.return (drop_bit 1 val OR (if c then 0x80 else 0)) }
      else if lo = 0x7 then do {
        cc_put MC6809_FLAG_C (tst val 0x01);
        State_Monad.return (drop_bit 1 val OR (val AND 0x80)) }
      else if lo = 0x8 then do {
        cc_put MC6809_FLAG_C (tst val 0x80);
        cc_put MC6809_FLAG_V (tst (val XOR push_bit 1 val) 0x80);
        State_Monad.return (push_bit 1 val) }
      else if lo = 0x9 then do {
        c \<leftarrow> carry_of;
        cc_put MC6809_FLAG_C (tst val 0x80);
        cc_put MC6809_FLAG_V (tst (val XOR push_bit 1 val) 0x80);
        State_Monad.return (push_bit 1 val OR (if c then 1 else 0)) }
      else if lo = 0xA then do {
        cc_put MC6809_FLAG_V (val = 0x80); State_Monad.return (val - 1) }
      else do {
        cc_put MC6809_FLAG_V (val = 0x7F); State_Monad.return (val + 1) })"

definition rmw_post :: "u8 \<Rightarrow> u8 \<Rightarrow> ('m, unit) cpu_op" where
  "rmw_post lo r =
     (if lo = 0x0 then State_Monad.return ()
      else if lo = 0x3 then do {
        update_nz8 r; cc_clr MC6809_FLAG_V; cc_set MC6809_FLAG_C }
      else if lo = 0x4 then do {
        cc_clr MC6809_FLAG_N; cc_put MC6809_FLAG_Z (r = 0) }
      else update_nz8 r)"

text \<open>The low nibbles with a read-modify-write body.\<close>

definition rmw_nibble :: "u8 \<Rightarrow> bool" where
  "rmw_nibble lo \<longleftrightarrow> lo = 0x0 \<or> lo = 0x3 \<or> lo = 0x4 \<or> lo = 0x6 \<or> lo = 0x7 \<or> lo = 0x8 \<or>
     lo = 0x9 \<or> lo = 0xA \<or> lo = 0xC"

definition nop2 :: "('m, unit) cpu_op" where
  "nop2 = add_cycles 2"

definition clr_flags :: "('m, unit) cpu_op" where
  "clr_flags = do {
     cc_clr (MC6809_FLAG_N OR MC6809_FLAG_V OR MC6809_FLAG_C);
     cc_set MC6809_FLAG_Z }"

definition mem_row :: "'m cpu_bus \<Rightarrow> u8 \<Rightarrow> ('m, u16) cpu_op \<Rightarrow> nat \<Rightarrow> ('m, unit) cpu_op" where
  "mem_row b lo ea_of extra =
     (if rmw_nibble lo then do {
        ea \<leftarrow> ea_of; val \<leftarrow> mem_read b ea;
        r \<leftarrow> rmw_pre lo val; mem_write b ea r; rmw_post lo r;
        add_cycles (6 + extra) }
      else if lo = 0xD then do {
        ea \<leftarrow> ea_of; val \<leftarrow> mem_read b ea;
        update_nz8 val; cc_clr MC6809_FLAG_V; add_cycles (6 + extra) }
      else if lo = 0xE then do {
        ea \<leftarrow> ea_of; modify (\<lambda>s. s\<lparr>r_pc := ea\<rparr>); add_cycles (3 + extra) }
      else if lo = 0xF then do {
        ea \<leftarrow> ea_of; mem_write b ea 0; clr_flags; add_cycles (6 + extra) }
      else nop2)"

definition exec_row0 :: "'m cpu_bus \<Rightarrow> u8 \<Rightarrow> ('m, unit) cpu_op" where
  "exec_row0 b opcode = mem_row b (opcode AND 0x0F) (addr_direct b) 0"

definition exec_row6 :: "'m cpu_bus \<Rightarrow> u8 \<Rightarrow> ('m, unit) cpu_op" where
  "exec_row6 b opcode = mem_row b (opcode AND 0x0F) (addr_indexed b) 0"

definition exec_row7 :: "'m cpu_bus \<Rightarrow> u8 \<Rightarrow> ('m, unit) cpu_op" where
  "exec_row7 b opcode = mem_row b (opcode AND 0x0F) (addr_extended b) 1"

text \<open>The same bodies on an accumulator: here the result is set before N and Z.\<close>

definition acc_row :: "u8 \<Rightarrow> ('m mc6809_scheme \<Rightarrow> u8) \<Rightarrow> (u8 \<Rightarrow> ('m, unit) cpu_op) \<Rightarrow> ('m, unit) cpu_op" where
  "acc_row lo get_r set_r =
     (if rmw_nibble lo then do {
        val \<leftarrow> gets get_r;
        r \<leftarrow> rmw_pre lo val; set_r r; rmw_post lo r;
        add_cycles 2 }
      else if lo = 0xD then do {
        val \<leftarrow> gets get_r; update_nz8 val; cc_clr MC6809_FLAG_V; add_cycles 2 }
      else if lo = 0xF then do {
        set_r 0; clr_flags; add_cycles 2 }
      else nop2)"

definition exec_row4 :: "u8 \<Rightarrow> ('m, unit) cpu_op" where
  "exec_row4 opcode = acc_row (opcode AND 0x0F) get_a set_a"

definition exec_row5 :: "u8 \<Rightarrow> ('m, unit) cpu_op" where
  "exec_row5 opcode = acc_row (opcode AND 0x0F) get_b set_b"

section \<open>Accumulator and 16-bit rows\<close>

text \<open>Loads set N, Z and clear V; so do stores.\<close>

definition nz8_v0 :: "u8 \<Rightarrow> ('m, unit) cpu_op" where
  "nz8_v0 v = do { update_nz8 v; cc_clr MC6809_FLAG_V }"

definition nz16_v0 :: "u16 \<Rightarrow> ('m, unit) cpu_op" where
  "nz16_v0 v = do { update_nz16 v; cc_clr MC6809_FLAG_V }"

text \<open>The 8-bit operations by low nibble. \<open>pre\<close> fetches the immediate or forms the address and
  \<open>rd\<close> gives the operand; the carry of ADC and SBC is taken in between, as in the source.\<close>

definition alu8 ::
  "u8 \<Rightarrow> ('m mc6809_scheme \<Rightarrow> u8) \<Rightarrow> (u8 \<Rightarrow> ('m, unit) cpu_op) \<Rightarrow>
   ('m, 'e) cpu_op \<Rightarrow> ('e \<Rightarrow> ('m, u8) cpu_op) \<Rightarrow> ('m, unit) cpu_op" where
  "alu8 lo get_r set_r pre rd = do {
     e \<leftarrow> pre;
     c \<leftarrow> carry_of;
     val \<leftarrow> rd e;
     a \<leftarrow> gets get_r;
     (if lo = 0x0 then do { r \<leftarrow> op_sub8 a val 0; set_r r }
      else if lo = 0x1 then do { r \<leftarrow> op_sub8 a val 0; State_Monad.return () }
      else if lo = 0x2 then do { r \<leftarrow> op_sub8 a val (if c then 1 else 0); set_r r }
      else if lo = 0x4 then do { set_r (a AND val); nz8_v0 (a AND val) }
      else if lo = 0x5 then nz8_v0 (a AND val)
      else if lo = 0x6 then do { set_r val; nz8_v0 val }
      else if lo = 0x8 then do { set_r (a XOR val); nz8_v0 (a XOR val) }
      else if lo = 0x9 then do { r \<leftarrow> op_add8 a val (if c then 1 else 0); set_r r }
      else if lo = 0xA then do { set_r (a OR val); nz8_v0 (a OR val) }
      else do { r \<leftarrow> op_add8 a val 0; set_r r })
   }"

definition alu8_nibble :: "u8 \<Rightarrow> bool" where
  "alu8_nibble lo \<longleftrightarrow> lo = 0x0 \<or> lo = 0x1 \<or> lo = 0x2 \<or> lo = 0x4 \<or> lo = 0x5 \<or> lo = 0x6 \<or>
     lo = 0x8 \<or> lo = 0x9 \<or> lo = 0xA \<or> lo = 0xB"

definition st8 :: "'m cpu_bus \<Rightarrow> ('m mc6809_scheme \<Rightarrow> u8) \<Rightarrow> ('m, u16) cpu_op \<Rightarrow> ('m, unit) cpu_op" where
  "st8 b get_r ea_of = do {
     ea \<leftarrow> ea_of; v \<leftarrow> gets get_r; mem_write b ea v;
     v' \<leftarrow> gets get_r; nz8_v0 v' }"

definition st16 :: "'m cpu_bus \<Rightarrow> ('m mc6809_scheme \<Rightarrow> u16) \<Rightarrow> ('m, u16) cpu_op \<Rightarrow> ('m, unit) cpu_op" where
  "st16 b get_r ea_of = do {
     ea \<leftarrow> ea_of; v \<leftarrow> gets get_r; mem_write16 b ea v;
     v' \<leftarrow> gets get_r; nz16_v0 v' }"

definition ld16 :: "(u16 \<Rightarrow> 'm mc6809_scheme \<Rightarrow> 'm mc6809_scheme) \<Rightarrow> ('m, u16) cpu_op \<Rightarrow> ('m, unit) cpu_op" where
  "ld16 set_r rd = do { v \<leftarrow> rd; modify (set_r v); nz16_v0 v }"

definition cmp16 :: "('m mc6809_scheme \<Rightarrow> u16) \<Rightarrow> ('m, u16) cpu_op \<Rightarrow> ('m, unit) cpu_op" where
  "cmp16 get_r rd = do {
     v \<leftarrow> rd; a \<leftarrow> gets get_r; r \<leftarrow> op_sub16 a v; State_Monad.return () }"

definition subd :: "('m, u16) cpu_op \<Rightarrow> ('m, unit) cpu_op" where
  "subd rd = do { v \<leftarrow> rd; d \<leftarrow> gets r_d; r \<leftarrow> op_sub16 d v; modify (\<lambda>s. s\<lparr>r_d := r\<rparr>) }"

definition addd :: "('m, u16) cpu_op \<Rightarrow> ('m, unit) cpu_op" where
  "addd rd = do { v \<leftarrow> rd; d \<leftarrow> gets r_d; r \<leftarrow> op_add16 d v; modify (\<lambda>s. s\<lparr>r_d := r\<rparr>) }"

definition rd16 :: "'m cpu_bus \<Rightarrow> ('m, u16) cpu_op \<Rightarrow> ('m, u16) cpu_op" where
  "rd16 b ea_of = do { ea \<leftarrow> ea_of; mem_read16 b ea }"

definition jsr :: "'m cpu_bus \<Rightarrow> ('m, u16) cpu_op \<Rightarrow> ('m, unit) cpu_op" where
  "jsr b ea_of = do {
     ea \<leftarrow> ea_of; pc \<leftarrow> gets r_pc; push16s b pc; modify (\<lambda>s. s\<lparr>r_pc := ea\<rparr>) }"

definition exec_row8 :: "'m cpu_bus \<Rightarrow> u8 \<Rightarrow> ('m, unit) cpu_op" where
  "exec_row8 b opcode =
     (let lo = opcode AND 0x0F in
      if alu8_nibble lo then do {
        alu8 lo get_a set_a (fetch8 b) State_Monad.return; add_cycles 2 }
      else if lo = 0x3 then do { subd (fetch16 b); add_cycles 4 }
      else if lo = 0xC then do { cmp16 r_x (fetch16 b); add_cycles 4 }
      else if lo = 0xD then do {
        ofs \<leftarrow> fetch8 b; pc \<leftarrow> gets r_pc; push16s b pc;
        modify (\<lambda>s. s\<lparr>r_pc := r_pc s + sext8 ofs\<rparr>); add_cycles 7 }
      else if lo = 0xE then do { ld16 (\<lambda>v s. s\<lparr>r_x := v\<rparr>) (fetch16 b); add_cycles 3 }
      else nop2)"

definition a_mem_row :: "'m cpu_bus \<Rightarrow> u8 \<Rightarrow> ('m, u16) cpu_op \<Rightarrow> nat \<Rightarrow> ('m, unit) cpu_op" where
  "a_mem_row b lo ea_of extra =
     (if alu8_nibble lo then do {
        alu8 lo get_a set_a ea_of (mem_read b); add_cycles (4 + extra) }
      else if lo = 0x3 then do { subd (rd16 b ea_of); add_cycles (6 + extra) }
      else if lo = 0x7 then do { st8 b get_a ea_of; add_cycles (4 + extra) }
      else if lo = 0xC then do { cmp16 r_x (rd16 b ea_of); add_cycles (6 + extra) }
      else if lo = 0xD then do { jsr b ea_of; add_cycles (7 + extra) }
      else if lo = 0xE then do { ld16 (\<lambda>v s. s\<lparr>r_x := v\<rparr>) (rd16 b ea_of); add_cycles (5 + extra) }
      else do { st16 b r_x ea_of; add_cycles (5 + extra) })"

definition exec_row9 :: "'m cpu_bus \<Rightarrow> u8 \<Rightarrow> ('m, unit) cpu_op" where
  "exec_row9 b opcode = a_mem_row b (opcode AND 0x0F) (addr_direct b) 0"

definition exec_rowA :: "'m cpu_bus \<Rightarrow> u8 \<Rightarrow> ('m, unit) cpu_op" where
  "exec_rowA b opcode = a_mem_row b (opcode AND 0x0F) (addr_indexed b) 0"

definition exec_rowB :: "'m cpu_bus \<Rightarrow> u8 \<Rightarrow> ('m, unit) cpu_op" where
  "exec_rowB b opcode = a_mem_row b (opcode AND 0x0F) (addr_extended b) 1"

definition exec_rowC :: "'m cpu_bus \<Rightarrow> u8 \<Rightarrow> ('m, unit) cpu_op" where
  "exec_rowC b opcode =
     (let lo = opcode AND 0x0F in
      if alu8_nibble lo then do {
        alu8 lo get_b set_b (fetch8 b) State_Monad.return; add_cycles 2 }
      else if lo = 0x3 then do { addd (fetch16 b); add_cycles 4 }
      else if lo = 0xC then do { ld16 (\<lambda>v s. s\<lparr>r_d := v\<rparr>) (fetch16 b); add_cycles 3 }
      else if lo = 0xE then do { ld16 (\<lambda>v s. s\<lparr>r_u := v\<rparr>) (fetch16 b); add_cycles 3 }
      else nop2)"

definition b_mem_row :: "'m cpu_bus \<Rightarrow> u8 \<Rightarrow> ('m, u16) cpu_op \<Rightarrow> nat \<Rightarrow> ('m, unit) cpu_op" where
  "b_mem_row b lo ea_of extra =
     (if alu8_nibble lo then do {
        alu8 lo get_b set_b ea_of (mem_read b); add_cycles (4 + extra) }
      else if lo = 0x3 then do { addd (rd16 b ea_of); add_cycles (6 + extra) }
      else if lo = 0x7 then do { st8 b get_b ea_of; add_cycles (4 + extra) }
      else if lo = 0xC then do { ld16 (\<lambda>v s. s\<lparr>r_d := v\<rparr>) (rd16 b ea_of); add_cycles (5 + extra) }
      else if lo = 0xD then do { st16 b r_d ea_of; add_cycles (5 + extra) }
      else if lo = 0xE then do { ld16 (\<lambda>v s. s\<lparr>r_u := v\<rparr>) (rd16 b ea_of); add_cycles (5 + extra) }
      else do { st16 b r_u ea_of; add_cycles (5 + extra) })"

definition exec_rowD :: "'m cpu_bus \<Rightarrow> u8 \<Rightarrow> ('m, unit) cpu_op" where
  "exec_rowD b opcode = b_mem_row b (opcode AND 0x0F) (addr_direct b) 0"

definition exec_rowE :: "'m cpu_bus \<Rightarrow> u8 \<Rightarrow> ('m, unit) cpu_op" where
  "exec_rowE b opcode = b_mem_row b (opcode AND 0x0F) (addr_indexed b) 0"

definition exec_rowF :: "'m cpu_bus \<Rightarrow> u8 \<Rightarrow> ('m, unit) cpu_op" where
  "exec_rowF b opcode = b_mem_row b (opcode AND 0x0F) (addr_extended b) 1"

section \<open>Pages 2 and 3\<close>

definition MC6809_VEC_RESET :: u16 where "MC6809_VEC_RESET = 0xFFFE"
definition MC6809_VEC_NMI :: u16 where "MC6809_VEC_NMI = 0xFFFC"
definition MC6809_VEC_SWI :: u16 where "MC6809_VEC_SWI = 0xFFFA"
definition MC6809_VEC_IRQ :: u16 where "MC6809_VEC_IRQ = 0xFFF8"
definition MC6809_VEC_FIRQ :: u16 where "MC6809_VEC_FIRQ = 0xFFF6"
definition MC6809_VEC_SWI2 :: u16 where "MC6809_VEC_SWI2 = 0xFFF4"
definition MC6809_VEC_SWI3 :: u16 where "MC6809_VEC_SWI3 = 0xFFF2"

definition jump_vector :: "'m cpu_bus \<Rightarrow> u16 \<Rightarrow> ('m, unit) cpu_op" where
  "jump_vector b vec = do { v \<leftarrow> mem_read16 b vec; modify (\<lambda>s. s\<lparr>r_pc := v\<rparr>) }"

definition execute_page2 :: "'m cpu_bus \<Rightarrow> ('m, unit) cpu_op" where
  "execute_page2 b = do {
     opcode \<leftarrow> fetch8 b;
     if 0x20 \<le> opcode \<and> opcode \<le> 0x2F then do {
       ofs \<leftarrow> fetch16 b;
       take \<leftarrow> gets (\<lambda>s. eval_branch (r_cc s) (opcode AND 0x0F));
       if take then do { modify (\<lambda>s. s\<lparr>r_pc := r_pc s + ofs\<rparr>); add_cycles 6 }
       else add_cycles 5
     }
     else if opcode = 0x3F then do {
       cc_set MC6809_FLAG_E; push_entire b; jump_vector b MC6809_VEC_SWI2; add_cycles 20 }
     else if opcode = 0x83 then do { cmp16 r_d (fetch16 b); add_cycles 5 }
     else if opcode = 0x93 then do { cmp16 r_d (rd16 b (addr_direct b)); add_cycles 7 }
     else if opcode = 0xA3 then do { cmp16 r_d (rd16 b (addr_indexed b)); add_cycles 7 }
     else if opcode = 0xB3 then do { cmp16 r_d (rd16 b (addr_extended b)); add_cycles 8 }
     else if opcode = 0x8C then do { cmp16 r_y (fetch16 b); add_cycles 5 }
     else if opcode = 0x9C then do { cmp16 r_y (rd16 b (addr_direct b)); add_cycles 7 }
     else if opcode = 0xAC then do { cmp16 r_y (rd16 b (addr_indexed b)); add_cycles 7 }
     else if opcode = 0xBC then do { cmp16 r_y (rd16 b (addr_extended b)); add_cycles 8 }
     else if opcode = 0x8E then do { ld16 (\<lambda>v s. s\<lparr>r_y := v\<rparr>) (fetch16 b); add_cycles 4 }
     else if opcode = 0x9E then do { ld16 (\<lambda>v s. s\<lparr>r_y := v\<rparr>) (rd16 b (addr_direct b)); add_cycles 6 }
     else if opcode = 0xAE then do { ld16 (\<lambda>v s. s\<lparr>r_y := v\<rparr>) (rd16 b (addr_indexed b)); add_cycles 6 }
     else if opcode = 0xBE then do { ld16 (\<lambda>v s. s\<lparr>r_y := v\<rparr>) (rd16 b (addr_extended b)); add_cycles 7 }
     else if opcode = 0x9F then do { st16 b r_y (addr_direct b); add_cycles 6 }
     else if opcode = 0xAF then do { st16 b r_y (addr_indexed b); add_cycles 6 }
     else if opcode = 0xBF then do { st16 b r_y (addr_extended b); add_cycles 7 }
     else if opcode = 0xCE then do {
       ld16 (\<lambda>v s. s\<lparr>r_s := v\<rparr>) (fetch16 b); add_cycles 4; modify (\<lambda>s. s\<lparr>nmi_armed := True\<rparr>) }
     else if opcode = 0xDE then do {
       ld16 (\<lambda>v s. s\<lparr>r_s := v\<rparr>) (rd16 b (addr_direct b)); add_cycles 6;
       modify (\<lambda>s. s\<lparr>nmi_armed := True\<rparr>) }
     else if opcode = 0xEE then do {
       ld16 (\<lambda>v s. s\<lparr>r_s := v\<rparr>) (rd16 b (addr_indexed b)); add_cycles 6;
       modify (\<lambda>s. s\<lparr>nmi_armed := True\<rparr>) }
     else if opcode = 0xFE then do {
       ld16 (\<lambda>v s. s\<lparr>r_s := v\<rparr>) (rd16 b (addr_extended b)); add_cycles 7;
       modify (\<lambda>s. s\<lparr>nmi_armed := True\<rparr>) }
     else if opcode = 0xDF then do { st16 b r_s (addr_direct b); add_cycles 6 }
     else if opcode = 0xEF then do { st16 b r_s (addr_indexed b); add_cycles 6 }
     else if opcode = 0xFF then do { st16 b r_s (addr_extended b); add_cycles 7 }
     else add_cycles 2
   }"

definition execute_page3 :: "'m cpu_bus \<Rightarrow> ('m, unit) cpu_op" where
  "execute_page3 b = do {
     opcode \<leftarrow> fetch8 b;
     if opcode = 0x3F then do {
       cc_set MC6809_FLAG_E; push_entire b; jump_vector b MC6809_VEC_SWI3; add_cycles 20 }
     else if opcode = 0x83 then do { cmp16 r_u (fetch16 b); add_cycles 5 }
     else if opcode = 0x93 then do { cmp16 r_u (rd16 b (addr_direct b)); add_cycles 7 }
     else if opcode = 0xA3 then do { cmp16 r_u (rd16 b (addr_indexed b)); add_cycles 7 }
     else if opcode = 0xB3 then do { cmp16 r_u (rd16 b (addr_extended b)); add_cycles 8 }
     else if opcode = 0x8C then do { cmp16 r_s (fetch16 b); add_cycles 5 }
     else if opcode = 0x9C then do { cmp16 r_s (rd16 b (addr_direct b)); add_cycles 7 }
     else if opcode = 0xAC then do { cmp16 r_s (rd16 b (addr_indexed b)); add_cycles 7 }
     else if opcode = 0xBC then do { cmp16 r_s (rd16 b (addr_extended b)); add_cycles 8 }
     else add_cycles 2
   }"

section \<open>Rows 1 to 3\<close>

definition daa :: "('m, unit) cpu_op" where
  "daa = do {
     a \<leftarrow> gets get_a;
     cc \<leftarrow> gets r_cc;
     let lo = (if a AND 0x0F > 0x09 \<or> tst cc MC6809_FLAG_H then 0x06 else 0);
     let hi = (if a AND 0xF0 > 0x90 \<or> tst cc MC6809_FLAG_C \<or>
                  (a AND 0xF0 > 0x80 \<and> a AND 0x0F > 0x09) then 0x60 else 0);
     let correction = (lo OR hi :: u8);
     let result = (ucast a :: u16) + ucast correction;
     set_a (ucast result);
     a' \<leftarrow> gets get_a;
     update_nz8 a';
     cc_clr MC6809_FLAG_V;
     (if tst result 0x100 then cc_set MC6809_FLAG_C else State_Monad.return ());
     add_cycles 2
   }"

definition exec_row1 :: "'m cpu_bus \<Rightarrow> u8 \<Rightarrow> ('m, unit) cpu_op" where
  "exec_row1 b opcode =
     (if opcode = 0x10 then execute_page2 b
      else if opcode = 0x11 then execute_page3 b
      else if opcode = 0x12 then add_cycles 2
      else if opcode = 0x13 then do {
        modify (\<lambda>s. s\<lparr>wait_for_interrupt := True\<rparr>); add_cycles 4 }
      else if opcode = 0x16 then do {
        ofs \<leftarrow> fetch16 b; modify (\<lambda>s. s\<lparr>r_pc := r_pc s + ofs\<rparr>); add_cycles 5 }
      else if opcode = 0x17 then do {
        ofs \<leftarrow> fetch16 b; pc \<leftarrow> gets r_pc; push16s b pc;
        modify (\<lambda>s. s\<lparr>r_pc := r_pc s + ofs\<rparr>); add_cycles 9 }
      else if opcode = 0x19 then daa
      else if opcode = 0x1A then do {
        v \<leftarrow> fetch8 b; modify (\<lambda>s. s\<lparr>r_cc := r_cc s OR v\<rparr>); add_cycles 3 }
      else if opcode = 0x1C then do {
        v \<leftarrow> fetch8 b; modify (\<lambda>s. s\<lparr>r_cc := r_cc s AND v\<rparr>); add_cycles 3 }
      else if opcode = 0x1D then do {
        x \<leftarrow> gets get_b; set_a (if tst x 0x80 then 0xFF else 0);
        d \<leftarrow> gets r_d; update_nz16 d; cc_clr MC6809_FLAG_V; add_cycles 2 }
      else if opcode = 0x1E then do {
        postbyte \<leftarrow> fetch8 b;
        let src = drop_bit 4 postbyte AND 0x0F;
        let dst = postbyte AND 0x0F;
        sv \<leftarrow> gets (tfr_read_reg src);
        dv \<leftarrow> gets (tfr_read_reg dst);
        tfr_write_reg src dv;
        tfr_write_reg dst sv;
        add_cycles 8 }
      else if opcode = 0x1F then do {
        postbyte \<leftarrow> fetch8 b;
        let src = drop_bit 4 postbyte AND 0x0F;
        let dst = postbyte AND 0x0F;
        v \<leftarrow> gets (tfr_read_reg src);
        tfr_write_reg dst v;
        add_cycles 6 }
      else nop2)"

definition exec_row2 :: "'m cpu_bus \<Rightarrow> u8 \<Rightarrow> ('m, unit) cpu_op" where
  "exec_row2 b opcode = do {
     ofs \<leftarrow> fetch8 b;
     take \<leftarrow> gets (\<lambda>s. eval_branch (r_cc s) (opcode AND 0x0F));
     (if take then modify (\<lambda>s. s\<lparr>r_pc := r_pc s + sext8 ofs\<rparr>) else State_Monad.return ());
     add_cycles 3
   }"

definition rti :: "'m cpu_bus \<Rightarrow> ('m, unit) cpu_op" where
  "rti b = do {
     v \<leftarrow> pull8s b; modify (\<lambda>s. s\<lparr>r_cc := v\<rparr>);
     e \<leftarrow> gets (\<lambda>s. tst (r_cc s) MC6809_FLAG_E);
     if e then do {
       v \<leftarrow> pull8s b; set_a v;
       v \<leftarrow> pull8s b; set_b v;
       v \<leftarrow> pull8s b; modify (\<lambda>s. s\<lparr>r_dp := v\<rparr>);
       v \<leftarrow> pull16s b; modify (\<lambda>s. s\<lparr>r_x := v\<rparr>);
       v \<leftarrow> pull16s b; modify (\<lambda>s. s\<lparr>r_y := v\<rparr>);
       v \<leftarrow> pull16s b; modify (\<lambda>s. s\<lparr>r_u := v\<rparr>);
       v \<leftarrow> pull16s b; modify (\<lambda>s. s\<lparr>r_pc := v\<rparr>);
       add_cycles 15
     } else do {
       v \<leftarrow> pull16s b; modify (\<lambda>s. s\<lparr>r_pc := v\<rparr>);
       add_cycles 6
     }
   }"

definition exec_row3 :: "'m cpu_bus \<Rightarrow> u8 \<Rightarrow> ('m, unit) cpu_op" where
  "exec_row3 b opcode =
     (if opcode = 0x30 then do {
        ea \<leftarrow> addr_indexed b; modify (\<lambda>s. s\<lparr>r_x := ea\<rparr>);
        cc_put MC6809_FLAG_Z (ea = 0); add_cycles 4 }
      else if opcode = 0x31 then do {
        ea \<leftarrow> addr_indexed b; modify (\<lambda>s. s\<lparr>r_y := ea\<rparr>);
        cc_put MC6809_FLAG_Z (ea = 0); add_cycles 4 }
      else if opcode = 0x32 then do {
        ea \<leftarrow> addr_indexed b; modify (\<lambda>s. s\<lparr>r_s := ea\<rparr>); add_cycles 4;
        modify (\<lambda>s. s\<lparr>nmi_armed := True\<rparr>) }
      else if opcode = 0x33 then do {
        ea \<leftarrow> addr_indexed b; modify (\<lambda>s. s\<lparr>r_u := ea\<rparr>); add_cycles 4 }
      else if opcode = 0x34 then do {
        postbyte \<leftarrow> fetch8 b; n \<leftarrow> do_pshs b postbyte; add_cycles (5 + n) }
      else if opcode = 0x35 then do {
        postbyte \<leftarrow> fetch8 b; n \<leftarrow> do_puls b postbyte; add_cycles (5 + n) }
      else if opcode = 0x36 then do {
        postbyte \<leftarrow> fetch8 b; n \<leftarrow> do_pshu b postbyte; add_cycles (5 + n) }
      else if opcode = 0x37 then do {
        postbyte \<leftarrow> fetch8 b; n \<leftarrow> do_pulu b postbyte; add_cycles (5 + n) }
      else if opcode = 0x39 then do {
        v \<leftarrow> pull16s b; modify (\<lambda>s. s\<lparr>r_pc := v\<rparr>); add_cycles 5 }
      else if opcode = 0x3A then do {
        modify (\<lambda>s. s\<lparr>r_x := r_x s + ucast (get_b s)\<rparr>); add_cycles 3 }
      else if opcode = 0x3B then rti b
      else if opcode = 0x3C then do {
        imm \<leftarrow> fetch8 b; modify (\<lambda>s. s\<lparr>r_cc := r_cc s AND imm\<rparr>);
        cc_set MC6809_FLAG_E; push_entire b;
        modify (\<lambda>s. s\<lparr>wait_for_interrupt := True\<rparr>);
        modify (\<lambda>s. s\<lparr>cwai_state := True\<rparr>);
        add_cycles 20 }
      else if opcode = 0x3D then do {
        result \<leftarrow> gets (\<lambda>s. (ucast (get_a s) :: u16) * ucast (get_b s));
        modify (\<lambda>s. s\<lparr>r_d := result\<rparr>);
        cc_put MC6809_FLAG_Z (result = 0);
        cc_put MC6809_FLAG_C (tst result 0x80);
        add_cycles 11 }
      else if opcode = 0x3F then do {
        cc_set MC6809_FLAG_E; push_entire b;
        cc_set (MC6809_FLAG_I OR MC6809_FLAG_F);
        jump_vector b MC6809_VEC_SWI; add_cycles 19 }
      else nop2)"

section \<open>One instruction\<close>

definition execute_one :: "'m cpu_bus \<Rightarrow> ('m, unit) cpu_op" where
  "execute_one b = do {
     opcode \<leftarrow> fetch8 b;
     let row = drop_bit 4 opcode;
     if row = 0x0 then exec_row0 b opcode
     else if row = 0x1 then exec_row1 b opcode
     else if row = 0x2 then exec_row2 b opcode
     else if row = 0x3 then exec_row3 b opcode
     else if row = 0x4 then exec_row4 opcode
     else if row = 0x5 then exec_row5 opcode
     else if row = 0x6 then exec_row6 b opcode
     else if row = 0x7 then exec_row7 b opcode
     else if row = 0x8 then exec_row8 b opcode
     else if row = 0x9 then exec_row9 b opcode
     else if row = 0xA then exec_rowA b opcode
     else if row = 0xB then exec_rowB b opcode
     else if row = 0xC then exec_rowC b opcode
     else if row = 0xD then exec_rowD b opcode
     else if row = 0xE then exec_rowE b opcode
     else exec_rowF b opcode
   }"

section \<open>Init, reset and the interrupt lines\<close>

text \<open>\<open>mc6809_init\<close> clears the CPU struct; the rest of the machine is untouched.\<close>

definition mc6809_init :: "'m mc6809_scheme \<Rightarrow> 'm mc6809_scheme" where
  "mc6809_init s =
     \<lparr>r_pc = 0, r_d = 0, r_x = 0, r_y = 0, r_u = 0, r_s = 0, r_dp = 0,
      r_cc = MC6809_FLAG_I OR MC6809_FLAG_F, cycles = 0,
      halted = False, wait_for_interrupt = False, cwai_state = False, nmi_armed = False,
      nmi_line = False, nmi_pending = False, firq_pending = False, irq_pending = False,
      read_cb = False, write_cb = False, fast_limit = 0,
      r_w = 0, r_v = 0, r_md = 0, variant = 0, tfm_busy = False, tfm_pc = 0,
      idle_skip = False, idle_rej = 0, idle_br = 0, idle_cyc = 0, idle_budget = 0,
      \<dots> = mc6809.more s\<rparr>"

definition mc6809_reset :: "'m cpu_bus \<Rightarrow> ('m, unit) cpu_op" where
  "mc6809_reset b = do {
     modify (\<lambda>s. s\<lparr>r_dp := 0, r_cc := MC6809_FLAG_I OR MC6809_FLAG_F, halted := False,
       wait_for_interrupt := False, cwai_state := False, nmi_armed := False,
       nmi_line := False, nmi_pending := False, firq_pending := False, irq_pending := False,
       r_md := 0, tfm_busy := False, cycles := 0\<rparr>);
     wired \<leftarrow> gets read_cb;
     if wired then jump_vector b MC6809_VEC_RESET
     else modify (\<lambda>s. s\<lparr>r_pc := 0\<rparr>)
   }"

definition mc6809_nmi :: "bool \<Rightarrow> 'm mc6809_scheme \<Rightarrow> 'm mc6809_scheme" where
  "mc6809_nmi active s =
     (let s' = (if active \<and> \<not> nmi_line s then s\<lparr>nmi_pending := True\<rparr> else s)
      in s'\<lparr>nmi_line := active\<rparr>)"

definition mc6809_firq :: "bool \<Rightarrow> 'm mc6809_scheme \<Rightarrow> 'm mc6809_scheme" where
  "mc6809_firq active s = s\<lparr>firq_pending := active\<rparr>"

definition mc6809_irq :: "bool \<Rightarrow> 'm mc6809_scheme \<Rightarrow> 'm mc6809_scheme" where
  "mc6809_irq active s = s\<lparr>irq_pending := active\<rparr>"

text \<open>Leaving a wait state, at the end of every interrupt entry.\<close>

definition end_wait :: "('m, unit) cpu_op" where
  "end_wait = modify (\<lambda>s. s\<lparr>wait_for_interrupt := False, cwai_state := False\<rparr>)"

definition enter_full :: "'m cpu_bus \<Rightarrow> ('m, unit) cpu_op" where
  "enter_full b = do {
     cw \<leftarrow> gets cwai_state;
     if \<not> cw then do { cc_set MC6809_FLAG_E; push_entire b; add_cycles 19 }
     else add_cycles 7
   }"

definition check_interrupts :: "'m cpu_bus \<Rightarrow> ('m, unit) cpu_op" where
  "check_interrupts b = do {
     s \<leftarrow> State_Monad.get;
     if nmi_pending s \<and> nmi_armed s then do {
       modify (\<lambda>s. s\<lparr>nmi_pending := False, nmi_line := False\<rparr>);
       enter_full b;
       cc_set (MC6809_FLAG_I OR MC6809_FLAG_F);
       jump_vector b MC6809_VEC_NMI;
       end_wait
     }
     else if firq_pending s \<and> \<not> tst (r_cc s) MC6809_FLAG_F then do {
       (if \<not> cwai_state s then do {
          cc_clr MC6809_FLAG_E;
          pc \<leftarrow> gets r_pc; push16s b pc;
          cc \<leftarrow> gets r_cc; push8s b cc;
          add_cycles 10
        } else add_cycles 7);
       cc_set (MC6809_FLAG_I OR MC6809_FLAG_F);
       jump_vector b MC6809_VEC_FIRQ;
       end_wait
     }
     else if irq_pending s \<and> \<not> tst (r_cc s) MC6809_FLAG_I then do {
       enter_full b;
       cc_set MC6809_FLAG_I;
       jump_vector b MC6809_VEC_IRQ;
       end_wait
     }
     else State_Monad.return ()
   }"

section \<open>The run loop\<close>

text \<open>
  One pass of the loop: \<open>True\<close> when it breaks out (halted, or waiting with no line active).
\<close>

definition run_pass :: "'m cpu_bus \<Rightarrow> int \<Rightarrow> ('m, bool) cpu_op" where
  "run_pass b budget = do {
     h \<leftarrow> gets halted;
     if h then do {
       modify (\<lambda>s. s\<lparr>cycles := word_of_int budget\<rparr>);
       State_Monad.return True
     } else do {
       check_interrupts b;
       s \<leftarrow> State_Monad.get;
       if wait_for_interrupt s then
         if \<not> cwai_state s \<and> (irq_pending s \<or> firq_pending s) then do {
           modify (\<lambda>s. s\<lparr>wait_for_interrupt := False\<rparr>);
           execute_one b;
           State_Monad.return False
         } else do {
           modify (\<lambda>s. s\<lparr>cycles := word_of_int budget\<rparr>);
           State_Monad.return True
         }
       else do { execute_one b; State_Monad.return False }
     }
   }"

text \<open>
  The \<open>while\<close> loop, with fuel; \<open>None\<close> is running out of fuel. Every pass that does not break
  executes an instruction, which takes at least two cycles, so \<open>budget\<close> units are enough
  (\<open>run_loop_enough\<close> in the next theory).
\<close>

fun run_loop :: "nat \<Rightarrow> 'm cpu_bus \<Rightarrow> int \<Rightarrow> 'm mc6809_scheme \<Rightarrow> 'm mc6809_scheme option" where
  "run_loop 0 b budget s = (if sint (cycles s) < budget then None else Some s)"
| "run_loop (Suc fuel) b budget s =
     (if sint (cycles s) < budget then
        case run_state (run_pass b budget) s of
          (True, s') \<Rightarrow> Some s'
        | (False, s') \<Rightarrow> run_loop fuel b budget s'
      else Some s)"

definition mc6809_run :: "'m cpu_bus \<Rightarrow> int \<Rightarrow> 'm mc6809_scheme \<Rightarrow> (int \<times> 'm mc6809_scheme) option" where
  "mc6809_run b budget s =
     (let s0 = s\<lparr>cycles := 0\<rparr> in
      if \<not> read_cb s0 \<or> \<not> write_cb s0 then Some (0, s0)
      else map_option (\<lambda>s'. (sint (cycles s'), s')) (run_loop (nat budget) b budget s0))"

end
