(* ===== verification/Mc6809_Alu.thy ===== *)
theory Mc6809_Alu
  imports Mc6809_Opcodes
begin

text \<open>
  What the arithmetic units of the interpreter compute. The C code derives H, V and C with
  exclusive-or tricks on the operands and the widened result; the lemmas here say what these
  flags mean on the numbers the bytes stand for, and that the branch conditions read them back
  as the unsigned and signed comparisons.
\<close>

section \<open>Numbers behind the bits\<close>

text \<open>The carry into bit \<open>k\<close> of a sum, seen in the three bits there.\<close>

lemma carry_into_bit:
  fixes x y c k :: nat
  assumes "c \<le> 1"
  shows "(odd (x div 2 ^ k) \<noteq> odd (y div 2 ^ k)) \<noteq> odd ((x + y + c) div 2 ^ k)
    \<longleftrightarrow> 2 ^ k \<le> x mod 2 ^ k + y mod 2 ^ k + c"
proof -
  define m where "m = (2 :: nat) ^ k"
  have m: "0 < m" by (simp add: m_def)
  define q where "q = (x mod m + y mod m + c) div m"
  have "x + y + c = (x mod m + y mod m + c) + (x div m + y div m) * m"
    using div_mult_mod_eq [of x m] div_mult_mod_eq [of y m] by (simp add: distrib_right)
  then have sum: "(x + y + c) div m = x div m + y div m + q"
    using m by (simp only: q_def div_mult_self1)
  have "x mod m < m" "y mod m < m" using m by simp_all
  then have "x mod m + y mod m + c < 2 * m" using assms by linarith
  then have q2: "q < 2" using m by (simp add: q_def div_less_iff_less_mult)
  have "odd q \<longleftrightarrow> m \<le> x mod m + y mod m + c"
  proof (cases "m \<le> x mod m + y mod m + c")
    case True
    then have "1 \<le> q" using m by (simp add: q_def less_eq_div_iff_mult_less_eq)
    with q2 have "q = 1" by simp
    with True show ?thesis by simp
  next
    case False
    then show ?thesis by (simp add: q_def)
  qed
  then show ?thesis using sum unfolding m_def [symmetric] by auto
qed

lemma bit_unat_div: "bit (w :: 'a::len word) n \<longleftrightarrow> odd (unat w div 2 ^ n)"
proof -
  have "bit w n \<longleftrightarrow> bit (unat w) n"
    by (auto simp: bit_unsigned_iff dest: bit_imp_le_length)
  then show ?thesis by (simp add: bit_iff_odd)
qed

lemma odd_div_iff:
  fixes m n :: nat
  assumes "0 < m" and "n < 2 * m"
  shows "odd (n div m) \<longleftrightarrow> m \<le> n"
proof -
  have "n div m < 2" using assms by (simp add: div_less_iff_less_mult)
  then have "odd (n div m) \<longleftrightarrow> 1 \<le> n div m" by (auto simp: less_2_cases_iff)
  then show ?thesis using assms by (simp add: less_eq_div_iff_mult_less_eq)
qed

lemma u8_bit7: "bit (a :: u8) 7 \<longleftrightarrow> 128 \<le> unat a"
  using unsigned_less [of a] odd_div_iff [of 128 "unat a"] by (simp add: bit_unat_div)

lemma u16_bit15: "bit (a :: u16) 15 \<longleftrightarrow> 32768 \<le> unat a"
  using unsigned_less [of a] odd_div_iff [of 32768 "unat a"] by (simp add: bit_unat_div)

lemma sint_u8: "sint (a :: u8) = (if 128 \<le> unat a then int (unat a) - 256 else int (unat a))"
proof -
  have b: "uint a = int (unat a)" by simp
  have l: "unat a < 256" using unsigned_less [of a] by simp
  have "bit (uint a) 7 \<longleftrightarrow> 128 \<le> unat a" using u8_bit7 [of a] by (simp add: bit_uint_iff)
  then show ?thesis using l
    by (simp add: sint_uint signed_take_bit_eq_take_bit_minus take_bit_int_eq_self_iff b del: of_nat_unat)
qed

lemma sint_u16: "sint (a :: u16) = (if 32768 \<le> unat a then int (unat a) - 65536 else int (unat a))"
proof -
  have b: "uint a = int (unat a)" by simp
  have l: "unat a < 65536" using unsigned_less [of a] by simp
  have "bit (uint a) 15 \<longleftrightarrow> 32768 \<le> unat a" using u16_bit15 [of a] by (simp add: bit_uint_iff)
  then show ?thesis using l
    by (simp add: sint_uint signed_take_bit_eq_take_bit_minus take_bit_int_eq_self_iff b del: of_nat_unat)
qed

section \<open>The widened results\<close>

lemma add8_wide:
  assumes "c \<le> 1"
  shows "unat ((ucast a :: u16) + ucast (b :: u8) + ucast (c :: u8)) = unat (a :: u8) + unat b + unat c"
proof -
  have "unat c \<le> 1" using assms by (simp add: word_le_nat_alt)
  then show ?thesis using u8_lt [of a] u8_lt [of b] by (simp add: unat_word_ariths)
qed

lemma sub8_wide:
  assumes "c \<le> 1"
  shows "unat ((ucast a :: u16) - ucast (b :: u8) - ucast (c :: u8)) =
    (if unat (a :: u8) < unat b + unat c then 65536 + unat a - unat b - unat c
     else unat a - unat b - unat c)"
proof -
  have "unat c \<le> 1" using assms by (simp add: word_le_nat_alt)
  then show ?thesis using u8_lt [of a] u8_lt [of b]
    by (auto simp: unat_sub_if' word_le_nat_alt)
qed

lemma add16_wide: "unat ((ucast a :: u32) + ucast (b :: u16)) = unat (a :: u16) + unat b"
  using u16_lt [of a] u16_lt [of b] by (simp add: unat_word_ariths)

lemma sub16_wide:
  "unat ((ucast a :: u32) - ucast (b :: u16)) =
    (if unat (a :: u16) < unat b then 4294967296 + unat a - unat b else unat a - unat b)"
  using u16_lt [of a] u16_lt [of b] by (auto simp: unat_sub_if' word_le_nat_alt)

section \<open>The arithmetic units\<close>

lemma r8_of_add:
  assumes "c \<le> 1"
  shows "unat (ucast ((ucast (a :: u8) :: u16) + ucast (b :: u8) + ucast (c :: u8)) :: u8)
    = (unat a + unat b + unat c) mod 256"
  by (simp add: unat_ucast_u16_u8 add8_wide [OF assms])

lemma add8_half_carry:
  fixes a b c r8 :: u8
  assumes c: "c \<le> 1" and r: "unat r8 = (unat a + unat b + unat c) mod 256"
  shows "bit (a XOR b XOR r8) 4 \<longleftrightarrow> 16 \<le> unat a mod 16 + unat b mod 16 + unat c"
proof -
  have c1: "unat c \<le> 1" using c by (simp add: word_le_nat_alt)
  have "unat r8 = take_bit 8 (unat a + unat b + unat c)" using r by (simp add: take_bit_eq_mod)
  then have "bit (unat r8) 4 \<longleftrightarrow> bit (unat a + unat b + unat c) 4"
    by (simp only: bit_take_bit_iff) simp
  then have "odd (unat r8 div 16) \<longleftrightarrow> odd ((unat a + unat b + unat c) div 16)"
    by (simp add: bit_iff_odd)
  then show ?thesis
    using carry_into_bit [OF c1, of "unat a" 4 "unat b"]
    unfolding bit_xor_iff by (simp only: bit_unat_div) auto
qed

lemma add8_overflow:
  fixes a b c r8 :: u8
  assumes c: "c \<le> 1" and r: "unat r8 = (unat a + unat b + unat c) mod 256"
  shows "bit ((a XOR r8) AND (b XOR r8)) 7 \<longleftrightarrow> sint a + sint b + int (unat c) \<noteq> sint r8"
proof -
  have c1: "unat c \<le> 1" using c by (simp add: word_le_nat_alt)
  have "unat r8 = (if 256 \<le> unat a + unat b + unat c then unat a + unat b + unat c - 256
                   else unat a + unat b + unat c)"
    using r c1 u8_lt [of a] u8_lt [of b] by (auto simp: mod_if)
  then show ?thesis using c1 u8_lt [of a] u8_lt [of b]
    unfolding bit_and_iff bit_xor_iff
    by (simp only: u8_bit7 sint_u8) (auto split: if_splits)
qed

lemma sub8_overflow:
  fixes a b c r8 :: u8
  assumes c: "c \<le> 1"
    and r: "unat r8 = (if unat a < unat b + unat c then 256 + unat a - unat b - unat c
                       else unat a - unat b - unat c)"
  shows "bit ((a XOR b) AND (a XOR r8)) 7 \<longleftrightarrow> sint a - sint b - int (unat c) \<noteq> sint r8"
proof -
  have c1: "unat c \<le> 1" using c by (simp add: word_le_nat_alt)
  then show ?thesis using r u8_lt [of a] u8_lt [of b]
    unfolding bit_and_iff bit_xor_iff
    by (simp only: u8_bit7 sint_u8) (auto split: if_splits)
qed

lemma add16_overflow:
  fixes a b r16 :: u16
  assumes r: "unat r16 = (unat a + unat b) mod 65536"
  shows "bit ((a XOR r16) AND (b XOR r16)) 15 \<longleftrightarrow> sint a + sint b \<noteq> sint r16"
proof -
  have "unat r16 = (if 65536 \<le> unat a + unat b then unat a + unat b - 65536 else unat a + unat b)"
    using r u16_lt [of a] u16_lt [of b] by (auto simp: mod_if)
  then show ?thesis using u16_lt [of a] u16_lt [of b]
    unfolding bit_and_iff bit_xor_iff
    by (simp only: u16_bit15 sint_u16) (auto split: if_splits)
qed

lemma sub16_overflow:
  fixes a b r16 :: u16
  assumes r: "unat r16 = (if unat a < unat b then 65536 + unat a - unat b else unat a - unat b)"
  shows "bit ((a XOR b) AND (a XOR r16)) 15 \<longleftrightarrow> sint a - sint b \<noteq> sint r16"
  using r u16_lt [of a] u16_lt [of b]
  unfolding bit_and_iff bit_xor_iff
    by (simp only: u16_bit15 sint_u16) (auto split: if_splits)

section \<open>Reading the flags back\<close>

lemma bit_flag_if [simp]: "bit (flag_if c f) n \<longleftrightarrow> c \<and> bit f n"
  by (simp add: flag_if_def)

text \<open>The flag byte as the arithmetic units compose it: N, Z, V, C over a kept upper nibble.\<close>

definition nzvc :: "u8 \<Rightarrow> bool \<Rightarrow> bool \<Rightarrow> bool \<Rightarrow> bool \<Rightarrow> u8" where
  "nzvc cc n z v c = (cc AND NOT 15) OR (flag_if n 8 OR flag_if z 4 OR flag_if v 2 OR flag_if c 1)"

lemma bit_nzvc:
  "bit (nzvc cc n z v c) k \<longleftrightarrow> (if k = 0 then c else if k = 1 then v else if k = 2 then z
     else if k = 3 then n else bit cc k)"
proof -
  have "bit (15 :: u8) k \<longleftrightarrow> k < 4"
    using bit_mask_iff [where 'a = u8, of 4 k] by (auto simp: mask_eq_exp_minus_1 dest: bit_imp_le_length)
  moreover have "bit (1 :: u8) k \<longleftrightarrow> k = 0" by (auto simp: bit_1_iff)
  ultimately show ?thesis
    unfolding nzvc_def bit_or_iff bit_and_iff bit_not_iff bit_flag_if
    by (auto dest: bit_imp_le_length)
qed

lemma tst_nzvc [simp]:
  "tst (nzvc cc n z v c) MC6809_FLAG_C = c" "tst (nzvc cc n z v c) MC6809_FLAG_V = v"
  "tst (nzvc cc n z v c) MC6809_FLAG_Z = z" "tst (nzvc cc n z v c) MC6809_FLAG_N = n"
  by (simp_all add: flag_defs tst_simps bit_nzvc)

lemma bit_F0: "k < 4 \<Longrightarrow> \<not> bit (0xF0 :: u8) k"
  by (auto simp: numeral_eq_Suc less_Suc_eq)

lemma nzvc_upper [simp]: "nzvc cc n z v c AND 0xF0 = cc AND 0xF0"
  by (rule bit_word_eqI) (auto simp: bit_and_iff bit_nzvc bit_F0 split: if_splits)

section \<open>Specification of the arithmetic units\<close>

text \<open>A CPU with every register clear, for the concrete instances below.\<close>

definition blank_cpu :: mc6809 where
  "blank_cpu =
     \<lparr>r_pc = 0, r_d = 0, r_x = 0, r_y = 0, r_u = 0, r_s = 0, r_dp = 0, r_cc = 0, cycles = 0,
      halted = False, wait_for_interrupt = False, cwai_state = False, nmi_armed = False,
      nmi_line = False, nmi_pending = False, firq_pending = False, irq_pending = False,
      read_cb = False, write_cb = False, fast_limit = 0,
      r_w = 0, r_v = 0, r_md = 0, variant = 0, tfm_busy = False, tfm_pc = 0,
      idle_skip = False, idle_rej = 0, idle_br = 0, idle_cyc = 0, idle_budget = 0\<rparr>"

lemma sub8_result:
  assumes "c \<le> 1"
  shows "unat (ucast ((ucast (a :: u8) :: u16) - ucast (b :: u8) - ucast (c :: u8)) :: u8) =
    (if unat a < unat b + unat c then 256 + unat a - unat b - unat c else unat a - unat b - unat c)"
proof -
  have c: "unat c \<le> 1" using assms by (simp add: word_le_nat_alt)
  show ?thesis
  proof (cases "unat a < unat b + unat c")
    case True
    have "65536 + unat a - unat b - unat c = (256 + unat a - unat b - unat c) + 255 * 256"
      using True c u8_lt [of b] by linarith
    moreover have "256 + unat a - unat b - unat c < 256" using True by linarith
    ultimately show ?thesis using True
      by (simp only: unat_ucast_u16_u8 sub8_wide [OF assms] if_True mod_mult_self1 mod_less)
  next
    case False
    then show ?thesis using u8_lt [of a] by (simp add: unat_ucast_u16_u8 sub8_wide [OF assms])
  qed
qed

lemma sub8_borrow:
  assumes "c \<le> 1"
  shows "bit ((ucast (a :: u8) :: u16) - ucast (b :: u8) - ucast (c :: u8)) 8 \<longleftrightarrow>
    unat a < unat b + unat c"
proof (cases "unat a < unat b + unat c")
  case True
  have "unat c \<le> 1" using assms by (simp add: word_le_nat_alt)
  then have "(65536 + unat a - unat b - unat c) div 256 = 255"
    using True u8_lt [of b] by (intro div_nat_eqI) auto
  then show ?thesis using True by (simp add: bit_unat_div sub8_wide [OF assms])
next
  case False
  then show ?thesis using u8_lt [of a] by (simp add: bit_unat_div sub8_wide [OF assms])
qed

lemma op_sub8_eq:
  "run_state (op_sub8 a b c) s =
     (let w = (ucast a :: u16) - ucast b - ucast c; r = (ucast w :: u8) in
      (r, s\<lparr>r_cc := nzvc (r_cc s) (bit r 7) (r = 0) (bit ((a XOR b) AND (a XOR r)) 7) (bit w 8)\<rparr>))"
  unfolding op_sub8_def nzvc_def Let_def flag_defs tst_simps by simp

lemma u8_sint_neg: "sint (r :: u8) < 0 \<longleftrightarrow> bit r 7"
  using u8_lt [of r] by (auto simp: sint_u8 u8_bit7 simp del: of_nat_unat)

lemma u16_sint_neg: "sint (r :: u16) < 0 \<longleftrightarrow> bit r 15"
  using u16_lt [of r] by (auto simp: sint_u16 u16_bit15 simp del: of_nat_unat)

lemma op_sub8_run:
  assumes c: "c \<le> 1"
  shows "\<exists>r. run_state (op_sub8 a b c) s =
      (r, s\<lparr>r_cc := nzvc (r_cc s) (sint r < 0) (r = 0) (sint a - sint b - int (unat c) \<noteq> sint r)
                        (unat a < unat b + unat c)\<rparr>) \<and>
    unat r = (if unat a < unat b + unat c then 256 + unat a - unat b - unat c
              else unat a - unat b - unat c)"
proof -
  let ?w = "(ucast a :: u16) - ucast b - ucast c"
  have r: "unat (ucast ?w :: u8) = (if unat a < unat b + unat c then 256 + unat a - unat b - unat c
              else unat a - unat b - unat c)" (is ?r)
    by (rule sub8_result [OF c])
  show ?thesis
    by (rule exI [of _ "ucast ?w"], rule conjI)
      (unfold op_sub8_eq Let_def u8_sint_neg sub8_borrow [OF c] sub8_overflow [OF c r], rule refl, rule r)
qed

definition put_h :: "u8 \<Rightarrow> bool \<Rightarrow> u8" where
  "put_h cc h = (cc AND NOT 0x20) OR flag_if h 0x20"

lemma bit_put_h: "bit (put_h cc h) k \<longleftrightarrow> (if k = 5 then h else bit cc k)"
  unfolding put_h_def bit_or_iff bit_and_iff bit_not_iff bit_flag_if
  by (auto dest: bit_imp_le_length)

lemma op_add8_eq:
  "run_state (op_add8 a b c) s =
     (let w = (ucast a :: u16) + ucast b + ucast c; r = (ucast w :: u8) in
      (r, s\<lparr>r_cc := nzvc (put_h (r_cc s) (bit (a XOR b XOR r) 4)) (bit r 7) (r = 0)
                        (bit ((a XOR r) AND (b XOR r)) 7) (bit w 8)\<rparr>))"
proof -
  have "(cc AND NOT 47) OR (flag_if h 32 OR flag_if n 8 OR flag_if z 4 OR flag_if v 2 OR flag_if c 1)
      = nzvc (put_h cc h) n z v c" for cc :: u8 and h n z v c
  proof (rule bit_word_eqI)
    fix k assume "k < LENGTH(8)"
    have "bit (47 :: u8) k \<longleftrightarrow> k \<in> {0, 1, 2, 3, 5}"
      using \<open>k < LENGTH(8)\<close> by (auto simp: numeral_eq_Suc less_Suc_eq)
    moreover have "bit (1 :: u8) k \<longleftrightarrow> k = 0" by (auto simp: bit_1_iff)
    ultimately show "bit ((cc AND NOT 47) OR (flag_if h 32 OR flag_if n 8 OR flag_if z 4 OR
        flag_if v 2 OR flag_if c 1)) k = bit (nzvc (put_h cc h) n z v c) k"
      unfolding bit_nzvc bit_put_h bit_or_iff bit_and_iff bit_not_iff bit_flag_if
      using \<open>k < LENGTH(8)\<close> by auto
  qed
  then show ?thesis unfolding op_add8_def Let_def flag_defs tst_simps by (simp add: or.assoc)
qed

lemma add8_carry:
  assumes "c \<le> 1"
  shows "bit ((ucast (a :: u8) :: u16) + ucast (b :: u8) + ucast (c :: u8)) 8 \<longleftrightarrow>
    256 \<le> unat a + unat b + unat c"
proof -
  have "unat c \<le> 1" using assms by (simp add: word_le_nat_alt)
  then show ?thesis using u8_lt [of a] u8_lt [of b] odd_div_iff [of 256 "unat a + unat b + unat c"]
    by (simp add: bit_unat_div add8_wide [OF assms])
qed

lemma op_add8_run:
  assumes c: "c \<le> 1"
  shows "\<exists>r. run_state (op_add8 a b c) s =
      (r, s\<lparr>r_cc := nzvc (put_h (r_cc s) (16 \<le> unat a mod 16 + unat b mod 16 + unat c))
                     (sint r < 0) (r = 0) (sint a + sint b + int (unat c) \<noteq> sint r)
                     (256 \<le> unat a + unat b + unat c)\<rparr>) \<and>
    unat r = (unat a + unat b + unat c) mod 256"
proof -
  let ?w = "(ucast a :: u16) + ucast b + ucast c"
  have r: "unat (ucast ?w :: u8) = (unat a + unat b + unat c) mod 256"
    by (rule r8_of_add [OF c])
  show ?thesis
    by (rule exI [of _ "ucast ?w"], rule conjI)
      (unfold op_add8_eq Let_def u8_sint_neg add8_carry [OF c] add8_overflow [OF c r]
         add8_half_carry [OF c r], rule refl, rule r)
qed

lemma op_add16_run:
  "\<exists>r. run_state (op_add16 a b) s =
      (r, s\<lparr>r_cc := nzvc (r_cc s) (sint r < 0) (r = 0) (sint a + sint b \<noteq> sint r)
                     (65536 \<le> unat a + unat b)\<rparr>) \<and>
    unat r = (unat a + unat b) mod 65536"
proof -
  let ?w = "(ucast a :: u32) + ucast b"
  have r: "unat (ucast ?w :: u16) = (unat a + unat b) mod 65536"
    by (simp add: unat_ucast_u32_u16 add16_wide)
  have c: "bit ?w 16 \<longleftrightarrow> 65536 \<le> unat a + unat b"
    using u16_lt [of a] u16_lt [of b] odd_div_iff [of 65536 "unat a + unat b"]
    by (simp add: bit_unat_div add16_wide)
  have "run_state (op_add16 a b) s = (ucast ?w, s\<lparr>r_cc := nzvc (r_cc s) (bit (ucast ?w :: u16) 15)
      ((ucast ?w :: u16) = 0) (bit ((a XOR ucast ?w) AND (b XOR ucast ?w)) 15) (bit ?w 16)\<rparr>)"
    unfolding op_add16_def nzvc_def Let_def flag_defs tst_simps by simp
  then show ?thesis unfolding u16_sint_neg using r c add16_overflow [OF r] by auto
qed

lemma sub16_borrow: "bit ((ucast (a :: u16) :: u32) - ucast (b :: u16)) 16 \<longleftrightarrow> unat a < unat b"
proof (cases "unat a < unat b")
  case True
  then have "(4294967296 + unat a - unat b) div 65536 = 65535"
    using u16_lt [of b] by (intro div_nat_eqI) auto
  then show ?thesis using True by (simp add: bit_unat_div sub16_wide)
next
  case False
  then show ?thesis using u16_lt [of a] by (simp add: bit_unat_div sub16_wide)
qed

lemma sub16_result:
  "unat (ucast ((ucast (a :: u16) :: u32) - ucast (b :: u16)) :: u16) =
    (if unat a < unat b then 65536 + unat a - unat b else unat a - unat b)"
proof (cases "unat a < unat b")
  case True
  have "4294967296 + unat a - unat b = (65536 + unat a - unat b) + 65535 * 65536"
    using True u16_lt [of b] by linarith
  moreover have "65536 + unat a - unat b < 65536" using True by linarith
  ultimately show ?thesis using True
    by (simp only: unat_ucast_u32_u16 sub16_wide if_True mod_mult_self1 mod_less)
next
  case False
  then show ?thesis using u16_lt [of a] by (simp add: unat_ucast_u32_u16 sub16_wide)
qed

lemma op_sub16_run:
  "\<exists>r. run_state (op_sub16 a b) s =
      (r, s\<lparr>r_cc := nzvc (r_cc s) (sint r < 0) (r = 0) (sint a - sint b \<noteq> sint r) (unat a < unat b)\<rparr>) \<and>
    unat r = (if unat a < unat b then 65536 + unat a - unat b else unat a - unat b)"
proof -
  let ?w = "(ucast a :: u32) - ucast b"
  note r = sub16_result [of a b]
  have "run_state (op_sub16 a b) s = (ucast ?w, s\<lparr>r_cc := nzvc (r_cc s) (bit (ucast ?w :: u16) 15)
      ((ucast ?w :: u16) = 0) (bit ((a XOR b) AND (a XOR ucast ?w)) 15) (bit ?w 16)\<rparr>)"
    unfolding op_sub16_def nzvc_def Let_def flag_defs tst_simps by simp
  then show ?thesis unfolding u16_sint_neg using r sub16_overflow [OF r] sub16_borrow [of a b] by auto
qed

lemma tst_H [simp]: "tst (put_h cc h) MC6809_FLAG_H = h"
  by (simp add: flag_defs tst_simps bit_put_h)

lemma tst_H_nzvc [simp]: "tst (nzvc cc n z v c) MC6809_FLAG_H = tst cc MC6809_FLAG_H"
  by (simp add: flag_defs tst_simps bit_nzvc)

lemma add_flags_keep: "nzvc (put_h cc h) n z v c AND 0xD0 = cc AND 0xD0"
proof (rule bit_word_eqI)
  fix k assume "k < LENGTH(8)"
  then have "bit (0xD0 :: u8) k \<longrightarrow> k \<notin> {0, 1, 2, 3, 5}"
    by (auto simp: numeral_eq_Suc less_Suc_eq)
  then show "bit (nzvc (put_h cc h) n z v c AND 0xD0) k = bit (cc AND 0xD0) k"
    by (auto simp: bit_and_iff bit_nzvc bit_put_h)
qed

text \<open>
  C33: The 8-bit adder: with a carry-in of 0 or 1, the result is the sum modulo 256, H is the carry
  out of the low nibbles, C the carry out of the byte, V says that the result, read as a signed
  byte, is not the signed sum, N and Z describe the result; E, F and I are kept and no register
  but CC changes.
\<close>

theorem op_add8_correct:
  assumes "c \<le> 1"
  shows "case run_state (op_add8 a b c) s of (r, s') \<Rightarrow>
    unat r = (unat a + unat b + unat c) mod 256 \<and>
    (tst (r_cc s') MC6809_FLAG_H \<longleftrightarrow> 16 \<le> unat a mod 16 + unat b mod 16 + unat c) \<and>
    (tst (r_cc s') MC6809_FLAG_C \<longleftrightarrow> 256 \<le> unat a + unat b + unat c) \<and>
    (tst (r_cc s') MC6809_FLAG_V \<longleftrightarrow> sint r \<noteq> sint a + sint b + int (unat c)) \<and>
    (tst (r_cc s') MC6809_FLAG_N \<longleftrightarrow> sint r < 0) \<and>
    (tst (r_cc s') MC6809_FLAG_Z \<longleftrightarrow> r = 0) \<and>
    r_cc s' AND 0xD0 = r_cc s AND 0xD0 \<and> s'\<lparr>r_cc := r_cc s\<rparr> = s"
  using op_add8_run [OF assms, of a b s] by (auto simp: add_flags_keep)

theorem op_add8_correct_witness:
  "case run_state (op_add8 0x7F 0x01 0) blank_cpu of (r, s') \<Rightarrow>
    unat r = 128 \<and> tst (r_cc s') MC6809_FLAG_H \<and> \<not> tst (r_cc s') MC6809_FLAG_C \<and>
    tst (r_cc s') MC6809_FLAG_V"
  using op_add8_correct [of 0 "0x7F" "0x01" blank_cpu] by (auto simp: sint_u8)

text \<open>
  C34: The 8-bit subtractor, used by SUB, SBC, CMP and NEG: the result is the difference modulo
  256, C is the unsigned borrow, V says that the result is not the signed difference, N and Z
  describe the result; E, F, H and I are kept and no register but CC changes.
\<close>

theorem op_sub8_correct:
  assumes "c \<le> 1"
  shows "case run_state (op_sub8 a b c) s of (r, s') \<Rightarrow>
    int (unat r) = (int (unat a) - int (unat b) - int (unat c)) mod 256 \<and>
    (tst (r_cc s') MC6809_FLAG_C \<longleftrightarrow> unat a < unat b + unat c) \<and>
    (tst (r_cc s') MC6809_FLAG_V \<longleftrightarrow> sint r \<noteq> sint a - sint b - int (unat c)) \<and>
    (tst (r_cc s') MC6809_FLAG_N \<longleftrightarrow> sint r < 0) \<and>
    (tst (r_cc s') MC6809_FLAG_Z \<longleftrightarrow> r = 0) \<and>
    r_cc s' AND 0xF0 = r_cc s AND 0xF0 \<and> s'\<lparr>r_cc := r_cc s\<rparr> = s"
proof -
  obtain r where run: "run_state (op_sub8 a b c) s =
      (r, s\<lparr>r_cc := nzvc (r_cc s) (sint r < 0) (r = 0) (sint a - sint b - int (unat c) \<noteq> sint r)
                        (unat a < unat b + unat c)\<rparr>)"
    and r: "unat r = (if unat a < unat b + unat c then 256 + unat a - unat b - unat c
              else unat a - unat b - unat c)"
    using op_sub8_run [OF assms, of a b s] by blast
  have c1: "unat c \<le> 1" using assms by (simp add: word_le_nat_alt)
  have "int (unat r) = (int (unat a) - int (unat b) - int (unat c)) mod 256"
  proof (cases "unat a < unat b + unat c")
    case True
    then have "int (unat r) = int (unat a) - int (unat b) - int (unat c) + 256"
      using r c1 u8_lt [of b] by simp
    then show ?thesis using u8_lt [of r] mod_add_self2 [of "int (unat a) - int (unat b) - int (unat c)" 256]
      by (metis mod_pos_pos_trivial of_nat_0_le_iff of_nat_less_iff of_nat_numeral)
  next
    case False
    then have "int (unat r) = int (unat a) - int (unat b) - int (unat c)"
      using r by (simp only: if_False)
    then show ?thesis using u8_lt [of r]
      by (metis mod_pos_pos_trivial of_nat_0_le_iff of_nat_less_iff of_nat_numeral)
  qed
  then show ?thesis unfolding run by auto
qed

theorem op_sub8_correct_witness:
  "case run_state (op_sub8 0x10 0x20 1) blank_cpu of (r, s') \<Rightarrow>
    int (unat r) = (int (unat (0x10 :: u8)) - int (unat (0x20 :: u8)) - int (unat (1 :: u8))) mod 256 \<and>
    tst (r_cc s') MC6809_FLAG_C"
  using op_sub8_correct [of 1 "0x10" "0x20" blank_cpu] by auto

text \<open>
  C35: The 16-bit units of ADDD, SUBD and the 16-bit compares: sum and difference modulo 65536, C
  the unsigned carry or borrow, V the signed overflow, N and Z of the result, the upper half of CC
  and all other registers kept.
\<close>

theorem op_add16_sub16_correct:
  "(case run_state (op_add16 a b) s of (r, s') \<Rightarrow>
      unat r = (unat a + unat b) mod 65536 \<and>
      (tst (r_cc s') MC6809_FLAG_C \<longleftrightarrow> 65536 \<le> unat a + unat b) \<and>
      (tst (r_cc s') MC6809_FLAG_V \<longleftrightarrow> sint r \<noteq> sint a + sint b) \<and>
      (tst (r_cc s') MC6809_FLAG_N \<longleftrightarrow> sint r < 0) \<and> (tst (r_cc s') MC6809_FLAG_Z \<longleftrightarrow> r = 0) \<and>
      r_cc s' AND 0xF0 = r_cc s AND 0xF0 \<and> s'\<lparr>r_cc := r_cc s\<rparr> = s) \<and>
   (case run_state (op_sub16 a b) s of (r, s') \<Rightarrow>
      unat r = (if unat a < unat b then 65536 + unat a - unat b else unat a - unat b) \<and>
      (tst (r_cc s') MC6809_FLAG_C \<longleftrightarrow> unat a < unat b) \<and>
      (tst (r_cc s') MC6809_FLAG_V \<longleftrightarrow> sint r \<noteq> sint a - sint b) \<and>
      (tst (r_cc s') MC6809_FLAG_N \<longleftrightarrow> sint r < 0) \<and> (tst (r_cc s') MC6809_FLAG_Z \<longleftrightarrow> r = 0) \<and>
      r_cc s' AND 0xF0 = r_cc s AND 0xF0 \<and> s'\<lparr>r_cc := r_cc s\<rparr> = s)"
  using op_add16_run [of a b s] op_sub16_run [of a b s] by auto

section \<open>Compare and branch\<close>

text \<open>The eight two-way conditions, on a flag byte that a compare left.\<close>

lemma eval_branch_nzvc:
  "eval_branch (nzvc cc n z v c) 0x2 \<longleftrightarrow> \<not> (c \<or> z)" "eval_branch (nzvc cc n z v c) 0x3 \<longleftrightarrow> c \<or> z"
  "eval_branch (nzvc cc n z v c) 0x4 \<longleftrightarrow> \<not> c" "eval_branch (nzvc cc n z v c) 0x5 \<longleftrightarrow> c"
  "eval_branch (nzvc cc n z v c) 0x6 \<longleftrightarrow> \<not> z" "eval_branch (nzvc cc n z v c) 0x7 \<longleftrightarrow> z"
  "eval_branch (nzvc cc n z v c) 0xC \<longleftrightarrow> n = v" "eval_branch (nzvc cc n z v c) 0xD \<longleftrightarrow> n \<noteq> v"
  "eval_branch (nzvc cc n z v c) 0xE \<longleftrightarrow> \<not> (z \<or> n \<noteq> v)"
  "eval_branch (nzvc cc n z v c) 0xF \<longleftrightarrow> z \<or> n \<noteq> v"
  by (simp_all add: eval_branch_def)

definition branches_compare :: "u8 \<Rightarrow> bool \<Rightarrow> bool \<Rightarrow> bool \<Rightarrow> bool" where
  "branches_compare cc below lt eq \<longleftrightarrow>
     (eval_branch cc 0x2 \<longleftrightarrow> \<not> below \<and> \<not> eq) \<and> (eval_branch cc 0x3 \<longleftrightarrow> below \<or> eq) \<and>
     (eval_branch cc 0x4 \<longleftrightarrow> \<not> below) \<and> (eval_branch cc 0x5 \<longleftrightarrow> below) \<and>
     (eval_branch cc 0x6 \<longleftrightarrow> \<not> eq) \<and> (eval_branch cc 0x7 \<longleftrightarrow> eq) \<and>
     (eval_branch cc 0xC \<longleftrightarrow> \<not> lt) \<and> (eval_branch cc 0xD \<longleftrightarrow> lt) \<and>
     (eval_branch cc 0xE \<longleftrightarrow> \<not> lt \<and> \<not> eq) \<and> (eval_branch cc 0xF \<longleftrightarrow> lt \<or> eq)"

lemma compare8_nzvc:
  fixes a b r :: u8
  assumes "unat r = (if unat a < unat b then 256 + unat a - unat b else unat a - unat b)"
  shows "r = 0 \<longleftrightarrow> a = b"
    and "(sint r < 0) = (sint a - sint b \<noteq> sint r) \<longleftrightarrow> sint b \<le> sint a"
proof -
  show "r = 0 \<longleftrightarrow> a = b"
    using assms u8_lt [of a] u8_lt [of b]
    by (simp only: word_unat_eq_iff unsigned_0 split: if_splits) auto
  show "(sint r < 0) = (sint a - sint b \<noteq> sint r) \<longleftrightarrow> sint b \<le> sint a"
    using assms u8_lt [of a] u8_lt [of b] u8_lt [of r]
    by (simp only: sint_u8) (auto simp del: of_nat_unat split: if_splits)
qed

lemma compare16_nzvc:
  fixes a b r :: u16
  assumes "unat r = (if unat a < unat b then 65536 + unat a - unat b else unat a - unat b)"
  shows "r = 0 \<longleftrightarrow> a = b"
    and "(sint r < 0) = (sint a - sint b \<noteq> sint r) \<longleftrightarrow> sint b \<le> sint a"
proof -
  show "r = 0 \<longleftrightarrow> a = b"
    using assms u16_lt [of a] u16_lt [of b]
    by (simp only: word_unat_eq_iff unsigned_0 split: if_splits) auto
  show "(sint r < 0) = (sint a - sint b \<noteq> sint r) \<longleftrightarrow> sint b \<le> sint a"
    using assms u16_lt [of a] u16_lt [of b] u16_lt [of r]
    by (simp only: sint_u16) (auto simp del: of_nat_unat split: if_splits)
qed


section \<open>Decimal adjust\<close>

text \<open>Packed decimal: two digits to a byte.\<close>

definition is_bcd :: "u8 \<Rightarrow> bool" where
  "is_bcd a \<longleftrightarrow> uint a div 16 \<le> 9 \<and> uint a mod 16 \<le> 9"

definition bcd_value :: "u8 \<Rightarrow> int" where
  "bcd_value a = 10 * (uint a div 16) + uint a mod 16"

lemma uint_lt: "uint (a :: u8) < 256"
  using unsigned_less [of a] by simp

lemma uint_and_0F: "uint ((a :: u8) AND 0x0F) = uint a mod 16"
proof -
  have "a AND 0x0F = take_bit 4 a" by (simp add: take_bit_eq_mask mask_eq_exp_minus_1)
  then show ?thesis by (simp only: unsigned_take_bit_eq) (simp add: take_bit_eq_mod)
qed

lemma uint_and_F0: "uint ((a :: u8) AND 0xF0) = 16 * (uint a div 16)"
proof -
  have m: "bit (0xF0 :: int) k \<longleftrightarrow> 4 \<le> k" if "k < 8" for k
    using that by (auto simp: numeral_eq_Suc less_Suc_eq)
  have "bit (uint (a AND 0xF0)) k = bit (push_bit 4 (drop_bit 4 (uint a))) k" for k
    by (auto simp: bit_uint_iff bit_and_iff bit_push_bit_iff bit_drop_bit_eq m dest: bit_imp_le_length)
  then have "uint (a AND 0xF0) = push_bit 4 (drop_bit 4 (uint a))"
    by (rule bit_eqI)
  then show ?thesis by (simp add: push_bit_eq_mult drop_bit_eq_div)
qed

definition daa_int :: "int \<Rightarrow> bool \<Rightarrow> bool \<Rightarrow> int" where
  "daa_int n h c = n + (if n mod 16 > 9 \<or> h then 6 else 0)
     + (if n div 16 > 9 \<or> c \<or> n div 16 > 8 \<and> n mod 16 > 9 then 96 else 0)"

text \<open>The two column sums decide everything; the 380 cases are computed.\<close>

definition daa_case :: "int \<Rightarrow> int \<Rightarrow> bool" where
  "daa_case t0 t1 \<longleftrightarrow>
     (let n = 16 * t1 + t0; d = daa_int (n mod 256) (16 \<le> t0) (256 \<le> n); r = d mod 256 in
      r div 16 \<le> 9 \<and> r mod 16 \<le> 9 \<and> 10 * (r div 16) + r mod 16 = (10 * t1 + t0) mod 100 \<and>
      (256 \<le> n \<or> 256 \<le> d \<longleftrightarrow> 100 \<le> 10 * t1 + t0))"

lemma daa_cases: "list_all (\<lambda>t0. list_all (daa_case t0) [0..18]) [0..19]"
  by code_simp

lemma daa_digits: "0 \<le> t0 \<Longrightarrow> t0 < 20 \<Longrightarrow> 0 \<le> t1 \<Longrightarrow> t1 < 19 \<Longrightarrow> daa_case t0 t1"
  using daa_cases by (simp add: list_all_iff)

lemma run_set_a: "run_state (set_a v) s = ((), s\<lparr>r_d := pack16 v (get_b s)\<rparr>)"
proof -
  have "(r_d s AND 0x00FF) OR push_bit 8 (ucast v) = pack16 v (get_b s)"
    by (rule bit_word_eqI) (auto simp: pack16_def get_b_def lo8_def bit_simps)
  then show ?thesis by (simp add: set_a_def)
qed

lemma get_a_update [simp]: "get_a (s\<lparr>r_d := pack16 v w\<rparr>) = v"
  by (simp add: get_a_def)

text \<open>What DAA leaves in A and C, on numbers.\<close>

definition daa_sum :: "'m mc6809_scheme \<Rightarrow> u16" where
  "daa_sum s = (let a = get_a s; cc = r_cc s;
     lo = (if a AND 0x0F > 0x09 \<or> tst cc MC6809_FLAG_H then 0x06 else 0);
     hi = (if a AND 0xF0 > 0x90 \<or> tst cc MC6809_FLAG_C \<or>
                  (a AND 0xF0 > 0x80 \<and> a AND 0x0F > 0x09) then 0x60 else 0)
     in (ucast a :: u16) + ucast (lo OR hi :: u8))"

lemma uint_daa_sum:
  "uint (daa_sum s) = daa_int (uint (get_a s)) (tst (r_cc s) MC6809_FLAG_H) (tst (r_cc s) MC6809_FLAG_C)"
proof -
  have lo: "get_a s AND 0x0F > 0x09 \<longleftrightarrow> uint (get_a s) mod 16 > 9"
    by (simp add: word_less_def uint_and_0F)
  have hi: "get_a s AND 0xF0 > 0x90 \<longleftrightarrow> uint (get_a s) div 16 > 9"
    "get_a s AND 0xF0 > 0x80 \<longleftrightarrow> uint (get_a s) div 16 > 8"
    by (simp_all add: word_less_def uint_and_F0)
  have w: "uint ((ucast (get_a s) :: u16) + ucast (l OR h :: u8)) = uint (get_a s) + uint l + uint h"
    if "l = 0 \<or> l = 6" "h = 0 \<or> h = 0x60" for l h :: u8
    using that uint_lt [of "get_a s"] by (auto simp: uint_word_ariths unsigned_ucast_eq take_bit_eq_mod)
  show ?thesis
    unfolding daa_sum_def Let_def daa_int_def lo hi by (subst w) auto
qed

lemma daa_sum_carry: "tst (daa_sum s) 0x100 \<longleftrightarrow> 256 \<le> uint (daa_sum s)"
proof -
  have u: "uint (daa_sum s) = int (unat (daa_sum s))" by simp
  have "daa_int (uint (get_a s)) h c < 512" for h c
    using uint_lt [of "get_a s"] unfolding daa_int_def by (auto split: if_splits)
  then have "unat (daa_sum s) < 512" using uint_daa_sum [of s] u by (metis of_nat_less_iff of_nat_numeral)
  then have "odd (unat (daa_sum s) div 256) \<longleftrightarrow> 256 \<le> unat (daa_sum s)"
    by (intro odd_div_iff) simp_all
  then show ?thesis unfolding u tst_256 bit_unat_div by (simp del: of_nat_unat)
qed

lemma daa_alt:
  "run_state daa s = run_state (do {
     set_a (ucast (daa_sum s)); a' \<leftarrow> gets get_a; update_nz8 a'; cc_clr MC6809_FLAG_V;
     (if tst (daa_sum s) 0x100 then cc_set MC6809_FLAG_C else State_Monad.return ());
     add_cycles 2 }) s"
  by (simp only: daa_def daa_sum_def Let_def run_bind_Pair [OF run_gets])

lemma daa_state:
  "snd (run_state daa s) = s\<lparr>r_d := pack16 (ucast (daa_sum s)) (get_b s),
     r_cc := r_cc (snd (run_state daa s)), cycles := cycles s + 2\<rparr>"
  by (simp add: daa_alt run_set_a Let_def update_nz8_def cc_clr_def cc_set_def add_cycles_def)

lemma daa_carry:
  "tst (r_cc (snd (run_state daa s))) MC6809_FLAG_C \<longleftrightarrow>
      tst (r_cc s) MC6809_FLAG_C \<or> tst (daa_sum s) 0x100"
  by (simp add: daa_alt run_set_a Let_def update_nz8_def cc_clr_def cc_set_def add_cycles_def
      flag_defs tst_simps bit_or_iff bit_and_iff bit_not_iff)

text \<open>
  C31: DAA after an 8-bit add of two packed-decimal bytes, with the carry the add used, leaves the
  packed-decimal sum in A: both nibbles are digits, their value is the decimal sum modulo 100,
  and C is set exactly when the sum reaches 100.
\<close>

theorem daa_adds_decimal:
  assumes "is_bcd a" and "is_bcd b" and "c \<le> 1"
  shows "let s' = snd (run_state (do { r \<leftarrow> op_add8 a b c; set_a r; daa }) s) in
    is_bcd (get_a s') \<and>
    bcd_value (get_a s') = (bcd_value a + bcd_value b + uint c) mod 100 \<and>
    (tst (r_cc s') MC6809_FLAG_C \<longleftrightarrow> 100 \<le> bcd_value a + bcd_value b + uint c)"
proof -
  obtain r where run: "run_state (op_add8 a b c) s =
      (r, s\<lparr>r_cc := nzvc (put_h (r_cc s) (16 \<le> unat a mod 16 + unat b mod 16 + unat c))
                     (sint r < 0) (r = 0) (sint a + sint b + int (unat c) \<noteq> sint r)
                     (256 \<le> unat a + unat b + unat c)\<rparr>)" (is "_ = (r, ?s1)")
    and r: "unat r = (unat a + unat b + unat c) mod 256"
    using op_add8_run [OF assms(3), of a b s] by blast
  define s2 where "s2 = ?s1\<lparr>r_d := pack16 r (get_b ?s1)\<rparr>"
  define t0 where "t0 = uint a mod 16 + uint b mod 16 + uint c"
  define t1 where "t1 = uint a div 16 + uint b div 16"
  have n: "uint a + uint b + uint c = 16 * t1 + t0"
    unfolding t0_def t1_def by simp
  have c: "0 \<le> uint c" "uint c \<le> 1" using assms(3) by (simp_all add: word_le_def)
  have t: "0 \<le> t0" "t0 < 20" "0 \<le> t1" "t1 < 19"
    using assms(1,2) c by (simp_all add: t0_def t1_def is_bcd_def pos_imp_zdiv_nonneg_iff add_nonneg_nonneg)
  have "int (unat r) = (int (unat a) + int (unat b) + int (unat c)) mod 256"
    unfolding r by (simp add: zmod_int)
  then have ur: "uint r = (16 * t1 + t0) mod 256" by (simp add: n [symmetric])
  have "t0 = int (unat a mod 16 + unat b mod 16 + unat c)" by (simp add: t0_def zmod_int)
  then have h: "16 \<le> unat a mod 16 + unat b mod 16 + unat c \<longleftrightarrow> 16 \<le> t0" by linarith
  have "16 * t1 + t0 = int (unat a + unat b + unat c)" by (simp add: n [symmetric])
  then have carry: "256 \<le> unat a + unat b + unat c \<longleftrightarrow> 256 \<le> 16 * t1 + t0" by linarith
  let ?d = "daa_int ((16 * t1 + t0) mod 256) (16 \<le> t0) (256 \<le> 16 * t1 + t0)"
  have d: "uint (daa_sum s2) = ?d"
    by (simp add: uint_daa_sum s2_def get_a_def ur h carry)
  have s': "snd (run_state (do { r \<leftarrow> op_add8 a b c; set_a r; daa }) s) = snd (run_state daa s2)"
    by (simp add: run run_set_a s2_def)
  have A: "uint (get_a (snd (run_state daa s2))) = ?d mod 256"
    by (subst daa_state) (simp add: get_a_def unsigned_ucast_eq take_bit_eq_mod d)
  have C: "tst (r_cc (snd (run_state daa s2))) MC6809_FLAG_C \<longleftrightarrow> 256 \<le> 16 * t1 + t0 \<or> 256 \<le> ?d"
    by (simp add: daa_carry daa_sum_carry d) (simp add: s2_def carry)
  have v: "bcd_value a + bcd_value b + uint c = 10 * t1 + t0"
    by (simp add: bcd_value_def t0_def t1_def)
  show ?thesis
    unfolding s' Let_def is_bcd_def bcd_value_def [of "get_a _"] A C v
    using daa_digits [OF t] by (simp add: daa_case_def Let_def)
qed

theorem daa_adds_decimal_witness:
  "let s' = snd (run_state (do { r \<leftarrow> op_add8 0x58 0x46 1; set_a r; daa }) blank_cpu) in
    is_bcd (get_a s') \<and> bcd_value (get_a s') = 5 \<and> tst (r_cc s') MC6809_FLAG_C"
  using daa_adds_decimal [of "0x58" "0x46" 1 blank_cpu] by (simp add: is_bcd_def bcd_value_def Let_def)

end
