(* ===== verification/Mc6809_Run.thy ===== *)
theory Mc6809_Run
  imports Mc6809_Alu
begin

text \<open>
  The time an instruction takes and the run loop. A bus whose callbacks leave the cycle counter
  alone (locale \<open>timed_bus\<close>) makes every operation of the interpreter advance it by a bounded
  amount; every instruction takes from 2 to 20 cycles, an interrupt entry up to 19 more, so the
  run loop ends within its budget of fuel and overshoots the budget by at most 38 cycles.
\<close>

section \<open>Cost of an operation\<close>

definition costs :: "('m, 'a) cpu_op \<Rightarrow> nat \<Rightarrow> nat \<Rightarrow> bool" where
  "costs m lo hi \<longleftrightarrow>
     (\<forall>s. \<exists>k. lo \<le> k \<and> k \<le> hi \<and> cycles (snd (run_state m s)) = cycles s + of_nat k)"

named_theorems cost_rules \<open>cost of the operations\<close>

lemma costsI0: "(\<And>s. cycles (snd (run_state m s)) = cycles s) \<Longrightarrow> costs m 0 0"
  by (simp add: costs_def)

lemma costs_weaken: "costs m l h \<Longrightarrow> l' \<le> l \<Longrightarrow> h \<le> h' \<Longrightarrow> costs m l' h'"
  unfolding costs_def by (meson order_trans)

lemma costs_bind [cost_rules]:
  assumes m: "costs m l h" and f: "\<And>a. costs (f a) l' h'"
  shows "costs (State_Monad.bind m f) (l + l') (h + h')"
  unfolding costs_def
proof
  fix s
  obtain a s1 where run: "run_state m s = (a, s1)" by fastforce
  obtain k where k: "l \<le> k" "k \<le> h" "cycles s1 = cycles s + of_nat k"
    using m run unfolding costs_def by (metis snd_conv)
  obtain k' where k': "l' \<le> k'" "k' \<le> h'" "cycles (snd (run_state (f a) s1)) = cycles s1 + of_nat k'"
    using f unfolding costs_def by blast
  show "\<exists>n. l + l' \<le> n \<and> n \<le> h + h' \<and>
      cycles (snd (run_state (State_Monad.bind m f) s)) = cycles s + of_nat n"
    by (rule exI [of _ "k + k'"]) (use k k' run in \<open>simp add: add_mono add.assoc\<close>)
qed

lemma costs_if [cost_rules]:
  "costs m l h \<Longrightarrow> costs n l' h' \<Longrightarrow> costs (if c then m else n) (min l l') (max h h')"
  by (auto intro: costs_weaken)

lemma costs_return [cost_rules]: "costs (State_Monad.return a) 0 0"
  by (rule costsI0) (simp add: State_Monad.return_def)

lemma costs_gets [cost_rules]: "costs (gets f) 0 0"
  by (rule costsI0) simp

lemma costs_get [cost_rules]: "costs State_Monad.get 0 0"
  by (rule costsI0) (simp add: State_Monad.get_def)

lemma costs_modify: "(\<And>s. cycles (f s) = cycles s) \<Longrightarrow> costs (modify f) 0 0"
  by (rule costsI0) simp

lemma costs_add_cycles [cost_rules]: "costs (add_cycles n) n n"
  unfolding costs_def by (auto intro: exI [of _ n] simp: add_cycles_def)

lemma costs_add_cycles_if [cost_rules]: "costs (add_cycles (if c then i else j)) (min i j) (max i j)"
  by (cases c) (auto intro: costs_weaken [OF costs_add_cycles])

lemma costs_flags [cost_rules]:
  "costs (cc_set f) 0 0" "costs (cc_clr f) 0 0" "costs (cc_put f c) 0 0"
  "costs (update_nz8 v) 0 0" "costs (update_nz16 w) 0 0"
  "costs (op_add8 x y z) 0 0" "costs (op_sub8 x y z) 0 0"
  "costs (op_add16 p q) 0 0" "costs (op_sub16 p q) 0 0"
  "costs (set_a v) 0 0" "costs (set_b v) 0 0" "costs (set_idx_reg v p) 0 0"
  by (rule costsI0; simp add: cc_set_def cc_clr_def cc_put_def update_nz8_def update_nz16_def
      op_add8_def op_sub8_def op_add16_def op_sub16_def set_a_def set_b_def set_idx_reg_def Let_def)+

lemma costs_modify_fields [cost_rules]:
  "costs (modify (\<lambda>s. r_pc_update (f1 s) s)) 0 0" "costs (modify (\<lambda>s. r_d_update (f2 s) s)) 0 0"
  "costs (modify (\<lambda>s. r_x_update (f3 s) s)) 0 0" "costs (modify (\<lambda>s. r_y_update (f4 s) s)) 0 0"
  "costs (modify (\<lambda>s. r_u_update (f5 s) s)) 0 0" "costs (modify (\<lambda>s. r_s_update (f6 s) s)) 0 0"
  "costs (modify (\<lambda>s. r_dp_update (f7 s) s)) 0 0" "costs (modify (\<lambda>s. r_cc_update (f8 s) s)) 0 0"
  "costs (modify (\<lambda>s. wait_for_interrupt_update (f9 s) s)) 0 0"
  "costs (modify (\<lambda>s. cwai_state_update (f10 s) s)) 0 0"
  "costs (modify (\<lambda>s. nmi_armed_update (f11 s) s)) 0 0"
  "costs (modify (\<lambda>s. nmi_pending_update (f12 s) (nmi_line_update (f13 s) s))) 0 0"
  by (rule costs_modify, simp)+

lemma costs_nop2 [cost_rules]: "costs nop2 2 2"
  unfolding nop2_def by (rule cost_rules)

text \<open>A bound on the value an operation returns, for the pushes that count their bytes.\<close>

definition gives :: "('m, 'a) cpu_op \<Rightarrow> ('a \<Rightarrow> bool) \<Rightarrow> bool" where
  "gives m P \<longleftrightarrow> (\<forall>s. P (fst (run_state m s)))"

lemma gives_bind: "gives m Q \<Longrightarrow> (\<And>a. Q a \<Longrightarrow> gives (f a) P) \<Longrightarrow> gives (State_Monad.bind m f) P"
  by (auto simp: gives_def split: prod.splits) (metis fst_conv)

lemma gives_when_bit: "n \<le> k \<Longrightarrow> gives (when_bit pb m act w n) (\<lambda>r. r \<le> k + w)"
  by (auto simp: gives_def when_bit_def State_Monad.return_def split: prod.splits)

lemma gives_le: "gives m (\<lambda>r. r \<le> k) \<Longrightarrow> k \<le> n \<Longrightarrow> gives m (\<lambda>r. r \<le> (n :: nat))"
  by (auto simp: gives_def intro: order_trans)

lemmas gives_step = gives_bind [OF gives_when_bit]

lemma gives_psh:
  "gives (do_pshs b pb) (\<lambda>r. r \<le> 12)" "gives (do_puls b pb) (\<lambda>r. r \<le> 12)"
  "gives (do_pshu b pb) (\<lambda>r. r \<le> 12)" "gives (do_pulu b pb) (\<lambda>r. r \<le> 12)"
  unfolding do_pshs_def do_puls_def do_pshu_def do_pulu_def
  by (rule gives_le, (rule gives_step, (assumption | rule le_refl))+, rule gives_when_bit,
      assumption, simp)+

lemma costs_count:
  assumes m: "costs m l h" and n: "gives m (\<lambda>r. r \<le> N)"
  shows "costs (State_Monad.bind m (\<lambda>n. add_cycles (c + n))) (l + c) (h + c + N)"
  unfolding costs_def
proof
  fix s
  obtain a s1 where run: "run_state m s = (a, s1)" by fastforce
  obtain k where k: "l \<le> k" "k \<le> h" "cycles s1 = cycles s + of_nat k"
    using m run unfolding costs_def by (metis snd_conv)
  have "a \<le> N" using n run unfolding gives_def by (metis fst_conv)
  then show "\<exists>j. l + c \<le> j \<and> j \<le> h + c + N \<and>
      cycles (snd (run_state (State_Monad.bind m (\<lambda>n. add_cycles (c + n))) s)) = cycles s + of_nat j"
    by (intro exI [of _ "k + (c + a)"]) (use k run in \<open>simp add: add_cycles_def add.assoc\<close>)
qed

lemma sint_u32_of_int: "0 \<le> i \<Longrightarrow> i < 2147483648 \<Longrightarrow> sint (word_of_int i :: u32) = i"
  by (simp add: int_word_sint)

lemma sint_u32_add:
  assumes "0 \<le> sint (w :: u32)" and "sint w + int k < 2147483648"
  shows "sint (w + of_nat k) = sint w + int k"
proof -
  have "w + of_nat k = word_of_int (sint w + int k)" by simp
  then show ?thesis using assms by (simp only: sint_u32_of_int)
qed

section \<open>Buses that leave the clock alone\<close>

locale timed_bus =
  fixes b :: "'m cpu_bus"
  assumes read_time: "cycles (snd (bus_read b a s)) = cycles s"
    and write_time: "cycles (bus_write b a v s) = cycles s"
    and page_time: "bus_wr_page b p s = Some f \<Longrightarrow> cycles (f i v) = cycles s"
begin

lemma costs_mem_read: "costs (mem_read b a) 0 0"
  by (rule costsI0) (simp add: mem_read_def read_time split: option.splits)

lemma costs_mem_write: "costs (mem_write b a v) 0 0"
  by (rule costsI0) (auto simp: mem_write_def write_time page_time split: option.splits)

lemmas mem_costs = cost_rules costs_mem_read costs_mem_write

lemma costs_fetch8: "costs (fetch8 b) 0 0"
  unfolding fetch8_def by (rule costs_weaken, (rule mem_costs)+) simp_all

lemma costs_words:
  "costs (mem_read16 b a) 0 0" "costs (mem_write16 b a v) 0 0" "costs (fetch16 b) 0 0"
  unfolding mem_read16_def mem_write16_def fetch16_def
  by (rule costs_weaken, (rule mem_costs costs_fetch8)+, simp, simp)+

lemma costs_push8: "costs (push8s b v) 0 0" "costs (push8u b v) 0 0"
  unfolding push8s_def push8u_def by (rule costs_weaken, (rule mem_costs)+, simp, simp)+

lemma costs_pull8: "costs (pull8s b) 0 0" "costs (pull8u b) 0 0"
  unfolding pull8s_def pull8u_def by (rule costs_weaken, (rule mem_costs)+, simp, simp)+

lemma costs_push16: "costs (push16s b w) 0 0" "costs (push16u b w) 0 0"
  unfolding push16s_def push16u_def by (rule costs_weaken, (rule mem_costs costs_push8)+, simp, simp)+

lemma costs_pull16: "costs (pull16s b) 0 0" "costs (pull16u b) 0 0"
  unfolding pull16s_def pull16u_def by (rule costs_weaken, (rule mem_costs costs_pull8)+, simp, simp)+

lemmas bus_costs = mem_costs costs_fetch8 costs_words costs_push8 costs_pull8 costs_push16 costs_pull16

lemma costs_psh:
  "costs (do_pshs b pb) 0 0" "costs (do_puls b pb) 0 0" "costs (do_pshu b pb) 0 0" "costs (do_pulu b pb) 0 0"
  unfolding do_pshs_def do_puls_def do_pshu_def do_pulu_def when_bit_def
  by (rule costs_weaken, (rule bus_costs)+, simp, simp)+

lemma costs_entire: "costs (push_entire b) 0 0"
  unfolding push_entire_def by (rule costs_weaken, (rule bus_costs)+, simp, simp)

lemma costs_indexed: "costs (addr_indexed b) 0 8"
  unfolding addr_indexed_def indexed_mode_def Let_def
  by (rule costs_weaken, (rule bus_costs)+, simp, simp)

lemma costs_addr: "costs (addr_direct b) 0 0" "costs (addr_extended b) 0 0"
  unfolding addr_direct_def addr_extended_def by (rule costs_weaken, (rule bus_costs)+, simp, simp)+

lemmas ea_costs = bus_costs costs_psh costs_entire costs_indexed costs_addr

lemma costs_rmw_pre: "costs (rmw_pre lo v) 0 0"
  unfolding rmw_pre_def carry_of_def by (rule costs_weaken, (rule ea_costs)+, simp, simp)

lemma costs_rmw_post: "costs (rmw_post lo v) 0 0"
  unfolding rmw_post_def by (rule costs_weaken, (rule ea_costs)+, simp, simp)

lemma costs_mem_row: "costs ea 0 n \<Longrightarrow> costs (mem_row b lo ea extra) 2 (6 + n + extra)"
  unfolding mem_row_def clr_flags_def
  by (rule costs_weaken, (assumption | rule ea_costs costs_rmw_pre costs_rmw_post)+, simp, simp)

lemma costs_acc_row:
  "(\<And>v. costs (set_r v) 0 0) \<Longrightarrow> costs (acc_row lo get_r set_r) 2 2"
  unfolding acc_row_def clr_flags_def
  by (rule costs_weaken, (assumption | rule ea_costs costs_rmw_pre costs_rmw_post)+, simp, simp)

lemma costs_alu8:
  assumes "costs pre 0 n" and "\<And>e. costs (rd e) 0 0" and "\<And>v. costs (set_r v) 0 0"
  shows "costs (alu8 lo get_r set_r pre rd) 0 n"
  unfolding alu8_def nz8_v0_def carry_of_def
  by (rule costs_weaken, (rule assms ea_costs)+, simp, simp)

lemma costs_rd16: "costs ea 0 n \<Longrightarrow> costs (rd16 b ea) 0 n"
  unfolding rd16_def by (rule costs_weaken, (assumption | rule ea_costs)+, simp, simp)

lemma costs_16:
  assumes "costs rd 0 n"
  shows "costs (cmp16 get_r rd) 0 n" "costs (subd rd) 0 n" "costs (addd rd) 0 n"
    and "(\<And>v s. cycles (set_r v s) = cycles s) \<Longrightarrow> costs (ld16 set_r rd) 0 n"
  unfolding cmp16_def subd_def addd_def ld16_def nz16_v0_def
  by (rule costs_weaken, (rule assms ea_costs costs_modify | assumption)+, simp, simp)+

lemma costs_st:
  assumes "costs ea 0 n"
  shows "costs (st8 b get_r ea) 0 n" "costs (st16 b get_w ea) 0 n" "costs (jsr b ea) 0 n"
  unfolding st8_def st16_def jsr_def nz8_v0_def nz16_v0_def
  by (rule costs_weaken, (rule assms ea_costs)+, simp, simp)+

lemmas op_costs = ea_costs costs_rmw_pre costs_rmw_post costs_rd16 costs_st costs_alu8 costs_16

lemma costs_a_mem_row: "costs ea 0 n \<Longrightarrow> costs (a_mem_row b lo ea extra) 2 (7 + n + extra)"
  unfolding a_mem_row_def
  by (rule costs_weaken, (assumption | rule op_costs | (simp; fail))+)

lemma costs_b_mem_row: "costs ea 0 n \<Longrightarrow> costs (b_mem_row b lo ea extra) 2 (6 + n + extra)"
  unfolding b_mem_row_def
  by (rule costs_weaken, (assumption | rule op_costs | (simp; fail))+)

lemma costs_rows:
  "costs (exec_row0 b x) 2 20" "costs (exec_row4 x) 2 20" "costs (exec_row5 x) 2 20"
  "costs (exec_row6 b x) 2 20" "costs (exec_row7 b x) 2 20"
  "costs (exec_row9 b x) 2 20" "costs (exec_rowA b x) 2 20" "costs (exec_rowB b x) 2 20"
  "costs (exec_rowD b x) 2 20" "costs (exec_rowE b x) 2 20" "costs (exec_rowF b x) 2 20"
  unfolding exec_row0_def exec_row4_def exec_row5_def exec_row6_def exec_row7_def exec_row9_def
    exec_rowA_def exec_rowB_def exec_rowD_def exec_rowE_def exec_rowF_def
  by (rule costs_weaken, rule costs_mem_row costs_acc_row costs_a_mem_row costs_b_mem_row,
      rule costs_indexed costs_addr costs_flags, simp, simp)+

lemma costs_imm_rows: "costs (exec_row8 b x) 2 20" "costs (exec_rowC b x) 2 20"
  unfolding exec_row8_def exec_rowC_def Let_def
  by (rule costs_weaken, (assumption | rule op_costs | (simp; fail))+)+

lemma costs_vector: "costs (jump_vector b v) 0 0"
  unfolding jump_vector_def by (rule costs_weaken, (rule op_costs)+, simp, simp)

lemma costs_page2: "costs (execute_page2 b) 2 20"
  unfolding execute_page2_def
  by (rule costs_weaken, (assumption | rule op_costs costs_vector | (simp; fail))+)

lemma costs_page3: "costs (execute_page3 b) 2 20"
  unfolding execute_page3_def
  by (rule costs_weaken, (assumption | rule op_costs costs_vector | (simp; fail))+)

lemma costs_daa: "costs daa 2 2"
  unfolding daa_def Let_def by (rule costs_weaken, (rule op_costs)+, simp, simp)

lemma costs_tfr: "costs (tfr_write_reg c v) 0 0"
  unfolding tfr_write_reg_def Let_def by (rule costs_weaken, (rule op_costs)+, simp, simp)

lemma costs_row1: "costs (exec_row1 b x) 2 20"
  unfolding exec_row1_def Let_def
  by (rule costs_weaken, (rule op_costs costs_page2 costs_page3 costs_daa costs_tfr)+, simp, simp)

lemma costs_row2: "costs (exec_row2 b x) 2 20"
  unfolding exec_row2_def by (rule costs_weaken, (rule op_costs)+, simp, simp)

lemma costs_rti: "costs (rti b) 2 20"
  unfolding rti_def by (rule costs_weaken, (rule op_costs)+, simp, simp)

lemma costs_row3: "costs (exec_row3 b x) 2 20"
  unfolding exec_row3_def
  by (rule costs_weaken, (rule costs_count [OF costs_psh(1) gives_psh(1)]
      costs_count [OF costs_psh(2) gives_psh(2)] costs_count [OF costs_psh(3) gives_psh(3)]
      costs_count [OF costs_psh(4) gives_psh(4)] op_costs costs_rti costs_vector)+, simp, simp)

text \<open>Every instruction takes between 2 and 20 cycles.\<close>

lemma costs_execute_one: "costs (execute_one b) 2 20"
  unfolding execute_one_def Let_def
  by (rule costs_weaken, (rule op_costs costs_rows costs_imm_rows costs_row1 costs_row2 costs_row3)+,
      simp, simp)

lemma costs_check_interrupts: "costs (check_interrupts b) 0 19"
  unfolding check_interrupts_def enter_full_def end_wait_def
  by (rule costs_weaken, (rule op_costs costs_vector | (rule costs_modify, simp; fail))+, simp, simp)

lemma run_pass_time:
  assumes "run_state (run_pass b budget) s = (brk, s')"
  shows "if brk then cycles s' = word_of_int budget
    else \<exists>k. 2 \<le> k \<and> k \<le> 39 \<and> cycles s' = cycles s + of_nat k"
proof (cases "halted s")
  case True
  then show ?thesis using assms by (auto simp: run_pass_def State_Monad.return_def)
next
  case False
  define s1 where "s1 = snd (run_state (check_interrupts b) s)"
  have ci: "run_state (check_interrupts b) s = ((), s1)" by (simp add: s1_def prod_eq_iff)
  obtain j where j: "j \<le> 19" "cycles s1 = cycles s + of_nat j"
    using costs_check_interrupts ci unfolding costs_def by (metis snd_conv)
  define s2 where "s2 = (if wait_for_interrupt s1 then s1\<lparr>wait_for_interrupt := False\<rparr> else s1)"
  define s3 where "s3 = snd (run_state (execute_one b) s2)"
  have ex: "run_state (execute_one b) s2 = ((), s3)" by (simp add: s3_def prod_eq_iff)
  obtain k where k: "2 \<le> k" "k \<le> 20" "cycles s3 = cycles s2 + of_nat k"
    using costs_execute_one ex unfolding costs_def by (metis snd_conv)
  have c2: "cycles s2 = cycles s1" by (simp add: s2_def)
  from k j c2 have c3: "2 \<le> j + k" "j + k \<le> 39" "cycles s3 = cycles s + of_nat (j + k)"
    by (simp_all add: add.assoc)
  show ?thesis
  proof (cases "wait_for_interrupt s1 \<and> (cwai_state s1 \<or> \<not> irq_pending s1 \<and> \<not> firq_pending s1)")
    case True
    then show ?thesis using assms \<open>\<not> halted s\<close> ci
      by (auto simp: run_pass_def State_Monad.return_def State_Monad.get_def)
  next
    case go: False
    have "run_state (run_pass b budget) s = (False, s3)"
      using go \<open>\<not> halted s\<close> ci ex
      by (auto simp: run_pass_def State_Monad.return_def State_Monad.get_def s2_def)
    then show ?thesis using assms c3 by (auto intro!: exI [of _ "j + k"])
  qed
qed

text \<open>Fuel for the remaining cycles is enough, and the loop stops at most 38 cycles late.\<close>

lemma run_loop_enough:
  assumes "0 \<le> sint (cycles s)" and "sint (cycles s) \<le> budget + 38"
    and "0 < budget" and "budget + 39 < 2147483648" and "nat (budget - sint (cycles s)) \<le> fuel"
  shows "\<exists>s'. run_loop fuel b budget s = Some s' \<and> budget \<le> sint (cycles s') \<and>
    sint (cycles s') \<le> budget + 38"
  using assms
proof (induction fuel arbitrary: s)
  case 0
  then show ?case by simp
next
  case (Suc fuel)
  show ?case
  proof (cases "sint (cycles s) < budget")
    case False
    then show ?thesis using Suc.prems by simp
  next
    case run: True
    obtain brk s1 where p: "run_state (run_pass b budget) s = (brk, s1)" by fastforce
    show ?thesis
    proof (cases brk)
      case True
      then have "cycles s1 = word_of_int budget" using run_pass_time [OF p] by simp
      then have "sint (cycles s1) = budget" using Suc.prems by (simp only: sint_u32_of_int)
      then show ?thesis using run p True by simp
    next
      case False
      then obtain k where k: "2 \<le> k" "k \<le> 39" "cycles s1 = cycles s + of_nat k"
        using run_pass_time [OF p] by auto
      have "sint (cycles s1) = sint (cycles s) + int k"
        unfolding k(3) by (rule sint_u32_add) (use Suc.prems run k in linarith)+
      then have "\<exists>s'. run_loop fuel b budget s1 = Some s' \<and> budget \<le> sint (cycles s') \<and>
          sint (cycles s') \<le> budget + 38"
        using Suc.prems run k by (intro Suc.IH) linarith+
      then show ?thesis using run p False by simp
    qed
  qed
qed

lemma mc6809_run_returns:
  assumes "read_cb s" and "write_cb s" and "0 < budget" and "budget + 39 < 2147483648"
  shows "\<exists>r s'. mc6809_run b budget s = Some (r, s') \<and> budget \<le> r \<and> r \<le> budget + 38"
proof -
  have "\<exists>s'. run_loop (nat budget) b budget (s\<lparr>cycles := 0\<rparr>) = Some s' \<and> budget \<le> sint (cycles s') \<and>
    sint (cycles s') \<le> budget + 38"
    using assms by (intro run_loop_enough) simp_all
  then show ?thesis using assms by (auto simp: mc6809_run_def)
qed

end

end
