(* ===== verification/Mc6809_Keeps.thy ===== *)
theory Mc6809_Keeps
  imports Mc6809_Opcodes
begin

text \<open>
  Machine invariants under the interpreter. The CPU core touches its own registers and, through
  the bus, the machine around it; a property of what lies outside the registers that every bus
  access keeps is kept by every instruction, by the interrupt dispatch and by the run loop. The
  locale \<open>inv_bus\<close> states the two laws; the machine theories interpret it on their buses.
\<close>

text \<open>What the interpreter reaches only through the bus.\<close>

definition outer :: "'m mc6809_scheme \<Rightarrow> 'm \<times> bool \<times> bool \<times> bool \<times> bool \<times> bool \<times> u16 \<times> u8" where
  "outer s = (mc6809.more s, halted s, firq_pending s, irq_pending s, read_cb s, write_cb s,
     fast_limit s, variant s)"

locale inv_bus =
  fixes b :: "'m cpu_bus" and I :: "'m mc6809_scheme \<Rightarrow> bool"
  assumes regs: "outer s = outer t \<Longrightarrow> I s = I t"
    and read_inv: "I s \<Longrightarrow> I (snd (bus_read b a s))"
    and write_inv: "I s \<Longrightarrow> I (bus_write b a v s)"
    and page_inv: "I s \<Longrightarrow> bus_wr_page b p s = Some f \<Longrightarrow> i < 8192 \<Longrightarrow> I (f i v)"
begin

definition keeps :: "('m, 'a) cpu_op \<Rightarrow> bool" where
  "keeps m \<longleftrightarrow> (\<forall>s. I s \<longrightarrow> I (snd (run_state m s)))"

lemma keeps_bind: "keeps m \<Longrightarrow> (\<And>a. keeps (f a)) \<Longrightarrow> keeps (State_Monad.bind m f)"
  by (simp add: keeps_def case_prod_unfold)

lemma keeps_if: "keeps m \<Longrightarrow> keeps n \<Longrightarrow> keeps (if c then m else n)"
  by simp

lemma keeps_return: "keeps (State_Monad.return a)"
  by (simp add: keeps_def State_Monad.return_def)

lemma keeps_gets: "keeps (gets f)"
  by (simp add: keeps_def)

lemma keeps_get: "keeps State_Monad.get"
  by (simp add: keeps_def State_Monad.get_def)

lemma keepsI: "(\<And>s. outer (snd (run_state m s)) = outer s) \<Longrightarrow> keeps m"
  unfolding keeps_def using regs by blast

lemma keeps_modify: "(\<And>s. outer (f s) = outer s) \<Longrightarrow> keeps (modify f)"
  by (rule keepsI) simp

lemma keeps_regs:
  "keeps (add_cycles n)" "keeps (cc_set f)" "keeps (cc_clr f)" "keeps (cc_put f c)"
  "keeps (update_nz8 v)" "keeps (update_nz16 w)"
  "keeps (op_add8 x y z)" "keeps (op_sub8 x y z)" "keeps (op_add16 p q)" "keeps (op_sub16 p q)"
  "keeps (set_a v)" "keeps (set_b v)" "keeps (set_idx_reg v p)"
  by (rule keepsI; simp add: outer_def add_cycles_def cc_set_def cc_clr_def cc_put_def update_nz8_def
      update_nz16_def op_add8_def op_sub8_def op_add16_def op_sub16_def set_a_def set_b_def
      set_idx_reg_def Let_def)+

lemma keeps_fields:
  "keeps (modify (\<lambda>s. r_pc_update (f1 s) s))" "keeps (modify (\<lambda>s. r_d_update (f2 s) s))"
  "keeps (modify (\<lambda>s. r_x_update (f3 s) s))" "keeps (modify (\<lambda>s. r_y_update (f4 s) s))"
  "keeps (modify (\<lambda>s. r_u_update (f5 s) s))" "keeps (modify (\<lambda>s. r_s_update (f6 s) s))"
  "keeps (modify (\<lambda>s. r_dp_update (f7 s) s))" "keeps (modify (\<lambda>s. r_cc_update (f8 s) s))"
  "keeps (modify (\<lambda>s. wait_for_interrupt_update (f9 s) s))"
  "keeps (modify (\<lambda>s. cwai_state_update (f10 s) s))"
  "keeps (modify (\<lambda>s. nmi_armed_update (f11 s) s))"
  "keeps (modify (\<lambda>s. cycles_update (f12 s) s))"
  by (rule keeps_modify, simp add: outer_def)+

lemma keeps_mem_read: "keeps (mem_read b a)"
  by (auto simp: keeps_def mem_read_def read_inv split: option.splits)

lemma keeps_mem_write: "keeps (mem_write b a v)"
proof -
  have "a AND 0x1FFF \<le> 0x1FFF" by (rule word_and_le1)
  then have "unat (a AND 0x1FFF) < 8192" by (simp add: word_le_nat_alt)
  then show ?thesis by (auto simp: keeps_def mem_write_def write_inv page_inv split: option.splits)
qed

lemmas keep_rules = keeps_bind keeps_if keeps_return keeps_gets keeps_get keeps_regs keeps_fields
  keeps_mem_read keeps_mem_write

lemma keeps_fetch8: "keeps (fetch8 b)"
  unfolding fetch8_def by (rule keep_rules)+

lemma keeps_words: "keeps (mem_read16 b a)" "keeps (mem_write16 b a v)" "keeps (fetch16 b)"
  unfolding mem_read16_def mem_write16_def fetch16_def by (rule keep_rules keeps_fetch8)+

lemma keeps_stack8: "keeps (push8s b v)" "keeps (push8u b v)" "keeps (pull8s b)" "keeps (pull8u b)"
  unfolding push8s_def push8u_def pull8s_def pull8u_def by (rule keep_rules)+

lemma keeps_stack16: "keeps (push16s b w)" "keeps (push16u b w)" "keeps (pull16s b)" "keeps (pull16u b)"
  unfolding push16s_def push16u_def pull16s_def pull16u_def by (rule keep_rules keeps_stack8)+

lemmas bus_keeps = keep_rules keeps_fetch8 keeps_words keeps_stack8 keeps_stack16

lemma keeps_psh: "keeps (do_pshs b pb)" "keeps (do_puls b pb)" "keeps (do_pshu b pb)" "keeps (do_pulu b pb)"
  unfolding do_pshs_def do_puls_def do_pshu_def do_pulu_def when_bit_def by (rule bus_keeps)+

lemma keeps_entire: "keeps (push_entire b)"
  unfolding push_entire_def by (rule bus_keeps)+

lemma keeps_indexed: "keeps (addr_indexed b)"
  unfolding addr_indexed_def indexed_mode_def Let_def by (rule bus_keeps)+

lemma keeps_addr: "keeps (addr_direct b)" "keeps (addr_extended b)"
  unfolding addr_direct_def addr_extended_def by (rule bus_keeps)+

lemmas ea_keeps = bus_keeps keeps_psh keeps_entire keeps_indexed keeps_addr

lemma keeps_rmw: "keeps (rmw_pre lo v)" "keeps (rmw_post lo v)"
  unfolding rmw_pre_def rmw_post_def carry_of_def by (rule ea_keeps)+

lemma keeps_mem_row: "keeps ea \<Longrightarrow> keeps (mem_row b lo ea extra)"
  unfolding mem_row_def clr_flags_def nop2_def by (assumption | rule ea_keeps keeps_rmw)+

lemma keeps_acc_row: "(\<And>v. keeps (set_r v)) \<Longrightarrow> keeps (acc_row lo get_r set_r)"
  unfolding acc_row_def clr_flags_def nop2_def by (assumption | rule ea_keeps keeps_rmw)+

lemma keeps_alu8: "keeps pre \<Longrightarrow> (\<And>e. keeps (rd e)) \<Longrightarrow> (\<And>v. keeps (set_r v)) \<Longrightarrow>
    keeps (alu8 lo get_r set_r pre rd)"
  unfolding alu8_def nz8_v0_def carry_of_def by (assumption | rule ea_keeps)+

lemma keeps_16:
  assumes "keeps rd"
  shows "keeps (cmp16 get_r rd)" "keeps (subd rd)" "keeps (addd rd)"
    and "(\<And>v s. outer (set_r v s) = outer s) \<Longrightarrow> keeps (ld16 set_r rd)"
  unfolding cmp16_def subd_def addd_def ld16_def nz16_v0_def
  by (rule assms ea_keeps keeps_modify | assumption)+

lemma keeps_st:
  assumes "keeps ea"
  shows "keeps (rd16 b ea)" "keeps (st8 b get_r ea)" "keeps (st16 b get_w ea)" "keeps (jsr b ea)"
  unfolding rd16_def st8_def st16_def jsr_def nz8_v0_def nz16_v0_def by (rule assms ea_keeps)+

lemma keeps_ld:
  assumes "keeps rd"
  shows "keeps (ld16 (\<lambda>v s. s\<lparr>r_d := v\<rparr>) rd)" "keeps (ld16 (\<lambda>v s. s\<lparr>r_x := v\<rparr>) rd)"
    "keeps (ld16 (\<lambda>v s. s\<lparr>r_y := v\<rparr>) rd)" "keeps (ld16 (\<lambda>v s. s\<lparr>r_u := v\<rparr>) rd)"
    "keeps (ld16 (\<lambda>v s. s\<lparr>r_s := v\<rparr>) rd)"
  by (rule keeps_16(4) [OF assms], simp add: outer_def)+

lemmas op_keeps = ea_keeps keeps_rmw keeps_st keeps_alu8 keeps_ld keeps_16(1-3)

lemma keeps_ab_rows: "keeps ea \<Longrightarrow> keeps (a_mem_row b lo ea extra)" "keeps ea \<Longrightarrow> keeps (b_mem_row b lo ea extra)"
  unfolding a_mem_row_def b_mem_row_def by (assumption | rule op_keeps)+

lemma keeps_rows:
  "keeps (exec_row0 b x)" "keeps (exec_row4 x)" "keeps (exec_row5 x)" "keeps (exec_row6 b x)"
  "keeps (exec_row7 b x)" "keeps (exec_row9 b x)" "keeps (exec_rowA b x)" "keeps (exec_rowB b x)"
  "keeps (exec_rowD b x)" "keeps (exec_rowE b x)" "keeps (exec_rowF b x)"
  unfolding exec_row0_def exec_row4_def exec_row5_def exec_row6_def exec_row7_def exec_row9_def
    exec_rowA_def exec_rowB_def exec_rowD_def exec_rowE_def exec_rowF_def
  by (rule keeps_mem_row keeps_acc_row keeps_ab_rows op_keeps)+

lemma keeps_imm_rows: "keeps (exec_row8 b x)" "keeps (exec_rowC b x)"
  unfolding exec_row8_def exec_rowC_def nop2_def Let_def by (rule op_keeps)+

lemma keeps_vector: "keeps (jump_vector b v)"
  unfolding jump_vector_def by (rule op_keeps)+

lemma keeps_pages: "keeps (execute_page2 b)" "keeps (execute_page3 b)"
  unfolding execute_page2_def execute_page3_def by (rule op_keeps keeps_vector)+

lemma keeps_misc: "keeps daa" "keeps (tfr_write_reg c v)" "keeps (rti b)"
  unfolding daa_def tfr_write_reg_def rti_def Let_def by (rule op_keeps)+

lemma keeps_row123: "keeps (exec_row1 b x)" "keeps (exec_row2 b x)" "keeps (exec_row3 b x)"
  unfolding exec_row1_def exec_row2_def exec_row3_def nop2_def Let_def
  by (rule op_keeps keeps_pages keeps_misc keeps_vector)+

lemma keeps_execute_one: "keeps (execute_one b)"
  unfolding execute_one_def Let_def by (rule op_keeps keeps_rows keeps_imm_rows keeps_row123)+

lemma keeps_check_interrupts: "keeps (check_interrupts b)"
  unfolding check_interrupts_def enter_full_def end_wait_def
  by (rule op_keeps keeps_vector | (rule keeps_modify, simp add: outer_def; fail))+

lemma keeps_run_pass: "keeps (run_pass b budget)"
  unfolding run_pass_def by (rule op_keeps keeps_check_interrupts keeps_execute_one)+

lemma run_loop_keeps: "I s \<Longrightarrow> run_loop fuel b budget s = Some s' \<Longrightarrow> I s'"
proof (induction fuel arbitrary: s)
  case 0
  then show ?case by (simp split: if_splits)
next
  case (Suc fuel)
  then show ?case using keeps_run_pass [of budget]
    by (auto simp: keeps_def split: if_splits prod.splits bool.splits)
qed

lemma mc6809_run_keeps:
  assumes "I s" and "mc6809_run b budget s = Some (r, s')"
  shows "I s'"
proof -
  have "I (s\<lparr>cycles := 0\<rparr>)" using assms(1) regs [of "s\<lparr>cycles := 0\<rparr>" s] by (simp add: outer_def)
  then show ?thesis using assms(2) run_loop_keeps
    by (auto simp: mc6809_run_def Let_def split: if_splits)
qed

end

end
