(* ===== verification/Mc6809_Stack.thy ===== *)
theory Mc6809_Stack
  imports Mc6809_Alu
begin

text \<open>
  The hardware stack over plain memory. The locale \<open>ram_bus\<close> states what the stack code relies
  on: at a plain address a read returns the byte there and changes nothing, a write changes that
  byte and no register. From these laws: a byte pushed is the byte pulled, PULS undoes PSHS for
  every register mask, and RTI undoes the pushes of SWI, CWAI and the interrupt entries.
\<close>

section \<open>Register masks\<close>

text \<open>The bytes PSHS leaves for a register mask, lowest address first.\<close>

definition psh_bytes :: "u8 \<Rightarrow> 'm mc6809_scheme \<Rightarrow> u8 list" where
  "psh_bytes pb s =
     (if tst pb 0x01 then [r_cc s] else []) @ (if tst pb 0x02 then [get_a s] else []) @
     (if tst pb 0x04 then [get_b s] else []) @ (if tst pb 0x08 then [r_dp s] else []) @
     (if tst pb 0x10 then [hi8 (r_x s), lo8 (r_x s)] else []) @
     (if tst pb 0x20 then [hi8 (r_y s), lo8 (r_y s)] else []) @
     (if tst pb 0x40 then [hi8 (r_u s), lo8 (r_u s)] else []) @
     (if tst pb 0x80 then [hi8 (r_pc s), lo8 (r_pc s)] else [])"

text \<open>The registers a mask names, from \<open>s\<close>; the others from \<open>x\<close>.\<close>

definition restored :: "u8 \<Rightarrow> 'm mc6809_scheme \<Rightarrow> 'm mc6809_scheme \<Rightarrow> 'm mc6809_scheme \<Rightarrow> bool" where
  "restored pb s x s' \<longleftrightarrow>
     r_cc s' = (if tst pb 0x01 then r_cc s else r_cc x) \<and>
     get_a s' = (if tst pb 0x02 then get_a s else get_a x) \<and>
     get_b s' = (if tst pb 0x04 then get_b s else get_b x) \<and>
     r_dp s' = (if tst pb 0x08 then r_dp s else r_dp x) \<and>
     r_x s' = (if tst pb 0x10 then r_x s else r_x x) \<and>
     r_y s' = (if tst pb 0x20 then r_y s else r_y x) \<and>
     r_u s' = (if tst pb 0x40 then r_u s else r_u x) \<and>
     r_pc s' = (if tst pb 0x80 then r_pc s else r_pc x)"

lemma run_set_b: "run_state (set_b v) s = ((), s\<lparr>r_d := pack16 (get_a s) v\<rparr>)"
proof -
  have "(r_d s AND 0xFF00) OR ucast v = pack16 (get_a s) v"
  proof (rule bit_word_eqI)
    fix n assume "n < LENGTH(16)"
    then have "bit (0xFF00 :: int) n \<longleftrightarrow> 8 \<le> n" by (auto simp: numeral_eq_Suc less_Suc_eq)
    then show "bit ((r_d s AND 0xFF00) OR ucast v) n = bit (pack16 (get_a s) v) n"
      using \<open>n < LENGTH(16)\<close>
      by (auto simp: pack16_def get_a_def hi8_def bit_simps dest: bit_imp_le_length)
  qed
  then show ?thesis by (simp add: set_b_def)
qed

lemma get_upd [simp]:
  "get_a (s\<lparr>r_d := pack16 p q\<rparr>) = p" "get_b (s\<lparr>r_d := pack16 p q\<rparr>) = q"
  "get_a (r_s_update f s) = get_a s" "get_b (r_s_update f s) = get_b s"
  "get_a (r_cc_update f2 s) = get_a s" "get_b (r_cc_update f2 s) = get_b s"
  "get_a (r_dp_update f2 s) = get_a s" "get_b (r_dp_update f2 s) = get_b s"
  "get_a (r_x_update f s) = get_a s" "get_b (r_x_update f s) = get_b s"
  "get_a (r_y_update f s) = get_a s" "get_b (r_y_update f s) = get_b s"
  "get_a (r_u_update f s) = get_a s" "get_b (r_u_update f s) = get_b s"
  "get_a (r_pc_update f s) = get_a s" "get_b (r_pc_update f s) = get_b s"
  by (simp_all add: get_a_def get_b_def)

section \<open>Plain memory\<close>

locale ram_bus =
  fixes b :: "'m cpu_bus"
    and peek :: "'m \<Rightarrow> u16 \<Rightarrow> u8"
    and poke :: "u16 \<Rightarrow> u8 \<Rightarrow> 'm \<Rightarrow> 'm"
    and rd_ok :: "'m \<Rightarrow> u16 \<Rightarrow> bool"
    and wr_ok :: "'m \<Rightarrow> u16 \<Rightarrow> bool"
    and lim :: u16
  assumes read_plain: "fast_limit s = lim \<Longrightarrow> rd_ok (mc6809.more s) a \<Longrightarrow>
      run_state (mem_read b a) s = (peek (mc6809.more s) a, s)"
    and write_plain: "fast_limit s = lim \<Longrightarrow> wr_ok (mc6809.more s) a \<Longrightarrow>
      run_state (mem_write b a v) s = ((), mc6809.more_update (poke a v) s)"
    and wr_rd: "wr_ok m a \<Longrightarrow> rd_ok m a"
    and peek_poke: "wr_ok m a \<Longrightarrow> rd_ok m a' \<Longrightarrow>
      peek (poke a v m) a' = (if a' = a then v else peek m a')"
    and rd_ok_poke: "wr_ok m a \<Longrightarrow> rd_ok (poke a v m) a' = rd_ok m a'"
    and wr_ok_poke: "wr_ok m a \<Longrightarrow> wr_ok (poke a v m) a' = wr_ok m a'"
begin

text \<open>\<open>stacked m sp bs\<close>: from \<open>sp\<close> upwards memory holds the bytes \<open>bs\<close>.\<close>

definition stacked :: "'m \<Rightarrow> u16 \<Rightarrow> u8 list \<Rightarrow> bool" where
  "stacked m sp bs \<longleftrightarrow>
     (\<forall>i<length bs. wr_ok m (sp + of_nat i) \<and> peek m (sp + of_nat i) = bs ! i)"

lemma stacked_Cons:
  "stacked m sp (v # bs) \<longleftrightarrow> wr_ok m sp \<and> peek m sp = v \<and> stacked m (sp + 1) bs"
  unfolding stacked_def by (auto simp: less_Suc_eq_0_disj algebra_simps)

lemma stacked_tl: "stacked m sp (v # bs) \<Longrightarrow> stacked m (sp + 1) bs"
  by (simp add: stacked_Cons)

lemma stacked_Nil [simp]: "stacked m sp []"
  by (simp add: stacked_def)

lemma stacked_poke:
  assumes "stacked m (sp + 1) bs" and "wr_ok m sp" and "length bs < 65535"
  shows "stacked (poke sp v m) sp (v # bs)"
proof -
  have "sp + 1 + of_nat i \<noteq> sp" if "i < length bs" for i
  proof -
    have "Suc i < 65536" using that assms(3) by simp
    then have "unat (of_nat (Suc i) :: u16) = Suc i" by (simp only: unat_of_nat) simp
    then have "of_nat (Suc i) \<noteq> (0 :: u16)" by (metis unsigned_0 nat.distinct(1))
    then show ?thesis by (simp add: algebra_simps)
  qed
  then show ?thesis using assms
    by (subst stacked_Cons) (auto simp: stacked_def wr_ok_poke peek_poke wr_rd)
qed

lemma run_push8s:
  "fast_limit s = lim \<Longrightarrow> wr_ok (mc6809.more s) (r_s s - 1) \<Longrightarrow> run_state (push8s b v) s =
     ((), mc6809.more_update (poke (r_s s - 1) v) (s\<lparr>r_s := r_s s - 1\<rparr>))"
  by (simp add: push8s_def write_plain)

lemma run_pull8s:
  "fast_limit s = lim \<Longrightarrow> stacked (mc6809.more s) (r_s s) (v # bs) \<Longrightarrow>
     run_state (pull8s b) s = (v, s\<lparr>r_s := r_s s + 1\<rparr>)"
  by (simp add: pull8s_def stacked_Cons read_plain wr_rd State_Monad.return_def)

lemma run_pull16s:
  assumes l: "fast_limit s = lim" and st: "stacked (mc6809.more s) (r_s s) (hi8 w # lo8 w # bs)"
  shows "run_state (pull16s b) s = (w, s\<lparr>r_s := r_s s + 2\<rparr>)"
proof -
  have "stacked (mc6809.more s) (r_s s + 1) (lo8 w # bs)" using st by (simp add: stacked_Cons)
  then have "run_state (pull8s b) (s\<lparr>r_s := r_s s + 1\<rparr>) = (lo8 w, s\<lparr>r_s := r_s s + 2\<rparr>)"
    using run_pull8s [of "s\<lparr>r_s := r_s s + 1\<rparr>" "lo8 w" bs] l by (simp add: add.assoc)
  then show ?thesis using run_pull8s [OF l st] by (simp add: pull16s_def State_Monad.return_def)
qed

text \<open>\<open>room s n\<close>: the \<open>n\<close> bytes below S are plain memory (for the CPU's fast-path limit \<open>lim\<close>).\<close>

definition room :: "'m mc6809_scheme \<Rightarrow> nat \<Rightarrow> bool" where
  "room s n \<longleftrightarrow> fast_limit s = lim \<and> n < 65535 \<and> (\<forall>i<n. wr_ok (mc6809.more s) (r_s s - 1 - of_nat i))"

text \<open>The state \<open>s\<close> with \<open>n\<close> bytes pushed and memory \<open>m\<close>; no other field differs.\<close>

definition at_sp :: "'m mc6809_scheme \<Rightarrow> nat \<Rightarrow> 'm \<Rightarrow> 'm mc6809_scheme" where
  "at_sp s n m = mc6809.more_update (\<lambda>_. m) (s\<lparr>r_s := r_s s - of_nat n\<rparr>)"

lemma at_sp_simps [simp]:
  "r_pc (at_sp s n m) = r_pc s" "r_d (at_sp s n m) = r_d s" "r_x (at_sp s n m) = r_x s"
  "r_y (at_sp s n m) = r_y s" "r_u (at_sp s n m) = r_u s" "r_dp (at_sp s n m) = r_dp s"
  "r_cc (at_sp s n m) = r_cc s" "r_s (at_sp s n m) = r_s s - of_nat n"
  "mc6809.more (at_sp s n m) = m" "fast_limit (at_sp s n m) = fast_limit s" "cwai_state (at_sp s n m) = cwai_state s"
  "get_a (at_sp s n m) = get_a s" "get_b (at_sp s n m) = get_b s"
  by (simp_all add: at_sp_def get_a_def get_b_def)

text \<open>\<open>pushed s bs s'\<close>: from \<open>s\<close>, pushes have put \<open>bs\<close> on the stack and changed nothing else.\<close>

definition pushed :: "'m mc6809_scheme \<Rightarrow> u8 list \<Rightarrow> 'm mc6809_scheme \<Rightarrow> bool" where
  "pushed s bs s' \<longleftrightarrow>
     (\<exists>m. s' = at_sp s (length bs) m \<and> stacked m (r_s s - of_nat (length bs)) bs \<and>
       (\<forall>a. rd_ok m a = rd_ok (mc6809.more s) a \<and> wr_ok m a = wr_ok (mc6809.more s) a) \<and>
       (\<forall>a. rd_ok m a \<and> \<not> wr_ok m a \<longrightarrow> peek m a = peek (mc6809.more s) a))"

lemma pushed_refl: "pushed s [] s"
  unfolding pushed_def by (rule exI [of _ "mc6809.more s"]) (simp add: at_sp_def)

lemma pushed_push8:
  assumes p: "pushed s bs s1" and r: "room s n" "length bs < n"
  shows "pushed s (v # bs) (snd (run_state (push8s b v) s1))"
proof -
  let ?sp = "r_s s - of_nat (length bs) - 1"
  obtain m where s1: "s1 = at_sp s (length bs) m" and st: "stacked m (?sp + 1) bs"
    and ok: "\<And>a. rd_ok m a = rd_ok (mc6809.more s) a" "\<And>a. wr_ok m a = wr_ok (mc6809.more s) a"
    and rom: "\<And>a. rd_ok m a \<Longrightarrow> \<not> wr_ok m a \<Longrightarrow> peek m a = peek (mc6809.more s) a"
    using p unfolding pushed_def by auto
  have "wr_ok (mc6809.more s) (r_s s - 1 - of_nat (length bs))" using r by (simp add: room_def)
  then have w: "wr_ok m ?sp" by (simp add: ok algebra_simps)
  then have "snd (run_state (push8s b v) s1) = at_sp s (length (v # bs)) (poke ?sp v m)"
    using run_push8s [of s1 v] r(1) by (simp add: s1 room_def) (simp add: at_sp_def algebra_simps)
  moreover have "stacked (poke ?sp v m) (r_s s - of_nat (length (v # bs))) (v # bs)"
    using stacked_poke [OF st w, of v] r by (simp add: room_def algebra_simps)
  moreover have "peek (poke ?sp v m) a = peek (mc6809.more s) a" if "rd_ok m a" "\<not> wr_ok m a" for a
    using that w rom [of a] peek_poke [OF w, of a v] by auto
  ultimately show ?thesis unfolding pushed_def
    by (intro exI [of _ "poke ?sp v m"]) (auto simp: rd_ok_poke [OF w] wr_ok_poke [OF w] ok)
qed

lemma pushed_push16:
  assumes p: "pushed s bs s1" and r: "room s n" "length bs + 1 < n"
  shows "pushed s (hi8 w # lo8 w # bs) (snd (run_state (push16s b w) s1))"
proof -
  have "pushed s (lo8 w # bs) (snd (run_state (push8s b (lo8 w)) s1))"
    by (rule pushed_push8 [OF p r(1)]) (use r(2) in simp)
  from pushed_push8 [OF this r(1), of "hi8 w"] r(2) show ?thesis
    by (simp add: push16s_def case_prod_unfold)
qed

lemma pushed_fields:
  assumes "pushed s bs s1"
  shows "r_pc s1 = r_pc s" "r_d s1 = r_d s" "r_x s1 = r_x s" "r_y s1 = r_y s" "r_u s1 = r_u s"
    "r_dp s1 = r_dp s" "r_cc s1 = r_cc s" "get_a s1 = get_a s" "get_b s1 = get_b s"
    "cwai_state s1 = cwai_state s" "fast_limit s1 = fast_limit s" "r_s s1 = r_s s - of_nat (length bs)"
    "stacked (mc6809.more s1) (r_s s1) bs"
  using assms by (auto simp: pushed_def)

section \<open>PSHS and PULS\<close>

text \<open>A push under way: \<open>bs\<close> pushed so far, counted, at most \<open>n\<close> of them.\<close>

definition pushing :: "'m mc6809_scheme \<Rightarrow> u8 list \<Rightarrow> nat \<Rightarrow> nat \<Rightarrow> 'm mc6809_scheme \<Rightarrow> bool" where
  "pushing s bs n k s' \<longleftrightarrow> pushed s bs s' \<and> length bs \<le> n \<and> k = length bs"

lemma pushing_when8:
  assumes r: "room s N" and g: "\<And>s1. pushed s bs s1 \<Longrightarrow> g s1 = g s" and N: "n < N"
  shows "valid (pushing s bs n k) (when_bit pb m (do { v \<leftarrow> gets g; push8s b v }) 1 k)
    (pushing s ((if tst pb m then [g s] else []) @ bs) (n + 1))"
proof (rule validI)
  fix s1 assume p: "pushing s bs n k s1"
  then have "pushed s (g s # bs) (snd (run_state (push8s b (g s1)) s1))"
    using pushed_push8 [OF _ r, of bs s1 "g s"] g N by (simp add: pushing_def)
  with p show "pushing s ((if tst pb m then [g s] else []) @ bs) (n + 1)
      (fst (run_state (when_bit pb m (do { v \<leftarrow> gets g; push8s b v }) 1 k) s1))
      (snd (run_state (when_bit pb m (do { v \<leftarrow> gets g; push8s b v }) 1 k) s1))"
    by (simp add: when_bit_def pushing_def State_Monad.return_def case_prod_unfold)
qed

lemma pushing_when16:
  assumes r: "room s N" and g: "\<And>s1. pushed s bs s1 \<Longrightarrow> g s1 = g s" and N: "n + 1 < N"
  shows "valid (pushing s bs n k) (when_bit pb m (do { v \<leftarrow> gets g; push16s b v }) 2 k)
    (pushing s ((if tst pb m then [hi8 (g s), lo8 (g s)] else []) @ bs) (n + 2))"
proof (rule validI)
  fix s1 assume p: "pushing s bs n k s1"
  then have "pushed s (hi8 (g s) # lo8 (g s) # bs) (snd (run_state (push16s b (g s1)) s1))"
    using pushed_push16 [OF _ r, of bs s1 "g s"] g N by (simp add: pushing_def)
  with p show "pushing s ((if tst pb m then [hi8 (g s), lo8 (g s)] else []) @ bs) (n + 2)
      (fst (run_state (when_bit pb m (do { v \<leftarrow> gets g; push16s b v }) 2 k) s1))
      (snd (run_state (when_bit pb m (do { v \<leftarrow> gets g; push16s b v }) 2 k) s1))"
    by (simp add: when_bit_def pushing_def State_Monad.return_def case_prod_unfold)
qed

lemma pushed_pshs:
  assumes r: "room s 12"
  shows "pushing s (psh_bytes pb s) 12 (fst (run_state (do_pshs b pb) s)) (snd (run_state (do_pshs b pb) s))"
proof -
  have "valid (pushing s [] 0 0) (do_pshs b pb) (pushing s (psh_bytes pb s) (0 + 2 + 2 + 2 + 2 + 1 + 1 + 1 + 1))"
    unfolding do_pshs_def
    by (rule valid_post, (rule valid_bind pushing_when8 [OF r] pushing_when16 [OF r] | erule pushed_fields
        | (simp; fail))+) (simp only: psh_bytes_def append_Nil2 append.assoc)
  from validD [OF this, of s] show ?thesis by (simp add: pushing_def pushed_refl)
qed

text \<open>
  A pull under way: the registers \<open>(CC, A, B, DP, X, Y, U, PC)\<close>, the stack pointer, the memory,
  the bytes still on the stack, and the count.
\<close>

definition pulling ::
  "u8 \<Rightarrow> u8 \<Rightarrow> u8 \<Rightarrow> u8 \<Rightarrow> u16 \<Rightarrow> u16 \<Rightarrow> u16 \<Rightarrow> u16 \<Rightarrow> u16 \<Rightarrow> 'm \<Rightarrow> u8 list \<Rightarrow> nat \<Rightarrow> nat \<Rightarrow>
   'm mc6809_scheme \<Rightarrow> bool" where
  "pulling cc va vb dp x y u pc sp m bs c k s' \<longleftrightarrow>
     r_cc s' = cc \<and> get_a s' = va \<and> get_b s' = vb \<and> r_dp s' = dp \<and> r_x s' = x \<and> r_y s' = y \<and>
     r_u s' = u \<and> r_pc s' = pc \<and> r_s s' = sp \<and> mc6809.more s' = m \<and> fast_limit s' = lim \<and> stacked m sp bs \<and> k = c"

lemma pulling_when8:
  fixes cc va vb dp x y u pc sp m c k pb mask
  defines "P \<equiv> \<lambda>v bs. pulling cc va vb dp x y u pc sp m ((if tst pb mask then [v] else []) @ bs) c k"
    and "sp' \<equiv> if tst pb mask then sp + 1 else sp" and "c' \<equiv> if tst pb mask then c + 1 else c"
  shows "valid (P v bs) (when_bit pb mask (do { v \<leftarrow> pull8s b; modify (\<lambda>s. s\<lparr>r_cc := v\<rparr>) }) 1 k)
      (pulling (if tst pb mask then v else cc) va vb dp x y u pc sp' m bs c')"
    and "valid (P v bs) (when_bit pb mask (do { v \<leftarrow> pull8s b; set_a v }) 1 k)
      (pulling cc (if tst pb mask then v else va) vb dp x y u pc sp' m bs c')"
    and "valid (P v bs) (when_bit pb mask (do { v \<leftarrow> pull8s b; set_b v }) 1 k)
      (pulling cc va (if tst pb mask then v else vb) dp x y u pc sp' m bs c')"
    and "valid (P v bs) (when_bit pb mask (do { v \<leftarrow> pull8s b; modify (\<lambda>s. s\<lparr>r_dp := v\<rparr>) }) 1 k)
      (pulling cc va vb (if tst pb mask then v else dp) x y u pc sp' m bs c')"
  unfolding P_def sp'_def c'_def
  by (rule validI; auto simp: pulling_def when_bit_def run_pull8s run_set_a run_set_b
      State_Monad.return_def dest: stacked_tl)+

lemma pulling_when16:
  fixes cc va vb dp x y u pc sp m c k pb mask
  defines "P \<equiv> \<lambda>v bs. pulling cc va vb dp x y u pc sp m
      ((if tst pb mask then [hi8 v, lo8 v] else []) @ bs) c k"
    and "sp' \<equiv> if tst pb mask then sp + 2 else sp" and "c' \<equiv> if tst pb mask then c + 2 else c"
  shows "valid (P v bs) (when_bit pb mask (do { v \<leftarrow> pull16s b; modify (\<lambda>s. s\<lparr>r_x := v\<rparr>) }) 2 k)
      (pulling cc va vb dp (if tst pb mask then v else x) y u pc sp' m bs c')"
    and "valid (P v bs) (when_bit pb mask (do { v \<leftarrow> pull16s b; modify (\<lambda>s. s\<lparr>r_y := v\<rparr>) }) 2 k)
      (pulling cc va vb dp x (if tst pb mask then v else y) u pc sp' m bs c')"
    and "valid (P v bs) (when_bit pb mask (do { v \<leftarrow> pull16s b; modify (\<lambda>s. s\<lparr>r_u := v\<rparr>) }) 2 k)
      (pulling cc va vb dp x y (if tst pb mask then v else u) pc sp' m bs c')"
    and "valid (P v bs) (when_bit pb mask (do { v \<leftarrow> pull16s b; modify (\<lambda>s. s\<lparr>r_pc := v\<rparr>) }) 2 k)
      (pulling cc va vb dp x y u (if tst pb mask then v else pc) sp' m bs c')"
  unfolding P_def sp'_def c'_def
  by (rule validI; auto simp: pulling_def when_bit_def run_pull16s State_Monad.return_def
      stacked_Cons add.assoc)+

lemma pulled_puls:
  assumes l: "fast_limit x = lim" and st: "stacked (mc6809.more x) (r_s x) (psh_bytes pb s)"
  shows "restored pb s x (snd (run_state (do_puls b pb) x)) \<and>
    fst (run_state (do_puls b pb) x) = length (psh_bytes pb s) \<and>
    r_s (snd (run_state (do_puls b pb) x)) = r_s x + of_nat (length (psh_bytes pb s)) \<and>
    mc6809.more (snd (run_state (do_puls b pb) x)) = mc6809.more x"
proof -
  let ?bs = "psh_bytes pb s"
  have "valid (pulling (r_cc x) (get_a x) (get_b x) (r_dp x) (r_x x) (r_y x) (r_u x) (r_pc x) (r_s x)
      (mc6809.more x) (?bs @ []) 0 0) (do_puls b pb)
    (\<lambda>k s'. restored pb s x s' \<and> k = length ?bs \<and> r_s s' = r_s x + of_nat (length ?bs) \<and>
       mc6809.more s' = mc6809.more x)"
    unfolding do_puls_def psh_bytes_def append.assoc
    by (rule valid_post, (rule valid_bind pulling_when8 pulling_when16)+)
      (simp add: pulling_def restored_def)
  from validD [OF this, of x] l st show ?thesis by (simp add: pulling_def)
qed

lemma pshs_puls:
  assumes "room s 12" and s1: "s1 = snd (run_state (do_pshs b pb) s)"
    and "r_s x = r_s s1" and "mc6809.more x = mc6809.more s1" and "fast_limit x = lim"
  shows "restored pb s x (snd (run_state (do_puls b pb) x)) \<and>
    r_s (snd (run_state (do_puls b pb) x)) = r_s s \<and>
    fst (run_state (do_puls b pb) x) = fst (run_state (do_pshs b pb) s)"
proof -
  have p: "pushed s (psh_bytes pb s) s1" and n: "fst (run_state (do_pshs b pb) s) = length (psh_bytes pb s)"
    using pushed_pshs [OF assms(1), of pb] by (simp_all add: pushing_def s1)
  have "stacked (mc6809.more x) (r_s x) (psh_bytes pb s)"
    and "r_s x = r_s s - of_nat (length (psh_bytes pb s))"
    using pushed_fields(12,13) [OF p] assms(3,4) by simp_all
  with pulled_puls [of x pb s] assms(5) n show ?thesis by simp
qed

section \<open>Interrupt entry and return\<close>

lemma pushing_reg8:
  assumes "room s N" and "length bs < N" and "\<And>s1. pushed s bs s1 \<Longrightarrow> g s1 = g s"
  shows "valid (pushed s bs) (do { v \<leftarrow> gets g; push8s b v }) (\<lambda>_. pushed s (g s # bs))"
  using pushed_push8 [OF _ assms(1,2)] assms(3) by (intro validI) simp

lemma pushing_reg16:
  assumes "room s N" and "length bs + 1 < N" and "\<And>s1. pushed s bs s1 \<Longrightarrow> g s1 = g s"
  shows "valid (pushed s bs) (do { v \<leftarrow> gets g; push16s b v }) (\<lambda>_. pushed s (hi8 (g s) # lo8 (g s) # bs))"
  using pushed_push16 [OF _ assms(1,2)] assms(3) by (intro validI) simp

text \<open>The eight pushes, regrouped one register at a time.\<close>

lemma push_entire_alt:
  "push_entire b = do {
     do { v \<leftarrow> gets r_pc; push16s b v }; do { v \<leftarrow> gets r_u; push16s b v };
     do { v \<leftarrow> gets r_y; push16s b v }; do { v \<leftarrow> gets r_x; push16s b v };
     do { v \<leftarrow> gets r_dp; push8s b v }; do { v \<leftarrow> gets get_b; push8s b v };
     do { v \<leftarrow> gets get_a; push8s b v }; do { v \<leftarrow> gets r_cc; push8s b v } }"
  by (simp add: push_entire_def)

lemma tst_FF: "tst (0xFF :: u8) 1" "tst (0xFF :: u8) 2" "tst (0xFF :: u8) 4" "tst (0xFF :: u8) 8"
  "tst (0xFF :: u8) 16" "tst (0xFF :: u8) 32" "tst (0xFF :: u8) 64" "tst (0xFF :: u8) 128"
  by (simp_all add: tst_def)

lemma pushed_entire:
  assumes r: "room s 12"
  shows "pushed s (psh_bytes 0xFF s) (snd (run_state (push_entire b) s))"
proof -
  have "valid (pushed s []) (push_entire b) (\<lambda>_. pushed s (psh_bytes 0xFF s))"
    unfolding push_entire_alt
    by (rule valid_post, (rule valid_bind pushing_reg8 [OF r] pushing_reg16 [OF r] | erule pushed_fields
        | (simp; fail))+) (simp add: psh_bytes_def tst_FF)
  from validD [OF this pushed_refl] show ?thesis .
qed

text \<open>RTI from a full frame is PULS of everything.\<close>

lemma rti_entire:
  assumes l: "fast_limit x = lim" and st: "stacked (mc6809.more x) (r_s x) (psh_bytes 0xFF s)" and e: "tst (r_cc s) MC6809_FLAG_E"
  shows "snd (run_state (rti b) x) =
    (let s' = snd (run_state (do_puls b 0xFF) x) in s'\<lparr>cycles := cycles s' + 15\<rparr>)"
proof -
  have "run_state (pull8s b) x = (r_cc s, x\<lparr>r_s := r_s x + 1\<rparr>)"
    using l st by (intro run_pull8s) (auto simp: psh_bytes_def tst_FF)
  then show ?thesis
    using e by (simp add: rti_def do_puls_def when_bit_def tst_FF add_cycles_def case_prod_unfold
      State_Monad.return_def Let_def)
qed

lemma rti_restores:
  assumes l: "fast_limit x = lim" and st: "stacked (mc6809.more x) (r_s x) (psh_bytes 0xFF s)" and e: "tst (r_cc s) MC6809_FLAG_E"
  shows "restored 0xFF s x (snd (run_state (rti b) x)) \<and> r_s (snd (run_state (rti b) x)) = r_s x + 12"
proof -
  have [simp]: "restored pb s x (s'\<lparr>cycles := c\<rparr>) = restored pb s x s'" for pb s' c
    by (simp add: restored_def get_a_def get_b_def)
  have "length (psh_bytes 0xFF s) = 12" by (simp add: psh_bytes_def tst_FF)
  then show ?thesis using pulled_puls [OF l st] by (simp add: rti_entire [OF l st e] Let_def)
qed

text \<open>A vector that is readable but not writable is not changed by the pushes.\<close>

definition vector_at :: "'m \<Rightarrow> u16 \<Rightarrow> u16 \<Rightarrow> bool" where
  "vector_at m a v \<longleftrightarrow> rd_ok m a \<and> rd_ok m (a + 1) \<and> \<not> wr_ok m a \<and> \<not> wr_ok m (a + 1) \<and>
     v = pack16 (peek m a) (peek m (a + 1))"

lemma vector_at_pushed:
  assumes "pushed s bs s1" and "vector_at (mc6809.more s) a v"
  shows "vector_at (mc6809.more s1) a v"
  using assms by (auto simp: pushed_def vector_at_def)

lemma run_jump_vector:
  "fast_limit s = lim \<Longrightarrow> vector_at (mc6809.more s) a v \<Longrightarrow> run_state (jump_vector b a) s = ((), s\<lparr>r_pc := v\<rparr>)"
  by (simp add: jump_vector_def mem_read16_def vector_at_def read_plain State_Monad.return_def)

text \<open>The three interrupt entries out of a running program.\<close>

lemma enter_full_run:
  assumes "room s 12" and "\<not> cwai_state s"
  shows "\<exists>s1. pushed (s\<lparr>r_cc := r_cc s OR MC6809_FLAG_E\<rparr>)
      (psh_bytes 0xFF (s\<lparr>r_cc := r_cc s OR MC6809_FLAG_E\<rparr>)) s1 \<and>
    run_state (enter_full b) s = ((), s1\<lparr>cycles := cycles s1 + 19\<rparr>)"
proof -
  let ?s = "s\<lparr>r_cc := r_cc s OR MC6809_FLAG_E\<rparr>"
  have "room ?s 12" using assms(1) by (simp add: room_def)
  then have "pushed ?s (psh_bytes 0xFF ?s) (snd (run_state (push_entire b) ?s))" by (rule pushed_entire)
  then show ?thesis using assms(2)
    by (intro exI [of _ "snd (run_state (push_entire b) ?s)"])
      (simp add: enter_full_def cc_set_def add_cycles_def case_prod_unfold)
qed

lemma irq_entry:
  assumes "room s 12" and "\<not> cwai_state s" and "irq_pending s" and "\<not> tst (r_cc s) MC6809_FLAG_I"
    and "\<not> (nmi_pending s \<and> nmi_armed s)" and "\<not> (firq_pending s \<and> \<not> tst (r_cc s) MC6809_FLAG_F)"
    and v: "vector_at (mc6809.more s) MC6809_VEC_IRQ v"
  shows "let s1 = snd (run_state (check_interrupts b) s); se = s\<lparr>r_cc := r_cc s OR MC6809_FLAG_E\<rparr> in
    r_pc s1 = v \<and> r_s s1 = r_s s - 12 \<and> r_cc s1 = r_cc s OR MC6809_FLAG_E OR MC6809_FLAG_I \<and>
    stacked (mc6809.more s1) (r_s s1) (psh_bytes 0xFF se)"
proof -
  let ?se = "s\<lparr>r_cc := r_cc s OR MC6809_FLAG_E\<rparr>"
  obtain s1 where p: "pushed ?se (psh_bytes 0xFF ?se) s1"
    and run: "run_state (enter_full b) s = ((), s1\<lparr>cycles := cycles s1 + 19\<rparr>)"
    using enter_full_run [OF assms(1,2)] by blast
  have "vector_at (mc6809.more s1) MC6809_VEC_IRQ v" "fast_limit s1 = lim"
    using vector_at_pushed [OF p] v pushed_fields(11) [OF p] assms(1) by (simp_all add: room_def)
  then have "snd (run_state (check_interrupts b) s) =
      s1\<lparr>cycles := cycles s1 + 19, r_cc := r_cc s1 OR MC6809_FLAG_I, r_pc := v,
         wait_for_interrupt := False, cwai_state := False\<rparr>"
    using run unfolding check_interrupts_def run_state_bind State_Monad.get_def
    by (simp add: if_not_P [OF assms(5)] if_not_P [OF assms(6)] assms(3,4) cc_set_def run_jump_vector
        end_wait_def del: de_Morgan_conj)
  moreover have "length (psh_bytes 0xFF ?se) = 12" by (simp add: psh_bytes_def tst_FF)
  ultimately show ?thesis using pushed_fields [OF p] by (simp add: Let_def or.assoc)
qed

lemma irq_then_rti:
  assumes "room s 12" and "\<not> cwai_state s" and "irq_pending s" and "\<not> tst (r_cc s) MC6809_FLAG_I"
    and "\<not> (nmi_pending s \<and> nmi_armed s)" and "\<not> (firq_pending s \<and> \<not> tst (r_cc s) MC6809_FLAG_F)"
    and v: "vector_at (mc6809.more s) MC6809_VEC_IRQ v"
    and s1: "s1 = snd (run_state (check_interrupts b) s)"
    and x: "r_s x = r_s s1" "mc6809.more x = mc6809.more s1" "fast_limit x = lim"
  shows "r_pc s1 = v \<and> r_cc s1 = r_cc s OR MC6809_FLAG_E OR MC6809_FLAG_I \<and>
    restored 0xFF (s\<lparr>r_cc := r_cc s OR MC6809_FLAG_E\<rparr>) x (snd (run_state (rti b) x)) \<and>
    r_s (snd (run_state (rti b) x)) = r_s s"
proof -
  let ?se = "s\<lparr>r_cc := r_cc s OR MC6809_FLAG_E\<rparr>"
  have e: "tst (r_cc ?se) MC6809_FLAG_E" by (simp add: flag_defs tst_simps bit_or_iff)
  note entry = irq_entry [OF assms(1-6) v, unfolded Let_def, folded s1]
  have "stacked (mc6809.more x) (r_s x) (psh_bytes 0xFF ?se)" unfolding x using entry by blast
  from rti_restores [OF x(3) this e] entry x show ?thesis by simp
qed

text \<open>FIRQ saves PC and CC only, with E clear, and RTI brings just these back.\<close>

lemma firq_then_rti:
  assumes r: "room s 3" and "\<not> cwai_state s" and "firq_pending s" and "\<not> tst (r_cc s) MC6809_FLAG_F"
    and "\<not> (nmi_pending s \<and> nmi_armed s)"
    and v: "vector_at (mc6809.more s) MC6809_VEC_FIRQ v"
    and s1: "s1 = snd (run_state (check_interrupts b) s)"
    and x: "r_s x = r_s s1" "mc6809.more x = mc6809.more s1" "fast_limit x = lim"
  shows "r_pc s1 = v \<and>
    r_cc s1 = (r_cc s AND NOT MC6809_FLAG_E) OR (MC6809_FLAG_I OR MC6809_FLAG_F) \<and>
    restored 0x81 (s\<lparr>r_cc := r_cc s AND NOT MC6809_FLAG_E\<rparr>) x (snd (run_state (rti b) x)) \<and>
    r_s (snd (run_state (rti b) x)) = r_s s"
proof -
  let ?se = "s\<lparr>r_cc := r_cc s AND NOT MC6809_FLAG_E\<rparr>"
  let ?bs = "[r_cc ?se, hi8 (r_pc s), lo8 (r_pc s)]"
  have r': "room ?se 3" using r by (simp add: room_def)
  define s2 where "s2 = snd (run_state (push16s b (r_pc s)) ?se)"
  define s3 where "s3 = snd (run_state (push8s b (r_cc s2)) s2)"
  have p2: "pushed ?se [hi8 (r_pc s), lo8 (r_pc s)] s2"
    unfolding s2_def by (rule pushed_push16 [OF pushed_refl r']) simp
  then have p: "pushed ?se ?bs s3"
    unfolding s3_def using pushed_push8 [OF p2 r'] by (simp add: pushed_fields(7) [OF p2])
  have lim3: "vector_at (mc6809.more s3) MC6809_VEC_FIRQ v" "fast_limit s3 = lim"
    using vector_at_pushed [OF p] v pushed_fields(11) [OF p] r by (simp_all add: room_def)
  from lim3 have run: "s1 = s3\<lparr>cycles := cycles s3 + 10, r_cc := r_cc s3 OR (MC6809_FLAG_I OR MC6809_FLAG_F),
      r_pc := v, wait_for_interrupt := False, cwai_state := False\<rparr>"
    unfolding s1 check_interrupts_def run_state_bind State_Monad.get_def
    by (simp add: if_not_P [OF assms(5)] assms(2-4) cc_clr_def cc_set_def run_jump_vector add_cycles_def
        end_wait_def case_prod_unfold s2_def [symmetric] s3_def [symmetric] del: de_Morgan_conj)
  have st: "stacked (mc6809.more x) (r_s x) ?bs" using pushed_fields [OF p] run x by simp
  have "\<not> tst (r_cc ?se) MC6809_FLAG_E" by (simp add: flag_defs tst_simps bit_and_iff bit_not_iff)
  moreover have "run_state (pull8s b) x = (r_cc ?se, x\<lparr>r_s := r_s x + 1\<rparr>)"
    using x(3) st by (rule run_pull8s)
  moreover have "run_state (pull16s b) (x\<lparr>r_s := r_s x + 1, r_cc := r_cc ?se\<rparr>) =
      (r_pc s, x\<lparr>r_s := r_s x + 3, r_cc := r_cc ?se\<rparr>)"
    using run_pull16s [of "x\<lparr>r_s := r_s x + 1, r_cc := r_cc ?se\<rparr>" "r_pc s" "[]"] stacked_tl [OF st] x(3)
    by (simp add: add.assoc)
  ultimately have "snd (run_state (rti b) x) =
      x\<lparr>r_s := r_s x + 3, r_cc := r_cc ?se, r_pc := r_pc s, cycles := cycles x + 6\<rparr>"
    by (simp add: rti_def add_cycles_def)
  then show ?thesis using pushed_fields [OF p] run x
    by (simp add: restored_def get_a_def get_b_def tst_def)
qed

end

end
