(* ===== verification/Mc6821.thy ===== *)
theory Mc6821
  imports CoCo_Prelude
begin

text \<open>
  The Motorola 6821 PIA of \<open>src/src/core/mc6821.{h,cpp}\<close>. A port's interrupt callback is a
  nullable function pointer of the C struct: the model keeps whether it is set, and every
  operation returns the list of callback invocations it makes, in order, which the owner of
  the chip (the machine) carries out. The lemmas give the data mixing of a port read, the
  acknowledge and control-register rules, and that the level a port has last reported through
  its callback is always the level its control register asks for.
\<close>

section \<open>State\<close>

definition PIA_CR_IRQ1 :: u8 where "PIA_CR_IRQ1 = 0x80"
definition PIA_CR_IRQ2 :: u8 where "PIA_CR_IRQ2 = 0x40"
definition PIA_CR_DDR_SEL :: u8 where "PIA_CR_DDR_SEL = 0x04"

lemmas pia_cr_defs = PIA_CR_IRQ1_def PIA_CR_IRQ2_def PIA_CR_DDR_SEL_def

record mc6821 =
  data_a :: u8
  ddr_a :: u8
  ctrl_a :: u8
  input_a :: u8
  data_b :: u8
  ddr_b :: u8
  ctrl_b :: u8
  input_b :: u8
  irq_a_callback :: bool
  irq_b_callback :: bool

text \<open>One invocation of \<open>irq_a_callback\<close> or \<open>irq_b_callback\<close>, with its argument.\<close>

datatype pia_irq = IrqA bool | IrqB bool

section \<open>Operations\<close>

definition mc6821_init :: mc6821 where
  "mc6821_init =
     \<lparr>data_a = 0, ddr_a = 0, ctrl_a = 0, input_a = 0xFF,
      data_b = 0, ddr_b = 0, ctrl_b = 0, input_b = 0xFF,
      irq_a_callback = False, irq_b_callback = False\<rparr>"

definition mc6821_reset :: "mc6821 \<Rightarrow> mc6821 \<times> pia_irq list" where
  "mc6821_reset pia =
     (pia\<lparr>data_a := 0, ddr_a := 0, ctrl_a := 0, input_a := 0xFF,
          data_b := 0, ddr_b := 0, ctrl_b := 0, input_b := 0xFF\<rparr>,
      (if irq_a_callback pia then [IrqA False] else []) @
      (if irq_b_callback pia then [IrqB False] else []))"

definition pia_irq_out :: "u8 \<Rightarrow> bool" where
  "pia_irq_out cr =
     (let irq1_active = tst cr PIA_CR_IRQ1 \<and> tst cr 0x01;
          irq2_active = tst cr PIA_CR_IRQ2 \<and> tst cr 0x08 \<and> \<not> tst cr 0x20
      in irq1_active \<or> irq2_active)"

definition pia_update_irq_a :: "mc6821 \<Rightarrow> pia_irq list" where
  "pia_update_irq_a pia =
     (if irq_a_callback pia then [IrqA (pia_irq_out (ctrl_a pia))] else [])"

definition pia_update_irq_b :: "mc6821 \<Rightarrow> pia_irq list" where
  "pia_update_irq_b pia =
     (if irq_b_callback pia then [IrqB (pia_irq_out (ctrl_b pia))] else [])"

definition mc6821_read :: "mc6821 \<Rightarrow> u8 \<Rightarrow> u8 \<times> mc6821 \<times> pia_irq list" where
  "mc6821_read pia reg =
     (let r = reg AND 0x03 in
      if r = 0 then
        if tst (ctrl_a pia) PIA_CR_DDR_SEL then
          let pia' = pia\<lparr>ctrl_a := ctrl_a pia AND NOT (PIA_CR_IRQ1 OR PIA_CR_IRQ2)\<rparr> in
          ((data_a pia' AND ddr_a pia') OR (input_a pia' AND NOT (ddr_a pia')),
           pia', pia_update_irq_a pia')
        else (ddr_a pia, pia, [])
      else if r = 1 then (ctrl_a pia, pia, [])
      else if r = 2 then
        if tst (ctrl_b pia) PIA_CR_DDR_SEL then
          let pia' = pia\<lparr>ctrl_b := ctrl_b pia AND NOT (PIA_CR_IRQ1 OR PIA_CR_IRQ2)\<rparr> in
          ((data_b pia' AND ddr_b pia') OR (input_b pia' AND NOT (ddr_b pia')),
           pia', pia_update_irq_b pia')
        else (ddr_b pia, pia, [])
      else if r = 3 then (ctrl_b pia, pia, [])
      else (0xFF, pia, []))"

definition mc6821_write :: "mc6821 \<Rightarrow> u8 \<Rightarrow> u8 \<Rightarrow> mc6821 \<times> pia_irq list" where
  "mc6821_write pia reg val =
     (let r = reg AND 0x03 in
      if r = 0 then
        if tst (ctrl_a pia) PIA_CR_DDR_SEL then (pia\<lparr>data_a := val\<rparr>, [])
        else (pia\<lparr>ddr_a := val\<rparr>, [])
      else if r = 1 then
        let pia' = pia\<lparr>ctrl_a := (ctrl_a pia AND 0xC0) OR (val AND 0x3F)\<rparr>
        in (pia', pia_update_irq_a pia')
      else if r = 2 then
        if tst (ctrl_b pia) PIA_CR_DDR_SEL then (pia\<lparr>data_b := val\<rparr>, [])
        else (pia\<lparr>ddr_b := val\<rparr>, [])
      else if r = 3 then
        let pia' = pia\<lparr>ctrl_b := (ctrl_b pia AND 0xC0) OR (val AND 0x3F)\<rparr>
        in (pia', pia_update_irq_b pia')
      else (pia, []))"

definition mc6821_set_input_a :: "mc6821 \<Rightarrow> u8 \<Rightarrow> mc6821" where
  "mc6821_set_input_a pia val = pia\<lparr>input_a := val\<rparr>"

definition mc6821_set_input_b :: "mc6821 \<Rightarrow> u8 \<Rightarrow> mc6821" where
  "mc6821_set_input_b pia val = pia\<lparr>input_b := val\<rparr>"

definition mc6821_ca1_transition :: "mc6821 \<Rightarrow> bool \<Rightarrow> mc6821 \<times> pia_irq list" where
  "mc6821_ca1_transition pia rising =
     (if rising = tst (ctrl_a pia) 0x02 then
        let pia' = pia\<lparr>ctrl_a := ctrl_a pia OR PIA_CR_IRQ1\<rparr>
        in (pia', pia_update_irq_a pia')
      else (pia, []))"

definition mc6821_cb1_transition :: "mc6821 \<Rightarrow> bool \<Rightarrow> mc6821 \<times> pia_irq list" where
  "mc6821_cb1_transition pia rising =
     (if rising = tst (ctrl_b pia) 0x02 then
        let pia' = pia\<lparr>ctrl_b := ctrl_b pia OR PIA_CR_IRQ1\<rparr>
        in (pia', pia_update_irq_b pia')
      else (pia, []))"

lemmas pia_op_defs =
  mc6821_reset_def mc6821_read_def mc6821_write_def mc6821_set_input_a_def
  mc6821_set_input_b_def mc6821_ca1_transition_def mc6821_cb1_transition_def
  pia_update_irq_a_def pia_update_irq_b_def

section \<open>Bitwise behaviour\<close>

lemma reg_cases: "(r :: u8) AND 3 = 0 \<or> r AND 3 = 1 \<or> r AND 3 = 2 \<or> r AND 3 = 3"
proof -
  have "r AND 3 \<le> 3" by (rule word_and_le1)
  then have "unat (r AND 3) \<le> 3" by (simp add: word_le_nat_alt)
  then have "unat (r AND 3) \<in> {0, 1, 2, 3}" by auto
  then show ?thesis by (auto simp: word_unat_eq_iff)
qed

lemma mc6821_read_data_a:
  assumes "tst (ctrl_a pia) PIA_CR_DDR_SEL"
  shows "bit (fst (mc6821_read pia 0)) n \<longleftrightarrow> (if bit (ddr_a pia) n then bit (data_a pia) n
           else bit (input_a pia) n)"
  using assms bit_imp_le_length [of "input_a pia" n]
  by (auto simp: mc6821_read_def Let_def bit_simps)

lemma mc6821_read_data_b:
  assumes "tst (ctrl_b pia) PIA_CR_DDR_SEL"
  shows "bit (fst (mc6821_read pia 2)) n \<longleftrightarrow> (if bit (ddr_b pia) n then bit (data_b pia) n
           else bit (input_b pia) n)"
  using assms bit_imp_le_length [of "input_b pia" n]
  by (auto simp: mc6821_read_def Let_def bit_simps)

section \<open>The interrupt lines report the level the control register asks for\<close>

datatype pia_op =
    PiaReset
  | PiaRead u8
  | PiaWrite u8 u8
  | PiaSetInputA u8
  | PiaSetInputB u8
  | PiaCa1 bool
  | PiaCb1 bool

fun pia_exec :: "mc6821 \<Rightarrow> pia_op \<Rightarrow> mc6821 \<times> pia_irq list" where
  "pia_exec p PiaReset = mc6821_reset p"
| "pia_exec p (PiaRead r) = snd (mc6821_read p r)"
| "pia_exec p (PiaWrite r v) = mc6821_write p r v"
| "pia_exec p (PiaSetInputA v) = (mc6821_set_input_a p v, [])"
| "pia_exec p (PiaSetInputB v) = (mc6821_set_input_b p v, [])"
| "pia_exec p (PiaCa1 e) = mc6821_ca1_transition p e"
| "pia_exec p (PiaCb1 e) = mc6821_cb1_transition p e"

fun sel_a :: "pia_irq \<Rightarrow> bool option" where
  "sel_a (IrqA l) = Some l"
| "sel_a (IrqB l) = None"

fun sel_b :: "pia_irq \<Rightarrow> bool option" where
  "sel_b (IrqA l) = None"
| "sel_b (IrqB l) = Some l"

lemma pia_irq_out_0 [simp]: "\<not> pia_irq_out 0"
  by (simp add: pia_irq_out_def)

lemma read_wired [simp]:
  "irq_a_callback (fst (snd (mc6821_read p r))) = irq_a_callback p"
  "irq_b_callback (fst (snd (mc6821_read p r))) = irq_b_callback p"
  "irq_a_callback (fst (mc6821_write p r v)) = irq_a_callback p"
  "irq_b_callback (fst (mc6821_write p r v)) = irq_b_callback p"
  "irq_a_callback (fst (mc6821_cb1_transition p e)) = irq_a_callback p"
  "irq_b_callback (fst (mc6821_cb1_transition p e)) = irq_b_callback p"
  by (simp_all add: mc6821_read_def mc6821_write_def mc6821_cb1_transition_def Let_def)

interpretation port_a: level_source pia_exec sel_a "\<lambda>p. pia_irq_out (ctrl_a p)" irq_a_callback
proof unfold_locales
  fix s :: mc6821 and x assume w: "irq_a_callback s"
  show "track_level sel_a (snd (pia_exec s x)) (pia_irq_out (ctrl_a s)) =
      pia_irq_out (ctrl_a (fst (pia_exec s x)))"
    using w by (cases x) (auto simp: pia_op_defs Let_def)
  show "irq_a_callback (fst (pia_exec s x))"
    using w by (cases x) (auto simp: pia_op_defs Let_def)
qed

interpretation port_b: level_source pia_exec sel_b "\<lambda>p. pia_irq_out (ctrl_b p)" irq_b_callback
proof unfold_locales
  fix s :: mc6821 and x assume w: "irq_b_callback s"
  show "track_level sel_b (snd (pia_exec s x)) (pia_irq_out (ctrl_b s)) =
      pia_irq_out (ctrl_b (fst (pia_exec s x)))"
    using w by (cases x) (auto simp: pia_op_defs Let_def)
  show "irq_b_callback (fst (pia_exec s x))"
    using w by (cases x) (auto simp: pia_op_defs Let_def)
qed

section \<open>Properties\<close>

text \<open>
  C12: the interrupt lines of a PIA are level-accurate. From a reset, after any sequence of
  register accesses, input changes and CA1/CB1 edges, the level last reported through
  \<open>irq_a_callback\<close> (respectively \<open>irq_b_callback\<close>) is exactly the one the control register's
  flag, enable and direction bits ask for.
\<close>

theorem pia_lines_follow_control:
  assumes "irq_a_callback p" and "irq_b_callback p"
  shows "let r = run_ops pia_exec (fst (mc6821_reset p)) ops in
         track_level sel_a (snd r) False = pia_irq_out (ctrl_a (fst r)) \<and>
         track_level sel_b (snd r) False = pia_irq_out (ctrl_b (fst r))"
proof -
  let ?p = "fst (mc6821_reset p)"
  have "irq_a_callback ?p" "irq_b_callback ?p" "ctrl_a ?p = 0" "ctrl_b ?p = 0"
    using assms by (simp_all add: mc6821_reset_def)
  then show ?thesis
    using port_a.run_reports [of ?p ops] port_b.run_reports [of ?p ops] by (simp add: Let_def)
qed

theorem pia_lines_follow_control_witness:
  "let p = mc6821_init\<lparr>irq_a_callback := True, irq_b_callback := True\<rparr>;
       r = run_ops pia_exec (fst (mc6821_reset p)) [PiaWrite 3 5, PiaCb1 False]
   in track_level sel_b (snd r) False \<and> pia_irq_out (ctrl_b (fst r))"
proof -
  let ?p = "mc6821_init\<lparr>irq_a_callback := True, irq_b_callback := True\<rparr>"
  let ?r = "run_ops pia_exec (fst (mc6821_reset ?p)) [PiaWrite 3 5, PiaCb1 False]"
  have "pia_irq_out (ctrl_b (fst ?r))"
    by (simp add: pia_op_defs pia_irq_out_def tst_def pia_cr_defs mc6821_init_def)
  then show ?thesis
    using pia_lines_follow_control [of ?p "[PiaWrite 3 5, PiaCb1 False]"] by (simp add: Let_def)
qed

text \<open>
  C39: reading a data register is the interrupt acknowledge. With the data register selected,
  a read returns output bits from the data register and input bits from the pins, clears both
  interrupt flags of that port and nothing else, and drops the port's interrupt line.
\<close>

theorem mc6821_read_acknowledges:
  assumes "tst (ctrl_a p) PIA_CR_DDR_SEL" and "tst (ctrl_b p) PIA_CR_DDR_SEL"
  shows "mc6821_read p 0 =
           ((data_a p AND ddr_a p) OR (input_a p AND NOT (ddr_a p)),
            p\<lparr>ctrl_a := ctrl_a p AND 0x3F\<rparr>, if irq_a_callback p then [IrqA False] else []) \<and>
         mc6821_read p 2 =
           ((data_b p AND ddr_b p) OR (input_b p AND NOT (ddr_b p)),
            p\<lparr>ctrl_b := ctrl_b p AND 0x3F\<rparr>, if irq_b_callback p then [IrqB False] else [])"
proof -
  have m: "(- 193 :: u8) = 63" by simp
  have off: "\<not> pia_irq_out (c AND 63)" for c
    by (simp add: pia_irq_out_def tst_def pia_cr_defs and.assoc)
  show ?thesis
    using assms by (simp add: mc6821_read_def pia_update_irq_a_def pia_update_irq_b_def pia_cr_defs m off)
qed

theorem mc6821_read_acknowledges_witness:
  "let p = mc6821_init\<lparr>ctrl_a := 0x85, ctrl_b := 0xC5, data_a := 0xF0, ddr_a := 0xFC,
             input_a := 0x0F, irq_b_callback := True\<rparr>
   in mc6821_read p 0 = (0xF3, p\<lparr>ctrl_a := 0x05\<rparr>, [])"
  using mc6821_read_acknowledges
    [of "mc6821_init\<lparr>ctrl_a := 0x85, ctrl_b := 0xC5, data_a := 0xF0, ddr_a := 0xFC,
             input_a := 0x0F, irq_b_callback := True\<rparr>"]
  by (simp add: Let_def tst_def pia_cr_defs mc6821_init_def)

end
