(* ===== verification/Sound.thy ===== *)
theory Sound
  imports CoCo_Prelude
begin

text \<open>
  The sound mixing core (\<open>src/src/core/sound.cpp\<close>) and the Orchestra-90 latches
  (\<open>src/src/core/orch90.cpp\<close>) that feed it. The file-scope variables of \<open>sound.cpp\<close> are the
  record \<open>sound\<close>; \<open>audio_level\<close> is the value last handed to \<open>hal_audio_set_level\<close>. The setters
  skip the recomputation when it would not be heard; the theorem at the end is that they never
  skip one that would.
\<close>

section \<open>State\<close>

definition SOURCE_DAC :: u8 where "SOURCE_DAC = 0"
definition SOURCE_SINGLE_BIT :: u8 where "SOURCE_SINGLE_BIT = 4"
definition SOUND_MIXER_XROAR :: u8 where "SOUND_MIXER_XROAR = 0"
definition SOUND_MIXER_MAME :: u8 where "SOUND_MIXER_MAME = 1"
definition SOUND_MIXER_COUNT :: u8 where "SOUND_MIXER_COUNT = 2"
definition SSC_BIAS :: int where "SSC_BIAS = 64"
definition MAME_IDLE :: u8 where "MAME_IDLE = 0x7E"
definition MAME_SINGLE_BIT :: nat where "MAME_SINGLE_BIT = 0xFC"

record sound =
  dac_level :: u8
  sbs_enabled :: bool
  sbs_level :: bool
  mux_enabled :: bool
  mux_source :: u8
  ext_level :: u8
  ssc_out :: u8
  mixer :: u8
  mame_mux :: u8
  audio_level :: u8

text \<open>The calibration tables, one row per source, one column per state of the single-bit pin.\<close>

definition source_gain :: "nat list list" where
  "source_gain = [[244, 154, 184], [27, 22, 27], [0, 0, 0], [0, 0, 0], [0, 0, 0]]"

definition source_offset :: "nat list list" where
  "source_offset = [[11, 10, 71], [111, 87, 128], [0, 0, 212], [0, 0, 1], [0, 0, 212]]"

section \<open>Mixing\<close>

definition xroar_level :: "sound \<Rightarrow> nat" where
  "xroar_level s =
     (let sindex = (if sbs_enabled s then if sbs_level s then 2 else 1 else 0);
          source = (if mux_enabled s then unat (mux_source s) else unat SOURCE_SINGLE_BIT);
          level = (if source = unat SOURCE_DAC then unat (dac_level s) else 0)
      in level * (source_gain ! source ! sindex) div 63 + source_offset ! source ! sindex)"

text \<open>\<open>mame_level\<close> also updates the selector it holds.\<close>

definition mame_level :: "sound \<Rightarrow> nat \<times> sound" where
  "mame_level s =
     (let s' = (if mux_enabled s
                then s\<lparr>mame_mux := (if mux_source s = SOURCE_DAC then push_bit 2 (dac_level s)
                                    else MAME_IDLE)\<rparr>
                else s);
          out = unat (mame_mux s') + (if sbs_enabled s \<and> sbs_level s then MAME_SINGLE_BIT else 0)
      in (if out > 255 then 255 else out, s'))"

definition sound_update :: "sound \<Rightarrow> sound" where
  "sound_update s =
     (let (out, s') = (if mixer s = SOUND_MIXER_MAME then mame_level s else (xroar_level s, s));
          out = out + unat (ext_level s') + unat (ssc_out s');
          out = (if out > 255 then 255 else out)
      in s'\<lparr>audio_level := of_nat out\<rparr>)"

section \<open>Operations\<close>

definition sound_reset :: "sound \<Rightarrow> sound" where
  "sound_reset s = sound_update (s\<lparr>dac_level := 0, sbs_enabled := False, sbs_level := False,
     mux_enabled := False, mux_source := SOURCE_DAC, mame_mux := MAME_IDLE\<rparr>)"

definition sound_set_mixer :: "u8 \<Rightarrow> sound \<Rightarrow> sound" where
  "sound_set_mixer m s =
     (if m \<ge> SOUND_MIXER_COUNT \<or> m = mixer s then s else sound_update (s\<lparr>mixer := m\<rparr>))"

definition sound_get_mixer :: "sound \<Rightarrow> u8" where
  "sound_get_mixer s = mixer s"

definition sound_set_dac_level :: "u8 \<Rightarrow> sound \<Rightarrow> sound" where
  "sound_set_dac_level dac6 s =
     (let s' = s\<lparr>dac_level := dac6 AND 0x3F\<rparr>
      in if mux_enabled s' \<and> mux_source s' = SOURCE_DAC then sound_update s' else s')"

definition sound_set_sbs :: "bool \<Rightarrow> bool \<Rightarrow> sound \<Rightarrow> sound" where
  "sound_set_sbs enabled level s =
     (if sbs_enabled s = enabled \<and> sbs_level s = level then s
      else sound_update (s\<lparr>sbs_enabled := enabled, sbs_level := level\<rparr>))"

definition sound_set_mux_enabled :: "bool \<Rightarrow> sound \<Rightarrow> sound" where
  "sound_set_mux_enabled enabled s =
     (if mux_enabled s = enabled then s else sound_update (s\<lparr>mux_enabled := enabled\<rparr>))"

definition sound_set_mux_source :: "u8 \<Rightarrow> sound \<Rightarrow> sound" where
  "sound_set_mux_source source s =
     (let source = source AND 0x03 in
      if mux_source s = source then s
      else let s' = s\<lparr>mux_source := source\<rparr> in if mux_enabled s' then sound_update s' else s')"

definition sound_set_external :: "u8 \<Rightarrow> u8 \<Rightarrow> sound \<Rightarrow> sound" where
  "sound_set_external left right s =
     (let level = of_nat ((unat left + unat right) div 2) in
      if ext_level s = level then s else sound_update (s\<lparr>ext_level := level\<rparr>))"

definition sound_set_ssc :: "8 word \<Rightarrow> sound \<Rightarrow> sound" where
  "sound_set_ssc level s =
     (let v = word_of_int (SSC_BIAS + sint level div 2) in
      if ssc_out s = v then s else sound_update (s\<lparr>ssc_out := v\<rparr>))"

text \<open>The variables before any call: C static initialisers.\<close>

definition sound_static :: sound where
  "sound_static = \<lparr>dac_level = 0, sbs_enabled = False, sbs_level = False, mux_enabled = False,
     mux_source = SOURCE_DAC, ext_level = 0, ssc_out = 0, mixer = SOUND_MIXER_MAME,
     mame_mux = MAME_IDLE, audio_level = 0\<rparr>"

section \<open>Orchestra-90\<close>

definition ORCH90_LEFT_ADDR :: u16 where "ORCH90_LEFT_ADDR = 0xFF7A"
definition ORCH90_RIGHT_ADDR :: u16 where "ORCH90_RIGHT_ADDR = 0xFF7B"

record orch90 =
  s_left :: u8
  s_right :: u8

definition orch90_write :: "u16 \<Rightarrow> u8 \<Rightarrow> orch90 \<times> sound \<Rightarrow> orch90 \<times> sound" where
  "orch90_write addr val os =
     (let (o', snd) = os in
      if addr = ORCH90_LEFT_ADDR then
        (let o2 = o'\<lparr>s_left := val\<rparr> in (o2, sound_set_external (s_left o2) (s_right o2) snd))
      else if addr = ORCH90_RIGHT_ADDR then
        (let o2 = o'\<lparr>s_right := val\<rparr> in (o2, sound_set_external (s_left o2) (s_right o2) snd))
      else (o', snd))"

section \<open>The level is always current\<close>

datatype sound_op =
    SndReset
  | SndMixer u8
  | SndDac u8
  | SndSbs bool bool
  | SndMuxEnabled bool
  | SndMuxSource u8
  | SndExternal u8 u8
  | SndSsc "8 word"

fun sound_exec :: "sound_op \<Rightarrow> sound \<Rightarrow> sound" where
  "sound_exec SndReset s = sound_reset s"
| "sound_exec (SndMixer m) s = sound_set_mixer m s"
| "sound_exec (SndDac d) s = sound_set_dac_level d s"
| "sound_exec (SndSbs e l) s = sound_set_sbs e l s"
| "sound_exec (SndMuxEnabled e) s = sound_set_mux_enabled e s"
| "sound_exec (SndMuxSource x) s = sound_set_mux_source x s"
| "sound_exec (SndExternal l r) s = sound_set_external l r s"
| "sound_exec (SndSsc v) s = sound_set_ssc v s"

text \<open>The selector and the level an update would leave, as functions of the settings.\<close>

definition held_mux :: "sound \<Rightarrow> u8" where
  "held_mux s =
     (if mixer s = SOUND_MIXER_MAME \<and> mux_enabled s
      then if mux_source s = SOURCE_DAC then push_bit 2 (dac_level s) else MAME_IDLE
      else mame_mux s)"

definition mixed_level :: "sound \<Rightarrow> nat" where
  "mixed_level s = min 255
     ((if mixer s = SOUND_MIXER_MAME
       then min 255 (unat (held_mux s) + (if sbs_enabled s \<and> sbs_level s then MAME_SINGLE_BIT else 0))
       else xroar_level s) + unat (ext_level s) + unat (ssc_out s))"

lemma sound_update_eq:
  "sound_update s = s\<lparr>mame_mux := held_mux s, audio_level := of_nat (mixed_level s)\<rparr>"
proof -
  have m: "(if (n :: nat) > 255 then 255 else n) = min 255 n" for n by (simp add: min_def)
  show ?thesis
    unfolding sound_update_def mame_level_def Let_def held_mux_def mixed_level_def m
    by (cases "mixer s = SOUND_MIXER_MAME"; cases "mux_enabled s") simp_all
qed

definition sound_current :: "sound \<Rightarrow> bool" where
  "sound_current s \<longleftrightarrow> mame_mux s = held_mux s \<and> unat (audio_level s) = mixed_level s"

lemma mixed_level_le: "mixed_level s \<le> 255"
  by (simp add: mixed_level_def)

lemma held_mux_upd [simp]:
  "held_mux (s\<lparr>mame_mux := held_mux s, audio_level := v\<rparr>) = held_mux s"
  by (simp add: held_mux_def)

lemma mixed_level_upd [simp]:
  "mixed_level (s\<lparr>mame_mux := held_mux s, audio_level := v\<rparr>) = mixed_level s"
  by (simp only: mixed_level_def held_mux_upd) (simp add: xroar_level_def Let_def)

lemma sound_update_current: "sound_current (sound_update s)"
  using mixed_level_le [of s]
  by (simp add: sound_current_def sound_update_eq unat_of_nat)

lemma silent_dac:
  assumes "\<not> (mux_enabled s \<and> mux_source s = SOURCE_DAC)"
  shows "held_mux (s\<lparr>dac_level := d\<rparr>) = held_mux s" "mixed_level (s\<lparr>dac_level := d\<rparr>) = mixed_level s"
proof -
  show h: "held_mux (s\<lparr>dac_level := d\<rparr>) = held_mux s" using assms by (auto simp: held_mux_def)
  have "xroar_level (s\<lparr>dac_level := d\<rparr>) = xroar_level s"
    using assms by (auto simp: xroar_level_def Let_def SOURCE_DAC_def SOURCE_SINGLE_BIT_def unat_eq_zero)
  with h show "mixed_level (s\<lparr>dac_level := d\<rparr>) = mixed_level s"
    unfolding mixed_level_def by simp
qed

lemma silent_source:
  assumes "\<not> mux_enabled s"
  shows "held_mux (s\<lparr>mux_source := d\<rparr>) = held_mux s" "mixed_level (s\<lparr>mux_source := d\<rparr>) = mixed_level s"
proof -
  show h: "held_mux (s\<lparr>mux_source := d\<rparr>) = held_mux s" using assms by (auto simp: held_mux_def)
  have "xroar_level (s\<lparr>mux_source := d\<rparr>) = xroar_level s"
    using assms by (simp add: xroar_level_def Let_def)
  with h show "mixed_level (s\<lparr>mux_source := d\<rparr>) = mixed_level s"
    unfolding mixed_level_def by simp
qed

lemma sound_exec_current: "sound_current s \<Longrightarrow> sound_current (sound_exec op s)"
  by (cases op) (auto simp: sound_reset_def sound_set_mixer_def sound_set_sbs_def
      sound_set_mux_enabled_def sound_set_mux_source_def sound_set_external_def sound_set_ssc_def
      sound_set_dac_level_def Let_def sound_update_current silent_dac silent_source
      sound_current_def [of "_\<lparr>dac_level := _\<rparr>"] sound_current_def [of "_\<lparr>mux_source := _\<rparr>"]
      sound_current_def [of s])

text \<open>The source stays one of the four mux inputs and the DAC level stays below 64.\<close>

definition sound_wf :: "sound \<Rightarrow> bool" where
  "sound_wf s \<longleftrightarrow> unat (mux_source s) < 4 \<and> unat (dac_level s) < 64"

lemma unat_and_mask3: "unat ((x :: u8) AND 0x03) < 4"
proof -
  have "x AND 3 = take_bit 2 x" by (simp add: take_bit_eq_mask mask_eq_exp_minus_1)
  then show ?thesis by (simp only: unsigned_take_bit_eq) (simp add: take_bit_eq_mod)
qed

lemma unat_and_mask3F: "unat ((x :: u8) AND 0x3F) < 64"
proof -
  have "x AND 63 = take_bit 6 x" by (simp add: take_bit_eq_mask mask_eq_exp_minus_1)
  then show ?thesis by (simp only: unsigned_take_bit_eq) (simp add: take_bit_eq_mod)
qed

lemma sound_wf_update [simp]: "sound_wf (sound_update s) = sound_wf s"
  by (simp add: sound_update_eq sound_wf_def)

lemma sound_exec_wf: "sound_wf s \<Longrightarrow> sound_wf (sound_exec op s)"
  by (cases op) (auto simp: sound_reset_def sound_set_mixer_def sound_set_sbs_def
      sound_set_mux_enabled_def sound_set_mux_source_def sound_set_external_def sound_set_ssc_def
      sound_set_dac_level_def Let_def sound_wf_def sound_update_eq unat_and_mask3 unat_and_mask3F SOURCE_DAC_def)

lemma sound_static_current: "sound_current (sound_reset sound_static)"
  by (simp add: sound_reset_def sound_update_current)

lemma sound_static_wf: "sound_wf (sound_reset sound_static)"
  by (simp add: sound_reset_def sound_wf_def sound_update_eq SOURCE_DAC_def)

lemma sound_run:
  "sound_current s \<and> sound_wf s \<Longrightarrow>
   sound_current (fold sound_exec ops s) \<and> sound_wf (fold sound_exec ops s)"
  by (induction ops arbitrary: s) (auto simp: sound_exec_current sound_exec_wf)

text \<open>Neither table row overflows a byte: the XRoar mixer needs no clamp of its own.\<close>

lemma xroar_level_le:
  assumes "sound_wf s"
  shows "xroar_level s \<le> 255"
proof -
  have src: "unat (mux_source s) \<in> {0, 1, 2, 3}" using assms by (auto simp: sound_wf_def)
  have d: "unat (dac_level s) \<le> 63" using assms by (simp add: sound_wf_def)
  have g: "unat (dac_level s) * k div 63 \<le> k" for k
    using div_le_mono [OF mult_le_mono1 [OF d], of k 63] by simp
  show ?thesis
    using src g [of 244] g [of 154] g [of 184]
    by (auto simp: xroar_level_def Let_def source_gain_def source_offset_def SOURCE_DAC_def
        SOURCE_SINGLE_BIT_def)
qed

text \<open>
  C36: The sound output is always current. From \<open>sound_reset\<close> at start-up, after any sequence of
  the setters, in either mixer, the level last sent to the audio hardware is the level the
  settings give now, although the setters skip the update when they judge it inaudible; the
  XRoar tables stay within a byte.
\<close>

theorem sound_output_current:
  "let s = fold sound_exec ops (sound_reset sound_static) in
     sound_update s = s \<and> unat (audio_level s) = mixed_level s \<and> xroar_level s \<le> 255"
proof -
  let ?s = "fold sound_exec ops (sound_reset sound_static)"
  have c: "sound_current ?s" and w: "sound_wf ?s"
    using sound_run sound_static_current sound_static_wf by auto
  have "of_nat (unat (audio_level ?s)) = audio_level ?s" by simp
  then have "of_nat (mixed_level ?s) = audio_level ?s"
    using c unfolding sound_current_def by metis
  then have "sound_update ?s = ?s" using c by (simp add: sound_update_eq sound_current_def)
  with c xroar_level_le [OF w] show ?thesis by (simp add: sound_current_def Let_def)
qed

lemma sound_reset_ok: "sound_current (sound_reset s)" "sound_wf (sound_reset s)"
  by (simp add: sound_reset_def sound_update_current)
    (simp only: sound_reset_def sound_wf_update, simp add: sound_wf_def SOURCE_DAC_def)

end
