(* ===== verification/Machine_Base.thy ===== *)
theory Machine_Base
  imports Mc6809_Run Mc6809_Keeps Mc6809_Stack Mc6821 Sound
begin

text \<open>
  What the CoCo 2 and the CoCo 3 halves of \<open>src/src/core/machine.cpp\<close> share: the part of the C
  struct \<open>Machine\<close> both use, the sound and joystick wiring, the peripherals behind the I/O page,
  and the virtual hard disk of \<open>src/src/core/vhd.cpp\<close>. The machine record extends the CPU record,
  so that the CPU's callbacks are functions on the whole machine.

  Peripherals that \<open>machine.cpp\<close> only calls (disk controller, Becker port, RS-232 pak,
  speech/sound cartridge, image files, keyboard, joystick, video and audio output) are a record of
  operations \<open>devices\<close> over a state \<open>'p\<close> of their own; the disk controller reaches the CPU
  through its NMI and HALT callbacks, which come back as \<open>fdc_signal\<close> events. The pointer
  \<open>g_machine\<close> is taken as set.

  A hard-disk command moves its sector with \<open>machine_read\<close> and \<open>machine_write\<close>, so a buffer that
  covers the command port runs another command inside the first. \<open>stack_depth\<close> is the number of
  such nested commands the C stack has room for; running past it sets \<open>stack_overflow\<close>.
\<close>

section \<open>State\<close>

record 'p devices =
  hal_keyboard_scan :: "nat \<Rightarrow> 'p \<Rightarrow> u8"
  hal_joystick_read_button :: "nat \<Rightarrow> 'p \<Rightarrow> bool"
  hal_joystick_update :: "'p \<Rightarrow> 'p"
  hal_joystick_read_axis :: "nat \<Rightarrow> nat \<Rightarrow> 'p \<Rightarrow> u8"
  hal_video_render_scanline :: "u32 \<Rightarrow> u8 list \<Rightarrow> 'p \<Rightarrow> 'p"
  hal_audio_capture_scanline :: "'p \<Rightarrow> 'p"
  hal_audio_commit_frame :: "'p \<Rightarrow> 'p"
  hal_video_present :: "(nat \<Rightarrow> u8) \<Rightarrow> u16 \<Rightarrow> u8 \<Rightarrow> 'p \<Rightarrow> 'p"
  becker_enabled :: "'p \<Rightarrow> bool"
  becker_read_status :: "'p \<Rightarrow> u8 \<times> 'p"
  becker_read_data :: "'p \<Rightarrow> u8 \<times> 'p"
  becker_write_data :: "u8 \<Rightarrow> 'p \<Rightarrow> 'p"
  becker_scanline_tick :: "'p \<Rightarrow> 'p"
  sv_disk_read :: "u16 \<Rightarrow> 'p \<Rightarrow> u8 \<times> 'p \<times> fdc_signal list"
  sv_disk_write :: "u16 \<Rightarrow> u8 \<Rightarrow> 'p \<Rightarrow> 'p \<times> fdc_signal list"
  sv_disk_tick :: "'p \<Rightarrow> 'p \<times> fdc_signal list"
  rs232_pak_enabled :: "'p \<Rightarrow> bool"
  rs232_read :: "u8 \<Rightarrow> 'p \<Rightarrow> u8 \<times> 'p"
  rs232_write :: "u8 \<Rightarrow> u8 \<Rightarrow> 'p \<Rightarrow> 'p"
  rs232_tick :: "u32 \<Rightarrow> 'p \<Rightarrow> 'p"
  rs232_irq_active :: "'p \<Rightarrow> bool"
  orch90_enabled :: "'p \<Rightarrow> bool"
  ssc_enabled :: "'p \<Rightarrow> bool"
  ssc_read :: "u16 \<Rightarrow> 'p \<Rightarrow> u8 \<times> 'p"
  ssc_write :: "u16 \<Rightarrow> u8 \<Rightarrow> 'p \<Rightarrow> 'p"
  ssc_scanline_tick :: "'p \<Rightarrow> 'p"
  vhd_enabled :: "'p \<Rightarrow> bool"
  blockfile_is_open :: "nat \<Rightarrow> 'p \<Rightarrow> bool"
  blockfile_read_only :: "nat \<Rightarrow> 'p \<Rightarrow> bool"
  blockfile_read :: "nat \<Rightarrow> u32 \<Rightarrow> 'p \<Rightarrow> u8 list \<times> 'p"
  blockfile_write :: "nat \<Rightarrow> u32 \<Rightarrow> u8 list \<Rightarrow> 'p \<Rightarrow> nat \<times> 'p"
  blockfile_flush :: "nat \<Rightarrow> 'p \<Rightarrow> 'p"
  stack_depth :: nat

record vhd =
  s_offset :: u32
  s_buf_addr :: u16
  s_drive_sel :: u8
  s_status :: u8
  s_sector :: "u8 list"

record 'p machine = mc6809 +
  pia0 :: mc6821
  pia1 :: mc6821
  snd_core :: sound
  orch :: orch90
  vhd_dev :: vhd
  stack_overflow :: bool
  cycles_per_frame :: u32
  cycles_this_frame :: u32
  m_scanline :: u32
  scanline_cycle_targets :: "nat \<Rightarrow> u16"
  initialized :: bool
  cart_inserted :: bool
  cart_autostart :: bool
  ntsc :: bool
  frame_count :: u32
  last_joy_scanline :: u32
  dev :: 'p

definition CYCLES_PER_FRAME :: u32 where "CYCLES_PER_FRAME = 14916"
definition ACTIVE_SCANLINES :: u32 where "ACTIVE_SCANLINES = 192"

section \<open>Wiring\<close>

fun fdc_apply :: "fdc_signal \<Rightarrow> ('p, 'z) machine_scheme \<Rightarrow> ('p, 'z) machine_scheme" where
  "fdc_apply (FdcNmi active) m = mc6809_nmi active m"
| "fdc_apply (FdcHalt h) m = m\<lparr>halted := h\<rparr>"

definition sound_pia0_written :: "u8 \<Rightarrow> ('p, 'z) machine_scheme \<Rightarrow> ('p, 'z) machine_scheme" where
  "sound_pia0_written reg m =
     (if reg = 1 \<or> reg = 3 then
        m\<lparr>snd_core := sound_set_mux_source
            (drop_bit 2 (ctrl_b (pia0 m) AND 0x08) OR drop_bit 3 (ctrl_a (pia0 m) AND 0x08)) (snd_core m)\<rparr>
      else m)"

definition sound_pia1_written :: "u8 \<Rightarrow> ('p, 'z) machine_scheme \<Rightarrow> ('p, 'z) machine_scheme" where
  "sound_pia1_written reg m =
     (let m = (if reg = 0 \<or> reg = 1 then
                 let pa = data_a (pia1 m) AND ddr_a (pia1 m) in
                 m\<lparr>snd_core := sound_set_dac_level (drop_bit 2 pa AND 0x3F) (snd_core m)\<rparr>
               else m)
      in if reg = 2 \<or> reg = 3 then
           let m = m\<lparr>snd_core := sound_set_sbs (tst (ddr_b (pia1 m)) 0x02) (tst (data_b (pia1 m)) 0x02)
                       (snd_core m)\<rparr>
           in if reg = 3 then
                m\<lparr>snd_core := sound_set_mux_enabled (tst (ctrl_b (pia1 m)) 0x08) (snd_core m)\<rparr>
              else m
         else m)"

text \<open>The keyboard and joystick wiring of a PIA0 port A read.\<close>

definition joy_refresh :: "'p devices \<Rightarrow> ('p, 'z) machine_scheme \<Rightarrow> ('p, 'z) machine_scheme" where
  "joy_refresh D m =
     (let joy_slot = drop_bit 4 (m_scanline m) in
      if joy_slot \<noteq> last_joy_scanline m
      then m\<lparr>last_joy_scanline := joy_slot, dev := hal_joystick_update D (dev m)\<rparr>
      else m)"

definition kbd_rows :: "'p devices \<Rightarrow> ('p, 'z) machine_scheme \<Rightarrow> u8" where
  "kbd_rows D m =
     (let col_select = data_b (pia0 m) AND ddr_b (pia0 m);
          row_data = fold (\<lambda>col r. if \<not> tst col_select (push_bit col 1)
                                   then r AND hal_keyboard_scan D col (dev m) else r) [0..<8] 0xFF;
          row_data = (if hal_joystick_read_button D 0 (dev m) then row_data AND NOT 0x01 else row_data)
      in if hal_joystick_read_button D 1 (dev m) then row_data AND NOT 0x02 else row_data)"

definition joy_compare :: "'p devices \<Rightarrow> ('p, 'z) machine_scheme \<Rightarrow> bool" where
  "joy_compare D m =
     (let joy_port = unat (drop_bit 3 (ctrl_b (pia0 m) AND 0x08));
          joy_axis = unat (drop_bit 3 (ctrl_a (pia0 m) AND 0x08));
          dac_value = uint (data_a (pia1 m) AND ddr_a (pia1 m) AND 0xFC) + 2;
          js_value = uint (hal_joystick_read_axis D joy_port joy_axis (dev m)) * 4 + 2
      in js_value \<ge> dac_value)"

definition scan_inputs :: "'p devices \<Rightarrow> ('p, 'z) machine_scheme \<Rightarrow> ('p, 'z) machine_scheme" where
  "scan_inputs D m =
     (let row_data = kbd_rows D m;
          m = joy_refresh D m;
          row_data = (if joy_compare D m then row_data OR 0x80 else row_data AND NOT 0x80)
      in m\<lparr>pia0 := mc6821_set_input_a (pia0 m) row_data\<rparr>)"

text \<open>A peripheral access: run it on the device state, deliver the disk controller's signals.\<close>

definition dev_read :: "('p \<Rightarrow> u8 \<times> 'p) \<Rightarrow> ('p, 'z) machine_scheme \<Rightarrow> u8 \<times> ('p, 'z) machine_scheme" where
  "dev_read f m = (let (v, d) = f (dev m) in (v, m\<lparr>dev := d\<rparr>))"

definition dev_write :: "('p \<Rightarrow> 'p) \<Rightarrow> ('p, 'z) machine_scheme \<Rightarrow> ('p, 'z) machine_scheme" where
  "dev_write f m = m\<lparr>dev := f (dev m)\<rparr>"

definition fdc_read :: "'p devices \<Rightarrow> u16 \<Rightarrow> ('p, 'z) machine_scheme \<Rightarrow> u8 \<times> ('p, 'z) machine_scheme" where
  "fdc_read D addr m =
     (let (v, d, sigs) = sv_disk_read D addr (dev m) in (v, fold fdc_apply sigs (m\<lparr>dev := d\<rparr>)))"

definition fdc_write :: "'p devices \<Rightarrow> u16 \<Rightarrow> u8 \<Rightarrow> ('p, 'z) machine_scheme \<Rightarrow> ('p, 'z) machine_scheme" where
  "fdc_write D addr val m =
     (let (d, sigs) = sv_disk_write D addr val (dev m) in fold fdc_apply sigs (m\<lparr>dev := d\<rparr>))"

definition fdc_tick :: "'p devices \<Rightarrow> ('p, 'z) machine_scheme \<Rightarrow> ('p, 'z) machine_scheme" where
  "fdc_tick D m = (let (d, sigs) = sv_disk_tick D (dev m) in fold fdc_apply sigs (m\<lparr>dev := d\<rparr>))"

definition BECKER_STATUS_ADDR :: u16 where "BECKER_STATUS_ADDR = 0xFF41"
definition BECKER_DATA_ADDR :: u16 where "BECKER_DATA_ADDR = 0xFF42"
definition SSC_CTRL_ADDR :: u16 where "SSC_CTRL_ADDR = 0xFF7D"

definition vhd_is_port :: "u16 \<Rightarrow> bool" where
  "vhd_is_port addr \<longleftrightarrow> addr \<ge> 0xFF80 \<and> addr \<le> 0xFF86"

text \<open>A machine with nothing plugged in.\<close>

definition null_devices :: "unit devices" where
  "null_devices =
     \<lparr>hal_keyboard_scan = (\<lambda>_ _. 0xFF), hal_joystick_read_button = (\<lambda>_ _. False),
      hal_joystick_update = id, hal_joystick_read_axis = (\<lambda>_ _ _. 128),
      hal_video_render_scanline = (\<lambda>_ _ d. d), hal_audio_capture_scanline = id,
      hal_audio_commit_frame = id, hal_video_present = (\<lambda>_ _ _ d. d),
      becker_enabled = (\<lambda>_. False), becker_read_status = (\<lambda>d. (0, d)), becker_read_data = (\<lambda>d. (0, d)),
      becker_write_data = (\<lambda>_ d. d), becker_scanline_tick = id,
      sv_disk_read = (\<lambda>_ d. (0xFF, d, [])), sv_disk_write = (\<lambda>_ _ d. (d, [])), sv_disk_tick = (\<lambda>d. (d, [])),
      rs232_pak_enabled = (\<lambda>_. False), rs232_read = (\<lambda>_ d. (0, d)), rs232_write = (\<lambda>_ _ d. d),
      rs232_tick = (\<lambda>_ d. d), rs232_irq_active = (\<lambda>_. False), orch90_enabled = (\<lambda>_. False),
      ssc_enabled = (\<lambda>_. False), ssc_read = (\<lambda>_ d. (0, d)), ssc_write = (\<lambda>_ _ d. d), ssc_scanline_tick = id,
      vhd_enabled = (\<lambda>_. False), blockfile_is_open = (\<lambda>_ _. False), blockfile_read_only = (\<lambda>_ _. True),
      blockfile_read = (\<lambda>_ _ d. ([], d)), blockfile_write = (\<lambda>_ _ _ d. (0, d)), blockfile_flush = (\<lambda>_ d. d),
      stack_depth = 0\<rparr>"

section \<open>ROM images\<close>

definition cart_rom_autostarts :: "(nat \<Rightarrow> u8) \<Rightarrow> bool" where
  "cart_rom_autostarts rom \<longleftrightarrow> \<not> (rom 0 = 0x44 \<and> rom 1 = 0x4B)"

text \<open>A file read into a buffer of \<open>n\<close> bytes; \<open>None\<close> is a missing file.\<close>

definition load_into :: "u8 list option \<Rightarrow> nat \<Rightarrow> (nat \<Rightarrow> u8) \<Rightarrow> (nat \<Rightarrow> u8)" where
  "load_into f n buf = (case f of None \<Rightarrow> buf
     | Some bs \<Rightarrow> (\<lambda>i. if i < min n (length bs) then bs ! i else buf i))"

section \<open>Scanlines\<close>

text \<open>The CPU selected by \<open>variant\<close>. The HD6309 interpreter is an argument.\<close>

definition mc6809_run_variant ::
  "(int \<Rightarrow> 'm mc6809_scheme \<Rightarrow> (int \<times> 'm mc6809_scheme) option) \<Rightarrow> 'm cpu_bus \<Rightarrow> int \<Rightarrow> 'm mc6809_scheme \<Rightarrow>
   (int \<times> 'm mc6809_scheme) option" where
  "mc6809_run_variant hd6309_run b budget m =
     (if variant m = 1 then hd6309_run budget m else mc6809_run b budget m)"

text \<open>Cycles left to the target of the current line, at least one.\<close>

definition line_budget :: "('p, 'z) machine_scheme \<Rightarrow> int" where
  "line_budget m =
     (let n = sint ((ucast (scanline_cycle_targets m (unat (m_scanline m))) :: u32) - cycles_this_frame m)
      in if n < 1 then 1 else n)"

definition line_targets :: "u32 \<Rightarrow> (nat \<Rightarrow> u16) \<Rightarrow> (nat \<Rightarrow> u16)" where
  "line_targets per_frame old = (\<lambda>i. if i < SCANLINES_PER_FRAME
     then ucast ((of_nat (i + 1) * per_frame) div of_nat SCANLINES_PER_FRAME) else old i)"

text \<open>The frame loop over \<open>n\<close> lines; \<open>None\<close> is a line that does not return.\<close>

primrec for_lines :: "('m \<Rightarrow> 'm option) \<Rightarrow> nat \<Rightarrow> 'm \<Rightarrow> 'm option" where
  "for_lines line 0 m = Some m"
| "for_lines line (Suc n) m = Option.bind (for_lines line n m) line"

text \<open>What the frame loop does after each line.\<close>

definition line_ticks :: "'p devices \<Rightarrow> ('p, 'z) machine_scheme \<Rightarrow> ('p, 'z) machine_scheme" where
  "line_ticks D m =
     (let d = becker_scanline_tick D (dev m);
          d = (if ssc_enabled D d then ssc_scanline_tick D d else d)
      in m\<lparr>dev := hal_audio_capture_scanline D d\<rparr>)"

section \<open>Virtual hard disk\<close>

definition VHD_ST_OK :: u8 where "VHD_ST_OK = 0x00"
definition VHD_ST_PWRUP :: u8 where "VHD_ST_PWRUP = 0xFF"
definition VHD_ST_INVALID :: u8 where "VHD_ST_INVALID = 0xFE"
definition VHD_ST_NODISK :: u8 where "VHD_ST_NODISK = 0x04"
definition VHD_ST_WPROT :: u8 where "VHD_ST_WPROT = 0x05"
definition VHD_MAX_BYTES :: u32 where "VHD_MAX_BYTES = 512 * 1024 * 1024"

definition vhd_status :: "u8 \<Rightarrow> ('p, 'z) machine_scheme \<Rightarrow> ('p, 'z) machine_scheme" where
  "vhd_status st m = m\<lparr>vhd_dev := (vhd_dev m)\<lparr>s_status := st\<rparr>\<rparr>"

text \<open>The drive is chosen when a command starts; offset, buffer address, sector buffer and status are
  shared with any command nested in its memory accesses.\<close>

definition cmd_read ::
  "'p devices \<Rightarrow> (u16 \<Rightarrow> u8 \<Rightarrow> ('p, 'z) machine_scheme \<Rightarrow> ('p, 'z) machine_scheme) \<Rightarrow> nat \<Rightarrow>
   ('p, 'z) machine_scheme \<Rightarrow> ('p, 'z) machine_scheme" where
  "cmd_read D wr bf m =
     (if s_offset (vhd_dev m) \<ge> VHD_MAX_BYTES then vhd_status VHD_ST_NODISK m
      else
        let (got, d) = blockfile_read D bf (s_offset (vhd_dev m)) (dev m);
            sector = take 256 (got @ replicate 256 0);
            m = m\<lparr>dev := d, vhd_dev := (vhd_dev m)\<lparr>s_sector := sector\<rparr>\<rparr>;
            m = fold (\<lambda>i m. wr (s_buf_addr (vhd_dev m) + of_nat i) (s_sector (vhd_dev m) ! i) m) [0..<256] m
        in vhd_status VHD_ST_OK m)"

definition cmd_write ::
  "'p devices \<Rightarrow> (u16 \<Rightarrow> ('p, 'z) machine_scheme \<Rightarrow> u8 \<times> ('p, 'z) machine_scheme) \<Rightarrow> nat \<Rightarrow>
   ('p, 'z) machine_scheme \<Rightarrow> ('p, 'z) machine_scheme" where
  "cmd_write D rd bf m =
     (if s_offset (vhd_dev m) \<ge> VHD_MAX_BYTES then vhd_status VHD_ST_NODISK m
      else if blockfile_read_only D bf (dev m) then vhd_status VHD_ST_WPROT m
      else
        let m = fold (\<lambda>i m. let (v, m) = rd (s_buf_addr (vhd_dev m) + of_nat i) m in
                  m\<lparr>vhd_dev := (vhd_dev m)\<lparr>s_sector := (s_sector (vhd_dev m))[i := v]\<rparr>\<rparr>) [0..<256] m;
            (wrote, d) = blockfile_write D bf (s_offset (vhd_dev m)) (s_sector (vhd_dev m)) (dev m)
        in vhd_status (if wrote = 256 then VHD_ST_OK else VHD_ST_NODISK) (m\<lparr>dev := d\<rparr>))"

definition vhd_command ::
  "'p devices \<Rightarrow> (u16 \<Rightarrow> ('p, 'z) machine_scheme \<Rightarrow> u8 \<times> ('p, 'z) machine_scheme) \<Rightarrow>
   (u16 \<Rightarrow> u8 \<Rightarrow> ('p, 'z) machine_scheme \<Rightarrow> ('p, 'z) machine_scheme) \<Rightarrow> u8 \<Rightarrow>
   ('p, 'z) machine_scheme \<Rightarrow> ('p, 'z) machine_scheme" where
  "vhd_command D rd wr cmd m =
     (let bf = unat (s_drive_sel (vhd_dev m)) in
      if \<not> blockfile_is_open D bf (dev m) then vhd_status VHD_ST_NODISK m
      else if cmd = 0 then cmd_read D wr bf m
      else if cmd = 1 then cmd_write D rd bf m
      else if cmd = 2 then
        m\<lparr>dev := blockfile_flush D bf (dev m),
          vhd_dev := (vhd_dev m)\<lparr>s_offset := 0, s_buf_addr := 0, s_status := VHD_ST_OK\<rparr>\<rparr>
      else vhd_status VHD_ST_INVALID m)"

definition vhd_read :: "u16 \<Rightarrow> vhd \<Rightarrow> u8" where
  "vhd_read addr h =
     (let r = addr - 0xFF80 in
      if r = 0 then ucast (drop_bit 24 (s_offset h))
      else if r = 1 then ucast (drop_bit 16 (s_offset h))
      else if r = 2 then ucast (drop_bit 8 (s_offset h))
      else if r = 3 then s_status h
      else if r = 4 then ucast (drop_bit 8 (s_buf_addr h))
      else if r = 5 then ucast (s_buf_addr h)
      else if r = 6 then s_drive_sel h
      else 0xFF)"

text \<open>The port writes other than the command.\<close>

definition vhd_write_reg :: "u16 \<Rightarrow> u8 \<Rightarrow> vhd \<Rightarrow> vhd" where
  "vhd_write_reg r val h =
     (if r = 0 then h\<lparr>s_offset := (s_offset h AND 0x00FFFF00) OR push_bit 24 (ucast val)\<rparr>
      else if r = 1 then h\<lparr>s_offset := (s_offset h AND 0xFF00FF00) OR push_bit 16 (ucast val)\<rparr>
      else if r = 2 then h\<lparr>s_offset := (s_offset h AND 0xFFFF0000) OR push_bit 8 (ucast val)\<rparr>
      else if r = 4 then h\<lparr>s_buf_addr := (s_buf_addr h AND 0x00FF) OR push_bit 8 (ucast val)\<rparr>
      else if r = 5 then h\<lparr>s_buf_addr := (s_buf_addr h AND 0xFF00) OR ucast val\<rparr>
      else if r = 6 then (if val < 2 then h\<lparr>s_drive_sel := val\<rparr> else h)
      else h)"

definition vhd_write ::
  "'p devices \<Rightarrow> (u16 \<Rightarrow> ('p, 'z) machine_scheme \<Rightarrow> u8 \<times> ('p, 'z) machine_scheme) \<Rightarrow>
   (u16 \<Rightarrow> u8 \<Rightarrow> ('p, 'z) machine_scheme \<Rightarrow> ('p, 'z) machine_scheme) \<Rightarrow> u16 \<Rightarrow> u8 \<Rightarrow>
   ('p, 'z) machine_scheme \<Rightarrow> ('p, 'z) machine_scheme" where
  "vhd_write D rd wr addr val m =
     (let r = addr - 0xFF80 in
      if r = 3 then vhd_command D rd wr val m
      else m\<lparr>vhd_dev := vhd_write_reg r val (vhd_dev m)\<rparr>)"

section \<open>Frames\<close>

text \<open>
  The peripherals reach the CPU only through its interrupt lines and \<open>halted\<close>: a part \<open>f\<close> of the
  state that these four fields do not affect is untouched by the disk controller's signals.
\<close>

lemma fold_frame: "(\<And>x s. x \<in> set xs \<Longrightarrow> f (g x s) = f s) \<Longrightarrow> f (fold g xs s) = f s"
  by (induction xs arbitrary: s) auto

lemma cycles_nmi [frame_simps]: "cycles (mc6809_nmi a m) = cycles m"
  by (simp add: mc6809_nmi_def Let_def)

lemma cycles_fdc_apply [frame_simps]: "cycles (fdc_apply e m) = cycles m"
  by (cases e) (simp_all add: cycles_nmi)

lemma cycles_fdc [frame_simps]:
  "cycles (snd (fdc_read D a m)) = cycles m" "cycles (fdc_write D a v m) = cycles m"
  "cycles (fdc_tick D m) = cycles m"
  by (simp_all add: fdc_read_def fdc_write_def fdc_tick_def case_prod_unfold Let_def
      fold_frame [of _ cycles, OF cycles_fdc_apply])

lemma cycles_dev [frame_simps]:
  "cycles (snd (dev_read f m)) = cycles m" "cycles (dev_write g m) = cycles m"
  "cycles (vhd_status st m) = cycles m" "cycles (scan_inputs D m) = cycles m"
  "cycles (sound_pia0_written reg m) = cycles m" "cycles (sound_pia1_written reg m) = cycles m"
  by (simp_all add: dev_read_def dev_write_def vhd_status_def scan_inputs_def joy_refresh_def
      sound_pia0_written_def sound_pia1_written_def Let_def case_prod_unfold)

lemma cycles_vhd_write:
  assumes rd: "\<And>a m. cycles (snd (rd a m)) = cycles m" and wr: "\<And>a v m. cycles (wr a v m) = cycles m"
  shows "cycles (vhd_write D rd wr addr val m) = cycles m"
proof -
  have r: "cycles (cmd_read D wr bf m) = cycles m" for bf m
    by (simp add: cmd_read_def Let_def case_prod_unfold frame_simps fold_frame [of _ cycles] wr)
  have w: "cycles (cmd_write D rd bf m) = cycles m" for bf m
    by (simp add: cmd_write_def Let_def case_prod_unfold frame_simps fold_frame [of _ cycles] rd)
  show ?thesis
    by (simp add: vhd_write_def vhd_command_def Let_def frame_simps r w)
qed

text \<open>The part of the machine only the frame loop changes.\<close>

type_synonym timing_state = "u32 \<times> u32 \<times> u32 \<times> (nat \<Rightarrow> u16) \<times> bool \<times> u8 \<times> u32"

definition timing :: "('p, 'z) machine_scheme \<Rightarrow> timing_state" where
  "timing m = (cycles_per_frame m, cycles_this_frame m, m_scanline m, scanline_cycle_targets m,
     initialized m, variant m, frame_count m)"

section \<open>CPU reset\<close>

text \<open>The addresses of the vectors, and where the address decoders of the two machines put them.\<close>

definition cpu_vectors :: "u16 set" where
  "cpu_vectors = {0xFFF2, 0xFFF3, 0xFFF4, 0xFFF5, 0xFFF6, 0xFFF7, 0xFFF8, 0xFFF9,
     0xFFFA, 0xFFFB, 0xFFFC, 0xFFFD, 0xFFFE, 0xFFFF}"

lemma vector_address:
  assumes "a \<in> cpu_vectors"
  shows "0xFFE0 \<le> a" and "a AND 0xFFFC \<noteq> 0xFF68" and "\<not> a - SSC_CTRL_ADDR < 2"
    and "0xFFF0 \<le> a" and "\<not> a - 0xA000 < 0x2000"
  using assms unfolding cpu_vectors_def SSC_CTRL_ADDR_def insert_iff empty_iff
  by (elim disjE; simp)+

text \<open>The CPU part of reset.\<close>

definition cpu_reset_regs :: "'m mc6809_scheme \<Rightarrow> 'm mc6809_scheme" where
  "cpu_reset_regs s = s\<lparr>r_dp := 0, r_cc := MC6809_FLAG_I OR MC6809_FLAG_F, halted := False,
       wait_for_interrupt := False, cwai_state := False, nmi_armed := False,
       nmi_line := False, nmi_pending := False, firq_pending := False, irq_pending := False,
       r_md := 0, tfm_busy := False, cycles := 0\<rparr>"

lemma cpu_reset_vector:
  assumes "read_cb m"
    and "run_state (mem_read B 0xFFFE) (cpu_reset_regs m) = (hi, cpu_reset_regs m)"
    and "run_state (mem_read B 0xFFFF) (cpu_reset_regs m) = (lo, cpu_reset_regs m)"
  shows "snd (run_state (mc6809_reset B) m) = (cpu_reset_regs m)\<lparr>r_pc := pack16 hi lo\<rparr>"
proof -
  have "run_state (mc6809_reset B) m =
      (let m' = cpu_reset_regs m in run_state (do { wired \<leftarrow> gets read_cb;
         if wired then jump_vector B MC6809_VEC_RESET else modify (\<lambda>s. s\<lparr>r_pc := 0\<rparr>) }) m')"
    by (simp add: mc6809_reset_def cpu_reset_regs_def)
  moreover have "read_cb (cpu_reset_regs m)" using assms(1) by (simp add: cpu_reset_regs_def)
  ultimately show ?thesis
    using assms(2,3) by (simp add: jump_vector_def mem_read16_def MC6809_VEC_RESET_def State_Monad.return_def)
qed

end
