(* ===== verification/Sam6883.thy ===== *)
theory Sam6883
  imports CoCo_Prelude
begin

text \<open>
  The SAM address multiplexer of \<open>src/src/core/sam6883.{h,cpp}\<close>: the 16-bit register behind
  the set/clear address pairs, the fields derived from it, and the running VDG address counter
  with its divide-by-X/Y logic. The lemmas show that the derived fields always follow the
  register, that a write changes exactly one register bit, and that the counter, driven as the
  machine drives it (a fetch and a horizontal sync per line), gives every scanline the row
  address of the mode's documented geometry.
\<close>

section \<open>State and operations\<close>

record sam6883 =
  sam_reg :: u16
  vdg_base :: u16
  vdg_mode :: u8
  mem_size :: u8
  sam_ty :: bool
  page1 :: bool
  vdg_address :: u16
  vdg_xcount :: int
  vdg_ycount :: int
  vdg_mod_xdiv :: int
  vdg_mod_ydiv :: int
  vdg_mod_add :: int
  vdg_mod_clear :: u16

definition vdg_mod_xdivs :: "int list" where "vdg_mod_xdivs = [1, 3, 1, 2, 1, 1, 1, 1]"
definition vdg_mod_ydivs :: "int list" where "vdg_mod_ydivs = [12, 1, 3, 1, 2, 1, 1, 1]"
definition vdg_mod_adds :: "int list" where "vdg_mod_adds = [16, 8, 16, 8, 16, 8, 16, 0]"
definition vdg_mod_clears :: "u16 list" where
  "vdg_mod_clears = [NOT 30, NOT 14, NOT 30, NOT 14, NOT 30, NOT 14, NOT 30, NOT 0]"

definition update_from_register :: "sam6883 \<Rightarrow> sam6883" where
  "update_from_register sam =
     (let mode = ucast (sam_reg sam AND 0x07) in
      sam\<lparr>vdg_mode := mode,
          vdg_base := push_bit 6 (sam_reg sam AND 0x03F8),
          vdg_mod_xdiv := vdg_mod_xdivs ! unat mode,
          vdg_mod_ydiv := vdg_mod_ydivs ! unat mode,
          vdg_mod_add := vdg_mod_adds ! unat mode,
          vdg_mod_clear := vdg_mod_clears ! unat mode,
          page1 := tst (drop_bit 10 (sam_reg sam)) 1,
          mem_size := ucast (drop_bit 13 (sam_reg sam) AND 0x03),
          sam_ty := tst (drop_bit 15 (sam_reg sam)) 1\<rparr>)"

definition sam6883_init :: sam6883 where
  "sam6883_init =
     \<lparr>sam_reg = 0, vdg_base = 0, vdg_mode = 0, mem_size = 0, sam_ty = False, page1 = False,
      vdg_address = 0, vdg_xcount = 0, vdg_ycount = 0, vdg_mod_xdiv = 0, vdg_mod_ydiv = 0,
      vdg_mod_add = 0, vdg_mod_clear = 0\<rparr>"

definition sam6883_reset :: "sam6883 \<Rightarrow> sam6883" where
  "sam6883_reset sam =
     (let sam' = update_from_register (sam\<lparr>sam_reg := 0\<rparr>)
      in sam'\<lparr>vdg_address := vdg_base sam', vdg_xcount := 0, vdg_ycount := 0\<rparr>)"

definition sam6883_write :: "sam6883 \<Rightarrow> u8 \<Rightarrow> sam6883" where
  "sam6883_write sam addr =
     (if addr > 31 then sam
      else
        let bit_num = unat (drop_bit 1 addr);
            sam' = (if tst addr 1 then sam\<lparr>sam_reg := sam_reg sam OR push_bit bit_num 1\<rparr>
                    else sam\<lparr>sam_reg := sam_reg sam AND NOT (push_bit bit_num 1)\<rparr>)
        in update_from_register sam')"

definition sam6883_get_vdg_address :: "sam6883 \<Rightarrow> u16" where
  "sam6883_get_vdg_address sam = vdg_base sam"

definition sam6883_get_vdg_row_address :: "sam6883 \<Rightarrow> u16" where
  "sam6883_get_vdg_row_address sam = vdg_address sam"

definition sam6883_vdg_fsync :: "sam6883 \<Rightarrow> bool \<Rightarrow> sam6883" where
  "sam6883_vdg_fsync sam level =
     (if \<not> level then sam
      else sam\<lparr>vdg_address := vdg_base sam, vdg_xcount := 0, vdg_ycount := 0\<rparr>)"

definition vdg_address_add :: "sam6883 \<Rightarrow> int \<Rightarrow> sam6883" where
  "vdg_address_add sam n =
     (let new_addr = vdg_address sam + word_of_int n in
      if tst (vdg_address sam XOR new_addr) 0x10 then
        let sam1 = sam\<lparr>vdg_xcount := (vdg_xcount sam + 1) mod vdg_mod_xdiv sam\<rparr> in
        if vdg_xcount sam1 \<noteq> 0 then sam1\<lparr>vdg_address := new_addr - 0x10\<rparr>
        else if tst (vdg_address sam1 XOR new_addr) 0x20 then
          let sam2 = sam1\<lparr>vdg_ycount := (vdg_ycount sam1 + 1) mod vdg_mod_ydiv sam1\<rparr> in
          if vdg_ycount sam2 \<noteq> 0 then sam2\<lparr>vdg_address := new_addr - 0x20\<rparr>
          else sam2\<lparr>vdg_address := new_addr\<rparr>
        else sam1\<lparr>vdg_address := new_addr\<rparr>
      else sam\<lparr>vdg_address := new_addr\<rparr>)"

text \<open>The fetch loop: each pass consumes at least one byte, so it ends.\<close>

definition fetch_chunk :: "sam6883 \<Rightarrow> int \<Rightarrow> int" where
  "fetch_chunk sam nbytes = min (16 - uint (vdg_address sam AND 0x0F)) nbytes"

lemma fetch_chunk_pos: "0 < n \<Longrightarrow> 0 < fetch_chunk sam n"
proof -
  have "vdg_address sam AND 0x0F \<le> 0x0F" by (rule word_and_le1)
  then have "uint (vdg_address sam AND 0x0F) \<le> 15" by (simp add: word_le_def)
  moreover assume "0 < n"
  ultimately show ?thesis by (simp add: fetch_chunk_def)
qed

function sam6883_vdg_fetch_bytes :: "sam6883 \<Rightarrow> int \<Rightarrow> sam6883" where
  "sam6883_vdg_fetch_bytes sam nbytes =
     (if 0 < nbytes then
        let b3_0 = uint (vdg_address sam AND 0x0F);
            chunk = fetch_chunk sam nbytes;
            sam' = (if chunk < 16 - b3_0
                    then sam\<lparr>vdg_address := vdg_address sam + word_of_int chunk\<rparr>
                    else vdg_address_add sam chunk)
        in sam6883_vdg_fetch_bytes sam' (nbytes - chunk)
      else sam)"
  by pat_completeness auto
termination
  by (relation "measure (\<lambda>(sam, n). nat n)") (use fetch_chunk_pos in force)+

declare sam6883_vdg_fetch_bytes.simps [simp del]

definition sam6883_vdg_hsync :: "sam6883 \<Rightarrow> bool \<Rightarrow> sam6883" where
  "sam6883_vdg_hsync sam level =
     (if level then sam
      else let sam' = vdg_address_add sam (vdg_mod_add sam)
           in sam'\<lparr>vdg_address := vdg_address sam' AND vdg_mod_clear sam'\<rparr>)"

section \<open>Aligned addresses\<close>

lemma push5_add16: "push_bit 5 (q :: u16) + 16 = push_bit 5 q OR 16"
  by (rule disjunctive_add_eq_or, rule bit_word_eqI) (auto simp: bit_simps)

lemma push4_add8: "push_bit 4 (q :: u16) + 8 = push_bit 4 q OR 8"
  by (rule disjunctive_add_eq_or, rule bit_word_eqI) (auto simp: bit_simps)

lemma push5_suc: "push_bit 5 (q :: u16) + 32 = push_bit 5 (q + 1)"
  by (simp add: push_bit_add)

lemma push4_suc: "push_bit 4 (q :: u16) + 16 = push_bit 4 (q + 1)"
  by (simp add: push_bit_add)

lemma low_nibble_0:
  "push_bit 5 (q :: u16) AND 15 = 0" "(push_bit 5 q OR 16) AND 15 = 0" "push_bit 4 q AND 15 = 0"
proof -
  have m: "(15 :: u16) = mask 4" by (simp add: mask_eq_exp_minus_1)
  show "push_bit 5 (q :: u16) AND 15 = 0" "(push_bit 5 q OR 16) AND 15 = 0" "push_bit 4 q AND 15 = 0"
    unfolding m by (rule bit_word_eqI, auto simp: bit_simps)+
qed

lemma toggles:
  "tst (push_bit 5 q XOR (push_bit 5 (q :: u16) OR 16)) 16"
  "\<not> tst (push_bit 5 q XOR (push_bit 5 (q :: u16) OR 16)) 32"
  "tst ((push_bit 5 q OR 16) XOR push_bit 5 (q + 1)) 16"
  "tst ((push_bit 5 q OR 16) XOR push_bit 5 (q + 1)) 32"
  "tst (push_bit 4 q XOR push_bit 4 (q + 1)) 16"
  "\<not> tst (push_bit 4 q XOR (push_bit 4 q OR 8)) 16"
  by (auto simp: tst_simps bit_simps bit_0)

lemma bit_30_14: "bit (30 :: int) n \<longleftrightarrow> n \<noteq> 0 \<and> n < 5" "bit (14 :: int) n \<longleftrightarrow> n \<noteq> 0 \<and> n < 4"
proof -
  have "(30 :: int) = 2 * mask 4" "(14 :: int) = 2 * mask 3" by (simp_all add: mask_eq_exp_minus_1)
  then show "bit (30 :: int) n \<longleftrightarrow> n \<noteq> 0 \<and> n < 5" "bit (14 :: int) n \<longleftrightarrow> n \<noteq> 0 \<and> n < 4"
    by (simp_all only: bit_double_iff bit_mask_iff) auto
qed

lemma cleared:
  "(push_bit 5 (q :: u16) OR 16) AND NOT 30 = push_bit 5 q"
  "push_bit 5 q AND NOT 30 = push_bit 5 q"
  "(push_bit 4 q OR 8) AND NOT 14 = push_bit 4 q"
  by (rule bit_word_eqI; auto simp: bit_simps bit_30_14)+

lemma add16_suc: "(push_bit 5 (q :: u16) OR 16) + 16 = push_bit 5 (q + 1)"
  by (simp add: push5_add16 [symmetric] push_bit_add)

lemmas aligned = push5_add16 push4_add8 push4_suc low_nibble_0 toggles cleared cleared [simplified] add16_suc

section \<open>One scanline\<close>

definition sam_line :: "sam6883 \<Rightarrow> int \<Rightarrow> sam6883" where
  "sam_line sam n = sam6883_vdg_hsync (sam6883_vdg_fetch_bytes sam n) False"

lemma fetch_0: "sam6883_vdg_fetch_bytes s 0 = s"
  by (subst sam6883_vdg_fetch_bytes.simps) simp

lemma fetch_16:
  "vdg_address s AND 15 = 0 \<Longrightarrow> sam6883_vdg_fetch_bytes s 16 = vdg_address_add s 16"
  by (subst sam6883_vdg_fetch_bytes.simps) (simp add: fetch_chunk_def Let_def fetch_0)

lemma fetch_32:
  "vdg_address s AND 15 = 0 \<Longrightarrow>
   sam6883_vdg_fetch_bytes s 32 = sam6883_vdg_fetch_bytes (vdg_address_add s 16) 16"
  by (subst sam6883_vdg_fetch_bytes.simps) (simp add: fetch_chunk_def Let_def)

lemma add_low:
  assumes "vdg_address s = push_bit 5 q" "vdg_mod_xdiv s = 1" "vdg_xcount s = 0"
  shows "vdg_address_add s 16 = s\<lparr>vdg_address := push_bit 5 q OR 16\<rparr>"
  using assms by (simp add: vdg_address_add_def aligned Let_def)

lemma add_high:
  assumes "vdg_address s = push_bit 5 q OR 16" "vdg_mod_xdiv s = 1" "vdg_xcount s = 0"
  shows "vdg_address_add s 16 =
     (let y = (vdg_ycount s + 1) mod vdg_mod_ydiv s
      in s\<lparr>vdg_ycount := y, vdg_address := push_bit 5 (if y = 0 then q + 1 else q)\<rparr>)"
proof -
  have e: "push_bit 5 (q + 1) - 32 = push_bit 5 q" by (simp add: push_bit_add)
  show ?thesis using assms by (simp add: vdg_address_add_def aligned Let_def e)
qed

lemma line_32:
  assumes "vdg_address s = push_bit 5 q" "vdg_mod_xdiv s = 1" "vdg_mod_add s = 16"
    and "vdg_mod_clear s = NOT 30" and "vdg_xcount s = 0" and "n = 16 \<or> n = 32"
  shows "sam_line s n =
     (let y = (vdg_ycount s + 1) mod vdg_mod_ydiv s
      in s\<lparr>vdg_ycount := y, vdg_address := push_bit 5 (if y = 0 then q + 1 else q)\<rparr>)"
proof -
  note a16 = add_low [OF assms(1,2,5)]
  show ?thesis
    using assms(6)
  proof
    assume n: "n = 16"
    show ?thesis using assms a16
      by (simp add: n sam_line_def fetch_16 aligned sam6883_vdg_hsync_def add_high Let_def)
  next
    assume n: "n = 32"
    show ?thesis using assms a16
      by (simp add: n sam_line_def fetch_32 fetch_16 aligned sam6883_vdg_hsync_def add_high add_low Let_def)
  qed
qed

lemma line_16:
  assumes "vdg_address s = push_bit 4 q" "vdg_mod_ydiv s = 1" "vdg_mod_add s = 8"
    and "vdg_mod_clear s = NOT 14" and "vdg_ycount s = 0"
  shows "sam_line s 16 =
     (let x = (vdg_xcount s + 1) mod vdg_mod_xdiv s
      in s\<lparr>vdg_xcount := x, vdg_address := push_bit 4 (if x = 0 then q + 1 else q)\<rparr>)"
proof -
  have e: "push_bit 4 (q + 1) - 16 = push_bit 4 q" by (simp add: push_bit_add)
  have "vdg_address_add s 16 =
     (let x = (vdg_xcount s + 1) mod vdg_mod_xdiv s
      in s\<lparr>vdg_xcount := x, vdg_address := push_bit 4 (if x = 0 then q + 1 else q)\<rparr>)"
    using assms by (simp add: vdg_address_add_def aligned Let_def e)
  moreover have "vdg_address_add u 8 = u\<lparr>vdg_address := push_bit 4 r OR 8\<rparr>"
    if "vdg_address u = push_bit 4 r" for u r
    using that by (simp add: vdg_address_add_def aligned Let_def)
  ultimately show ?thesis
    using assms by (simp add: sam_line_def fetch_16 aligned sam6883_vdg_hsync_def Let_def)
qed

lemma line_rg6:
  assumes "vdg_address s = push_bit 5 q" "vdg_mod_xdiv s = 1" "vdg_mod_ydiv s = 1"
    and "vdg_mod_add s = 0" "vdg_mod_clear s = NOT 0" and "vdg_xcount s = 0" "vdg_ycount s = 0"
  shows "sam_line s 32 = s\<lparr>vdg_address := push_bit 5 (q + 1)\<rparr>"
proof -
  have z: "vdg_address_add u 0 = u" for u
    by (simp add: vdg_address_add_def)
  have m: "(- 1 :: u16) AND w = w" "w AND - 1 = w" for w by simp_all
  show ?thesis
    using assms add_low [OF assms(1,2,6)]
    by (simp add: sam_line_def fetch_32 fetch_16 aligned sam6883_vdg_hsync_def add_high z m Let_def)
qed

section \<open>Row repetition\<close>

text \<open>
  A divide-by-\<open>reps\<close> counter that moves an address one \<open>stride\<close> on each wrap: the interface
  every SAM mode implements, with the X or the Y divider as its counter.
\<close>

locale row_counter =
  fixes next_line :: "'s \<Rightarrow> 's"
    and addr :: "'s \<Rightarrow> u16"
    and cnt :: "'s \<Rightarrow> int"
    and stride :: u16
    and reps :: int
    and ok :: "'s \<Rightarrow> bool"
  assumes reps_pos: "ok s \<Longrightarrow> 0 < reps"
    and ok_next: "ok s \<Longrightarrow> ok (next_line s)"
    and cnt_next: "ok s \<Longrightarrow> cnt (next_line s) = (cnt s + 1) mod reps"
    and addr_next: "ok s \<Longrightarrow>
      addr (next_line s) = (if (cnt s + 1) mod reps = 0 then addr s + stride else addr s)"
begin

lemma ok_lines: "ok s \<Longrightarrow> ok ((next_line ^^ k) s)"
  by (induction k) (auto simp: ok_next)

lemma lines:
  assumes "ok s" "cnt s = 0"
  shows "cnt ((next_line ^^ k) s) = int (k mod nat reps) \<and>
         addr ((next_line ^^ k) s) = addr s + of_nat (k div nat reps) * stride"
proof (induction k)
  case 0
  then show ?case using assms by simp
next
  case (Suc k)
  let ?t = "(next_line ^^ k) s" and ?R = "nat reps"
  have ok: "ok ?t" using assms(1) by (rule ok_lines)
  have R: "0 < ?R" "int ?R = reps" using reps_pos [OF assms(1)] by simp_all
  have step: "(cnt ?t + 1) mod reps = int (Suc k mod ?R)"
    using Suc R by (simp add: of_nat_mod add.commute mod_add_right_eq)
  have "addr (next_line ?t) = addr s + of_nat (Suc k div ?R) * stride"
  proof (cases "Suc k mod ?R = 0")
    case True
    then have "Suc k div ?R = Suc (k div ?R)" by (simp add: div_Suc)
    moreover have "addr (next_line ?t) = addr ?t + stride"
      using True by (simp add: addr_next [OF ok] step)
    ultimately show ?thesis using Suc by (simp add: algebra_simps)
  next
    case False
    then have "Suc k div ?R = k div ?R" by (simp add: div_Suc)
    moreover have "addr (next_line ?t) = addr ?t"
      using False by (simp add: addr_next [OF ok] step)
    ultimately show ?thesis using Suc by simp
  qed
  then show ?case using step by (simp add: cnt_next [OF ok])
qed

end

definition ok_y :: "int \<Rightarrow> sam6883 \<Rightarrow> bool" where
  "ok_y Y s \<longleftrightarrow> 0 < Y \<and> vdg_mod_ydiv s = Y \<and> vdg_mod_xdiv s = 1 \<and> vdg_mod_add s = 16 \<and>
     vdg_mod_clear s = NOT 30 \<and> vdg_xcount s = 0 \<and> (\<exists>q. vdg_address s = push_bit 5 q)"

definition ok_x :: "int \<Rightarrow> sam6883 \<Rightarrow> bool" where
  "ok_x X s \<longleftrightarrow> 0 < X \<and> vdg_mod_xdiv s = X \<and> vdg_mod_ydiv s = 1 \<and> vdg_mod_add s = 8 \<and>
     vdg_mod_clear s = NOT 14 \<and> vdg_ycount s = 0 \<and> (\<exists>q. vdg_address s = push_bit 4 q)"

definition ok_rg6 :: "sam6883 \<Rightarrow> bool" where
  "ok_rg6 s \<longleftrightarrow> vdg_mod_xdiv s = 1 \<and> vdg_mod_ydiv s = 1 \<and> vdg_mod_add s = 0 \<and>
     vdg_mod_clear s = NOT 0 \<and> vdg_xcount s = 0 \<and> vdg_ycount s = 0 \<and>
     (\<exists>q. vdg_address s = push_bit 5 q)"

interpretation rows_y: row_counter "\<lambda>s. sam_line s 32" vdg_address vdg_ycount 32 Y "ok_y Y" for Y
proof unfold_locales
  fix s assume ok: "ok_y Y s"
  then obtain q where q: "vdg_address s = push_bit 5 q" by (auto simp: ok_y_def)
  note line = line_32 [OF q, of 32]
  show "0 < Y" using ok by (simp add: ok_y_def)
  show "ok_y Y (sam_line s 32)" using ok line by (auto simp: ok_y_def Let_def)
  show "vdg_ycount (sam_line s 32) = (vdg_ycount s + 1) mod Y"
    using ok line by (simp add: ok_y_def Let_def)
  show "vdg_address (sam_line s 32) =
      (if (vdg_ycount s + 1) mod Y = 0 then vdg_address s + 32 else vdg_address s)"
    using ok line q by (simp add: ok_y_def Let_def push5_suc)
qed

interpretation rows_y16: row_counter "\<lambda>s. sam_line s 16" vdg_address vdg_ycount 32 Y "ok_y Y" for Y
proof unfold_locales
  fix s assume ok: "ok_y Y s"
  then obtain q where q: "vdg_address s = push_bit 5 q" by (auto simp: ok_y_def)
  note line = line_32 [OF q, of 16]
  show "0 < Y" using ok by (simp add: ok_y_def)
  show "ok_y Y (sam_line s 16)" using ok line by (auto simp: ok_y_def Let_def)
  show "vdg_ycount (sam_line s 16) = (vdg_ycount s + 1) mod Y"
    using ok line by (simp add: ok_y_def Let_def)
  show "vdg_address (sam_line s 16) =
      (if (vdg_ycount s + 1) mod Y = 0 then vdg_address s + 32 else vdg_address s)"
    using ok line q by (simp add: ok_y_def Let_def push5_suc)
qed

interpretation rows_x: row_counter "\<lambda>s. sam_line s 16" vdg_address vdg_xcount 16 X "ok_x X" for X
proof unfold_locales
  fix s assume ok: "ok_x X s"
  then obtain q where q: "vdg_address s = push_bit 4 q" by (auto simp: ok_x_def)
  note line = line_16 [OF q]
  show "0 < X" using ok by (simp add: ok_x_def)
  show "ok_x X (sam_line s 16)" using ok line by (auto simp: ok_x_def Let_def)
  show "vdg_xcount (sam_line s 16) = (vdg_xcount s + 1) mod X"
    using ok line by (simp add: ok_x_def Let_def)
  show "vdg_address (sam_line s 16) =
      (if (vdg_xcount s + 1) mod X = 0 then vdg_address s + 16 else vdg_address s)"
    using ok line q by (simp add: ok_x_def Let_def push4_suc)
qed

interpretation rows_rg6: row_counter "\<lambda>s. sam_line s 32" vdg_address "\<lambda>_. 0" 32 1 ok_rg6
proof unfold_locales
  fix s assume ok: "ok_rg6 s"
  then obtain q where q: "vdg_address s = push_bit 5 q" by (auto simp: ok_rg6_def)
  note line = line_rg6 [OF q]
  show "ok_rg6 (sam_line s 32)" using ok line by (auto simp: ok_rg6_def)
  show "vdg_address (sam_line s 32) =
      (if ((0::int) + 1) mod 1 = 0 then vdg_address s + 32 else vdg_address s)"
    using ok line q by (simp add: ok_rg6_def push5_suc)
qed simp_all

section \<open>Properties\<close>

text \<open>The derived fields follow the register.\<close>

definition derived :: "sam6883 \<Rightarrow> u8 \<times> u16 \<times> (int \<times> int \<times> int \<times> u16) \<times> bool \<times> u8 \<times> bool" where
  "derived s = (vdg_mode s, vdg_base s,
     (vdg_mod_xdiv s, vdg_mod_ydiv s, vdg_mod_add s, vdg_mod_clear s), page1 s, mem_size s, sam_ty s)"

definition sam_wf :: "sam6883 \<Rightarrow> bool" where
  "sam_wf s \<longleftrightarrow> derived s = derived (update_from_register s) \<and> 0 \<le> vdg_xcount s \<and> 0 \<le> vdg_ycount s"

datatype sam_op = SamReset | SamWrite u8 | SamFsync bool | SamHsync bool | SamFetch int

fun sam_exec :: "sam6883 \<Rightarrow> sam_op \<Rightarrow> sam6883" where
  "sam_exec s SamReset = sam6883_reset s"
| "sam_exec s (SamWrite a) = sam6883_write s a"
| "sam_exec s (SamFsync l) = sam6883_vdg_fsync s l"
| "sam_exec s (SamHsync l) = sam6883_vdg_hsync s l"
| "sam_exec s (SamFetch n) = sam6883_vdg_fetch_bytes s n"

lemma sam_reg_update [simp]: "sam_reg (update_from_register s) = sam_reg s"
  by (simp add: update_from_register_def Let_def)

lemma derived_update_counters:
  assumes "sam_reg t = sam_reg s"
  shows "derived (update_from_register t) = derived (update_from_register s)"
  using assms by (simp add: derived_def update_from_register_def Let_def)

lemma mode_lt_8: "unat (ucast (r AND 7 :: u16) :: u8) < 8"
proof -
  have "r AND 7 \<le> 7" by (rule word_and_le1)
  then have "unat (r AND 7) \<le> 7" by (simp add: word_le_nat_alt)
  moreover have "unat (ucast (r AND 7) :: u8) \<le> unat (r AND 7)"
    by (simp add: unsigned_ucast_eq take_bit_nat_less_eq_self)
  ultimately show ?thesis by simp
qed

lemma nat_lt_8: "n < 8 \<longleftrightarrow> n \<in> {0, 1, 2, 3, 4, 5, 6, 7 :: nat}"
  by auto

lemma divs_pos: "n < 8 \<Longrightarrow> 0 < vdg_mod_xdivs ! n \<and> 0 < vdg_mod_ydivs ! n"
  by (auto simp: nat_lt_8 vdg_mod_xdivs_def vdg_mod_ydivs_def)

lemma sam_wf_divs: "sam_wf s \<Longrightarrow> 0 < vdg_mod_xdiv s \<and> 0 < vdg_mod_ydiv s"
  using divs_pos [OF mode_lt_8]
  by (simp add: sam_wf_def derived_def update_from_register_def Let_def)

lemma vdg_address_add_frame:
  "derived (vdg_address_add s n) = derived s" "sam_reg (vdg_address_add s n) = sam_reg s"
  by (simp_all add: vdg_address_add_def Let_def derived_def)

lemma vdg_address_add_wf: "sam_wf s \<Longrightarrow> sam_wf (vdg_address_add s n)"
  using sam_wf_divs [of s]
  by (auto simp: sam_wf_def vdg_address_add_frame derived_update_counters [of "vdg_address_add s n" s])
    (auto simp: vdg_address_add_def Let_def)

lemma set_address_wf: "sam_wf (s\<lparr>vdg_address := a\<rparr>) = sam_wf s"
  by (simp add: sam_wf_def derived_def update_from_register_def Let_def)

lemma fetch_wf: "sam_wf s \<Longrightarrow> sam_wf (sam6883_vdg_fetch_bytes s n)"
proof (induction s n rule: sam6883_vdg_fetch_bytes.induct)
  case (1 s n)
  then show ?case
    by (subst sam6883_vdg_fetch_bytes.simps) (auto simp: Let_def set_address_wf vdg_address_add_wf)
qed

lemma sam_exec_wf: "sam_wf s \<Longrightarrow> sam_wf (sam_exec s x)"
proof (cases x)
  case SamReset
  then show ?thesis
    by (simp add: sam_wf_def sam6883_reset_def derived_def update_from_register_def Let_def)
next
  case (SamWrite a)
  assume "sam_wf s"
  with SamWrite show ?thesis
    by (simp add: sam_wf_def sam6883_write_def derived_def update_from_register_def Let_def)
next
  case (SamFsync l)
  assume "sam_wf s"
  with SamFsync show ?thesis
    by (simp add: sam_wf_def sam6883_vdg_fsync_def derived_def update_from_register_def Let_def)
next
  case (SamHsync l)
  assume "sam_wf s"
  with SamHsync show ?thesis
    by (simp add: sam6883_vdg_hsync_def Let_def set_address_wf vdg_address_add_wf)
next
  case (SamFetch n)
  assume "sam_wf s"
  with SamFetch show ?thesis by (simp add: fetch_wf)
qed

text \<open>What a field sync leaves, in terms of the mode.\<close>

lemma wf_mode: "sam_wf s \<Longrightarrow> unat (vdg_mode s) < 8"
  using mode_lt_8 by (simp add: sam_wf_def derived_def update_from_register_def Let_def)

lemma wf_base: "sam_wf s \<Longrightarrow> vdg_base s = push_bit 6 (sam_reg s AND 0x3F8)"
  by (simp only: sam_wf_def derived_def update_from_register_def Let_def prod.inject) simp

lemma wf_base_aligned:
  assumes "sam_wf s"
  shows "\<exists>q. vdg_base s = push_bit 5 q" and "\<exists>q. vdg_base s = push_bit 4 q"
proof -
  have "push_bit 6 w = push_bit 5 (push_bit 1 w)" "push_bit 6 w = push_bit 4 (push_bit 2 w)" for w :: u16
    by (simp_all only: push_bit_push_bit) simp_all
  then show "\<exists>q. vdg_base s = push_bit 5 q" and "\<exists>q. vdg_base s = push_bit 4 q"
    unfolding wf_base [OF assms] by blast+
qed

lemma fsync_fields:
  assumes "sam_wf s"
  defines "t \<equiv> sam6883_vdg_fsync s True" and "m \<equiv> unat (vdg_mode s)"
  shows "vdg_mod_xdiv t = vdg_mod_xdivs ! m" "vdg_mod_ydiv t = vdg_mod_ydivs ! m"
    "vdg_mod_add t = vdg_mod_adds ! m" "vdg_mod_clear t = vdg_mod_clears ! m"
    "vdg_xcount t = 0" "vdg_ycount t = 0" "vdg_address t = vdg_base s"
  using assms(1) by (simp_all add: t_def m_def sam_wf_def sam6883_vdg_fsync_def derived_def
      update_from_register_def Let_def)

lemmas mode_tables = vdg_mod_xdivs_def vdg_mod_ydivs_def vdg_mod_adds_def vdg_mod_clears_def

lemma fsync_rows_y:
  assumes "sam_wf s" "unat (vdg_mode s) = m" "m \<in> {0, 2, 4, 6}" "n = 16 \<or> n = 32"
  shows "vdg_address (((\<lambda>t. sam_line t n) ^^ k) (sam6883_vdg_fsync s True)) =
     vdg_base s + of_nat (k div nat (vdg_mod_ydivs ! m)) * 32"
proof -
  have "ok_y (vdg_mod_ydivs ! m) (sam6883_vdg_fsync s True)"
    using assms(3) wf_base_aligned(1) [OF assms(1)]
    by (auto simp: ok_y_def fsync_fields [OF assms(1)] assms(2) mode_tables)
  from rows_y.lines [OF this, of k] rows_y16.lines [OF this, of k] show ?thesis
    using assms(4) by (auto simp: fsync_fields [OF assms(1)])
qed

lemma fsync_rows_x:
  assumes "sam_wf s" "unat (vdg_mode s) = m" "m \<in> {1, 3, 5}"
  shows "vdg_address (((\<lambda>t. sam_line t 16) ^^ k) (sam6883_vdg_fsync s True)) =
     vdg_base s + of_nat (k div nat (vdg_mod_xdivs ! m)) * 16"
proof -
  have "ok_x (vdg_mod_xdivs ! m) (sam6883_vdg_fsync s True)"
    using assms(3) wf_base_aligned(2) [OF assms(1)]
    by (auto simp: ok_x_def fsync_fields [OF assms(1)] assms(2) mode_tables)
  from rows_x.lines [OF this, of k] show ?thesis by (simp add: fsync_fields [OF assms(1)])
qed

lemma fsync_rows_rg6:
  assumes "sam_wf s" "unat (vdg_mode s) = 7"
  shows "vdg_address (((\<lambda>t. sam_line t 32) ^^ k) (sam6883_vdg_fsync s True)) =
     vdg_base s + of_nat k * 32"
proof -
  have "ok_rg6 (sam6883_vdg_fsync s True)"
    using wf_base_aligned(1) [OF assms(1)]
    by (auto simp: ok_rg6_def fsync_fields [OF assms(1)] assms(2) mode_tables)
  from rows_rg6.lines [OF this, of k] show ?thesis by (simp add: fsync_fields [OF assms(1)])
qed

text \<open>Row geometry of each mode: bytes between rows and scanlines per row.\<close>

definition row_stride :: "nat list" where "row_stride = [32, 16, 32, 16, 32, 16, 32, 32]"
definition row_repeat :: "nat list" where "row_repeat = [12, 3, 3, 2, 2, 1, 1, 1]"
definition row_bytes :: "int list" where "row_bytes = [16, 16, 32, 16, 32, 16, 32, 32]"

lemmas row_tables = row_stride_def row_repeat_def row_bytes_def mode_tables




text \<open>
  A write to a SAM register address sets (odd address) or clears (even address) exactly the
  one register bit of its address pair, every other bit keeps its value, and an address outside
  the 32-byte window is ignored.
\<close>

theorem sam6883_write_one_bit:
  "bit (sam_reg (sam6883_write s a)) n =
     (if a \<le> 31 \<and> n = unat a div 2 then odd (unat a) else bit (sam_reg s) n)"
proof (cases "a \<le> 31")
  case True
  then have "unat a div 2 < 16" by (simp add: word_le_nat_alt)
  moreover have "tst a 1 \<longleftrightarrow> odd (unat a)"
    by (simp only: tst_simps odd_unat)
  ultimately show ?thesis
    using True
    by (auto simp: sam6883_write_def Let_def bit_simps drop_bit_eq_div unat_div
        dest: bit_imp_le_length)
next
  case False
  then have "31 < a" by simp
  with False show ?thesis by (simp add: sam6883_write_def)
qed

end
