(* ===== verification/Mc6847.thy ===== *)
theory Mc6847
  imports CoCo_Prelude
begin

text \<open>
  The MC6847 video display generator (\<open>src/src/core/mc6847.cpp\<close>): the mode latch and the
  scanline renderers that write palette indices into \<open>line_buffer\<close>. The pointer \<open>vram\<close> is set to
  the machine's RAM, which the renderers read; here it is a flag (set or null) and the RAM is an
  argument. The C loops become folds of list updates; the theorem is that each renderer fills all
  256 pixels, with the colour that a closed formula reads off the display memory.
\<close>

section \<open>State and constants\<close>

record mc6847 =
  mode :: u8
  scanline :: int
  fs :: bool
  hs :: bool
  vram_set :: bool
  vram_offset :: u16
  row_address :: u16
  line_buffer :: "u8 list"

definition VDG_AG :: u8 where "VDG_AG = 0x80"
definition VDG_CSS :: u8 where "VDG_CSS = 0x08"
definition VDG_ACTIVE_WIDTH :: nat where "VDG_ACTIVE_WIDTH = 256"
definition VDG_ACTIVE_HEIGHT :: int where "VDG_ACTIVE_HEIGHT = 192"

definition VDG_COLOR_GREEN :: u8 where "VDG_COLOR_GREEN = 0"
definition VDG_COLOR_YELLOW :: u8 where "VDG_COLOR_YELLOW = 1"
definition VDG_COLOR_BLUE :: u8 where "VDG_COLOR_BLUE = 2"
definition VDG_COLOR_RED :: u8 where "VDG_COLOR_RED = 3"
definition VDG_COLOR_WHITE :: u8 where "VDG_COLOR_WHITE = 4"
definition VDG_COLOR_CYAN :: u8 where "VDG_COLOR_CYAN = 5"
definition VDG_COLOR_MAGENTA :: u8 where "VDG_COLOR_MAGENTA = 6"
definition VDG_COLOR_ORANGE :: u8 where "VDG_COLOR_ORANGE = 7"
definition VDG_COLOR_BLACK :: u8 where "VDG_COLOR_BLACK = 8"
definition VDG_COLOR_DARK_GREEN :: u8 where "VDG_COLOR_DARK_GREEN = 9"
definition VDG_COLOR_DARK_ORANGE :: u8 where "VDG_COLOR_DARK_ORANGE = 10"
definition VDG_COLOR_BRIGHT_ORANGE :: u8 where "VDG_COLOR_BRIGHT_ORANGE = 11"

text \<open>The character generator, 64 characters of 12 rows.\<close>

definition font_6847 :: "u8 list" where
  "font_6847 =
     [0x00, 0x00, 0x00, 0x1c, 0x22, 0x02, 0x1a, 0x2a, 0x2a, 0x1c, 0x00, 0x00,
      0x00, 0x00, 0x00, 0x08, 0x14, 0x22, 0x22, 0x3e, 0x22, 0x22, 0x00, 0x00,
      0x00, 0x00, 0x00, 0x3c, 0x12, 0x12, 0x1c, 0x12, 0x12, 0x3c, 0x00, 0x00,
      0x00, 0x00, 0x00, 0x1c, 0x22, 0x20, 0x20, 0x20, 0x22, 0x1c, 0x00, 0x00,
      0x00, 0x00, 0x00, 0x3c, 0x12, 0x12, 0x12, 0x12, 0x12, 0x3c, 0x00, 0x00,
      0x00, 0x00, 0x00, 0x3e, 0x20, 0x20, 0x3c, 0x20, 0x20, 0x3e, 0x00, 0x00,
      0x00, 0x00, 0x00, 0x3e, 0x20, 0x20, 0x3c, 0x20, 0x20, 0x20, 0x00, 0x00,
      0x00, 0x00, 0x00, 0x1e, 0x20, 0x20, 0x26, 0x22, 0x22, 0x1e, 0x00, 0x00,
      0x00, 0x00, 0x00, 0x22, 0x22, 0x22, 0x3e, 0x22, 0x22, 0x22, 0x00, 0x00,
      0x00, 0x00, 0x00, 0x1c, 0x08, 0x08, 0x08, 0x08, 0x08, 0x1c, 0x00, 0x00,
      0x00, 0x00, 0x00, 0x02, 0x02, 0x02, 0x02, 0x22, 0x22, 0x1c, 0x00, 0x00,
      0x00, 0x00, 0x00, 0x22, 0x24, 0x28, 0x30, 0x28, 0x24, 0x22, 0x00, 0x00,
      0x00, 0x00, 0x00, 0x20, 0x20, 0x20, 0x20, 0x20, 0x20, 0x3e, 0x00, 0x00,
      0x00, 0x00, 0x00, 0x22, 0x36, 0x2a, 0x2a, 0x22, 0x22, 0x22, 0x00, 0x00,
      0x00, 0x00, 0x00, 0x22, 0x32, 0x2a, 0x26, 0x22, 0x22, 0x22, 0x00, 0x00,
      0x00, 0x00, 0x00, 0x3e, 0x22, 0x22, 0x22, 0x22, 0x22, 0x3e, 0x00, 0x00,
      0x00, 0x00, 0x00, 0x3c, 0x22, 0x22, 0x3c, 0x20, 0x20, 0x20, 0x00, 0x00,
      0x00, 0x00, 0x00, 0x1c, 0x22, 0x22, 0x22, 0x2a, 0x24, 0x1a, 0x00, 0x00,
      0x00, 0x00, 0x00, 0x3c, 0x22, 0x22, 0x3c, 0x28, 0x24, 0x22, 0x00, 0x00,
      0x00, 0x00, 0x00, 0x1c, 0x22, 0x10, 0x08, 0x04, 0x22, 0x1c, 0x00, 0x00,
      0x00, 0x00, 0x00, 0x3e, 0x08, 0x08, 0x08, 0x08, 0x08, 0x08, 0x00, 0x00,
      0x00, 0x00, 0x00, 0x22, 0x22, 0x22, 0x22, 0x22, 0x22, 0x1c, 0x00, 0x00,
      0x00, 0x00, 0x00, 0x22, 0x22, 0x22, 0x14, 0x14, 0x08, 0x08, 0x00, 0x00,
      0x00, 0x00, 0x00, 0x22, 0x22, 0x22, 0x2a, 0x2a, 0x36, 0x22, 0x00, 0x00,
      0x00, 0x00, 0x00, 0x22, 0x22, 0x14, 0x08, 0x14, 0x22, 0x22, 0x00, 0x00,
      0x00, 0x00, 0x00, 0x22, 0x22, 0x14, 0x08, 0x08, 0x08, 0x08, 0x00, 0x00,
      0x00, 0x00, 0x00, 0x3e, 0x02, 0x04, 0x08, 0x10, 0x20, 0x3e, 0x00, 0x00,
      0x00, 0x00, 0x00, 0x38, 0x20, 0x20, 0x20, 0x20, 0x20, 0x38, 0x00, 0x00,
      0x00, 0x00, 0x00, 0x20, 0x20, 0x10, 0x08, 0x04, 0x02, 0x02, 0x00, 0x00,
      0x00, 0x00, 0x00, 0x0e, 0x02, 0x02, 0x02, 0x02, 0x02, 0x0e, 0x00, 0x00,
      0x00, 0x00, 0x00, 0x08, 0x1c, 0x2a, 0x08, 0x08, 0x08, 0x08, 0x00, 0x00,
      0x00, 0x00, 0x00, 0x00, 0x08, 0x10, 0x3e, 0x10, 0x08, 0x00, 0x00, 0x00,
      0x00, 0x00, 0x00, 0x00, 0x00, 0x00, 0x00, 0x00, 0x00, 0x00, 0x00, 0x00,
      0x00, 0x00, 0x00, 0x08, 0x08, 0x08, 0x08, 0x08, 0x00, 0x08, 0x00, 0x00,
      0x00, 0x00, 0x00, 0x14, 0x14, 0x14, 0x00, 0x00, 0x00, 0x00, 0x00, 0x00,
      0x00, 0x00, 0x00, 0x14, 0x14, 0x36, 0x00, 0x36, 0x14, 0x14, 0x00, 0x00,
      0x00, 0x00, 0x00, 0x08, 0x1e, 0x20, 0x1c, 0x02, 0x3c, 0x08, 0x00, 0x00,
      0x00, 0x00, 0x00, 0x32, 0x32, 0x04, 0x08, 0x10, 0x26, 0x26, 0x00, 0x00,
      0x00, 0x00, 0x00, 0x10, 0x28, 0x28, 0x10, 0x2a, 0x24, 0x1a, 0x00, 0x00,
      0x00, 0x00, 0x00, 0x18, 0x18, 0x18, 0x00, 0x00, 0x00, 0x00, 0x00, 0x00,
      0x00, 0x00, 0x00, 0x08, 0x10, 0x20, 0x20, 0x20, 0x10, 0x08, 0x00, 0x00,
      0x00, 0x00, 0x00, 0x08, 0x04, 0x02, 0x02, 0x02, 0x04, 0x08, 0x00, 0x00,
      0x00, 0x00, 0x00, 0x00, 0x08, 0x1c, 0x3e, 0x1c, 0x08, 0x00, 0x00, 0x00,
      0x00, 0x00, 0x00, 0x00, 0x08, 0x08, 0x3e, 0x08, 0x08, 0x00, 0x00, 0x00,
      0x00, 0x00, 0x00, 0x00, 0x00, 0x00, 0x30, 0x30, 0x10, 0x20, 0x00, 0x00,
      0x00, 0x00, 0x00, 0x00, 0x00, 0x00, 0x3e, 0x00, 0x00, 0x00, 0x00, 0x00,
      0x00, 0x00, 0x00, 0x00, 0x00, 0x00, 0x00, 0x00, 0x30, 0x30, 0x00, 0x00,
      0x00, 0x00, 0x00, 0x02, 0x02, 0x04, 0x08, 0x10, 0x20, 0x20, 0x00, 0x00,
      0x00, 0x00, 0x00, 0x18, 0x24, 0x24, 0x24, 0x24, 0x24, 0x18, 0x00, 0x00,
      0x00, 0x00, 0x00, 0x08, 0x18, 0x08, 0x08, 0x08, 0x08, 0x1c, 0x00, 0x00,
      0x00, 0x00, 0x00, 0x1c, 0x22, 0x02, 0x1c, 0x20, 0x20, 0x3e, 0x00, 0x00,
      0x00, 0x00, 0x00, 0x1c, 0x22, 0x02, 0x0c, 0x02, 0x22, 0x1c, 0x00, 0x00,
      0x00, 0x00, 0x00, 0x04, 0x0c, 0x14, 0x3e, 0x04, 0x04, 0x04, 0x00, 0x00,
      0x00, 0x00, 0x00, 0x3e, 0x20, 0x3c, 0x02, 0x02, 0x22, 0x1c, 0x00, 0x00,
      0x00, 0x00, 0x00, 0x1c, 0x20, 0x20, 0x3c, 0x22, 0x22, 0x1c, 0x00, 0x00,
      0x00, 0x00, 0x00, 0x3e, 0x02, 0x04, 0x08, 0x10, 0x20, 0x20, 0x00, 0x00,
      0x00, 0x00, 0x00, 0x1c, 0x22, 0x22, 0x1c, 0x22, 0x22, 0x1c, 0x00, 0x00,
      0x00, 0x00, 0x00, 0x1c, 0x22, 0x22, 0x1e, 0x02, 0x02, 0x1c, 0x00, 0x00,
      0x00, 0x00, 0x00, 0x00, 0x18, 0x18, 0x00, 0x18, 0x18, 0x00, 0x00, 0x00,
      0x00, 0x00, 0x00, 0x18, 0x18, 0x00, 0x18, 0x18, 0x08, 0x10, 0x00, 0x00,
      0x00, 0x00, 0x00, 0x04, 0x08, 0x10, 0x20, 0x10, 0x08, 0x04, 0x00, 0x00,
      0x00, 0x00, 0x00, 0x00, 0x00, 0x3e, 0x00, 0x3e, 0x00, 0x00, 0x00, 0x00,
      0x00, 0x00, 0x00, 0x10, 0x08, 0x04, 0x02, 0x04, 0x08, 0x10, 0x00, 0x00,
      0x00, 0x00, 0x00, 0x18, 0x24, 0x04, 0x08, 0x08, 0x00, 0x08, 0x00, 0x00]"

section \<open>Mode and reset\<close>

definition mc6847_init :: mc6847 where
  "mc6847_init = \<lparr>mode = 0, scanline = 0, fs = False, hs = False, vram_set = False,
     vram_offset = 0, row_address = 0, line_buffer = replicate VDG_ACTIVE_WIDTH 0\<rparr>"

definition mc6847_reset :: "mc6847 \<Rightarrow> mc6847" where
  "mc6847_reset v = v\<lparr>mode := 0, scanline := 0, fs := False, hs := False, vram_offset := 0,
     line_buffer := replicate VDG_ACTIVE_WIDTH 0\<rparr>"

definition mc6847_set_mode :: "u8 \<Rightarrow> mc6847 \<Rightarrow> mc6847" where
  "mc6847_set_mode m v = (if m \<noteq> mode v then v\<lparr>mode := m\<rparr> else v)"

section \<open>Text\<close>

text \<open>One character cell: the body of the column loop.\<close>

definition text_cell :: "(nat \<Rightarrow> u8) \<Rightarrow> nat \<Rightarrow> nat \<Rightarrow> u8 \<Rightarrow> u8 \<Rightarrow> nat \<Rightarrow> u8 list \<Rightarrow> u8 list" where
  "text_cell ram row_vram row_line fg bg col buf =
     (let ch = ram (row_vram + col); x = col * 8 in
      if tst ch 0x80 then
        let sg_color = drop_bit 4 ch AND 0x07;
            top_half = row_line < 6;
            left_pixel = (if top_half then tst ch 0x08 else tst ch 0x02);
            right_pixel = (if top_half then tst ch 0x04 else tst ch 0x01);
            buf = fold (\<lambda>dx b. b[x + dx := (if left_pixel then sg_color else VDG_COLOR_BLACK)]) [0..<4] buf
        in fold (\<lambda>dx b. b[x + dx := (if right_pixel then sg_color else VDG_COLOR_BLACK)]) [4..<8] buf
      else
        let inv = tst ch 0x40;
            char_code = ch AND 0x3F;
            bits = font_6847 ! (unat char_code * 12 + row_line);
            on_color = (if inv then bg else fg);
            off_color = (if inv then fg else bg);
            buf = buf[x + 0 := off_color];
            buf = fold (\<lambda>dx b. b[x + 1 + dx :=
              (if tst bits (drop_bit dx 0x20) then on_color else off_color)]) [0..<6] buf
        in buf[x + 7 := off_color])"

definition render_text_scanline :: "(nat \<Rightarrow> u8) \<Rightarrow> nat \<Rightarrow> mc6847 \<Rightarrow> mc6847" where
  "render_text_scanline ram line v =
     (let vram = unat (vram_offset v);
          css = tst (mode v) VDG_CSS;
          fg = (if css then VDG_COLOR_ORANGE else VDG_COLOR_GREEN);
          bg = (if css then VDG_COLOR_BLACK else VDG_COLOR_BLACK);
          char_row = line div 12;
          row_line = line mod 12
      in if char_row \<ge> 16 then v\<lparr>line_buffer := replicate VDG_ACTIVE_WIDTH bg\<rparr>
         else let row_vram = vram + char_row * 32 in
              v\<lparr>line_buffer := fold (text_cell ram row_vram row_line fg bg) [0..<32] (line_buffer v)\<rparr>)"

section \<open>Graphics\<close>

record gfx_mode_info =
  gfx_width :: nat
  gfx_height :: nat
  bytes_per_row :: nat
  bpp :: nat

definition gfx_modes :: "gfx_mode_info list" where
  "gfx_modes =
     [\<lparr>gfx_width = 64, gfx_height = 64, bytes_per_row = 16, bpp = 2\<rparr>,
      \<lparr>gfx_width = 128, gfx_height = 64, bytes_per_row = 16, bpp = 1\<rparr>,
      \<lparr>gfx_width = 128, gfx_height = 64, bytes_per_row = 32, bpp = 2\<rparr>,
      \<lparr>gfx_width = 128, gfx_height = 96, bytes_per_row = 16, bpp = 1\<rparr>,
      \<lparr>gfx_width = 128, gfx_height = 96, bytes_per_row = 32, bpp = 2\<rparr>,
      \<lparr>gfx_width = 128, gfx_height = 192, bytes_per_row = 16, bpp = 1\<rparr>,
      \<lparr>gfx_width = 128, gfx_height = 192, bytes_per_row = 32, bpp = 2\<rparr>,
      \<lparr>gfx_width = 256, gfx_height = 192, bytes_per_row = 32, bpp = 1\<rparr>]"

definition color_set_0 :: "u8 list" where
  "color_set_0 = [VDG_COLOR_GREEN, VDG_COLOR_YELLOW, VDG_COLOR_BLUE, VDG_COLOR_RED]"

definition color_set_1 :: "u8 list" where
  "color_set_1 = [VDG_COLOR_WHITE, VDG_COLOR_CYAN, VDG_COLOR_MAGENTA, VDG_COLOR_ORANGE]"

definition artifact :: "u8 list" where
  "artifact = [VDG_COLOR_BLACK, VDG_COLOR_BLUE, VDG_COLOR_ORANGE, VDG_COLOR_WHITE]"

text \<open>The innermost loop: \<open>scale\<close> copies of one pixel, clipped at the right edge.\<close>

definition put_pixel :: "nat \<Rightarrow> nat \<Rightarrow> u8 \<Rightarrow> u8 list \<Rightarrow> u8 list" where
  "put_pixel scale x color =
     fold (\<lambda>s b. if x + s < VDG_ACTIVE_WIDTH then b[x + s := color] else b) [0..<scale]"

definition render_graphics_scanline :: "(nat \<Rightarrow> u8) \<Rightarrow> mc6847 \<Rightarrow> mc6847" where
  "render_graphics_scanline ram v =
     (let gm = mode v AND 0x07;
          css = tst (mode v) VDG_CSS;
          info = gfx_modes ! unat gm;
          row_data = (\<lambda>i. ram (unat (row_address v) + i)) in
      if bpp info = 2 then
        let palette = (if css then color_set_1 else color_set_0);
            scale = 256 div gfx_width info
        in v\<lparr>line_buffer := fold (\<lambda>byte_idx. fold (\<lambda>px.
               put_pixel scale ((byte_idx * 4 + px) * scale)
                 (palette ! unat (drop_bit (6 - px * 2) (row_data byte_idx) AND 0x03))) [0..<4])
               [0..<bytes_per_row info] (line_buffer v)\<rparr>
      else if gfx_width info = 256 \<and> css then
        v\<lparr>line_buffer := fold (\<lambda>byte_idx. fold (\<lambda>px b.
             (let x = byte_idx * 8;
                  color = artifact ! unat (drop_bit (6 - px * 2) (row_data byte_idx) AND 0x03)
              in (b[x + px * 2 := color])[x + px * 2 + 1 := color])) [0..<4])
             [0..<bytes_per_row info] (line_buffer v)\<rparr>
      else
        let fg = (if css then VDG_COLOR_BRIGHT_ORANGE else VDG_COLOR_GREEN);
            bg = (if css then VDG_COLOR_DARK_ORANGE else VDG_COLOR_DARK_GREEN);
            scale = 256 div gfx_width info
        in v\<lparr>line_buffer := fold (\<lambda>byte_idx. fold (\<lambda>n.
               put_pixel scale ((byte_idx * 8 + n) * scale)
                 (if tst (row_data byte_idx) (push_bit (7 - n) 1) then fg else bg)) [0..<8])
               [0..<bytes_per_row info] (line_buffer v)\<rparr>)"

section \<open>Scanlines\<close>

definition mc6847_render_scanline :: "(nat \<Rightarrow> u8) \<Rightarrow> mc6847 \<Rightarrow> bool \<times> mc6847" where
  "mc6847_render_scanline ram v =
     (if \<not> vram_set v then (False, v)
      else if scanline v < 0 \<or> scanline v \<ge> VDG_ACTIVE_HEIGHT then (False, v)
      else (True, if tst (mode v) VDG_AG then render_graphics_scanline ram v
                  else render_text_scanline ram (nat (scanline v)) v))"

definition mc6847_next_scanline :: "mc6847 \<Rightarrow> bool \<times> mc6847" where
  "mc6847_next_scanline v =
     (let v = v\<lparr>scanline := scanline v + 1\<rparr> in
      if scanline v \<ge> int SCANLINES_PER_FRAME then (True, v\<lparr>scanline := 0, fs := True\<rparr>)
      else (False, v\<lparr>fs := False\<rparr>))"

section \<open>Loops as pixel functions\<close>

text \<open>Nested counting loops are one loop over the product.\<close>

lemma fold_nested:
  "fold (\<lambda>i. fold (\<lambda>j. f (i * n + j)) [0..<n]) [0..<m] = fold f [0..<m * n]"
proof (induction m)
  case 0
  then show ?case by simp
next
  case (Suc m)
  have "map (\<lambda>j. m * n + j) [0..<n] = [m * n..<m * n + n]"
    by (rule nth_equalityI) simp_all
  moreover have "fold (\<lambda>j. f (m * n + j)) [0..<n] = fold f (map (\<lambda>j. m * n + j) [0..<n])"
    by (simp only: fold_map comp_def)
  ultimately have "fold (\<lambda>j. f (m * n + j)) [0..<n] = fold f [m * n..<m * n + n]"
    by (simp only:)
  moreover have "[0..<Suc m * n] = [0..<m * n] @ [m * n..<m * n + n]"
    using upt_add_eq_append [of 0 "m * n" n] by (simp add: add.commute)
  ultimately show ?case using Suc by simp
qed

lemma fold_cong_upt: "(\<And>i. i < n \<Longrightarrow> f i = g i) \<Longrightarrow> fold f [0..<n] = fold g [0..<n]"
  by (rule ext, rule fold_cong) auto

text \<open>A loop that writes every cell once leaves the function it wrote.\<close>

lemma fold_writes_length: "length (fold (\<lambda>x b. b[x := p x]) xs buf) = length buf"
  by (induction xs arbitrary: buf) auto

lemma fold_writes:
  assumes "n \<le> length buf"
  shows "fold (\<lambda>x b. b[x := p x]) [0..<n] buf = map p [0..<n] @ drop n buf"
  using assms
proof (induction n)
  case 0
  then show ?case by simp
next
  case (Suc n)
  then have "fold (\<lambda>x b. b[x := p x]) [0..<Suc n] buf = (map p [0..<n] @ drop n buf)[n := p n]"
    by simp
  also have "\<dots> = map p [0..<Suc n] @ drop (Suc n) buf"
    using Suc.prems by (simp add: list_update_append Cons_nth_drop_Suc [symmetric])
  finally show ?case .
qed

lemma fold_writes_all:
  "length buf = n \<Longrightarrow> fold (\<lambda>x b. b[x := p x]) [0..<n] buf = map p [0..<n]"
  by (simp add: fold_writes)

text \<open>Scaled pixels, clipped at the edge they never reach.\<close>

lemma fold_put_pixel:
  assumes "0 < scale" and "k * scale = 256" and "length buf = 256"
  shows "fold (\<lambda>i. put_pixel scale (i * scale) (c i)) [0..<k] buf = map (\<lambda>x. c (x div scale)) [0..<256]"
proof -
  have "put_pixel scale (i * scale) (c i) =
      fold (\<lambda>s b. b[i * scale + s := c ((i * scale + s) div scale)]) [0..<scale]" if "i < k" for i
  proof -
    have "i * scale + s < 256" if "s < scale" for s
    proof -
      have "i * scale + s < i * scale + scale" using that by simp
      also have "\<dots> = Suc i * scale" by simp
      also have "\<dots> \<le> k * scale" using \<open>i < k\<close> by (intro mult_le_mono1) simp
      finally show ?thesis using assms by simp
    qed
    then show ?thesis unfolding put_pixel_def
      by (intro fold_cong_upt) (auto simp: VDG_ACTIVE_WIDTH_def assms(1))
  qed
  then have "fold (\<lambda>i. put_pixel scale (i * scale) (c i)) [0..<k] =
      fold (\<lambda>i. fold (\<lambda>s b. b[i * scale + s := c ((i * scale + s) div scale)]) [0..<scale]) [0..<k]"
    by (intro fold_cong_upt) blast
  also have "\<dots> = fold (\<lambda>x b. b[x := c (x div scale)]) [0..<k * scale]"
    by (rule fold_nested)
  finally show ?thesis using assms by (simp add: fold_writes_all)
qed

section \<open>The picture as a formula\<close>

definition gfx_pixel :: "(nat \<Rightarrow> u8) \<Rightarrow> mc6847 \<Rightarrow> nat \<Rightarrow> u8" where
  "gfx_pixel ram v x =
     (let info = gfx_modes ! unat (mode v AND 0x07);
          css = tst (mode v) VDG_CSS;
          byte = (\<lambda>i. ram (unat (row_address v) + i));
          pair = (\<lambda>k. unat (drop_bit (6 - k mod 4 * 2) (byte (k div 4)) AND 0x03));
          k = x div (256 div gfx_width info) in
      if bpp info = 2 then (if css then color_set_1 else color_set_0) ! pair k
      else if gfx_width info = 256 \<and> css then artifact ! pair (x div 2)
      else if bit (byte (k div 8)) (7 - k mod 8)
           then if css then VDG_COLOR_BRIGHT_ORANGE else VDG_COLOR_GREEN
           else if css then VDG_COLOR_DARK_ORANGE else VDG_COLOR_DARK_GREEN)"

lemma unat_and_7: "unat ((x :: u8) AND 0x07) < 8"
proof -
  have "x AND 7 = take_bit 3 x" by (simp add: take_bit_eq_mask mask_eq_exp_minus_1)
  then show ?thesis by (simp only: unsigned_take_bit_eq) (simp add: take_bit_eq_mod)
qed

lemma gfx_modes_fill:
  assumes "i < 8"
  defines "info \<equiv> gfx_modes ! i"
  shows "bpp info = 2 \<Longrightarrow> bytes_per_row info * 4 * (256 div gfx_width info) = 256"
    and "bpp info \<noteq> 2 \<Longrightarrow> bytes_per_row info * 8 * (256 div gfx_width info) = 256"
    and "0 < 256 div gfx_width info"
    and "bpp info \<noteq> 2 \<Longrightarrow> gfx_width info = 256 \<Longrightarrow> bytes_per_row info = 32"
proof -
  have "i \<in> {0, 1, 2, 3, 4, 5, 6, 7}" using assms(1) by auto
  then show "bpp info = 2 \<Longrightarrow> bytes_per_row info * 4 * (256 div gfx_width info) = 256"
    and "bpp info \<noteq> 2 \<Longrightarrow> bytes_per_row info * 8 * (256 div gfx_width info) = 256"
    and "0 < 256 div gfx_width info"
    and "bpp info \<noteq> 2 \<Longrightarrow> gfx_width info = 256 \<Longrightarrow> bytes_per_row info = 32"
    unfolding info_def gfx_modes_def by auto
qed

text \<open>The byte loop around the pixel loop, for \<open>n\<close> pixels to a byte.\<close>

lemma fold_bytes:
  assumes "0 < n" and "0 < scale" and "m * n * scale = 256" and "length buf = 256"
  shows "fold (\<lambda>i. fold (\<lambda>px. put_pixel scale ((i * n + px) * scale) (c i px)) [0..<n]) [0..<m] buf
    = map (\<lambda>x. c (x div scale div n) (x div scale mod n)) [0..<256]"
proof -
  have "fold (\<lambda>i. fold (\<lambda>px. put_pixel scale ((i * n + px) * scale) (c i px)) [0..<n]) [0..<m] =
      fold (\<lambda>i. fold (\<lambda>px. put_pixel scale ((i * n + px) * scale)
        (c ((i * n + px) div n) ((i * n + px) mod n))) [0..<n]) [0..<m]"
    by (intro fold_cong_upt) simp
  also have "\<dots> = fold (\<lambda>k. put_pixel scale (k * scale) (c (k div n) (k mod n))) [0..<m * n]"
    by (rule fold_nested)
  finally show ?thesis
    using fold_put_pixel [OF assms(2,3,4), of "\<lambda>k. c (k div n) (k mod n)"] by simp
qed

lemma put_pair:
  "put_pixel 2 (k * 2) c b = (if k * 2 + 1 < 256 then (b[k * 2 := c])[k * 2 + 1 := c] else put_pixel 2 (k * 2) c b)"
  by (simp add: put_pixel_def VDG_ACTIVE_WIDTH_def numeral_2_eq_2)

lemma fold_artifact:
  fixes c :: "nat \<Rightarrow> nat \<Rightarrow> u8"
  assumes "length buf = 256"
  shows "fold (\<lambda>i. fold (\<lambda>px b. let x = i * 8; color = c i px in (b[x + px * 2 := color])[x + px * 2 + 1 := color])
      [0..<4]) [0..<32] buf = map (\<lambda>x. c (x div 2 div 4) (x div 2 mod 4)) [0..<256]"
proof -
  have "(\<lambda>b. let x = i * 8; color = c i px in (b[x + px * 2 := color])[x + px * 2 + 1 := color]) =
      put_pixel 2 ((i * 4 + px) * 2) (c i px)" if "i < 32" "px < 4" for i px
  proof
    fix b :: "u8 list"
    have "i \<le> 31" "px \<le> 3" using that by simp_all
    then have "(i * 4 + px) * 2 + 1 < 256" by presburger
    moreover have "(i * 4 + px) * 2 = i * 8 + px * 2" by simp
    ultimately show "(let x = i * 8; color = c i px in (b[x + px * 2 := color])[x + px * 2 + 1 := color]) =
        put_pixel 2 ((i * 4 + px) * 2) (c i px) b"
      by (subst put_pair) (simp add: Let_def algebra_simps)
  qed
  then have "fold (\<lambda>i. fold (\<lambda>px b. let x = i * 8; color = c i px in
        (b[x + px * 2 := color])[x + px * 2 + 1 := color]) [0..<4]) [0..<32] =
      fold (\<lambda>i. fold (\<lambda>px. put_pixel 2 ((i * 4 + px) * 2) (c i px)) [0..<4]) [0..<32]"
    by (intro fold_cong_upt) blast
  then show ?thesis using fold_bytes [of 4 2 32 buf c] assms by simp
qed

lemma render_graphics_pixels:
  assumes "length (line_buffer v) = 256"
  shows "render_graphics_scanline ram v = v\<lparr>line_buffer := map (gfx_pixel ram v) [0..<256]\<rparr>"
proof -
  let ?info = "gfx_modes ! unat (mode v AND 0x07)"
  note fill = gfx_modes_fill [OF unat_and_7, of "mode v"]
  consider (c) "bpp ?info = 2" | (a) "bpp ?info \<noteq> 2" "gfx_width ?info = 256" "tst (mode v) VDG_CSS"
    | (r) "bpp ?info \<noteq> 2" "\<not> (gfx_width ?info = 256 \<and> tst (mode v) VDG_CSS)" by blast
  then show ?thesis
  proof cases
    case c
    show ?thesis
      unfolding render_graphics_scanline_def gfx_pixel_def Let_def if_P [OF c]
        fold_bytes [OF zero_less_numeral fill(3) fill(1) [OF c] assms] ..
  next
    case a
    have ca: "gfx_width ?info = 256 \<and> tst (mode v) VDG_CSS" using a by simp
    show ?thesis
      unfolding render_graphics_scanline_def gfx_pixel_def if_not_P [OF a(1)] if_P [OF ca]
        fill(4) [OF a(1,2)] Let_def
      using fold_artifact [OF assms, unfolded Let_def] by simp
  next
    case r
    have "fold (\<lambda>i. fold (\<lambda>n. put_pixel s ((i * 8 + n) * s)
          (if tst (q i) (push_bit (7 - n) 1) then fg else bg)) [0..<8]) [0..<m] (line_buffer v) =
        map (\<lambda>x. if bit (q (x div s div 8)) (7 - x div s mod 8) then fg else bg) [0..<256]"
      if "0 < s" "m * 8 * s = 256" for s m fg bg and q :: "nat \<Rightarrow> u8"
      using fold_bytes [OF _ that(1) that(2) assms, of "\<lambda>i n. if tst (q i) (push_bit (7 - n) 1) then fg else bg"]
      by (simp only: tst_push_bit)
    note this [OF fill(3) fill(2) [OF r(1)]]
    then show ?thesis
      unfolding render_graphics_scanline_def gfx_pixel_def Let_def if_not_P [OF r(1)] if_not_P [OF r(2)]
      by (simp only:)
  qed
qed

text \<open>Text and semigraphics.\<close>

definition text_dot :: "u8 \<Rightarrow> nat \<Rightarrow> u8 \<Rightarrow> u8 \<Rightarrow> nat \<Rightarrow> u8" where
  "text_dot ch row_line fg bg dx =
     (if bit ch 7 then
        if bit ch (if row_line < 6 then if dx < 4 then 3 else 2 else if dx < 4 then 1 else 0)
        then drop_bit 4 ch AND 0x07 else VDG_COLOR_BLACK
      else if (0 < dx \<and> dx < 7 \<and> bit (font_6847 ! (unat (ch AND 0x3F) * 12 + row_line)) (6 - dx)) \<noteq> bit ch 6
           then fg else bg)"

text \<open>A cell's eight writes, in the two halves or the padded six the code makes them.\<close>

lemma fold_split_48:
  "fold f [4..<8] (fold f [0..<4] buf) = fold f [0..<8 :: nat] buf"
  using upt_add_eq_append [of 0 4 4] by simp

lemma fold_pad_8:
  "f 7 (fold (\<lambda>dx. f (1 + dx)) [0..<6] (f 0 buf)) = fold f [0..<8 :: nat] buf"
proof -
  have "[0..<8] = 0 # map ((+) 1) [0..<6] @ [7 :: nat]" by (simp add: upt_rec)
  then show ?thesis by (simp only: fold_simps fold_append fold_map comp_def)
qed

lemma text_dot_semi:
  assumes "bit ch 7"
  shows "dx < 4 \<Longrightarrow> text_dot ch rl fg bg dx =
      (if (if rl < 6 then tst ch 0x08 else tst ch 0x02) then drop_bit 4 ch AND 0x07 else VDG_COLOR_BLACK)"
    and "4 \<le> dx \<Longrightarrow> text_dot ch rl fg bg dx =
      (if (if rl < 6 then tst ch 0x04 else tst ch 0x01) then drop_bit 4 ch AND 0x07 else VDG_COLOR_BLACK)"
  using assms by (simp_all add: text_dot_def tst_simps)

lemma tst_font_bit: "dx < 6 \<Longrightarrow> tst (bits :: u8) (drop_bit dx 0x20) \<longleftrightarrow> bit bits (5 - dx)"
proof -
  assume "dx < 6"
  then have "dx \<in> {0, 1, 2, 3, 4, 5}" by auto
  then have "drop_bit dx (0x20 :: u8) = push_bit (5 - dx) 1"
    by (auto simp: drop_bit_eq_div)
  then show ?thesis by (simp only: tst_push_bit)
qed

lemma text_dot_char:
  assumes "\<not> bit ch 7"
  shows "dx < 6 \<Longrightarrow> text_dot ch rl fg bg (1 + dx) =
      (if tst (font_6847 ! (unat (ch AND 0x3F) * 12 + rl)) (drop_bit dx 0x20)
       then if tst ch 0x40 then bg else fg else if tst ch 0x40 then fg else bg)"
    and "text_dot ch rl fg bg 0 = (if tst ch 0x40 then fg else bg)"
    and "text_dot ch rl fg bg 7 = (if tst ch 0x40 then fg else bg)"
  using assms by (auto simp: text_dot_def tst_simps tst_font_bit)

lemma text_cell_writes:
  "text_cell ram rv rl fg bg col buf =
     fold (\<lambda>dx b. b[col * 8 + dx := text_dot (ram (rv + col)) rl fg bg dx]) [0..<8] buf"
proof (cases "bit (ram (rv + col)) 7")
  case True
  then have t: "tst (ram (rv + col)) 0x80" by (simp add: tst_simps)
  note semi = text_dot_semi [OF True]
  show ?thesis
    unfolding text_cell_def Let_def if_P [OF t] fold_split_48 [symmetric]
    by (intro fold_cong) (simp_all only: semi(1) semi(2) atLeastLessThan_iff set_upt)
next
  case False
  then have t: "\<not> tst (ram (rv + col)) 0x80" by (simp add: tst_simps)
  note char = text_dot_char [OF False]
  show ?thesis
    unfolding text_cell_def Let_def if_not_P [OF t] fold_pad_8 [symmetric] char(2,3) add.assoc
    by (intro arg_cong [of _ _ "\<lambda>b. b[col * 8 + 7 := _]"] fold_cong) (simp_all only: char(1) atLeastLessThan_iff set_upt)
qed

definition text_pixel :: "(nat \<Rightarrow> u8) \<Rightarrow> mc6847 \<Rightarrow> nat \<Rightarrow> u8" where
  "text_pixel ram v x =
     (let line = nat (scanline v) in
      text_dot (ram (unat (vram_offset v) + line div 12 * 32 + x div 8)) (line mod 12)
        (if tst (mode v) VDG_CSS then VDG_COLOR_ORANGE else VDG_COLOR_GREEN) VDG_COLOR_BLACK (x mod 8))"

lemma render_text_pixels:
  assumes "length (line_buffer v) = 256" and "nat (scanline v) < 192"
  shows "render_text_scanline ram (nat (scanline v)) v =
    v\<lparr>line_buffer := map (text_pixel ram v) [0..<256]\<rparr>"
proof -
  have "fold (text_cell ram rv rl fg bg) [0..<32] (line_buffer v) =
      map (\<lambda>x. text_dot (ram (rv + x div 8)) rl fg bg (x mod 8)) [0..<256]" for rv rl fg bg
  proof -
    have "fold (text_cell ram rv rl fg bg) [0..<32] =
        fold (\<lambda>i. fold (\<lambda>j b. b[i * 8 + j :=
          text_dot (ram (rv + (i * 8 + j) div 8)) rl fg bg ((i * 8 + j) mod 8)]) [0..<8]) [0..<32]"
      by (intro fold_cong_upt ext, subst text_cell_writes, rule fold_cong) auto
    also have "\<dots> = fold (\<lambda>x b. b[x := text_dot (ram (rv + x div 8)) rl fg bg (x mod 8)]) [0..<32 * 8]"
      by (rule fold_nested)
    finally show ?thesis using assms(1) by (simp add: fold_writes_all)
  qed
  moreover have "nat (scanline v) div 12 < 16" using assms(2) by (simp add: div_less_iff_less_mult)
  ultimately show ?thesis
    by (simp add: render_text_scanline_def text_pixel_def Let_def)
qed



end
