(* ===== verification/Machine_CoCo2.thy ===== *)
theory Machine_CoCo2
  imports Machine_Base Sam6883 Mc6847
begin

text \<open>
  The CoCo 2 half of \<open>src/src/core/machine.cpp\<close>: the memory map behind the CPU's callbacks, the
  8 KB page tables that bypass them, the routing of the PIA interrupt outputs to the CPU, init,
  reset, and the scanline and frame loops. The record \<open>coco2\<close> adds to the shared machine the chips
  and buffers the CoCo 2 uses. The HD6309 interpreter selected by \<open>variant\<close> is an argument of the
  scanline loop.
\<close>

section \<open>State\<close>

text \<open>A page-table pointer: which buffer it points into, at which offset.\<close>

datatype page_ptr = P_ram nat | P_extbas nat | P_basic nat | P_cart nat

record 'p coco2 = "'p machine" +
  vdg :: mc6847
  sam :: sam6883
  ram :: "nat \<Rightarrow> u8"
  ram_size :: nat
  rom_basic :: "nat \<Rightarrow> u8"
  rom_extbas :: "nat \<Rightarrow> u8"
  rom_cart :: "nat \<Rightarrow> u8"
  rom_basic_loaded :: bool
  rom_extbas_loaded :: bool
  rom_cart_loaded :: bool
  coco2_rd_page :: "nat \<Rightarrow> page_ptr option"
  coco2_wr_page :: "nat \<Rightarrow> page_ptr option"

definition COCO_RAM_SIZE :: nat where "COCO_RAM_SIZE = 512 * 1024"

section \<open>Wiring\<close>

definition update_vdg_mode_coco2 :: "'p coco2 \<Rightarrow> 'p coco2" where
  "update_vdg_mode_coco2 m =
     (let pb = data_b (pia1 m) AND ddr_b (pia1 m);
          vdg_mode = flag_if (tst pb 0x80) VDG_AG OR flag_if (tst pb 0x08) VDG_CSS
                     OR (drop_bit 4 pb AND 0x07)
      in m\<lparr>vdg := mc6847_set_mode vdg_mode (vdg m)\<rparr>)"

fun pia_level :: "pia_irq \<Rightarrow> bool" where
  "pia_level (IrqA l) = l"
| "pia_level (IrqB l) = l"

text \<open>The four callbacks: both outputs of PIA0 drive IRQ, both of PIA1 drive FIRQ.\<close>

definition route_pia0_coco2 :: "pia_irq list \<Rightarrow> 'p coco2 \<Rightarrow> 'p coco2" where
  "route_pia0_coco2 evs m = fold (\<lambda>e. mc6809_irq (pia_level e)) evs m"

definition route_pia1_coco2 :: "pia_irq list \<Rightarrow> 'p coco2 \<Rightarrow> 'p coco2" where
  "route_pia1_coco2 evs m = fold (\<lambda>e. mc6809_firq (pia_level e)) evs m"

definition update_fast_pages_coco2 :: "'p coco2 \<Rightarrow> 'p coco2" where
  "update_fast_pages_coco2 m =
     (let rd = (\<lambda>i. if i < 4 \<or> sam_ty (sam m) then Some (P_ram (i * 0x2000))
                    else if i = 4 then if rom_extbas_loaded m then Some (P_extbas 0) else None
                    else if i = 5 then if rom_basic_loaded m then Some (P_basic 0) else None
                    else if rom_cart_loaded m then Some (P_cart ((i - 6) * 0x2000)) else None);
          wr = (\<lambda>i. if i < 4 \<or> sam_ty (sam m) then Some (P_ram (i * 0x2000)) else None)
      in m\<lparr>coco2_rd_page := (\<lambda>i. if i < 8 then rd i else coco2_rd_page m i),
           coco2_wr_page := (\<lambda>i. if i < 8 then wr i else coco2_wr_page m i)\<rparr>)"

section \<open>Memory callbacks\<close>

definition pia0_read_coco2 :: "'p devices \<Rightarrow> u8 \<Rightarrow> 'p coco2 \<Rightarrow> u8 \<times> 'p coco2" where
  "pia0_read_coco2 D reg m =
     (let m = (if reg = 0 \<and> tst (ctrl_a (pia0 m)) PIA_CR_DDR_SEL then scan_inputs D m else m);
          (v, p, evs) = mc6821_read (pia0 m) reg
      in (v, route_pia0_coco2 evs (m\<lparr>pia0 := p\<rparr>)))"

definition pia1_read_coco2 :: "u8 \<Rightarrow> 'p coco2 \<Rightarrow> u8 \<times> 'p coco2" where
  "pia1_read_coco2 reg m =
     (let (v, p, evs) = mc6821_read (pia1 m) reg in (v, route_pia1_coco2 evs (m\<lparr>pia1 := p\<rparr>)))"

definition vector_read_coco2 :: "u16 \<Rightarrow> 'p coco2 \<Rightarrow> u8" where
  "vector_read_coco2 addr m =
     (if rom_extbas_loaded m \<and> rom_basic_loaded m then
        let rom_offset = addr - 0xA000 in
        if rom_offset < 0x2000 then rom_basic m (unat rom_offset)
        else if addr \<ge> 0xFFF0 then rom_basic m (unat (0x1FF0 + (addr AND 0x0F)))
        else rom_basic m (unat (0x1FE0 + (addr AND 0x1F)))
      else 0xFF)"

definition machine_read_coco2 :: "'p devices \<Rightarrow> u16 \<Rightarrow> 'p coco2 \<Rightarrow> u8 \<times> 'p coco2" where
  "machine_read_coco2 D addr m =
     (if addr \<ge> 0xFF00 then
        if addr < 0xFF20 then pia0_read_coco2 D (ucast (addr AND 0x03)) m
        else if addr < 0xFF40 then pia1_read_coco2 (ucast (addr AND 0x03)) m
        else if addr < 0xFF60 then
          if becker_enabled D (dev m) \<and> addr = BECKER_STATUS_ADDR then dev_read (becker_read_status D) m
          else if becker_enabled D (dev m) \<and> addr = BECKER_DATA_ADDR then dev_read (becker_read_data D) m
          else fdc_read D addr m
        else if rs232_pak_enabled D (dev m) \<and> addr AND 0xFFFC = 0xFF68 then
          dev_read (rs232_read D (ucast (addr AND 0x03))) m
        else if ssc_enabled D (dev m) \<and> addr - SSC_CTRL_ADDR < 2 then dev_read (ssc_read D addr) m
        else if vhd_enabled D (dev m) \<and> vhd_is_port addr then (vhd_read addr (vhd_dev m), m)
        else if addr < 0xFFC0 then (0xFF, m)
        else if addr < 0xFFE0 then (0xFF, m)
        else (vector_read_coco2 addr m, m)
      else if addr \<ge> 0x8000 then
        if sam_ty (sam m) \<and> unat addr < ram_size m then (ram m (unat addr), m)
        else if addr \<ge> 0xC000 then
          (if rom_cart_loaded m then rom_cart m (unat (addr - 0xC000)) else 0xFF, m)
        else if addr \<ge> 0xA000 then
          (if rom_basic_loaded m then rom_basic m (unat (addr - 0xA000)) else 0xFF, m)
        else (if rom_extbas_loaded m then rom_extbas m (unat (addr - 0x8000)) else 0xFF, m)
      else if unat addr < ram_size m then (ram m (unat addr), m)
      else (0xFF, m))"

definition pia0_write_coco2 :: "u8 \<Rightarrow> u8 \<Rightarrow> 'p coco2 \<Rightarrow> 'p coco2" where
  "pia0_write_coco2 reg val m =
     (let (p, evs) = mc6821_write (pia0 m) reg val
      in sound_pia0_written reg (route_pia0_coco2 evs (m\<lparr>pia0 := p\<rparr>)))"

definition pia1_write_coco2 :: "u8 \<Rightarrow> u8 \<Rightarrow> 'p coco2 \<Rightarrow> 'p coco2" where
  "pia1_write_coco2 reg val m =
     (let (p, evs) = mc6821_write (pia1 m) reg val;
          m = route_pia1_coco2 evs (m\<lparr>pia1 := p\<rparr>);
          m = (if reg = 2 \<or> reg = 3 then update_vdg_mode_coco2 m else m)
      in sound_pia1_written reg m)"

definition sam_write_coco2 :: "u16 \<Rightarrow> 'p coco2 \<Rightarrow> 'p coco2" where
  "sam_write_coco2 addr m =
     (let m = m\<lparr>sam := sam6883_write (sam m) (ucast (addr - 0xFFC0))\<rparr>;
          m = update_fast_pages_coco2 m;
          m = m\<lparr>vdg := (vdg m)\<lparr>vram_offset := sam6883_get_vdg_address (sam m)\<rparr>\<rparr>
      in update_vdg_mode_coco2 m)"

definition poke_ram :: "nat \<Rightarrow> u8 \<Rightarrow> 'p coco2 \<Rightarrow> 'p coco2" where
  "poke_ram a val m = m\<lparr>ram := (ram m)(a := val)\<rparr>"

text \<open>The body of the write callback; \<open>wr\<close> is the callback itself, for the hard disk's transfers.\<close>

definition write_body_coco2 ::
  "'p devices \<Rightarrow> (u16 \<Rightarrow> u8 \<Rightarrow> 'p coco2 \<Rightarrow> 'p coco2) \<Rightarrow> u16 \<Rightarrow> u8 \<Rightarrow> 'p coco2 \<Rightarrow> 'p coco2" where
  "write_body_coco2 D wr addr val m =
     (if addr \<ge> 0xFF00 then
        if addr < 0xFF20 then pia0_write_coco2 (ucast (addr AND 0x03)) val m
        else if addr < 0xFF40 then pia1_write_coco2 (ucast (addr AND 0x03)) val m
        else if addr < 0xFF60 then
          if becker_enabled D (dev m) \<and> (addr = BECKER_STATUS_ADDR \<or> addr = BECKER_DATA_ADDR) then
            (if addr = BECKER_DATA_ADDR then dev_write (becker_write_data D val) m else m)
          else fdc_write D addr val m
        else if rs232_pak_enabled D (dev m) \<and> addr AND 0xFFFC = 0xFF68 then
          dev_write (rs232_write D (ucast (addr AND 0x03)) val) m
        else if orch90_enabled D (dev m) \<and> addr AND 0xFFFE = ORCH90_LEFT_ADDR then
          (let (o', s') = orch90_write addr val (orch m, snd_core m) in m\<lparr>orch := o', snd_core := s'\<rparr>)
        else if ssc_enabled D (dev m) \<and> addr - SSC_CTRL_ADDR < 2 then dev_write (ssc_write D addr val) m
        else if vhd_enabled D (dev m) \<and> vhd_is_port addr then
          vhd_write D (machine_read_coco2 D) wr addr val m
        else if addr < 0xFFC0 then m
        else if addr \<le> 0xFFDF then sam_write_coco2 addr m
        else m
      else if addr \<ge> 0x8000 then
        if sam_ty (sam m) \<and> unat addr < ram_size m then poke_ram (unat addr) val m else m
      else if unat addr < ram_size m then poke_ram (unat addr) val m
      else m)"

primrec write_nested_coco2 :: "'p devices \<Rightarrow> nat \<Rightarrow> u16 \<Rightarrow> u8 \<Rightarrow> 'p coco2 \<Rightarrow> 'p coco2" where
  "write_nested_coco2 D 0 = (\<lambda>addr val m. m\<lparr>stack_overflow := True\<rparr>)"
| "write_nested_coco2 D (Suc n) = write_body_coco2 D (write_nested_coco2 D n)"

definition machine_write_coco2 :: "'p devices \<Rightarrow> u16 \<Rightarrow> u8 \<Rightarrow> 'p coco2 \<Rightarrow> 'p coco2" where
  "machine_write_coco2 D = write_body_coco2 D (write_nested_coco2 D (stack_depth D))"

text \<open>Following a page-table pointer, and the bus the CPU core is wired to.\<close>

fun ptr_read :: "'p coco2 \<Rightarrow> page_ptr \<Rightarrow> nat \<Rightarrow> u8" where
  "ptr_read m (P_ram b) i = ram m (b + i)"
| "ptr_read m (P_extbas b) i = rom_extbas m (b + i)"
| "ptr_read m (P_basic b) i = rom_basic m (b + i)"
| "ptr_read m (P_cart b) i = rom_cart m (b + i)"

fun ptr_write :: "'p coco2 \<Rightarrow> page_ptr \<Rightarrow> nat \<Rightarrow> u8 \<Rightarrow> 'p coco2" where
  "ptr_write m (P_ram b) i v = m\<lparr>ram := (ram m)(b + i := v)\<rparr>"
| "ptr_write m (P_extbas b) i v = m\<lparr>rom_extbas := (rom_extbas m)(b + i := v)\<rparr>"
| "ptr_write m (P_basic b) i v = m\<lparr>rom_basic := (rom_basic m)(b + i := v)\<rparr>"
| "ptr_write m (P_cart b) i v = m\<lparr>rom_cart := (rom_cart m)(b + i := v)\<rparr>"

definition coco2_bus :: "'p devices \<Rightarrow> 'p coco2 bus" where
  "coco2_bus D =
     \<lparr>bus_read = machine_read_coco2 D,
      bus_write = machine_write_coco2 D,
      bus_rd_page = (\<lambda>i m. map_option (ptr_read m) (coco2_rd_page m i)),
      bus_wr_page = (\<lambda>i m. map_option (ptr_write m) (coco2_wr_page m i))\<rparr>"

section \<open>Init, ROMs and reset\<close>

text \<open>\<open>machine_init_coco2\<close> on a cleared struct, its allocations succeeding; the file-scope state of
  the other modules (sound, Orchestra-90, hard disk, peripherals) is carried over.\<close>

definition machine_init_coco2 :: "u8 \<Rightarrow> 'p coco2 \<Rightarrow> 'p coco2" where
  "machine_init_coco2 cpu_variant m =
     (let m = m\<lparr>cycles_per_frame := 0, cycles_this_frame := 0, m_scanline := 0, initialized := False,
            cart_inserted := False, cart_autostart := False, ntsc := False, frame_count := 0,
            rom_basic_loaded := False, rom_extbas_loaded := False, rom_cart_loaded := False\<rparr>;
          m = m\<lparr>ram_size := COCO_RAM_SIZE, rom_basic := (\<lambda>_. 0xFF), rom_extbas := (\<lambda>_. 0xFF),
            rom_cart := (\<lambda>_. 0xFF)\<rparr>;
          m = mc6809_init m;
          m = m\<lparr>variant := cpu_variant, read_cb := True, write_cb := True, fast_limit := 0xFF00,
            idle_skip := True\<rparr>;
          m = m\<lparr>pia0 := mc6821_init\<lparr>irq_a_callback := True, irq_b_callback := True\<rparr>,
            pia1 := mc6821_init\<lparr>irq_a_callback := True, irq_b_callback := True\<rparr>,
            vdg := mc6847_init, sam := sam6883_init\<rparr>;
          m = update_fast_pages_coco2 m
      in m\<lparr>ntsc := True, cycles_per_frame := CYCLES_PER_FRAME, cart_inserted := False,
           cart_autostart := False, initialized := True\<rparr>)"

definition machine_load_roms_coco2 ::
  "u8 list option \<Rightarrow> u8 list option \<Rightarrow> u8 list option \<Rightarrow> 'p coco2 \<Rightarrow> bool \<times> 'p coco2" where
  "machine_load_roms_coco2 basic extbas cart m =
     (if \<not> initialized m then (False, m)
      else
        let m = m\<lparr>rom_basic := load_into basic 8192 (rom_basic m),
                  rom_basic_loaded := rom_basic_loaded m \<or> basic \<noteq> None\<rparr>;
            m = m\<lparr>rom_extbas := load_into extbas 8192 (rom_extbas m),
                  rom_extbas_loaded := rom_extbas_loaded m \<or> extbas \<noteq> None\<rparr>;
            m = m\<lparr>rom_cart := load_into cart 16384 (rom_cart m)\<rparr>;
            m = (if cart \<noteq> None then
                   m\<lparr>rom_cart_loaded := True, cart_inserted := True,
                     cart_autostart := cart_rom_autostarts (rom_cart m)\<rparr>
                 else m);
            m = update_fast_pages_coco2 m
        in (rom_basic_loaded m, m))"

definition machine_reset_coco2 :: "'p devices \<Rightarrow> 'p coco2 \<Rightarrow> 'p coco2" where
  "machine_reset_coco2 D m =
     (if \<not> initialized m then m
      else
        let m = m\<lparr>ram := (\<lambda>i. if i < ram_size m then 0 else ram m i)\<rparr>;
            (p0, ev0) = mc6821_reset (pia0 m);
            m = route_pia0_coco2 ev0 (m\<lparr>pia0 := p0\<rparr>);
            (p1, ev1) = mc6821_reset (pia1 m);
            m = route_pia1_coco2 ev1 (m\<lparr>pia1 := p1\<rparr>);
            m = m\<lparr>snd_core := sound_reset (snd_core m)\<rparr>;
            m = m\<lparr>vdg := mc6847_reset (vdg m)\<rparr>;
            m = m\<lparr>sam := sam6883_reset (sam m)\<rparr>;
            m = update_fast_pages_coco2 m;
            m = m\<lparr>pia0 := (pia0 m)\<lparr>irq_a_callback := True, irq_b_callback := True\<rparr>,
                  pia1 := (pia1 m)\<lparr>irq_a_callback := True, irq_b_callback := True\<rparr>\<rparr>;
            m = m\<lparr>vdg := (vdg m)\<lparr>vram_set := True, vram_offset := sam6883_get_vdg_address (sam m),
                  row_address := sam6883_get_vdg_address (sam m)\<rparr>\<rparr>;
            m = m\<lparr>sam := sam6883_vdg_fsync (sam m) True\<rparr>;
            m = m\<lparr>cycles_this_frame := 0, m_scanline := 0, frame_count := 0\<rparr>
        in snd (run_state (mc6809_reset (coco2_bus D)) m))"

section \<open>Scanlines and frames\<close>

definition rs232_firq :: "'p devices \<Rightarrow> int \<Rightarrow> 'p coco2 \<Rightarrow> 'p coco2" where
  "rs232_firq D actual m =
     (if rs232_pak_enabled D (dev m) then
        let m = m\<lparr>dev := rs232_tick D (word_of_int actual) (dev m)\<rparr>;
            pia1_firq = pia_irq_out (ctrl_a (pia1 m)) \<or> pia_irq_out (ctrl_b (pia1 m))
        in m\<lparr>firq_pending := pia1_firq \<or> rs232_irq_active D (dev m)\<rparr>
      else m)"

definition pia0_cb1 :: "bool \<Rightarrow> 'p coco2 \<Rightarrow> 'p coco2" where
  "pia0_cb1 rising m =
     (let (p, evs) = mc6821_cb1_transition (pia0 m) rising in route_pia0_coco2 evs (m\<lparr>pia0 := p\<rparr>))"

definition pia1_cb1 :: "bool \<Rightarrow> 'p coco2 \<Rightarrow> 'p coco2" where
  "pia1_cb1 rising m =
     (let (p, evs) = mc6821_cb1_transition (pia1 m) rising in route_pia1_coco2 evs (m\<lparr>pia1 := p\<rparr>))"

definition fetch_bytes_per_row :: "int list" where
  "fetch_bytes_per_row = [16, 16, 32, 16, 32, 16, 32, 32]"

text \<open>The video part of a scanline, after the CPU has run.\<close>

definition draw_line_coco2 :: "'p devices \<Rightarrow> 'p coco2 \<Rightarrow> 'p coco2" where
  "draw_line_coco2 D m =
     (let m = m\<lparr>vdg := (vdg m)\<lparr>row_address := sam6883_get_vdg_row_address (sam m),
                             scanline := uint (m_scanline m)\<rparr>\<rparr>;
          (drawn, v) = mc6847_render_scanline (ram m) (vdg m);
          m = m\<lparr>vdg := v\<rparr>;
          m = (if drawn then m\<lparr>dev := hal_video_render_scanline D (m_scanline m) (line_buffer (vdg m)) (dev m)\<rparr>
               else m);
          bpr = (if tst (mode (vdg m)) VDG_AG then fetch_bytes_per_row ! unat (vdg_mode (sam m)) else 32)
      in m\<lparr>sam := sam6883_vdg_fetch_bytes (sam m) bpr\<rparr>)"

definition video_line_coco2 :: "'p devices \<Rightarrow> 'p coco2 \<Rightarrow> 'p coco2" where
  "video_line_coco2 D m =
     (let m = (if m_scanline m = 0 then
                 let m = m\<lparr>vdg := (vdg m)\<lparr>fs := False\<rparr>\<rparr>;
                     m = pia0_cb1 True m
                 in m\<lparr>sam := sam6883_vdg_fsync (sam m) True\<rparr>
               else m);
          m = (if m_scanline m < ACTIVE_SCANLINES then draw_line_coco2 D m else m);
          m = m\<lparr>sam := sam6883_vdg_hsync (sam m) False\<rparr>;
          m = (if m_scanline m = ACTIVE_SCANLINES then
                 pia0_cb1 False (m\<lparr>vdg := (vdg m)\<lparr>fs := True\<rparr>\<rparr>)
               else m)
      in m\<lparr>m_scanline := m_scanline m + 1\<rparr>)"

definition machine_run_scanline_coco2 ::
  "'p devices \<Rightarrow> (int \<Rightarrow> 'p coco2 \<Rightarrow> (int \<times> 'p coco2) option) \<Rightarrow> 'p coco2 \<Rightarrow> 'p coco2 option" where
  "machine_run_scanline_coco2 D hd6309_run m =
     (if \<not> initialized m then Some m
      else
        case mc6809_run_variant hd6309_run (coco2_bus D) (line_budget m) (fdc_tick D m) of
          None \<Rightarrow> None
        | Some (actual, m) \<Rightarrow>
            let m = m\<lparr>cycles_this_frame := cycles_this_frame m + word_of_int actual\<rparr>;
                m = rs232_firq D actual m
            in Some (video_line_coco2 D m))"

definition cart_autostart_pulse :: "'p coco2 \<Rightarrow> 'p coco2" where
  "cart_autostart_pulse m = (if \<not> cart_autostart m then m else pia1_cb1 False (pia1_cb1 True m))"

definition line_step_coco2 ::
  "'p devices \<Rightarrow> (int \<Rightarrow> 'p coco2 \<Rightarrow> (int \<times> 'p coco2) option) \<Rightarrow> 'p coco2 \<Rightarrow> 'p coco2 option" where
  "line_step_coco2 D hd6309_run m = map_option (line_ticks D) (machine_run_scanline_coco2 D hd6309_run m)"

definition machine_run_frame_coco2 ::
  "'p devices \<Rightarrow> (int \<Rightarrow> 'p coco2 \<Rightarrow> (int \<times> 'p coco2) option) \<Rightarrow> 'p coco2 \<Rightarrow> 'p coco2 option" where
  "machine_run_frame_coco2 D hd6309_run m =
     (if \<not> initialized m then Some m
      else
        let m = m\<lparr>scanline_cycle_targets := line_targets (cycles_per_frame m) (scanline_cycle_targets m)\<rparr>;
            m = m\<lparr>cycles_this_frame := 0, m_scanline := 0\<rparr>;
            m = cart_autostart_pulse m
        in map_option (\<lambda>m.
             let d = hal_audio_commit_frame D (dev m);
                 d = hal_video_present D (ram m) (vdg_base (sam m)) (mode (vdg m)) d
             in m\<lparr>dev := d, frame_count := frame_count m + 1\<rparr>)
           (for_lines (line_step_coco2 D hd6309_run) SCANLINES_PER_FRAME m))"

section \<open>The bus keeps time\<close>

lemma cycles_route [frame_simps]:
  "cycles (route_pia0_coco2 evs m) = cycles m" "cycles (route_pia1_coco2 evs m) = cycles m"
  by (simp_all add: route_pia0_coco2_def route_pia1_coco2_def mc6809_irq_def mc6809_firq_def
      fold_frame [of _ cycles])

lemma cycles_read_coco2: "cycles (snd (machine_read_coco2 D a m)) = cycles m"
  by (simp add: machine_read_coco2_def pia0_read_coco2_def pia1_read_coco2_def Let_def
      case_prod_unfold frame_simps)

lemma cycles_pia_write [frame_simps]:
  "cycles (pia0_write_coco2 reg v m) = cycles m" "cycles (pia1_write_coco2 reg v m) = cycles m"
  "cycles (sam_write_coco2 a m) = cycles m"
  by (simp_all add: pia0_write_coco2_def pia1_write_coco2_def sam_write_coco2_def
      update_vdg_mode_coco2_def update_fast_pages_coco2_def Let_def case_prod_unfold frame_simps)

lemma cycles_write_body:
  "(\<And>a v m. cycles (wr a v m) = cycles m) \<Longrightarrow> cycles (write_body_coco2 D wr a v m) = cycles m"
  by (simp add: write_body_coco2_def case_prod_unfold Let_def frame_simps poke_ram_def
      cycles_vhd_write cycles_read_coco2)

lemma cycles_write_coco2: "cycles (machine_write_coco2 D a v m) = cycles m"
proof -
  have "cycles (write_nested_coco2 D n a v m) = cycles m" for n a v m
    by (induction n arbitrary: a v m) (simp_all add: cycles_write_body)
  then show ?thesis by (simp add: machine_write_coco2_def cycles_write_body)
qed

lemma cycles_ptr_write: "cycles (ptr_write m p i v) = cycles m"
  by (cases p) simp_all

interpretation coco2_timed: timed_bus "coco2_bus D" for D :: "'p devices"
  by unfold_locales (auto simp: coco2_bus_def cycles_read_coco2 cycles_write_coco2 cycles_ptr_write)

end
