(* ===== verification/CoCo2_Memory.thy ===== *)
theory CoCo2_Memory
  imports Machine_CoCo2
begin

text \<open>
  The memory side of the CoCo 2 of \<open>src/src/core/machine.cpp\<close>: the 8 KB page tables agree with the
  read and write callbacks, and an invariant of the whole machine that every bus access, and so
  every instruction of the CPU, keeps.
\<close>

section \<open>Page tables\<close>

definition pages_current :: "'p coco2 \<Rightarrow> bool" where
  "pages_current m \<longleftrightarrow>
     (\<forall>i<8. coco2_rd_page m i = coco2_rd_page (update_fast_pages_coco2 m) i \<and>
            coco2_wr_page m i = coco2_wr_page (update_fast_pages_coco2 m) i)"

lemma fast_read_coco2:
  assumes cur: "pages_current m" and sz: "65536 \<le> ram_size m" and a: "a < 0xFF00"
    and p: "coco2_rd_page m (unat (drop_bit 13 a)) = Some ptr"
  shows "machine_read_coco2 D a m = (ptr_read m ptr (unat (a AND 0x1FFF)), m)"
proof -
  let ?i = "unat (drop_bit 13 a)" and ?o = "unat (a AND 0x1FFF)"
  have i: "?i < 8" and off: "?o < 8192" by (rule page_bounds)+
  have ua: "unat a = ?i * 8192 + ?o" by (rule page_split)
  have p': "coco2_rd_page (update_fast_pages_coco2 m) ?i = Some ptr"
    using cur i p unfolding pages_current_def by metis
  have lim: "unat a < 0xFF00" "\<not> a \<ge> 0xFF00" using a by (simp_all add: word_less_nat_alt word_le_nat_alt)
  consider (ram) "?i < 4 \<or> sam_ty (sam m)" | (rom) "?i \<ge> 4" "\<not> sam_ty (sam m)" by linarith
  then show ?thesis
  proof cases
    case ram
    then have ptr: "ptr = P_ram (?i * 8192)"
      using p' i by (simp add: update_fast_pages_coco2_def Let_def)
    have "a < 0x8000 \<or> sam_ty (sam m)" using ram ua off by (auto simp: word_less_nat_alt)
    then show ?thesis using lim sz ua ptr
      by (auto simp: machine_read_coco2_def word_le_nat_alt word_less_nat_alt)
  next
    case rom
    then have "?i \<in> {4, 5, 6, 7}" using i by auto
    then consider (4) "?i = 4" | (5) "?i = 5" | (67) "?i = 6 \<or> ?i = 7" by auto
    then show ?thesis
    proof cases
      case 4
      have f: "a \<ge> 0x8000" "\<not> a \<ge> 0xA000" "\<not> a \<ge> 0xC000" "unat (a - 0x8000) = ?o"
        using 4 ua off by (simp_all add: word_le_nat_alt unat_sub_if')
      show ?thesis using 4 p' f lim(2) rom(2)
        by (auto simp: update_fast_pages_coco2_def machine_read_coco2_def Let_def split: if_splits)
    next
      case 5
      have f: "a \<ge> 0x8000" "a \<ge> 0xA000" "\<not> a \<ge> 0xC000" "unat (a - 0xA000) = ?o"
        using 5 ua off by (simp_all add: word_le_nat_alt unat_sub_if')
      show ?thesis using 5 p' f lim(2) rom(2)
        by (auto simp: update_fast_pages_coco2_def machine_read_coco2_def Let_def split: if_splits)
    next
      case 67
      have f: "a \<ge> 0x8000" "a \<ge> 0xC000" "unat (a - 0xC000) = (?i - 6) * 8192 + ?o"
        using 67 ua off by (auto simp: word_le_nat_alt unat_sub_if')
      have "ptr = P_cart ((?i - 6) * 8192)" "rom_cart_loaded m"
        using 67 p' rom(2) by (auto simp: update_fast_pages_coco2_def Let_def split: if_splits)
      then show ?thesis using f lim(2) rom(2) by (simp add: machine_read_coco2_def)
    qed
  qed
qed

lemma fast_write_coco2:
  assumes cur: "pages_current m" and sz: "65536 \<le> ram_size m" and a: "a < 0xFF00"
    and p: "coco2_wr_page m (unat (drop_bit 13 a)) = Some ptr"
  shows "write_body_coco2 D wr a v m = ptr_write m ptr (unat (a AND 0x1FFF)) v"
proof -
  let ?i = "unat (drop_bit 13 a)" and ?o = "unat (a AND 0x1FFF)"
  have i: "?i < 8" and off: "?o < 8192" by (rule page_bounds)+
  have ua: "unat a = ?i * 8192 + ?o" by (rule page_split)
  have p': "coco2_wr_page (update_fast_pages_coco2 m) ?i = Some ptr"
    using cur i p unfolding pages_current_def by metis
  have lim: "unat a < 0xFF00" "\<not> a \<ge> 0xFF00" using a by (simp_all add: word_less_nat_alt word_le_nat_alt)
  have ram: "?i < 4 \<or> sam_ty (sam m)" and ptr: "ptr = P_ram (?i * 8192)"
    using p' i by (auto simp: update_fast_pages_coco2_def Let_def split: if_splits)
  have "\<not> a \<ge> 0x8000 \<or> sam_ty (sam m)" using ram ua off by (auto simp: word_le_nat_alt)
  moreover have "unat a < ram_size m" using sz lim(1) by simp
  ultimately show ?thesis using lim(2) ua ptr
    unfolding write_body_coco2_def if_not_P [OF lim(2)] by (auto simp: poke_ram_def)
qed

lemma unmapped_write_coco2:
  assumes cur: "pages_current m" and a: "a < 0xFF00"
    and p: "coco2_wr_page m (unat (drop_bit 13 a)) = None"
  shows "write_body_coco2 D wr a v m = m"
proof -
  let ?i = "unat (drop_bit 13 a)" and ?o = "unat (a AND 0x1FFF)"
  have i: "?i < 8" and off: "?o < 8192" by (rule page_bounds)+
  have ua: "unat a = ?i * 8192 + ?o" by (rule page_split)
  have p': "coco2_wr_page (update_fast_pages_coco2 m) ?i = None"
    using cur i p unfolding pages_current_def by metis
  then have "\<not> ?i < 4" "\<not> sam_ty (sam m)" using i
    by (auto simp: update_fast_pages_coco2_def Let_def split: if_splits)
  moreover have "\<not> a \<ge> 0xFF00" "a \<ge> 0x8000"
    using a ua \<open>\<not> ?i < 4\<close> by (simp_all add: word_less_nat_alt word_le_nat_alt)
  ultimately show ?thesis by (simp add: write_body_coco2_def)
qed

lemma mem_read_coco2:
  assumes "pages_current m" and "65536 \<le> ram_size m" and "fast_limit m = 0xFF00"
  shows "run_state (mem_read (coco2_bus D) a) m = machine_read_coco2 D a m"
  using assms fast_read_coco2 [OF assms(1,2), of a _ D]
  by (auto simp: mem_read_def coco2_bus_def split: option.splits)

lemma mem_write_coco2:
  assumes "pages_current m" and "65536 \<le> ram_size m" and "fast_limit m = 0xFF00"
  shows "run_state (mem_write (coco2_bus D) a v) m = ((), machine_write_coco2 D a v m)"
  using assms fast_write_coco2 [OF assms(1,2), of a _ D]
  by (auto simp: mem_write_def coco2_bus_def machine_write_coco2_def split: option.splits)

text \<open>
  C4: The page tables mirror the memory map. With the tables current and 64 KB of RAM, a read or
  write of the CPU core below the I/O page gives the same byte and the same machine whether it
  goes through the 8 KB page pointers or through \<open>machine_read_coco2\<close> and \<open>machine_write_coco2\<close>,
  in both SAM map types and with any set of ROMs loaded.
\<close>

theorem coco2_fast_path:
  assumes "pages_current m" and "65536 \<le> ram_size m" and "fast_limit m = 0xFF00"
  shows "run_state (mem_read (coco2_bus D) a) m = machine_read_coco2 D a m \<and>
    run_state (mem_write (coco2_bus D) a v) m = ((), machine_write_coco2 D a v m)"
  using mem_read_coco2 [OF assms] mem_write_coco2 [OF assms] by simp

text \<open>A machine struct as it is before init, with nothing connected, for concrete instances.\<close>

definition blank_coco2 :: "unit coco2" where
  "blank_coco2 =
     \<lparr>r_pc = 0, r_d = 0, r_x = 0, r_y = 0, r_u = 0, r_s = 0, r_dp = 0, r_cc = 0, cycles = 0,
      halted = False, wait_for_interrupt = False, cwai_state = False, nmi_armed = False,
      nmi_line = False, nmi_pending = False, firq_pending = False, irq_pending = False,
      read_cb = False, write_cb = False, fast_limit = 0xFF00,
      r_w = 0, r_v = 0, r_md = 0, variant = 0, tfm_busy = False, tfm_pc = 0,
      idle_skip = False, idle_rej = 0, idle_br = 0, idle_cyc = 0, idle_budget = 0,
      pia0 = mc6821_init, pia1 = mc6821_init, snd_core = sound_static,
      orch = \<lparr>s_left = 128, s_right = 128\<rparr>,
      vhd_dev = \<lparr>s_offset = 0, s_buf_addr = 0, s_drive_sel = 0, s_status = 2, s_sector = replicate 256 0\<rparr>,
      stack_overflow = False, cycles_per_frame = 0, cycles_this_frame = 0, m_scanline = 0,
      scanline_cycle_targets = (\<lambda>_. 0), initialized = False, cart_inserted = False,
      cart_autostart = False, ntsc = False, frame_count = 0, last_joy_scanline = 0xFFFFFFFF, dev = (),
      vdg = mc6847_init, sam = sam6883_init, ram = (\<lambda>_. 0), ram_size = 65536,
      rom_basic = (\<lambda>_. 0), rom_extbas = (\<lambda>_. 0), rom_cart = (\<lambda>_. 0), rom_basic_loaded = False,
      rom_extbas_loaded = False, rom_cart_loaded = False,
      coco2_rd_page = (\<lambda>_. None), coco2_wr_page = (\<lambda>_. None)\<rparr>"

lemma coco2_fast_path_witness:
  "run_state (mem_read (coco2_bus null_devices) 0x1234) (update_fast_pages_coco2 blank_coco2) =
     machine_read_coco2 null_devices 0x1234 (update_fast_pages_coco2 blank_coco2) \<and>
   run_state (mem_write (coco2_bus null_devices) 0x1234 0x56) (update_fast_pages_coco2 blank_coco2) =
     ((), machine_write_coco2 null_devices 0x1234 0x56 (update_fast_pages_coco2 blank_coco2))"
  by (rule coco2_fast_path) (simp_all add: pages_current_def update_fast_pages_coco2_def blank_coco2_def Let_def)

section \<open>Machine invariant\<close>

text \<open>What holds from reset on, whatever program runs.\<close>

definition coco2_inv :: "'p coco2 \<Rightarrow> bool" where
  "coco2_inv m \<longleftrightarrow> pages_current m \<and> 65536 \<le> ram_size m \<and> fast_limit m = 0xFF00 \<and>
     read_cb m \<and> write_cb m \<and> sound_current (snd_core m) \<and> sound_wf (snd_core m) \<and> sam_wf (sam m) \<and>
     length (line_buffer (vdg m)) = 256 \<and> vram_offset (vdg m) = sam6883_get_vdg_address (sam m) \<and>
     irq_a_callback (pia0 m) \<and> irq_b_callback (pia0 m) \<and> irq_a_callback (pia1 m) \<and> irq_b_callback (pia1 m)"

text \<open>Both together, for one value of the timing state: this is what the bus keeps.\<close>

definition kept :: "timing_state \<Rightarrow> 'p coco2 \<Rightarrow> bool" where
  "kept c m \<longleftrightarrow> coco2_inv m \<and> timing m = c"

lemmas kept_defs = kept_def coco2_inv_def timing_def pages_current_def

lemma kept_lines [simp]:
  "kept c (mc6809_irq l m) = kept c m" "kept c (mc6809_firq l m) = kept c m"
  "kept c (mc6809_nmi l m) = kept c m" "kept c (m\<lparr>halted := h\<rparr>) = kept c m"
  "kept c (m\<lparr>dev := d\<rparr>) = kept c m" "kept c (m\<lparr>vhd_dev := vh\<rparr>) = kept c m"
  "kept c (m\<lparr>stack_overflow := so\<rparr>) = kept c m" "kept c (m\<lparr>last_joy_scanline := j\<rparr>) = kept c m"
  "kept c (m\<lparr>ram := r\<rparr>) = kept c m" "kept c (m\<lparr>orch := q\<rparr>) = kept c m"
  by (simp_all add: kept_defs mc6809_irq_def mc6809_firq_def mc6809_nmi_def update_fast_pages_coco2_def Let_def)

lemma kept_pia0 [simp]:
  "irq_a_callback p = irq_a_callback (pia0 m) \<Longrightarrow> irq_b_callback p = irq_b_callback (pia0 m) \<Longrightarrow>
   kept c (m\<lparr>pia0 := p\<rparr>) = kept c m"
  by (simp add: kept_defs update_fast_pages_coco2_def Let_def)

lemma kept_pia1 [simp]:
  "irq_a_callback p = irq_a_callback (pia1 m) \<Longrightarrow> irq_b_callback p = irq_b_callback (pia1 m) \<Longrightarrow>
   kept c (m\<lparr>pia1 := p\<rparr>) = kept c m"
  by (simp add: kept_defs update_fast_pages_coco2_def Let_def)

lemma kept_sound:
  "kept c m \<Longrightarrow> sound_current q \<Longrightarrow> sound_wf q \<Longrightarrow> kept c (m\<lparr>snd_core := q\<rparr>)"
  by (simp add: kept_defs update_fast_pages_coco2_def Let_def)

lemma kept_fold: "(\<And>x m. x \<in> set xs \<Longrightarrow> kept c m \<Longrightarrow> kept c (g x m)) \<Longrightarrow> kept c m \<Longrightarrow> kept c (fold g xs m)"
  by (induction xs arbitrary: m) auto

lemma kept_route [simp]:
  "kept c (route_pia0_coco2 evs m) = kept c m" "kept c (route_pia1_coco2 evs m) = kept c m"
  by (simp_all add: route_pia0_coco2_def route_pia1_coco2_def fold_frame [of _ "kept c"])

lemma kept_fdc_apply [simp]: "kept c (fdc_apply e m) = kept c m"
  by (cases e) simp_all

lemma kept_dev_ops [simp]:
  "kept c (snd (dev_read f m)) = kept c m" "kept c (dev_write g m) = kept c m"
  "kept c (snd (fdc_read D a m)) = kept c m" "kept c (fdc_write D a v m) = kept c m"
  "kept c (fdc_tick D m) = kept c m" "kept c (vhd_status st m) = kept c m"
  by (simp_all add: dev_read_def dev_write_def fdc_read_def fdc_write_def fdc_tick_def vhd_status_def
      case_prod_unfold Let_def fold_frame [of _ "kept c"])

lemma kept_scan [simp]: "kept c (scan_inputs D m) = kept c m"
  by (simp add: scan_inputs_def joy_refresh_def Let_def mc6821_set_input_a_def)

lemma kept_read: "kept c (snd (machine_read_coco2 D a m)) = kept c m"
  by (simp add: machine_read_coco2_def pia0_read_coco2_def pia1_read_coco2_def Let_def case_prod_unfold)

lemma sound_ops_kept:
  assumes "kept c m"
  shows "kept c (m\<lparr>snd_core := sound_exec op (snd_core m)\<rparr>)"
  using assms sound_exec_current [of "snd_core m" op] sound_exec_wf [of "snd_core m" op]
  by (intro kept_sound) (simp_all add: kept_def coco2_inv_def)

lemmas sound_setters_kept =
  sound_ops_kept [where op = "SndMuxSource x" for x, simplified]
  sound_ops_kept [where op = "SndDac x" for x, simplified]
  sound_ops_kept [where op = "SndSbs x y" for x y, simplified]
  sound_ops_kept [where op = "SndMuxEnabled x" for x, simplified]
  sound_ops_kept [where op = "SndExternal x y" for x y, simplified]

lemma kept_sound_written:
  assumes "kept c m"
  shows "kept c (sound_pia0_written reg m)" "kept c (sound_pia1_written reg m)"
proof -
  show "kept c (sound_pia0_written reg m)"
    using assms by (simp add: sound_pia0_written_def sound_setters_kept(1))
  have sbs: "kept c (m\<lparr>snd_core := sound_set_mux_enabled x (sound_set_sbs y z (snd_core m))\<rparr>)" for x y z
    using sound_setters_kept(4) [OF sound_setters_kept(3) [OF assms]] by simp
  show "kept c (sound_pia1_written reg m)"
    using assms by (auto simp: sound_pia1_written_def Let_def sbs sound_setters_kept(2,3))
qed

lemma kept_vdg_mode [simp]: "kept c (update_vdg_mode_coco2 m) = kept c m"
  by (simp add: update_vdg_mode_coco2_def mc6847_set_mode_def kept_defs update_fast_pages_coco2_def Let_def)

lemma kept_sam_write: "kept c m \<Longrightarrow> kept c (sam_write_coco2 a m)"
  using sam_exec_wf [of "sam m" "SamWrite (ucast (a - 0xFFC0))"]
  by (simp add: sam_write_coco2_def Let_def) (simp add: kept_defs update_fast_pages_coco2_def Let_def)

lemma kept_pia_writes:
  assumes "kept c m"
  shows "kept c (pia0_write_coco2 reg v m)" "kept c (pia1_write_coco2 reg v m)"
  using assms by (simp_all add: pia0_write_coco2_def pia1_write_coco2_def Let_def case_prod_unfold
      kept_sound_written)

lemma kept_vhd_write:
  assumes wr: "\<And>a v m. kept c m \<Longrightarrow> kept c (wr a v m)" and m: "kept c m"
  shows "kept c (vhd_write D (machine_read_coco2 D) wr a v m)"
proof -
  have r: "kept c (cmd_read D wr bf m)" if "kept c m" for bf m
    using that by (simp add: cmd_read_def Let_def case_prod_unfold) (auto intro!: kept_fold wr)
  have w: "kept c (cmd_write D (machine_read_coco2 D) bf m)" if "kept c m" for bf m
    using that by (simp add: cmd_write_def Let_def case_prod_unfold kept_read fold_frame [of _ "kept c"])
  have f: "kept c (m\<lparr>dev := d, vhd_dev := h\<rparr>)" for d h using m by simp
  show ?thesis using m r w f by (simp add: vhd_write_def vhd_command_def Let_def)
qed

lemma kept_write_body:
  assumes wr: "\<And>a v m. kept c m \<Longrightarrow> kept c (wr a v m)" and m: "kept c m"
  shows "kept c (write_body_coco2 D wr a v m)"
proof -
  have o: "kept c (m\<lparr>orch := q, snd_core := sound_set_external l r (snd_core m)\<rparr>)" for q l r
    using sound_setters_kept(5) [of c "m\<lparr>orch := q\<rparr>" l r] m by simp
  have o': "kept c (m\<lparr>orch := fst (orch90_write a v (orch m, snd_core m)),
      snd_core := snd (orch90_write a v (orch m, snd_core m))\<rparr>)" for a v
    using o m by (simp add: orch90_write_def Let_def)
  show ?thesis
    unfolding write_body_coco2_def poke_ram_def case_prod_unfold Let_def using m
    by (simp add: kept_pia_writes kept_sam_write kept_vhd_write [OF wr m] o')
qed

lemma kept_write: "kept c m \<Longrightarrow> kept c (machine_write_coco2 D a v m)"
proof -
  have "kept c m \<Longrightarrow> kept c (write_nested_coco2 D n a v m)" for n a v m
    by (induction n arbitrary: a v m) (simp_all add: kept_write_body)
  then show "kept c m \<Longrightarrow> kept c (machine_write_coco2 D a v m)"
    by (simp add: machine_write_coco2_def kept_write_body)
qed

lemma kept_page: "kept c m \<Longrightarrow> coco2_wr_page m p = Some q \<Longrightarrow> kept c (ptr_write m q i v)"
  by (cases q) (simp_all add: kept_defs update_fast_pages_coco2_def Let_def)

interpretation coco2_keeps: inv_bus "coco2_bus D" "kept c" for D :: "'p devices" and c
proof unfold_locales
  fix s t :: "'p coco2" assume "outer s = outer t"
  then show "kept c s = kept c t"
    by (cases s, cases t) (simp add: outer_def kept_defs update_fast_pages_coco2_def)
qed (auto simp: coco2_bus_def kept_read kept_write kept_page)

text \<open>The two interrupt outputs of PIA 0 drive the CPU's IRQ line as assignments, not as an OR: reading
  port A drops an interrupt of port B that is still flagged.\<close>

lemma coco2_irq_dropped:
  assumes "tst (ctrl_a (pia0 m)) PIA_CR_DDR_SEL" "irq_a_callback (pia0 m)" and b: "pia_irq_out (ctrl_b (pia0 m))"
  shows "pia_irq_out (ctrl_b (pia0 (snd (machine_read_coco2 D 0xFF00 m)))) \<and> \<not> irq_pending (snd (machine_read_coco2 D 0xFF00 m))"
proof -
  let ?m = "scan_inputs D m"
  have s: "ctrl_a (pia0 ?m) = ctrl_a (pia0 m)" "ctrl_b (pia0 ?m) = ctrl_b (pia0 m)" "irq_a_callback (pia0 ?m) = irq_a_callback (pia0 m)"
    by (simp_all add: scan_inputs_def joy_refresh_def mc6821_set_input_a_def Let_def)
  have q: "\<not> pia_irq_out (c AND NOT PIA_CR_IRQ1 AND NOT PIA_CR_IRQ2)" for c
    by (simp add: pia_irq_out_def PIA_CR_IRQ1_def PIA_CR_IRQ2_def tst_def and.assoc)
  show ?thesis
    using assms s
    by (simp add: machine_read_coco2_def pia0_read_coco2_def mc6821_read_def pia_update_irq_a_def q route_pia0_coco2_def
      mc6809_irq_def Let_def)
qed
end
