(* ===== verification/CoCo2_Reset.thy ===== *)
theory CoCo2_Reset
  imports CoCo2_Memory
begin

text \<open>
  Init, ROM loading and reset of the CoCo 2: they establish the machine invariant of
  \<open>CoCo2_Memory\<close> from any contents of the struct.
\<close>

section \<open>Reset\<close>

lemma sam_reset_wf: "sam_wf (sam6883_reset s)"
  by (simp add: sam_wf_def sam6883_reset_def derived_def update_from_register_def Let_def)

lemma fsync_wf: "sam_wf s \<Longrightarrow> sam_wf (sam6883_vdg_fsync s l)"
  using sam_exec_wf [of s "SamFsync l"] by simp

lemma pages_current_update [simp]: "pages_current (update_fast_pages_coco2 m)"
  by (simp add: pages_current_def update_fast_pages_coco2_def Let_def)

lemma pages_frame:
  "coco2_rd_page m = coco2_rd_page m' \<Longrightarrow> coco2_wr_page m = coco2_wr_page m' \<Longrightarrow>
   sam_ty (sam m) = sam_ty (sam m') \<Longrightarrow> rom_basic_loaded m = rom_basic_loaded m' \<Longrightarrow>
   rom_extbas_loaded m = rom_extbas_loaded m' \<Longrightarrow> rom_cart_loaded m = rom_cart_loaded m' \<Longrightarrow>
   pages_current m' \<Longrightarrow> pages_current m"
  by (simp add: pages_current_def update_fast_pages_coco2_def Let_def)

text \<open>The state reset builds before the CPU is started.\<close>

definition reset_devices_coco2 :: "'p coco2 \<Rightarrow> 'p coco2" where
  "reset_devices_coco2 m =
     (let m = m\<lparr>ram := (\<lambda>i. if i < ram_size m then 0 else ram m i)\<rparr>;
          m = route_pia0_coco2 (snd (mc6821_reset (pia0 m))) (m\<lparr>pia0 := fst (mc6821_reset (pia0 m))\<rparr>);
          m = route_pia1_coco2 (snd (mc6821_reset (pia1 m))) (m\<lparr>pia1 := fst (mc6821_reset (pia1 m))\<rparr>);
          m = update_fast_pages_coco2 (m\<lparr>snd_core := sound_reset (snd_core m), vdg := mc6847_reset (vdg m),
                sam := sam6883_reset (sam m)\<rparr>);
          m = m\<lparr>pia0 := (pia0 m)\<lparr>irq_a_callback := True, irq_b_callback := True\<rparr>,
                pia1 := (pia1 m)\<lparr>irq_a_callback := True, irq_b_callback := True\<rparr>\<rparr>;
          m = m\<lparr>vdg := (vdg m)\<lparr>vram_set := True, vram_offset := sam6883_get_vdg_address (sam m),
                row_address := sam6883_get_vdg_address (sam m)\<rparr>\<rparr>
      in m\<lparr>sam := sam6883_vdg_fsync (sam m) True, cycles_this_frame := 0, m_scanline := 0, frame_count := 0\<rparr>)"

lemma reset_split:
  "initialized m \<Longrightarrow> machine_reset_coco2 D m = snd (run_state (mc6809_reset (coco2_bus D)) (reset_devices_coco2 m))"
  by (simp add: machine_reset_coco2_def reset_devices_coco2_def Let_def case_prod_unfold)

text \<open>The last event decides the line.\<close>

lemma route_pending:
  "route_pia0_coco2 evs m = m\<lparr>irq_pending := fold (\<lambda>e _. pia_level e) evs (irq_pending m)\<rparr>"
  "route_pia1_coco2 evs m = m\<lparr>firq_pending := fold (\<lambda>e _. pia_level e) evs (firq_pending m)\<rparr>"
  by (induction evs arbitrary: m)
    (simp_all add: route_pia0_coco2_def route_pia1_coco2_def mc6809_irq_def mc6809_firq_def)

lemma fsync_keeps: "sam_ty (sam6883_vdg_fsync s l) = sam_ty s" "vdg_base (sam6883_vdg_fsync s l) = vdg_base s"
  by (simp_all add: sam6883_vdg_fsync_def)

lemma reset_devices_inv:
  assumes "65536 \<le> ram_size m" and "fast_limit m = 0xFF00" and "read_cb m" and "write_cb m"
  shows "coco2_inv (reset_devices_coco2 m)"
  using assms by (simp add: reset_devices_coco2_def Let_def coco2_inv_def route_pending fsync_wf [OF sam_reset_wf] sound_reset_ok
     pages_current_def update_fast_pages_coco2_def fsync_keeps sam6883_get_vdg_address_def
     mc6847_reset_def VDG_ACTIVE_WIDTH_def)
text \<open>The vectors are read from ROM.\<close>

lemma vector_bus:
  assumes "a \<in> cpu_vectors"
  shows "machine_read_coco2 D a m = (vector_read_coco2 a m, m)" and "0xFF00 \<le> a"
proof -
  note a = vector_address [OF assms]
  then have n: "\<not> a < 0xFF20" "\<not> a < 0xFF40" "\<not> a < 0xFF60" "\<not> a < 0xFFC0" "\<not> a < 0xFFE0" "a \<ge> 0xFF00"
      "\<not> vhd_is_port a"
    by (auto simp: vhd_is_port_def word_less_nat_alt word_le_nat_alt)
  then show "machine_read_coco2 D a m = (vector_read_coco2 a m, m)" "0xFF00 \<le> a"
    using a by (simp_all add: machine_read_coco2_def)
qed

lemma vector_fetch:
  assumes "fast_limit s = 0xFF00" and "a \<in> cpu_vectors"
  shows "run_state (mem_read (coco2_bus D) a) s = (vector_read_coco2 a s, s)"
proof -
  have "\<not> a < 0xFF00" using vector_bus(2) [OF assms(2)] by simp
  then show ?thesis using vector_bus(1) [OF assms(2), of D s] assms(1) by (simp add: mem_read_def coco2_bus_def)
qed

lemma vector_in_basic:
  assumes "a \<in> cpu_vectors" and "rom_basic_loaded m" and "rom_extbas_loaded m"
  shows "vector_read_coco2 a m = rom_basic m (unat (0x1FF0 + (a AND 0x0F)))"
  using assms vector_address [OF assms(1)] by (simp add: vector_read_coco2_def)

lemma vector_missing:
  "\<not> (rom_basic_loaded m \<and> rom_extbas_loaded m) \<Longrightarrow> vector_read_coco2 a m = 0xFF"
  by (auto simp add: vector_read_coco2_def)

lemma vector_read_frame:
  "rom_basic m = rom_basic m' \<Longrightarrow> rom_basic_loaded m = rom_basic_loaded m' \<Longrightarrow> rom_extbas_loaded m = rom_extbas_loaded m' \<Longrightarrow>
   vector_read_coco2 a m = vector_read_coco2 a m'"
  unfolding vector_read_coco2_def Let_def by simp

lemma cpu_reset_coco2:
  assumes "fast_limit m = 0xFF00" and "read_cb m"
  shows "snd (run_state (mc6809_reset (coco2_bus D)) m) =
    (cpu_reset_regs m)\<lparr>r_pc := pack16 (vector_read_coco2 0xFFFE m) (vector_read_coco2 0xFFFF m)\<rparr>"
proof -
  have v: "0xFFFE \<in> cpu_vectors" "0xFFFF \<in> cpu_vectors" by (simp_all add: cpu_vectors_def)
  have f: "fast_limit (cpu_reset_regs m) = 0xFF00" "read_cb (cpu_reset_regs m)"
    using assms by (simp_all add: cpu_reset_regs_def)
  have "vector_read_coco2 a (cpu_reset_regs m) = vector_read_coco2 a m" for a
    by (rule vector_read_frame) (simp_all add: cpu_reset_regs_def)
  then show ?thesis
    using assms(2) vector_fetch [OF f(1) v(1), of D] vector_fetch [OF f(1) v(2), of D] by (intro cpu_reset_vector) simp_all
qed

lemma coco2_inv_cpu_reset: "coco2_inv ((cpu_reset_regs m)\<lparr>r_pc := p\<rparr>) = coco2_inv m"
  by (simp add: cpu_reset_regs_def coco2_inv_def pages_current_def update_fast_pages_coco2_def Let_def)

lemma reset_devices_fields:
  "initialized (reset_devices_coco2 m) = initialized m" "variant (reset_devices_coco2 m) = variant m"
  "cycles_per_frame (reset_devices_coco2 m) = cycles_per_frame m"
  "fast_limit (reset_devices_coco2 m) = fast_limit m" "read_cb (reset_devices_coco2 m) = read_cb m"
  "rom_basic (reset_devices_coco2 m) = rom_basic m" "ram_size (reset_devices_coco2 m) = ram_size m"
  "rom_basic_loaded (reset_devices_coco2 m) = rom_basic_loaded m"
  "rom_extbas_loaded (reset_devices_coco2 m) = rom_extbas_loaded m"
  "ram (reset_devices_coco2 m) = (\<lambda>i. if i < ram_size m then 0 else ram m i)"
  by (simp_all add: reset_devices_coco2_def route_pending update_fast_pages_coco2_def Let_def)

lemma cpu_init_fields:
  "ram_size (mc6809_init m) = ram_size m" "rom_basic (mc6809_init m) = rom_basic m"
  "ram (mc6809_init m) = ram m" "rom_basic_loaded (mc6809_init m) = rom_basic_loaded m"
  "rom_extbas_loaded (mc6809_init m) = rom_extbas_loaded m" for m :: "'p coco2"
  by (cases m, simp add: mc6809_init_def)+

text \<open>Init and ROM loading from any contents of the struct, and reset after it.\<close>

definition coco2_loaded ::
  "u8 list option \<Rightarrow> u8 list option \<Rightarrow> u8 list option \<Rightarrow> u8 \<Rightarrow> 'p coco2 \<Rightarrow> 'p coco2" where
  "coco2_loaded basic extbas cart v m0 =
     snd (machine_load_roms_coco2 basic extbas cart (machine_init_coco2 v m0))"

lemma loaded_fields:
  "initialized (coco2_loaded basic extbas cart v m0)" "variant (coco2_loaded basic extbas cart v m0) = v"
  "cycles_per_frame (coco2_loaded basic extbas cart v m0) = CYCLES_PER_FRAME"
  "ram_size (coco2_loaded basic extbas cart v m0) = COCO_RAM_SIZE"
  "fast_limit (coco2_loaded basic extbas cart v m0) = 0xFF00"
  "read_cb (coco2_loaded basic extbas cart v m0)" "write_cb (coco2_loaded basic extbas cart v m0)"
  "rom_basic_loaded (coco2_loaded basic extbas cart v m0) = (basic \<noteq> None)"
  "rom_extbas_loaded (coco2_loaded basic extbas cart v m0) = (extbas \<noteq> None)"
  "rom_basic (coco2_loaded basic extbas cart v m0) = load_into basic 8192 (\<lambda>_. 0xFF)"
  "ram (coco2_loaded basic extbas cart v m0) = ram m0"
  "fst (machine_load_roms_coco2 basic extbas cart (machine_init_coco2 v m0)) = (basic \<noteq> None)"
  by (simp_all add: coco2_loaded_def machine_load_roms_coco2_def machine_init_coco2_def cpu_init_fields
      update_fast_pages_coco2_def Let_def)

lemma reset_state:
  assumes "initialized m" and "fast_limit m = 0xFF00" and "read_cb m"
  shows "machine_reset_coco2 D m =
    (cpu_reset_regs (reset_devices_coco2 m))\<lparr>r_pc := pack16 (vector_read_coco2 0xFFFE (reset_devices_coco2 m))
       (vector_read_coco2 0xFFFF (reset_devices_coco2 m))\<rparr>"
  using assms by (simp add: reset_split cpu_reset_coco2 reset_devices_fields)

lemma boot_state:
  fixes D :: "'p devices" and m0 :: "'p coco2" and basic extbas cart v
  defines "m' \<equiv> machine_reset_coco2 D (coco2_loaded basic extbas cart v m0)"
  shows "coco2_inv m'" and "initialized m'" and "variant m' = v" and "cycles_per_frame m' = CYCLES_PER_FRAME"
    and "rom_basic_loaded m' = (basic \<noteq> None)" and "rom_extbas_loaded m' = (extbas \<noteq> None)"
    and "rom_basic m' = load_into basic 8192 (\<lambda>_. 0xFF)"
    and "ram m' = (\<lambda>i. if i < COCO_RAM_SIZE then 0 else ram m0 i)"
    and "r_cc m' = MC6809_FLAG_I OR MC6809_FLAG_F" and "r_dp m' = 0" and "\<not> halted m'" and "\<not> cwai_state m'"
    and "\<not> nmi_pending m'" and "\<not> firq_pending m'" and "\<not> irq_pending m'"
proof -
  let ?m = "coco2_loaded basic extbas cart v m0"
  note m' = m'_def [unfolded reset_state [OF loaded_fields(1,5,6) [of basic extbas cart v m0]]]
  have "coco2_inv (reset_devices_coco2 ?m)"
    by (intro reset_devices_inv) (simp_all add: loaded_fields COCO_RAM_SIZE_def)
  then show "coco2_inv m'" by (simp add: m' coco2_inv_cpu_reset)
qed (simp_all add: m'_def reset_state loaded_fields cpu_reset_regs_def reset_devices_fields cong: if_cong)

lemma boot_pc:
  "r_pc (machine_reset_coco2 D (coco2_loaded basic extbas cart v m0)) =
     (if basic \<noteq> None \<and> extbas \<noteq> None
      then pack16 (load_into basic 8192 (\<lambda>_. 0xFF) 0x1FFE) (load_into basic 8192 (\<lambda>_. 0xFF) 0x1FFF)
      else 0xFFFF)"
proof -
  let ?r = "reset_devices_coco2 (coco2_loaded basic extbas cart v m0)"
  have v: "0xFFFE \<in> cpu_vectors" "0xFFFF \<in> cpu_vectors" by (simp_all add: cpu_vectors_def)
  have "pack16 0xFF 0xFF = 0xFFFF" by (simp add: pack16_def)
  then show ?thesis
    using vector_in_basic [OF v(1), of ?r] vector_in_basic [OF v(2), of ?r] vector_missing [of ?r]
    by (auto simp: reset_state loaded_fields reset_devices_fields)
qed

text \<open>
  C13: Power-on of a CoCo 2. Whatever the struct held, init, ROM loading and reset give an initialised
  machine with the machine invariant, RAM cleared, interrupts masked and no request pending. Loading
  reports success exactly when Color BASIC is there. The CPU starts at the vector in the last two
  bytes of Color BASIC when Extended BASIC is loaded as well, and at $FFFF otherwise.
\<close>

theorem coco2_power_on:
  "let m = machine_reset_coco2 D (coco2_loaded basic extbas cart v m0) in
    fst (machine_load_roms_coco2 basic extbas cart (machine_init_coco2 v m0)) = (basic \<noteq> None) \<and>
    coco2_inv m \<and> initialized m \<and> variant m = v \<and> cycles_per_frame m = CYCLES_PER_FRAME \<and>
    ram m = (\<lambda>i. if i < COCO_RAM_SIZE then 0 else ram m0 i) \<and>
    r_cc m = MC6809_FLAG_I OR MC6809_FLAG_F \<and> r_dp m = 0 \<and> \<not> halted m \<and>
    \<not> nmi_pending m \<and> \<not> firq_pending m \<and> \<not> irq_pending m \<and>
    r_pc m = (if basic \<noteq> None \<and> extbas \<noteq> None
              then pack16 (load_into basic 8192 (\<lambda>_. 0xFF) 0x1FFE) (load_into basic 8192 (\<lambda>_. 0xFF) 0x1FFF)
              else 0xFFFF)"
  unfolding Let_def boot_pc by (intro conjI boot_state loaded_fields refl)

text \<open>A booted machine with nothing connected, its ROMs filled with one byte.\<close>

definition demo_coco2 :: "unit coco2" where
  "demo_coco2 = machine_reset_coco2 null_devices
     (coco2_loaded (Some (replicate 8192 0x12)) (Some [0x45, 0x58]) None 0 blank_coco2)"

lemmas demo_state = boot_state [where D = null_devices and basic = "Some (replicate 8192 0x12)"
  and extbas = "Some [0x45, 0x58]" and cart = None and v = 0 and ?m0.0 = blank_coco2, folded demo_coco2_def]

end
