(* ===== verification/Frame_Clock.thy ===== *)
theory Frame_Clock
  imports Machine_Base
begin

text \<open>
  The timing of the frame loops. Both machines run 262 scanlines against a table of cumulative cycle
  targets and charge each line's overshoot to the next. The locale \<open>scanline_clock\<close> states what a
  line has to do; in it a frame ends within 38 cycles of its length. The theories of the two machines
  interpret it on their scanline functions.
\<close>

section \<open>Targets\<close>

definition line_target :: "int \<Rightarrow> nat \<Rightarrow> int" where
  "line_target c i = (int i + 1) * c div 262"

lemma line_target_step:
  assumes "14916 \<le> c"
  shows "line_target c i + 56 \<le> line_target c (Suc i)"
proof -
  have "(int i + 1) * c div 262 + 56 = ((int i + 1) * c + 56 * 262) div 262" by simp
  also have "\<dots> \<le> ((int i + 2) * c) div 262" by (rule zdiv_mono1) (use assms in \<open>simp_all add: algebra_simps\<close>)
  finally show ?thesis by (simp add: line_target_def algebra_simps)
qed

lemma line_target_bounds:
  assumes "14916 \<le> c" and "i < 262"
  shows "56 \<le> line_target c i" and "line_target c i \<le> c"
proof -
  have "14916 \<le> (int i + 1) * c"
    using mult_mono [of 1 "int i + 1" 14916 c] assms by simp
  then have "14916 div 262 \<le> line_target c i" unfolding line_target_def by (rule zdiv_mono1) simp
  then show "56 \<le> line_target c i" by simp
  have "(int i + 1) * c \<le> 262 * c" by (rule mult_right_mono) (use assms in simp_all)
  then have "line_target c i \<le> 262 * c div 262" unfolding line_target_def by (rule zdiv_mono1) simp
  then show "line_target c i \<le> c" by simp
qed

lemma line_target_last: "line_target c 261 = c"
  by (simp add: line_target_def)

text \<open>The table computed in 32 bits and stored in 16 holds these values.\<close>

lemma target_entry:
  assumes i: "i < 262" and c: "14916 \<le> uint per_frame" "uint per_frame \<le> 32767"
  shows "uint (line_targets per_frame old i) = line_target (uint per_frame) i"
proof -
  let ?p = "unat per_frame"
  have p: "uint per_frame = int ?p" by simp
  have "?p \<le> 32767" using c(2) p by linarith
  then have le: "(i + 1) * ?p \<le> 262 * 32767" using i by (intro mult_le_mono) simp_all
  have "of_nat (i + 1) * per_frame = (of_nat ((i + 1) * ?p) :: u32)" by (simp add: algebra_simps)
  moreover have "(i + 1) * ?p < 2 ^ 32" using le by simp
  ultimately have a: "unat (of_nat (i + 1) * per_frame :: u32) = (i + 1) * ?p"
    by (simp only: unat_of_nat) simp
  have q: "(i + 1) * ?p div 262 < 65536" using div_le_mono [OF le, of 262] by simp
  have "unat (line_targets per_frame old i) = unat (of_nat (i + 1) * per_frame) div 262 mod 65536"
    using i by (simp only: line_targets_def SCANLINES_PER_FRAME_def unat_ucast_u32_u16 unat_div if_True) simp
  then have "unat (line_targets per_frame old i) = (i + 1) * ?p div 262"
    unfolding a using q by simp
  moreover have "line_target (uint per_frame) i = int ((i + 1) * ?p div 262)"
    by (simp add: line_target_def zdiv_int algebra_simps)
  ultimately show ?thesis by (metis of_nat_unat)
qed

section \<open>The budget of a line\<close>

lemma line_budget_exact:
  assumes "1 \<le> uint (scanline_cycle_targets m (unat (m_scanline m))) - uint (cycles_this_frame m)"
  shows "line_budget m = uint (scanline_cycle_targets m (unat (m_scanline m))) - uint (cycles_this_frame m)"
proof -
  let ?t = "scanline_cycle_targets m (unat (m_scanline m))" and ?f = "cycles_this_frame m"
  have t: "uint ?t < 65536" using unsigned_less [of ?t] by simp
  have f: "0 \<le> uint ?f" by simp
  have "(ucast ?t :: u32) - ?f = word_of_int (uint ?t - uint ?f)" by (simp add: of_int_diff)
  then have "sint ((ucast ?t :: u32) - ?f) = uint ?t - uint ?f"
    using assms t f by (simp only:) (rule sint_u32_of_int, linarith+)
  then show ?thesis using assms by (simp add: line_budget_def Let_def)
qed

lemma uint_cycles_add:
  assumes "0 \<le> uint (f :: u32) + r" and "uint f + r < 2147483648"
  shows "uint (f + word_of_int r) = uint f + r"
proof -
  have "f + word_of_int r = word_of_int (uint f + r)" by simp
  then show ?thesis using assms by (simp only: uint_word_of_int_eq) (simp add: take_bit_int_eq_self)
qed

section \<open>Frames\<close>

locale scanline_clock =
  fixes line :: "'m \<Rightarrow> 'm option" and at :: "nat \<Rightarrow> u32 \<Rightarrow> 'm \<Rightarrow> bool" and per_frame :: u32
  assumes frame_length: "14916 \<le> uint per_frame" "uint per_frame \<le> 32767"
    and line_runs: "at k f m \<Longrightarrow> k < 262 \<Longrightarrow> 1 \<le> line_target (uint per_frame) k - uint f \<Longrightarrow>
      \<exists>m' r. line m = Some m' \<and> at (Suc k) (f + word_of_int r) m' \<and>
        line_target (uint per_frame) k - uint f \<le> r \<and> r \<le> line_target (uint per_frame) k - uint f + 38"
begin

text \<open>Between lines the clock is at most 38 cycles past the target of the last one.\<close>

definition on_time :: "nat \<Rightarrow> u32 \<Rightarrow> bool" where
  "on_time k f \<longleftrightarrow> (if k = 0 then f = 0 else
     line_target (uint per_frame) (k - 1) \<le> uint f \<and> uint f \<le> line_target (uint per_frame) (k - 1) + 38)"

lemma line_on_time:
  assumes "at k f m" and "k < 262" and o: "on_time k f"
  shows "\<exists>m' f'. line m = Some m' \<and> at (Suc k) f' m' \<and> on_time (Suc k) f'"
proof -
  have n1: "18 \<le> line_target (uint per_frame) k - uint f"
    using o line_target_bounds [OF frame_length(1) assms(2)] line_target_step [OF frame_length(1), of "k - 1"]
    by (cases k) (auto simp: on_time_def)
  obtain m' r where r: "line m = Some m'" "at (Suc k) (f + word_of_int r) m'"
    "line_target (uint per_frame) k - uint f \<le> r" "r \<le> line_target (uint per_frame) k - uint f + 38"
    using line_runs [OF assms(1,2)] n1 by auto
  have "uint (f + word_of_int r) = uint f + r"
    using r n1 frame_length line_target_bounds [OF frame_length(1) assms(2)] by (intro uint_cycles_add) simp_all
  then show ?thesis using r by (auto simp: on_time_def intro!: exI [of _ "f + word_of_int r"])
qed

lemma lines_on_time:
  assumes "at 0 0 m" and "k \<le> 262"
  shows "\<exists>m' f. for_lines line k m = Some m' \<and> at k f m' \<and> on_time k f"
  using assms(2)
proof (induction k)
  case 0
  then show ?case using assms(1) by (simp add: on_time_def)
next
  case (Suc k)
  then obtain m1 f where "for_lines line k m = Some m1" "at k f m1" "on_time k f" by auto
  then show ?case using line_on_time [of k f m1] Suc.prems by auto
qed

lemma frame_on_time:
  assumes "at 0 0 m"
  shows "\<exists>m' f. for_lines line SCANLINES_PER_FRAME m = Some m' \<and> at 262 f m' \<and>
    uint per_frame \<le> uint f \<and> uint f \<le> uint per_frame + 38"
  using lines_on_time [OF assms, of 262]
  by (simp add: on_time_def line_target_last SCANLINES_PER_FRAME_def)

end

end
