(* ===== verification/CoCo2_Frame.thy ===== *)
theory CoCo2_Frame
  imports CoCo2_Reset Frame_Clock
begin

text \<open>
  The scanline and frame loops of the CoCo 2: a scanline ends within 38 cycles of its target, a frame
  ends after 262 scanlines within 38 cycles of its length, and the machine invariant holds again.
\<close>

section \<open>Frame timing\<close>

lemma render_keeps:
  assumes "length (line_buffer v) = 256"
  shows "length (line_buffer (snd (mc6847_render_scanline rm v))) = 256"
    "vram_offset (snd (mc6847_render_scanline rm v)) = vram_offset v"
proof -
  have l: "nat (scanline v) < 192" if "\<not> (scanline v < 0 \<or> VDG_ACTIVE_HEIGHT \<le> scanline v)"
    using that unfolding VDG_ACTIVE_HEIGHT_def by linarith
  show "length (line_buffer (snd (mc6847_render_scanline rm v))) = 256"
    "vram_offset (snd (mc6847_render_scanline rm v)) = vram_offset v"
    using assms l render_graphics_pixels [OF assms, of rm] render_text_pixels [OF assms, of rm]
    by (simp_all add: mc6847_render_scanline_def)
qed

lemma kept_pia_cb1 [simp]: "kept c (pia0_cb1 e m) = kept c m" "kept c (pia1_cb1 e m) = kept c m"
  by (simp_all add: pia0_cb1_def pia1_cb1_def Let_def case_prod_unfold)

lemma kept_vdg:
  "kept c m \<Longrightarrow> length (line_buffer v) = 256 \<Longrightarrow> vram_offset v = vram_offset (vdg m) \<Longrightarrow> kept c (m\<lparr>vdg := v\<rparr>)"
  by (simp add: kept_defs update_fast_pages_coco2_def Let_def)

lemma kept_sam:
  "kept c m \<Longrightarrow> sam_wf s \<Longrightarrow> sam_ty s = sam_ty (sam m) \<Longrightarrow> vdg_base s = vdg_base (sam m) \<Longrightarrow> kept c (m\<lparr>sam := s\<rparr>)"
  by (simp add: kept_defs update_fast_pages_coco2_def Let_def sam6883_get_vdg_address_def)

lemma kept_fsync: "kept c m \<Longrightarrow> kept c (m\<lparr>sam := sam6883_vdg_fsync (sam m) l\<rparr>)"
  using sam_exec_wf [of "sam m" "SamFsync l"]
  by (intro kept_sam) (simp_all add: kept_def coco2_inv_def sam6883_vdg_fsync_def)

lemma hsync_fields: "sam_ty (sam6883_vdg_hsync s l) = sam_ty s" "vdg_base (sam6883_vdg_hsync s l) = vdg_base s"
  by (simp_all add: sam6883_vdg_hsync_def vdg_address_add_def Let_def)

lemma kept_hsync: "kept c m \<Longrightarrow> kept c (m\<lparr>sam := sam6883_vdg_hsync (sam m) l\<rparr>)"
  using sam_exec_wf [of "sam m" "SamHsync l"]
  by (intro kept_sam) (simp_all add: kept_def coco2_inv_def hsync_fields)

lemma fetch_fields:
  "sam_ty (sam6883_vdg_fetch_bytes s n) = sam_ty s \<and> vdg_base (sam6883_vdg_fetch_bytes s n) = vdg_base s"
proof (induction s n rule: sam6883_vdg_fetch_bytes.induct)
  case (1 s n)
  have "sam_ty (vdg_address_add s k) = sam_ty s" "vdg_base (vdg_address_add s k) = vdg_base s" for k
    by (simp_all add: vdg_address_add_def Let_def)
  with 1 show ?case by (subst (1 2) sam6883_vdg_fetch_bytes.simps) (simp add: Let_def)
qed

lemma kept_fetch: "kept c m \<Longrightarrow> kept c (m\<lparr>sam := sam6883_vdg_fetch_bytes (sam m) n\<rparr>)"
  using fetch_wf [of "sam m" n]
  by (intro kept_sam) (simp_all add: kept_def coco2_inv_def fetch_fields)

lemma kept_draw: "kept c m \<Longrightarrow> kept c (draw_line_coco2 D m)"
proof -
  assume m: "kept c m"
  let ?v = "(vdg m)\<lparr>row_address := sam6883_get_vdg_row_address (sam m), scanline := uint (m_scanline m)\<rparr>"
  have v: "length (line_buffer ?v) = 256" using m by (simp add: kept_def coco2_inv_def)
  have "kept c (m\<lparr>vdg := snd (mc6847_render_scanline (ram m) ?v)\<rparr>)"
    using render_keeps [OF v, of "ram m"] by (intro kept_vdg [OF m]) simp_all
  then have "kept c (m\<lparr>vdg := snd (mc6847_render_scanline (ram m) ?v), dev := d\<rparr>)" for d by simp
  from kept_fetch [OF this] kept_fetch [OF \<open>kept c (m\<lparr>vdg := snd (mc6847_render_scanline (ram m) ?v)\<rparr>)\<close>]
  show ?thesis by (simp add: draw_line_coco2_def Let_def case_prod_unfold)
qed

lemma kept_scanline: "kept (p, f, l, t, i, v, n) m \<Longrightarrow> kept (p, f, l + 1, t, i, v, n) (m\<lparr>m_scanline := m_scanline m + 1\<rparr>)"
  by (simp add: kept_defs update_fast_pages_coco2_def Let_def)

lemma kept_video:
  assumes "kept (p, f, l, t, i, v, n) m"
  shows "kept (p, f, l + 1, t, i, v, n) (video_line_coco2 D m)"
proof -
  let ?k = "kept (p, f, l, t, i, v, n)"
  have fs: "?k (m\<lparr>vdg := (vdg m)\<lparr>fs := e\<rparr>\<rparr>)" if "?k m" for m e
    using that by (intro kept_vdg) (simp_all add: kept_def coco2_inv_def)
  define m1 where "m1 = (if m_scanline m = 0 then
      (let m = pia0_cb1 True (m\<lparr>vdg := (vdg m)\<lparr>fs := False\<rparr>\<rparr>) in m\<lparr>sam := sam6883_vdg_fsync (sam m) True\<rparr>)
      else m)"
  have 1: "?k m1" using assms fs [of m False] by (simp add: m1_def Let_def kept_fsync)
  define m2 where "m2 = (if m_scanline m1 < ACTIVE_SCANLINES then draw_line_coco2 D m1 else m1)"
  have 2: "?k m2" using 1 by (simp add: m2_def kept_draw)
  define m3 where "m3 = m2\<lparr>sam := sam6883_vdg_hsync (sam m2) False\<rparr>"
  have 3: "?k m3" using 2 by (simp add: m3_def kept_hsync)
  define m4 where "m4 = (if m_scanline m3 = ACTIVE_SCANLINES then
      pia0_cb1 False (m3\<lparr>vdg := (vdg m3)\<lparr>fs := True\<rparr>\<rparr>) else m3)"
  have 4: "?k m4" using 3 fs [of m3 True] by (simp add: m4_def)
  have "video_line_coco2 D m = m4\<lparr>m_scanline := m_scanline m4 + 1\<rparr>"
    unfolding video_line_coco2_def m4_def m3_def m2_def m1_def Let_def ..
  then show ?thesis using kept_scanline [OF 4] by simp
qed

lemma kept_firq [simp]: "kept c (m\<lparr>firq_pending := x\<rparr>) = kept c m"
  using kept_lines(2) [of c x m] by (simp add: mc6809_firq_def)

lemma kept_rs232 [simp]: "kept c (rs232_firq D n m) = kept c m"
  by (simp add: rs232_firq_def Let_def)

lemma kept_ticks [simp]: "kept c (line_ticks D m) = kept c m"
  by (simp add: line_ticks_def Let_def)

lemma kept_cycles: "kept (p, f, l, t, i, v, n) m \<Longrightarrow> kept (p, g, l, t, i, v, n) (m\<lparr>cycles_this_frame := g\<rparr>)"
  by (simp add: kept_defs update_fast_pages_coco2_def Let_def)

text \<open>One scanline: the CPU runs the cycles up to the line's target, at most 38 more.\<close>

lemma scanline_runs:
  assumes k: "kept (p, f, l, t, True, v, n) m" and v: "v \<noteq> 1"
    and budget: "1 \<le> uint (t (unat l)) - uint f"
  shows "\<exists>m' r. machine_run_scanline_coco2 D h m = Some m' \<and> kept (p, f + word_of_int r, l + 1, t, True, v, n) m' \<and>
    uint (t (unat l)) - uint f \<le> r \<and> r \<le> uint (t (unat l)) - uint f + 38"
proof -
  let ?n = "uint (t (unat l)) - uint f"
  have tm: "timing m = (p, f, l, t, True, v, n)" using k by (simp add: kept_def)
  have lb: "line_budget m = ?n" using line_budget_exact [of m] budget tm by (simp add: timing_def)
  have kt: "kept (p, f, l, t, True, v, n) (fdc_tick D m)" using k by simp
  then have cb: "read_cb (fdc_tick D m)" "write_cb (fdc_tick D m)" "variant (fdc_tick D m) = v"
    by (simp_all add: kept_def coco2_inv_def timing_def)
  have "uint (t (unat l)) < 65536" using unsigned_less [of "t (unat l)", where 'a = int] by simp
  moreover have "0 \<le> uint f" by simp
  ultimately have "?n + 39 < 2147483648" by linarith
  then obtain r m1 where run: "mc6809_run (coco2_bus D) ?n (fdc_tick D m) = Some (r, m1)"
    and r: "?n \<le> r" "r \<le> ?n + 38"
    using coco2_timed.mc6809_run_returns [OF cb(1,2), of ?n D] budget by auto
  have "kept (p, f, l, t, True, v, n) m1" by (rule coco2_keeps.mc6809_run_keeps [OF kt run])
  then have "kept (p, f + word_of_int r, l + 1, t, True, v, n)
      (video_line_coco2 D (rs232_firq D r (m1\<lparr>cycles_this_frame := f + word_of_int r\<rparr>)))"
    by (intro kept_video) (simp add: kept_cycles)
  moreover have "cycles_this_frame m1 = f" using \<open>kept (p, f, l, t, True, v, n) m1\<close> by (simp add: kept_def timing_def)
  ultimately show ?thesis using run r tm v cb(3)
    by (intro exI conjI [OF _ conjI]) (auto simp: machine_run_scanline_coco2_def timing_def mc6809_run_variant_def lb Let_def)
qed

text \<open>The state between two lines of a frame, and the clock of the frame loop.\<close>

definition line_start_coco2 :: "u8 \<Rightarrow> u32 \<Rightarrow> nat \<Rightarrow> u32 \<Rightarrow> 'p coco2 \<Rightarrow> bool" where
  "line_start_coco2 v n k f m \<longleftrightarrow> v \<noteq> 1 \<and>
     (\<exists>t. kept (CYCLES_PER_FRAME, f, of_nat k, t, True, v, n) m \<and>
        (\<forall>i<262. uint (t i) = line_target (uint CYCLES_PER_FRAME) i))"

lemma line_step_runs:
  assumes "line_start_coco2 v n k f m" and "k < 262" and "1 \<le> line_target (uint CYCLES_PER_FRAME) k - uint f"
  shows "\<exists>m' r. line_step_coco2 D h m = Some m' \<and> line_start_coco2 v n (Suc k) (f + word_of_int r) m' \<and>
    line_target (uint CYCLES_PER_FRAME) k - uint f \<le> r \<and> r \<le> line_target (uint CYCLES_PER_FRAME) k - uint f + 38"
proof -
  obtain t where v: "v \<noteq> 1" and k: "kept (CYCLES_PER_FRAME, f, of_nat k, t, True, v, n) m"
    and t: "\<forall>i<262. uint (t i) = line_target (uint CYCLES_PER_FRAME) i"
    using assms(1) by (auto simp: line_start_coco2_def)
  have "uint (t (unat (of_nat k :: u32))) = line_target (uint CYCLES_PER_FRAME) k"
    using t assms(2) by (simp add: unat_of_nat)
  with scanline_runs [OF k v, of D h] assms(3) v t show ?thesis
    by (fastforce simp: line_step_coco2_def line_start_coco2_def add.commute)
qed

interpretation coco2_clock: scanline_clock "line_step_coco2 D h" "line_start_coco2 v n" CYCLES_PER_FRAME
  for D :: "'p devices" and h v n
  by unfold_locales (use line_step_runs in \<open>auto simp: CYCLES_PER_FRAME_def\<close>)

lemma kept_pulse [simp]: "kept c (cart_autostart_pulse m) = kept c m"
  by (simp add: cart_autostart_pulse_def)



end
