(* ===== verification/CoCo2_Stack.thy ===== *)
theory CoCo2_Stack
  imports CoCo2_Frame
begin

text \<open>
  The laws of \<open>ram_bus\<close> hold on the CoCo 2: addresses below $8000 are plain RAM, the CPU's vectors
  read from Color BASIC. So the stack lemmas of \<open>Mc6809_Stack\<close> hold for programs of this machine.
\<close>

section \<open>RAM and vectors behind the CPU\<close>

definition full_coco2 where "full_coco2 m = (mc6809.extend blank_cpu m :: 'p coco2)"

definition plain_ok where
  "plain_ok m \<longleftrightarrow> pages_current (full_coco2 m) \<and> 65536 \<le> ram_size (full_coco2 m)"

definition plain_wr where "plain_wr m a \<longleftrightarrow> plain_ok m \<and> a < (0x8000 :: u16)"

definition plain_rd where "plain_rd m a \<longleftrightarrow> plain_ok m \<and> (a < (0x8000 :: u16) \<or> a \<in> cpu_vectors)"

definition plain_peek where
  "plain_peek m a = (if a < (0x8000 :: u16) then ram (full_coco2 m) (unat a)
                     else vector_read_coco2 a (full_coco2 m))"

definition plain_poke where
  "plain_poke a v m = mc6809.more (poke_ram (unat (a :: u16)) v (full_coco2 m))"

lemma full_coco2_more:
  "ram (full_coco2 (mc6809.more m)) = ram m" "ram_size (full_coco2 (mc6809.more m)) = ram_size m"
  "pages_current (full_coco2 (mc6809.more m)) = pages_current m"
  "vector_read_coco2 a (full_coco2 (mc6809.more m)) = vector_read_coco2 a m"
  "mc6809.more_update (plain_poke a v) m = poke_ram (unat a) v m"
  by (cases m; simp add: full_coco2_def mc6809.defs machine.defs coco2.defs pages_current_def update_fast_pages_coco2_def
     vector_read_coco2_def plain_poke_def poke_ram_def Let_def)+

lemma full_coco2_poke:
  "ram (full_coco2 (plain_poke a v m)) = (ram (full_coco2 m))(unat a := v)"
  "ram_size (full_coco2 (plain_poke a v m)) = ram_size (full_coco2 m)"
  "pages_current (full_coco2 (plain_poke a v m)) = pages_current (full_coco2 m)"
  "vector_read_coco2 a' (full_coco2 (plain_poke a v m)) = vector_read_coco2 a' (full_coco2 m)"
  unfolding plain_poke_def full_coco2_more
  by (simp_all add: poke_ram_def pages_current_def update_fast_pages_coco2_def vector_read_coco2_def Let_def)

interpretation coco2_ram: ram_bus "coco2_bus D" plain_peek plain_poke plain_rd plain_wr "0xFF00"
  for D :: "'p devices"
proof unfold_locales
  fix s :: "'p coco2" and a :: u16 and v :: u8
  assume l: "fast_limit s = 0xFF00"
  note more = plain_ok_def full_coco2_more plain_peek_def
  { assume r: "plain_rd (mc6809.more s) a"
    then have "run_state (mem_read (coco2_bus D) a) s = machine_read_coco2 D a s"
      using l by (intro mem_read_coco2) (simp_all add: plain_rd_def more)
    also have "\<dots> = (plain_peek (mc6809.more s) a, s)"
    proof (cases "a < 0x8000")
      case True
      then have "unat a < ram_size s" "\<not> a \<ge> 0x8000" "\<not> a \<ge> 0xFF00" using r
        by (auto simp: plain_rd_def more word_less_nat_alt word_le_nat_alt)
      then show ?thesis using True by (simp add: machine_read_coco2_def more)
    next
      case False
      then show ?thesis using r vector_bus by (auto simp: plain_rd_def more)
    qed
    finally show "run_state (mem_read (coco2_bus D) a) s = (plain_peek (mc6809.more s) a, s)" . }
  { assume w: "plain_wr (mc6809.more s) a"
    then have "unat a < ram_size s" "\<not> a \<ge> 0x8000" "\<not> a \<ge> 0xFF00"
      by (auto simp: plain_wr_def more word_less_nat_alt word_le_nat_alt)
    moreover have "run_state (mem_write (coco2_bus D) a v) s = ((), machine_write_coco2 D a v s)"
      using l w by (intro mem_write_coco2) (simp_all add: plain_wr_def more)
    ultimately show "run_state (mem_write (coco2_bus D) a v) s = ((), mc6809.more_update (plain_poke a v) s)"
      by (simp add: machine_write_coco2_def write_body_coco2_def full_coco2_more) }
next
  show "plain_wr m a \<Longrightarrow> plain_rd m a" for m and a :: u16
    by (simp add: plain_wr_def plain_rd_def)
  show "plain_peek (plain_poke a v m) a' = (if a' = a then v else plain_peek m a')"
    if "plain_wr m a" "plain_rd m a'" for m a a' v
    using that by (auto simp: plain_peek_def full_coco2_poke plain_wr_def word_unat_eq_iff [of a' a] word_less_nat_alt)
qed (simp_all add: plain_rd_def plain_wr_def plain_ok_def full_coco2_poke)

section \<open>Stack and interrupts on the CoCo 2\<close>

text \<open>The machine state the stack theorems ask for: a stack of \<open>n\<close> free bytes in low RAM.\<close>

definition stack_room :: "nat \<Rightarrow> 'p coco2 \<Rightarrow> bool" where
  "stack_room n s \<longleftrightarrow> pages_current s \<and> 65536 \<le> ram_size s \<and> fast_limit s = 0xFF00 \<and>
     n \<le> unat (r_s s) \<and> unat (r_s s) \<le> 0x8000"

lemma stack_room_ram: "stack_room n s \<Longrightarrow> coco2_ram.room s n"
proof -
  assume s: "stack_room n s"
  have "r_s s - 1 - of_nat i < 0x8000" if "i < n" for i
  proof -
    have "Suc i \<le> unat (r_s s)" using s that by (simp add: stack_room_def)
    moreover have "Suc i < 65536" using calculation u16_lt [of "r_s s"] by simp
    then have u: "unat (of_nat (Suc i) :: u16) = Suc i" by (simp only: unat_of_nat) simp
    ultimately have "unat (r_s s - of_nat (Suc i)) = unat (r_s s) - Suc i"
      using unat_sub [of "of_nat (Suc i)" "r_s s"] by (simp only: word_le_nat_alt u)
    then have "unat (r_s s - 1 - of_nat i) < 0x8000"
      using s that by (simp add: stack_room_def algebra_simps) linarith
    then show ?thesis by (simp add: word_less_nat_alt)
  qed
  then show ?thesis using s
    by (auto simp: stack_room_def coco2_ram.room_def plain_wr_def plain_ok_def full_coco2_more)
qed

lemma coco2_vector_at:
  assumes "stack_room n s" and "rom_basic_loaded s" and "rom_extbas_loaded s"
    and "a \<in> cpu_vectors" and "a + 1 \<in> cpu_vectors"
  shows "coco2_ram.vector_at (mc6809.more s) a
    (pack16 (rom_basic s (unat (0x1FF0 + (a AND 0x0F)))) (rom_basic s (unat (0x1FF0 + ((a + 1) AND 0x0F)))))"
proof -
  have "\<not> a < 0x8000" "\<not> a + 1 < 0x8000"
    using vector_address(1) [OF assms(4)] vector_address(1) [OF assms(5)] by (simp_all add: word_less_nat_alt word_le_nat_alt)
  then show ?thesis using assms
    by (simp add: coco2_ram.vector_at_def plain_rd_def plain_wr_def plain_ok_def plain_peek_def full_coco2_more
        stack_room_def vector_in_basic)
qed

text \<open>
  C30: PULS undoes PSHS on a CoCo 2. With the stack in low RAM and twelve bytes free below it, pushing
  the registers of any mask and pulling them with the same mask, from any register contents, brings
  back exactly the pushed registers and leaves the others; the stack pointer returns to its value,
  and both instructions count the same extra cycles.
\<close>

theorem coco2_pshs_puls:
  assumes "stack_room 12 s" and "s1 = snd (run_state (do_pshs (coco2_bus D) pb) s)"
    and "r_s x = r_s s1" and "mc6809.more x = mc6809.more s1" and "fast_limit x = 0xFF00"
  shows "restored pb s x (snd (run_state (do_puls (coco2_bus D) pb) x)) \<and>
    r_s (snd (run_state (do_puls (coco2_bus D) pb) x)) = r_s s \<and>
    fst (run_state (do_puls (coco2_bus D) pb) x) = fst (run_state (do_pshs (coco2_bus D) pb) s)"
  using coco2_ram.pshs_puls [OF stack_room_ram [OF assms(1)] assms(2-5)] .

text \<open>
  C9: An IRQ on a CoCo 2 is transparent. When the interrupt is taken out of a running program with its
  stack in low RAM, the CPU continues at the vector Color BASIC keeps for $FFF8 with IRQ masked, and
  RTI with the stack as it was left, from any register contents, brings back every register of the
  program, its condition codes with E set, and the stack pointer.
\<close>

theorem coco2_irq_then_rti:
  assumes "stack_room 12 s" and "rom_basic_loaded s" and "rom_extbas_loaded s" and "\<not> cwai_state s"
    and "irq_pending s" and "\<not> tst (r_cc s) MC6809_FLAG_I" and "\<not> (nmi_pending s \<and> nmi_armed s)"
    and "\<not> (firq_pending s \<and> \<not> tst (r_cc s) MC6809_FLAG_F)"
    and "s1 = snd (run_state (check_interrupts (coco2_bus D)) s)"
    and "r_s x = r_s s1" and "mc6809.more x = mc6809.more s1" and "fast_limit x = 0xFF00"
  shows "r_pc s1 = pack16 (rom_basic s 0x1FF8) (rom_basic s 0x1FF9) \<and>
    r_cc s1 = r_cc s OR MC6809_FLAG_E OR MC6809_FLAG_I \<and>
    restored 0xFF (s\<lparr>r_cc := r_cc s OR MC6809_FLAG_E\<rparr>) x (snd (run_state (rti (coco2_bus D)) x)) \<and>
    r_s (snd (run_state (rti (coco2_bus D)) x)) = r_s s"
proof -
  have "coco2_ram.vector_at (mc6809.more s) MC6809_VEC_IRQ (pack16 (rom_basic s 0x1FF8) (rom_basic s 0x1FF9))"
    using coco2_vector_at [OF assms(1-3), of "0xFFF8"] by (simp add: cpu_vectors_def MC6809_VEC_IRQ_def)
 from coco2_ram.irq_then_rti [OF stack_room_ram [OF assms(1)] assms(4-8) this assms(9-12)]
  show ?thesis .
qed

text \<open>
  C29: A FIRQ on a CoCo 2 saves only the program counter and CC, with E clear, and RTI from the stack it
  left brings just these two back, the other registers as the handler left them.
\<close>

theorem coco2_firq_then_rti:
  assumes "stack_room 3 s" and "rom_basic_loaded s" and "rom_extbas_loaded s" and "\<not> cwai_state s"
    and "firq_pending s" and "\<not> tst (r_cc s) MC6809_FLAG_F" and "\<not> (nmi_pending s \<and> nmi_armed s)"
    and "s1 = snd (run_state (check_interrupts (coco2_bus D)) s)"
    and "r_s x = r_s s1" and "mc6809.more x = mc6809.more s1" and "fast_limit x = 0xFF00"
  shows "r_pc s1 = pack16 (rom_basic s 0x1FF6) (rom_basic s 0x1FF7) \<and>
    r_cc s1 = (r_cc s AND NOT MC6809_FLAG_E) OR (MC6809_FLAG_I OR MC6809_FLAG_F) \<and>
    restored 0x81 (s\<lparr>r_cc := r_cc s AND NOT MC6809_FLAG_E\<rparr>) x (snd (run_state (rti (coco2_bus D)) x)) \<and>
    r_s (snd (run_state (rti (coco2_bus D)) x)) = r_s s"
proof -
  have "coco2_ram.vector_at (mc6809.more s) MC6809_VEC_FIRQ (pack16 (rom_basic s 0x1FF6) (rom_basic s 0x1FF7))"
    using coco2_vector_at [OF assms(1-3), of "0xFFF6"] by (simp add: cpu_vectors_def MC6809_VEC_FIRQ_def)
  from coco2_ram.firq_then_rti [OF stack_room_ram [OF assms(1)] assms(4-7) this assms(8-11)]
  show ?thesis .
qed

text \<open>The booted machine with a stack at $8000 and a request on one line, masks clear.\<close>

definition demo_running :: "unit coco2" where
  "demo_running = demo_coco2\<lparr>r_s := 0x8000, r_cc := 0x04, r_d := 0x1122, r_x := 0x3344\<rparr>"

lemma demo_running_room:
  "n \<le> 0x8000 \<Longrightarrow> stack_room n demo_running"
  "n \<le> 0x8000 \<Longrightarrow> stack_room n (demo_running\<lparr>irq_pending := True\<rparr>)"
  "n \<le> 0x8000 \<Longrightarrow> stack_room n (demo_running\<lparr>firq_pending := True\<rparr>)"
  using demo_state(1)
  by (simp_all add: demo_running_def stack_room_def coco2_inv_def pages_current_def update_fast_pages_coco2_def Let_def)

lemma coco2_pshs_puls_witness:
  "let s1 = snd (run_state (do_pshs (coco2_bus null_devices) 0x16) demo_running);
       y = snd (run_state (do_puls (coco2_bus null_devices) 0x16)
                 (s1\<lparr>r_d := 0, r_x := 0, fast_limit := 0xFF00\<rparr>))
   in get_a y = 0x11 \<and> get_b y = 0x22 \<and> r_x y = 0x3344 \<and> r_s y = 0x8000"
  using coco2_pshs_puls [OF demo_running_room(1) refl, of "snd (run_state (do_pshs (coco2_bus null_devices) 0x16)
      demo_running)\<lparr>r_d := 0, r_x := 0, fast_limit := 0xFF00\<rparr>" null_devices "0x16"]
  by (simp add: Let_def restored_def tst_def get_a_def get_b_def hi8_def lo8_def demo_running_def)

lemma coco2_irq_then_rti_witness:
  "let s1 = snd (run_state (check_interrupts (coco2_bus null_devices)) (demo_running\<lparr>irq_pending := True\<rparr>));
       y = snd (run_state (rti (coco2_bus null_devices)) (s1\<lparr>r_d := 0, r_x := 0, fast_limit := 0xFF00\<rparr>))
   in r_pc s1 = 0x1212 \<and> get_a y = 0x11 \<and> get_b y = 0x22 \<and> r_x y = 0x3344 \<and> r_cc y = 0x84 \<and> r_s y = 0x8000"
  using coco2_irq_then_rti [OF demo_running_room(2), where D = null_devices
    and ?s1.0 = "snd (run_state (check_interrupts (coco2_bus null_devices)) (demo_running\<lparr>irq_pending := True\<rparr>))"
    and x = "snd (run_state (check_interrupts (coco2_bus null_devices)) (demo_running\<lparr>irq_pending := True\<rparr>))
      \<lparr>r_d := 0, r_x := 0, fast_limit := 0xFF00\<rparr>"]
  by (simp add: Let_def demo_running_def demo_state load_into_def pack16_def restored_def tst_def get_a_def get_b_def hi8_def lo8_def flag_defs)

lemma coco2_firq_then_rti_witness:
  "let s1 = snd (run_state (check_interrupts (coco2_bus null_devices)) (demo_running\<lparr>firq_pending := True\<rparr>));
       y = snd (run_state (rti (coco2_bus null_devices)) (s1\<lparr>r_x := 0, fast_limit := 0xFF00\<rparr>))
   in r_pc s1 = 0x1212 \<and> r_x y = 0 \<and> r_cc y = 0x04 \<and> r_s y = 0x8000"
  using coco2_firq_then_rti [OF demo_running_room(3), where D = null_devices
    and ?s1.0 = "snd (run_state (check_interrupts (coco2_bus null_devices)) (demo_running\<lparr>firq_pending := True\<rparr>))"
    and x = "snd (run_state (check_interrupts (coco2_bus null_devices)) (demo_running\<lparr>firq_pending := True\<rparr>))
      \<lparr>r_x := 0, fast_limit := 0xFF00\<rparr>"]
  by (simp add: Let_def demo_running_def demo_state load_into_def pack16_def restored_def tst_def get_a_def get_b_def hi8_def lo8_def flag_defs)

end
