(* ===== verification/Gime_Colour.thy ===== *)
theory Gime_Colour
  imports CoCo_Prelude
begin

text \<open>
  Colours of the GIME: \<open>src/src/core/gime_monitor.h\<close> (what a colour number looks like on an RGB and
  on a composite monitor, and the nearest colour the VGA output has), \<open>gime_artifact.h\<close> (the NTSC
  artifact colours of a PMODE 4 line) and the character generator of \<open>font_gime.h\<close>. A colour number
  is the byte the callers pass; intermediate values are \<open>unsigned\<close> or \<open>uint32_t\<close>, here 32-bit words.
\<close>

section \<open>Monitors\<close>

definition GIME_MONITOR_RGB :: u8 where "GIME_MONITOR_RGB = 0"
definition GIME_MONITOR_COMPOSITE :: u8 where "GIME_MONITOR_COMPOSITE = 1"
definition GIME_MONITOR_COUNT :: u8 where "GIME_MONITOR_COUNT = 2"

definition gime_colour_rgb :: "u8 \<Rightarrow> u32" where
  "gime_colour_rgb c =
     ucast ((drop_bit 4 c AND 2) OR (drop_bit 2 c AND 1)) * 0x550000 OR
     ucast ((drop_bit 3 c AND 2) OR (drop_bit 1 c AND 1)) * 0x005500 OR
     ucast ((drop_bit 2 c AND 2) OR (drop_bit 0 c AND 1)) * 0x000055"

definition composite_table :: "u32 list" where
  "composite_table =
     [0x000000, 0x004c00, 0x004300, 0x0a3100, 0x2f1b00, 0x550100, 0x6c0000, 0x770006,
      0x71004b, 0x5c008b, 0x3b00b8, 0x1100ca, 0x001499, 0x002c62, 0x004011, 0x004b00,
      0x2d2d2d, 0x069800, 0x288f00, 0x537d00, 0x786700, 0xa04c00, 0xb63402, 0xc3224c,
      0xbd1693, 0xa814d5, 0x881cfe, 0x5e2cff, 0x105ee9, 0x0076b2, 0x008b60, 0x009618,
      0x747474, 0x41d714, 0x62cf00, 0x8ebd00, 0xb4a700, 0xdd8c01, 0xf5733a, 0xfe6085,
      0xfd53ce, 0xe950ff, 0xc958ff, 0x9e67ff, 0x4e9aff, 0x36b3f7, 0x26c9a3, 0x2bd558,
      0xfdfdfe, 0x88e85a, 0xa1e03f, 0xbed238, 0xd8c342, 0xf1b161, 0xfea08d, 0xfe95bf,
      0xfd8ef1, 0xef8eff, 0xd895ff, 0xb9a1ff, 0x86c4ff, 0x78d4f2, 0x71e2b6, 0xffffff]"

definition gime_colour_composite :: "u8 \<Rightarrow> u32" where
  "gime_colour_composite c = composite_table ! unat (c AND 0x3F)"

definition gime_nearest :: "u32 \<Rightarrow> u8" where
  "gime_nearest rgb =
     (let r = ((drop_bit 16 rgb AND 0xFF) * 3 + 127) div 255;
          g = ((drop_bit 8 rgb AND 0xFF) * 3 + 127) div 255;
          b = ((rgb AND 0xFF) * 3 + 127) div 255
      in ucast (push_bit 4 (r AND 2) OR push_bit 3 (g AND 2) OR push_bit 2 (b AND 2) OR
                push_bit 2 (r AND 1) OR push_bit 1 (g AND 1) OR (b AND 1)))"

definition gime_monitor_colour :: "u8 \<Rightarrow> u8 \<Rightarrow> u8" where
  "gime_monitor_colour monitor c =
     (if monitor = GIME_MONITOR_COMPOSITE then gime_nearest (gime_colour_composite c) else c AND 0x3F)"

section \<open>Artifact colours\<close>

definition GIME_ARTIFACT_OFF :: u8 where "GIME_ARTIFACT_OFF = 0"
definition GIME_ARTIFACT_STANDARD :: u8 where "GIME_ARTIFACT_STANDARD = 1"
definition GIME_ARTIFACT_REVERSE :: u8 where "GIME_ARTIFACT_REVERSE = 2"
definition GIME_ARTIFACT_COUNT :: u8 where "GIME_ARTIFACT_COUNT = 3"

definition k_artifact_factors :: "u32 list" where
  "k_artifact_factors =
     [157, 0, 157,
      0, 157, 0,
      1000, 824, 1000,
      824, 1000, 824,
      706, 236, 118,
      0, 197, 471,
      1000, 550, 393,
      275, 785, 1000,
      0, 500, 1000,
      1000, 500, 0,
      1000, 942, 785,
      393, 942, 1000,
      236, 0, 0,
      0, 0, 236]"

definition k_artifact_correction :: "nat list" where
  "k_artifact_correction =
     [0, 0, 0, 0, 0, 6, 0, 2, 5, 7, 5, 7, 1, 3, 1, 11,
      8, 6, 8, 14, 8, 9, 8, 9, 4, 4, 4, 15, 12, 12, 12, 15,
      5, 13, 5, 13, 13, 0, 13, 2, 10, 10, 10, 10, 10, 15, 10, 11,
      3, 1, 3, 1, 15, 9, 15, 9, 11, 11, 11, 11, 15, 15, 15, 15,
      14, 0, 14, 0, 14, 6, 14, 2, 0, 7, 0, 7, 1, 3, 1, 11,
      9, 6, 9, 14, 9, 9, 9, 9, 15, 4, 15, 15, 12, 12, 12, 15,
      2, 13, 2, 13, 2, 0, 2, 2, 10, 10, 10, 10, 10, 15, 10, 11,
      12, 1, 12, 1, 12, 9, 12, 9, 15, 11, 15, 11, 15, 15, 15, 15]"

definition artifact_channel :: "u32 \<Rightarrow> u32 \<Rightarrow> nat \<Rightarrow> nat \<Rightarrow> u32" where
  "artifact_channel a b f0 ch =
     (let shift = 16 - 8 * ch;
          ca = drop_bit shift a AND 0xFF;
          cb = drop_bit shift b AND 0xFF;
          f = k_artifact_factors ! (f0 + ch)
      in push_bit shift ((ca * (1000 - f) + cb * f + 500) div 1000))"

definition gime_artifact_mix :: "u8 \<Rightarrow> u8 \<Rightarrow> u8 \<Rightarrow> u8 \<Rightarrow> u8 list" where
  "gime_artifact_mix mode monitor c0 c1 =
     (let colour = (if monitor = GIME_MONITOR_COMPOSITE then gime_colour_composite else gime_colour_rgb);
          a = colour c0;
          b = colour c1;
          mix = (\<lambda>i. let f0 = unat ((of_nat (i - 1) :: u32) XOR ucast (mode AND 1)) * 3
                     in gime_nearest (fold (\<lambda>ch rgb. rgb OR artifact_channel a b f0 ch) [0, 1, 2] 0))
      in gime_monitor_colour monitor c0 # map mix [1..<15] @ [gime_monitor_colour monitor c1])"

text \<open>
  One PMODE 4 line: \<open>src k\<close> is byte \<open>k\<close> of the line, the result the pixels in order; \<open>prev\<close> is what
  the loop carries, \<open>artifact_byte\<close> its body.
\<close>

definition artifact_window :: "u32 \<Rightarrow> u8 \<Rightarrow> u32 \<Rightarrow> u32" where
  "artifact_window prev cur next = push_bit 16 prev OR push_bit 8 (ucast cur) OR next"

definition artifact_byte :: "(nat \<Rightarrow> 'c) \<Rightarrow> u32 \<Rightarrow> 'c list" where
  "artifact_byte colours window =
     concat (map (\<lambda>shift.
       let v = unat (drop_bit shift window AND 0x3F) * 2;
           p0 = colours (k_artifact_correction ! v);
           p1 = colours (k_artifact_correction ! (v + 1))
       in [p0, p0, p1, p1]) [12, 10, 8, 6])"

primrec artifact_bytes :: "(nat \<Rightarrow> u8) \<Rightarrow> nat \<Rightarrow> (nat \<Rightarrow> 'c) \<Rightarrow> u32 \<Rightarrow> nat \<Rightarrow> u32 \<times> 'c list" where
  "artifact_bytes src n colours border_bits 0 = (border_bits AND 3, [])"
| "artifact_bytes src n colours border_bits (Suc k) =
     (let (prev, d) = artifact_bytes src n colours border_bits k;
          cur = src k;
          next = (if k + 1 < n then ucast (src (k + 1)) else border_bits)
      in (ucast cur AND 3, d @ artifact_byte colours (artifact_window prev cur next)))"

definition gime_artifact_line :: "(nat \<Rightarrow> u8) \<Rightarrow> nat \<Rightarrow> (nat \<Rightarrow> 'c) \<Rightarrow> bool \<Rightarrow> 'c list" where
  "gime_artifact_line src n colours border_is_c1 =
     snd (artifact_bytes src n colours (if border_is_c1 then 0xFF else 0) n)"

section \<open>The character generator\<close>

text \<open>128 characters of 12 rows, sixteen characters at a time.\<close>

definition font_gime_0 :: "u8 list" where
  "font_gime_0 =
     [0x00, 0x38, 0x44, 0x40, 0x40, 0x40, 0x44, 0x38, 0x10, 0x00, 0x00, 0x00,
      0x00, 0x44, 0x00, 0x44, 0x44, 0x44, 0x4c, 0x34, 0x00, 0x00, 0x00, 0x00,
      0x00, 0x08, 0x10, 0x38, 0x44, 0x7c, 0x40, 0x38, 0x00, 0x00, 0x00, 0x00,
      0x00, 0x10, 0x28, 0x38, 0x04, 0x3c, 0x44, 0x3c, 0x00, 0x00, 0x00, 0x00,
      0x00, 0x28, 0x00, 0x38, 0x04, 0x3c, 0x44, 0x3c, 0x00, 0x00, 0x00, 0x00,
      0x00, 0x20, 0x10, 0x38, 0x04, 0x3c, 0x44, 0x3c, 0x00, 0x00, 0x00, 0x00,
      0x00, 0x10, 0x00, 0x38, 0x04, 0x3c, 0x44, 0x3c, 0x00, 0x00, 0x00, 0x00,
      0x00, 0x00, 0x00, 0x38, 0x44, 0x40, 0x44, 0x38, 0x10, 0x00, 0x00, 0x00,
      0x00, 0x10, 0x28, 0x38, 0x44, 0x7c, 0x40, 0x38, 0x00, 0x00, 0x00, 0x00,
      0x00, 0x28, 0x00, 0x38, 0x44, 0x7c, 0x40, 0x38, 0x00, 0x00, 0x00, 0x00,
      0x00, 0x20, 0x10, 0x38, 0x44, 0x7c, 0x40, 0x38, 0x00, 0x00, 0x00, 0x00,
      0x00, 0x28, 0x00, 0x30, 0x10, 0x10, 0x10, 0x38, 0x00, 0x00, 0x00, 0x00,
      0x00, 0x10, 0x28, 0x00, 0x30, 0x10, 0x10, 0x38, 0x00, 0x00, 0x00, 0x00,
      0x00, 0x00, 0x18, 0x24, 0x38, 0x24, 0x24, 0x38, 0x40, 0x00, 0x00, 0x00,
      0x00, 0x44, 0x10, 0x28, 0x44, 0x7c, 0x44, 0x44, 0x00, 0x00, 0x00, 0x00,
      0x00, 0x10, 0x10, 0x28, 0x44, 0x7c, 0x44, 0x44, 0x00, 0x00, 0x00, 0x00]"

definition font_gime_1 :: "u8 list" where
  "font_gime_1 =
     [0x00, 0x08, 0x10, 0x38, 0x44, 0x44, 0x44, 0x38, 0x00, 0x00, 0x00, 0x00,
      0x00, 0x00, 0x00, 0x68, 0x14, 0x3c, 0x50, 0x3c, 0x00, 0x00, 0x00, 0x00,
      0x00, 0x3c, 0x50, 0x50, 0x78, 0x50, 0x50, 0x5c, 0x00, 0x00, 0x00, 0x00,
      0x00, 0x10, 0x28, 0x38, 0x44, 0x44, 0x44, 0x38, 0x00, 0x00, 0x00, 0x00,
      0x00, 0x28, 0x00, 0x38, 0x44, 0x44, 0x44, 0x38, 0x00, 0x00, 0x00, 0x00,
      0x00, 0x00, 0x00, 0x38, 0x4c, 0x54, 0x64, 0x38, 0x00, 0x00, 0x00, 0x00,
      0x00, 0x10, 0x28, 0x00, 0x44, 0x44, 0x4c, 0x34, 0x00, 0x00, 0x00, 0x00,
      0x00, 0x20, 0x10, 0x44, 0x44, 0x44, 0x4c, 0x34, 0x00, 0x00, 0x00, 0x00,
      0x00, 0x38, 0x4c, 0x54, 0x54, 0x54, 0x64, 0x38, 0x00, 0x00, 0x00, 0x00,
      0x00, 0x44, 0x38, 0x44, 0x44, 0x44, 0x44, 0x38, 0x00, 0x00, 0x00, 0x00,
      0x00, 0x28, 0x44, 0x44, 0x44, 0x44, 0x44, 0x38, 0x00, 0x00, 0x00, 0x00,
      0x00, 0x38, 0x40, 0x38, 0x44, 0x38, 0x04, 0x38, 0x00, 0x00, 0x00, 0x00,
      0x00, 0x08, 0x14, 0x10, 0x38, 0x10, 0x14, 0x78, 0x00, 0x00, 0x00, 0x00,
      0x00, 0x10, 0x10, 0x7c, 0x10, 0x10, 0x00, 0x7c, 0x00, 0x00, 0x00, 0x00,
      0x00, 0x10, 0x28, 0x10, 0x00, 0x00, 0x00, 0x00, 0x00, 0x00, 0x00, 0x00,
      0x00, 0x08, 0x14, 0x10, 0x38, 0x10, 0x10, 0x50, 0x20, 0x00, 0x00, 0x00]"

definition font_gime_2 :: "u8 list" where
  "font_gime_2 =
     [0x00, 0x00, 0x00, 0x00, 0x00, 0x00, 0x00, 0x00, 0x00, 0x00, 0x00, 0x00,
      0x00, 0x10, 0x10, 0x10, 0x10, 0x10, 0x00, 0x10, 0x00, 0x00, 0x00, 0x00,
      0x00, 0x28, 0x28, 0x28, 0x00, 0x00, 0x00, 0x00, 0x00, 0x00, 0x00, 0x00,
      0x00, 0x28, 0x28, 0x7c, 0x28, 0x7c, 0x28, 0x28, 0x00, 0x00, 0x00, 0x00,
      0x00, 0x10, 0x3c, 0x50, 0x38, 0x14, 0x78, 0x10, 0x00, 0x00, 0x00, 0x00,
      0x00, 0x60, 0x64, 0x08, 0x10, 0x20, 0x4c, 0x0c, 0x00, 0x00, 0x00, 0x00,
      0x00, 0x20, 0x50, 0x50, 0x20, 0x54, 0x48, 0x34, 0x00, 0x00, 0x00, 0x00,
      0x00, 0x10, 0x10, 0x20, 0x00, 0x00, 0x00, 0x00, 0x00, 0x00, 0x00, 0x00,
      0x00, 0x08, 0x10, 0x20, 0x20, 0x20, 0x10, 0x08, 0x00, 0x00, 0x00, 0x00,
      0x00, 0x20, 0x10, 0x08, 0x08, 0x08, 0x10, 0x20, 0x00, 0x00, 0x00, 0x00,
      0x00, 0x00, 0x10, 0x54, 0x38, 0x38, 0x54, 0x10, 0x00, 0x00, 0x00, 0x00,
      0x00, 0x00, 0x10, 0x10, 0x7c, 0x10, 0x10, 0x00, 0x00, 0x00, 0x00, 0x00,
      0x00, 0x00, 0x00, 0x00, 0x00, 0x00, 0x10, 0x10, 0x20, 0x00, 0x00, 0x00,
      0x00, 0x00, 0x00, 0x00, 0x7c, 0x00, 0x00, 0x00, 0x00, 0x00, 0x00, 0x00,
      0x00, 0x00, 0x00, 0x00, 0x00, 0x00, 0x00, 0x10, 0x00, 0x00, 0x00, 0x00,
      0x00, 0x00, 0x04, 0x08, 0x10, 0x20, 0x40, 0x00, 0x00, 0x00, 0x00, 0x00]"

definition font_gime_3 :: "u8 list" where
  "font_gime_3 =
     [0x00, 0x38, 0x44, 0x4c, 0x54, 0x64, 0x44, 0x38, 0x00, 0x00, 0x00, 0x00,
      0x00, 0x10, 0x30, 0x10, 0x10, 0x10, 0x10, 0x38, 0x00, 0x00, 0x00, 0x00,
      0x00, 0x38, 0x44, 0x04, 0x38, 0x40, 0x40, 0x7c, 0x00, 0x00, 0x00, 0x00,
      0x00, 0x38, 0x44, 0x04, 0x08, 0x04, 0x44, 0x38, 0x00, 0x00, 0x00, 0x00,
      0x00, 0x08, 0x18, 0x28, 0x48, 0x7c, 0x08, 0x08, 0x00, 0x00, 0x00, 0x00,
      0x00, 0x7c, 0x40, 0x78, 0x04, 0x04, 0x44, 0x38, 0x00, 0x00, 0x00, 0x00,
      0x00, 0x38, 0x40, 0x40, 0x78, 0x44, 0x44, 0x38, 0x00, 0x00, 0x00, 0x00,
      0x00, 0x7c, 0x04, 0x08, 0x10, 0x20, 0x40, 0x40, 0x00, 0x00, 0x00, 0x00,
      0x00, 0x38, 0x44, 0x44, 0x38, 0x44, 0x44, 0x38, 0x00, 0x00, 0x00, 0x00,
      0x00, 0x38, 0x44, 0x44, 0x38, 0x04, 0x04, 0x38, 0x00, 0x00, 0x00, 0x00,
      0x00, 0x00, 0x00, 0x10, 0x00, 0x00, 0x10, 0x00, 0x00, 0x00, 0x00, 0x00,
      0x00, 0x00, 0x00, 0x10, 0x00, 0x00, 0x10, 0x10, 0x20, 0x00, 0x00, 0x00,
      0x00, 0x08, 0x10, 0x20, 0x40, 0x20, 0x10, 0x08, 0x00, 0x00, 0x00, 0x00,
      0x00, 0x00, 0x00, 0x7c, 0x00, 0x7c, 0x00, 0x00, 0x00, 0x00, 0x00, 0x00,
      0x00, 0x20, 0x10, 0x08, 0x04, 0x08, 0x10, 0x20, 0x00, 0x00, 0x00, 0x00,
      0x00, 0x38, 0x44, 0x04, 0x08, 0x10, 0x00, 0x10, 0x00, 0x00, 0x00, 0x00]"

definition font_gime_4 :: "u8 list" where
  "font_gime_4 =
     [0x00, 0x38, 0x44, 0x04, 0x34, 0x4c, 0x4c, 0x38, 0x00, 0x00, 0x00, 0x00,
      0x00, 0x10, 0x28, 0x44, 0x44, 0x7c, 0x44, 0x44, 0x00, 0x00, 0x00, 0x00,
      0x00, 0x78, 0x24, 0x24, 0x38, 0x24, 0x24, 0x78, 0x00, 0x00, 0x00, 0x00,
      0x00, 0x38, 0x44, 0x40, 0x40, 0x40, 0x44, 0x38, 0x00, 0x00, 0x00, 0x00,
      0x00, 0x78, 0x24, 0x24, 0x24, 0x24, 0x24, 0x78, 0x00, 0x00, 0x00, 0x00,
      0x00, 0x7c, 0x40, 0x40, 0x70, 0x40, 0x40, 0x7c, 0x00, 0x00, 0x00, 0x00,
      0x00, 0x7c, 0x40, 0x40, 0x70, 0x40, 0x40, 0x40, 0x00, 0x00, 0x00, 0x00,
      0x00, 0x38, 0x44, 0x40, 0x40, 0x4c, 0x44, 0x38, 0x00, 0x00, 0x00, 0x00,
      0x00, 0x44, 0x44, 0x44, 0x7c, 0x44, 0x44, 0x44, 0x00, 0x00, 0x00, 0x00,
      0x00, 0x38, 0x10, 0x10, 0x10, 0x10, 0x10, 0x38, 0x00, 0x00, 0x00, 0x00,
      0x00, 0x04, 0x04, 0x04, 0x04, 0x04, 0x44, 0x38, 0x00, 0x00, 0x00, 0x00,
      0x00, 0x44, 0x48, 0x50, 0x60, 0x50, 0x48, 0x44, 0x00, 0x00, 0x00, 0x00,
      0x00, 0x40, 0x40, 0x40, 0x40, 0x40, 0x40, 0x7c, 0x00, 0x00, 0x00, 0x00,
      0x00, 0x44, 0x6c, 0x54, 0x54, 0x44, 0x44, 0x44, 0x00, 0x00, 0x00, 0x00,
      0x00, 0x44, 0x44, 0x64, 0x54, 0x4c, 0x44, 0x44, 0x00, 0x00, 0x00, 0x00,
      0x00, 0x38, 0x44, 0x44, 0x44, 0x44, 0x44, 0x38, 0x00, 0x00, 0x00, 0x00]"

definition font_gime_5 :: "u8 list" where
  "font_gime_5 =
     [0x00, 0x78, 0x44, 0x44, 0x78, 0x40, 0x40, 0x40, 0x00, 0x00, 0x00, 0x00,
      0x00, 0x38, 0x44, 0x44, 0x44, 0x54, 0x48, 0x34, 0x00, 0x00, 0x00, 0x00,
      0x00, 0x78, 0x44, 0x44, 0x78, 0x50, 0x48, 0x44, 0x00, 0x00, 0x00, 0x00,
      0x00, 0x38, 0x44, 0x40, 0x38, 0x04, 0x44, 0x38, 0x00, 0x00, 0x00, 0x00,
      0x00, 0x7c, 0x10, 0x10, 0x10, 0x10, 0x10, 0x10, 0x00, 0x00, 0x00, 0x00,
      0x00, 0x44, 0x44, 0x44, 0x44, 0x44, 0x44, 0x38, 0x00, 0x00, 0x00, 0x00,
      0x00, 0x44, 0x44, 0x44, 0x28, 0x28, 0x10, 0x10, 0x00, 0x00, 0x00, 0x00,
      0x00, 0x44, 0x44, 0x44, 0x44, 0x54, 0x6c, 0x44, 0x00, 0x00, 0x00, 0x00,
      0x00, 0x44, 0x44, 0x28, 0x10, 0x28, 0x44, 0x44, 0x00, 0x00, 0x00, 0x00,
      0x00, 0x44, 0x44, 0x28, 0x10, 0x10, 0x10, 0x10, 0x00, 0x00, 0x00, 0x00,
      0x00, 0x7c, 0x04, 0x08, 0x10, 0x20, 0x40, 0x7c, 0x00, 0x00, 0x00, 0x00,
      0x00, 0x38, 0x20, 0x20, 0x20, 0x20, 0x20, 0x38, 0x00, 0x00, 0x00, 0x00,
      0x00, 0x00, 0x40, 0x20, 0x10, 0x08, 0x04, 0x00, 0x00, 0x00, 0x00, 0x00,
      0x00, 0x38, 0x08, 0x08, 0x08, 0x08, 0x08, 0x38, 0x00, 0x00, 0x00, 0x00,
      0x00, 0x10, 0x38, 0x54, 0x10, 0x10, 0x10, 0x10, 0x00, 0x00, 0x00, 0x00,
      0x00, 0x00, 0x10, 0x20, 0x7c, 0x20, 0x10, 0x00, 0x00, 0x00, 0x00, 0x00]"

definition font_gime_6 :: "u8 list" where
  "font_gime_6 =
     [0x00, 0x10, 0x28, 0x44, 0x00, 0x00, 0x00, 0x00, 0x00, 0x00, 0x00, 0x00,
      0x00, 0x00, 0x00, 0x38, 0x04, 0x3c, 0x44, 0x3c, 0x00, 0x00, 0x00, 0x00,
      0x00, 0x40, 0x40, 0x58, 0x64, 0x44, 0x64, 0x58, 0x00, 0x00, 0x00, 0x00,
      0x00, 0x00, 0x00, 0x38, 0x44, 0x40, 0x44, 0x38, 0x00, 0x00, 0x00, 0x00,
      0x00, 0x04, 0x04, 0x34, 0x4c, 0x44, 0x4c, 0x34, 0x00, 0x00, 0x00, 0x00,
      0x00, 0x00, 0x00, 0x38, 0x44, 0x7c, 0x40, 0x38, 0x00, 0x00, 0x00, 0x00,
      0x00, 0x08, 0x14, 0x10, 0x38, 0x10, 0x10, 0x10, 0x00, 0x00, 0x00, 0x00,
      0x00, 0x00, 0x00, 0x34, 0x4c, 0x4c, 0x34, 0x04, 0x38, 0x00, 0x00, 0x00,
      0x00, 0x40, 0x40, 0x58, 0x64, 0x44, 0x44, 0x44, 0x00, 0x00, 0x00, 0x00,
      0x00, 0x00, 0x10, 0x00, 0x30, 0x10, 0x10, 0x38, 0x00, 0x00, 0x00, 0x00,
      0x00, 0x00, 0x04, 0x00, 0x04, 0x04, 0x04, 0x44, 0x38, 0x00, 0x00, 0x00,
      0x00, 0x40, 0x40, 0x48, 0x50, 0x60, 0x50, 0x48, 0x00, 0x00, 0x00, 0x00,
      0x00, 0x30, 0x10, 0x10, 0x10, 0x10, 0x10, 0x38, 0x00, 0x00, 0x00, 0x00,
      0x00, 0x00, 0x00, 0x68, 0x54, 0x54, 0x54, 0x54, 0x00, 0x00, 0x00, 0x00,
      0x00, 0x00, 0x00, 0x58, 0x64, 0x44, 0x44, 0x44, 0x00, 0x00, 0x00, 0x00,
      0x00, 0x00, 0x00, 0x38, 0x44, 0x44, 0x44, 0x38, 0x00, 0x00, 0x00, 0x00]"

definition font_gime_7 :: "u8 list" where
  "font_gime_7 =
     [0x00, 0x00, 0x00, 0x78, 0x44, 0x44, 0x78, 0x40, 0x40, 0x00, 0x00, 0x00,
      0x00, 0x00, 0x00, 0x3c, 0x44, 0x44, 0x3c, 0x04, 0x04, 0x00, 0x00, 0x00,
      0x00, 0x00, 0x00, 0x58, 0x64, 0x40, 0x40, 0x40, 0x00, 0x00, 0x00, 0x00,
      0x00, 0x00, 0x00, 0x3c, 0x40, 0x38, 0x04, 0x78, 0x00, 0x00, 0x00, 0x00,
      0x00, 0x20, 0x20, 0x70, 0x20, 0x20, 0x24, 0x18, 0x00, 0x00, 0x00, 0x00,
      0x00, 0x00, 0x00, 0x44, 0x44, 0x44, 0x4c, 0x34, 0x00, 0x00, 0x00, 0x00,
      0x00, 0x00, 0x00, 0x44, 0x44, 0x44, 0x28, 0x10, 0x00, 0x00, 0x00, 0x00,
      0x00, 0x00, 0x00, 0x44, 0x54, 0x54, 0x28, 0x28, 0x00, 0x00, 0x00, 0x00,
      0x00, 0x00, 0x00, 0x44, 0x28, 0x10, 0x28, 0x44, 0x00, 0x00, 0x00, 0x00,
      0x00, 0x00, 0x00, 0x44, 0x44, 0x44, 0x3c, 0x04, 0x38, 0x00, 0x00, 0x00,
      0x00, 0x00, 0x00, 0x7c, 0x08, 0x10, 0x20, 0x7c, 0x00, 0x00, 0x00, 0x00,
      0x00, 0x08, 0x10, 0x10, 0x20, 0x10, 0x10, 0x08, 0x00, 0x00, 0x00, 0x00,
      0x00, 0x10, 0x10, 0x10, 0x00, 0x10, 0x10, 0x10, 0x00, 0x00, 0x00, 0x00,
      0x00, 0x20, 0x10, 0x10, 0x08, 0x10, 0x10, 0x20, 0x00, 0x00, 0x00, 0x00,
      0x00, 0x20, 0x54, 0x08, 0x00, 0x00, 0x00, 0x00, 0x00, 0x00, 0x00, 0x00,
      0x00, 0x00, 0x00, 0x00, 0x00, 0x00, 0x00, 0x7c, 0x00, 0x00, 0x00, 0x00]"

definition font_gime :: "u8 list" where
  "font_gime = font_gime_0 @ font_gime_1 @ font_gime_2 @ font_gime_3 @
     font_gime_4 @ font_gime_5 @ font_gime_6 @ font_gime_7"

section \<open>The RGB monitor\<close>

lemma rgb_low6: "gime_colour_rgb (c AND 0x3F) = gime_colour_rgb c"
proof -
  have m: "drop_bit k (c AND 0x3F) AND 2 = drop_bit k c AND 2" if "k \<in> {2, 3, 4}" for k
    by (rule bit_word_eqI) (use that in \<open>auto simp: bit_simps nth_Cons' numeral_eq_Suc\<close>)
  have n: "drop_bit 0 (c AND 0x3F) AND 1 = drop_bit 0 c AND 1" "drop_bit 1 (c AND 0x3F) AND 1 = drop_bit 1 c AND 1"
      "drop_bit 2 (c AND 0x3F) AND 1 = drop_bit 2 c AND 1"
    by (rule bit_word_eqI, auto simp: bit_simps nth_Cons' numeral_eq_Suc)+
  show ?thesis unfolding gime_colour_rgb_def using m [of 2] m [of 3] m [of 4] n by simp
qed

lemma nearest_64: "\<forall>c\<in>set (map of_nat [0..<64]). gime_nearest (gime_colour_rgb c) = c"
  by code_simp

text \<open>
  The nearest VGA colour of a GIME colour on an RGB monitor is that colour: the interleaved
  R1 G1 B1 R0 G0 B0 encoding survives the round trip through 24-bit RGB, so on an RGB monitor the
  colour a composite-style lookup would pick and the colour number itself agree, and the result is
  always one of the 64 the raw pixel tables have.
\<close>

theorem gime_nearest_rgb:
  "gime_nearest (gime_colour_rgb c) = c AND 0x3F \<and>
   gime_nearest (gime_colour_rgb c) = gime_monitor_colour GIME_MONITOR_RGB c"
proof -
  have "unat (c AND 0x3F) < 64" using word_and_le1 [of c "0x3F"] by (simp add: word_le_nat_alt)
  then have "c AND 0x3F \<in> set (map of_nat [0..<64])"
    by (auto simp: image_iff intro!: bexI [of _ "unat (c AND 0x3F)"])
  then have "gime_nearest (gime_colour_rgb c) = c AND 0x3F"
    using nearest_64 rgb_low6 [of c] by metis
  then show ?thesis by (simp add: gime_monitor_colour_def GIME_MONITOR_RGB_def GIME_MONITOR_COMPOSITE_def)
qed

section \<open>The artifact window\<close>

text \<open>Pixel \<open>i\<close> of the line, the border on both sides.\<close>

definition artifact_dot :: "(nat \<Rightarrow> u8) \<Rightarrow> nat \<Rightarrow> bool \<Rightarrow> int \<Rightarrow> bool" where
  "artifact_dot src n border i =
     (if i < 0 \<or> 8 * int n \<le> i then border else bit (src (nat i div 8)) (7 - nat i mod 8))"

text \<open>The pixels \<open>x - 2\<close> to \<open>x + 3\<close> as a number, the leftmost the most significant bit.\<close>

definition artifact_index :: "(nat \<Rightarrow> u8) \<Rightarrow> nat \<Rightarrow> bool \<Rightarrow> nat \<Rightarrow> nat" where
  "artifact_index src n border x =
     horner_sum of_bool 2 (map (\<lambda>t. artifact_dot src n border (int x + 3 - int t)) [0..<6])"

lemma dot_in_byte: "k < n \<Longrightarrow> j < 8 \<Longrightarrow> artifact_dot src n b (8 * int k + 7 - int j) = bit (src k) j"
proof -
  assume k: "k < n" and j: "j < 8"
  define t where "t = 7 - j"
  have t: "t < 8" "j = 7 - t" using j by (auto simp: t_def)
  then have "8 * int k + 7 - int j = int (8 * k + t)" by (simp add: of_nat_diff)
  moreover have "(8 * k + t) div 8 = k" "(8 * k + t) mod 8 = t" using t by auto
  moreover have "\<not> 8 * int n \<le> int (8 * k + t)" using k t by auto
  ultimately show ?thesis unfolding artifact_dot_def using t by (simp only: nat_int) auto
qed

lemma window_bits:
  fixes src n border k
  defines "edge \<equiv> (if border then 0xFF else 0 :: u32)"
  defines "prev \<equiv> (if k = 0 then edge AND 3 else ucast (src (k - 1)) AND 3)"
    and "next \<equiv> (if k + 1 < n then ucast (src (k + 1)) else edge)"
  assumes k: "k < n" and j: "j < 18"
  shows "bit (artifact_window prev (src k) next) j = artifact_dot src n border (8 * int k + 15 - int j)"
proof -
  have "(3 :: int) = mask 2" "(3 :: u32) = mask 2" by (simp_all add: mask_eq_exp_minus_1)
  then have b3: "bit (3 :: int) i \<longleftrightarrow> i < 2" "bit (3 :: u32) i \<longleftrightarrow> i < 2" for i
    by (simp_all only: bit_mask_iff) auto
  have edge: "bit edge i \<longleftrightarrow> border \<and> i < 8" for i
    unfolding edge_def using bit_255_int [of i] by (auto simp: bit_simps)
  consider (n) "j < 8" | (c) "8 \<le> j" "j < 16" | (p) "16 \<le> j" using j by linarith
  then show ?thesis
  proof cases
    case n
    show ?thesis
    proof (cases "k + 1 < n")
      case True
      then show ?thesis using n dot_in_byte [OF True n, of src border]
        by (simp add: artifact_window_def next_def bit_simps algebra_simps)
    next
      case False
      then have "8 * int n \<le> 8 * int k + 15 - int j" using k n by auto
      then show ?thesis using False n edge
        by (simp add: artifact_window_def next_def bit_simps artifact_dot_def)
    qed
  next
    case c
    then have "\<not> bit next j" by (auto simp: next_def edge bit_simps dest: bit_imp_le_length)
    moreover have "artifact_dot src n border (8 * int k + 7 - int (j - 8)) = bit (src k) (j - 8)"
      by (rule dot_in_byte) (use k c in auto)
    ultimately show ?thesis using c
      by (auto simp add: artifact_window_def bit_push_bit_iff bit_or_iff bit_unsigned_iff of_nat_diff algebra_simps)
  next
    case p
    then have "\<not> bit next j" "\<not> bit (src k) (j - 8)"
      by (auto simp: next_def edge bit_simps dest: bit_imp_le_length)
    moreover have "bit prev (j - 16) = artifact_dot src n border (8 * int k + 15 - int j)"
    proof (cases "k = 0")
      case True
      then show ?thesis using p j by (auto simp: prev_def artifact_dot_def bit_and_iff edge bit_simps b3)
    next
      case False
      then have "artifact_dot src n border (8 * int (k - 1) + 7 - int (j - 16)) = bit (src (k - 1)) (j - 16)"
        by (intro dot_in_byte) (use k p j in auto)
      then show ?thesis using False p j
        by (auto simp add: prev_def bit_and_iff bit_unsigned_iff b3 of_nat_diff algebra_simps)
    qed
    ultimately show ?thesis using p j by (simp add: artifact_window_def bit_simps)
  qed
qed

lemma window_index:
  "unat (drop_bit s (w :: u32) AND 0x3F) = horner_sum of_bool 2 (map (\<lambda>t. bit w (s + t)) [0..<6])"
proof -
  have "drop_bit s w AND 0x3F = take_bit 6 (drop_bit s w)" by (simp add: take_bit_eq_mask mask_eq_exp_minus_1)
  then have "unat (drop_bit s w AND 0x3F) = take_bit 6 (unat (drop_bit s w))"
    by (simp only: unsigned_take_bit_eq)
  also have "\<dots> = horner_sum of_bool 2 (map (bit (unat (drop_bit s w))) [0..<6])"
    by (rule horner_sum_bit_eq_take_bit [symmetric])
  also have "map (bit (unat (drop_bit s w))) [0..<6] = map (\<lambda>t. bit w (s + t)) [0..<6]"
    by (simp add: bit_unsigned_iff bit_drop_bit_eq fun_eq_iff)
  finally show ?thesis .
qed

text \<open>The four output pixels of pixels \<open>2p\<close> and \<open>2p + 1\<close>.\<close>

definition artifact_pair :: "(nat \<Rightarrow> u8) \<Rightarrow> nat \<Rightarrow> (nat \<Rightarrow> 'c) \<Rightarrow> bool \<Rightarrow> nat \<Rightarrow> 'c list" where
  "artifact_pair src n colours border p =
     (let v = 2 * artifact_index src n border (2 * p);
          p0 = colours (k_artifact_correction ! v);
          p1 = colours (k_artifact_correction ! (v + 1))
      in [p0, p0, p1, p1])"

lemma artifact_bytes_pairs:
  fixes src n colours border
  defines "edge \<equiv> (if border then 0xFF else 0 :: u32)"
  assumes "k \<le> n"
  shows "artifact_bytes src n colours edge k =
    (if k = 0 then edge AND 3 else ucast (src (k - 1)) AND 3,
     concat (map (artifact_pair src n colours border) [0..<4 * k]))"
  using assms(2)
proof (induction k)
  case 0
  then show ?case by simp
next
  case (Suc k)
  let ?prev = "if k = 0 then edge AND 3 else ucast (src (k - 1)) AND 3"
  let ?next = "if k + 1 < n then ucast (src (k + 1)) else edge"
  let ?w = "artifact_window ?prev (src k) ?next"
  have idx: "unat (drop_bit (12 - 2 * q) ?w AND 0x3F) = artifact_index src n border (2 * (4 * k + q))"
    if "q < 4" for q
  proof -
    have "bit ?w (12 - 2 * q + t) = artifact_dot src n border (int (2 * (4 * k + q)) + 3 - int t)" if "t < 6" for t
      using window_bits [of k n "12 - 2 * q + t" border src] Suc.prems \<open>q < 4\<close> that
      unfolding edge_def by (simp add: of_nat_diff algebra_simps)
    then show ?thesis unfolding window_index artifact_index_def
      by (intro arg_cong [where f = "horner_sum of_bool 2"] map_cong) auto
  qed
  have "artifact_byte colours ?w = concat (map (artifact_pair src n colours border) [4 * k, 4 * k + 1, 4 * k + 2, 4 * k + 3])"
    using idx [of 0] idx [of 1] idx [of 2] idx [of 3]
    by (simp add: artifact_byte_def artifact_pair_def Let_def mult.commute)
  moreover have "[0..<4 * Suc k] = [0..<4 * k] @ [4 * k, 4 * k + 1, 4 * k + 2, 4 * k + 3]"
  proof -
    have "[4 * k..<4 * k + 4] = [4 * k, 4 * k + 1, 4 * k + 2, 4 * k + 3]" by (simp add: upt_conv_Cons)
    then show ?thesis using upt_add_eq_append [of 0 "4 * k" 4] by (simp add: add.commute)
  qed
  ultimately show ?case using Suc by (simp add: Let_def)
qed

text \<open>
  C38: The artifact renderer of a PMODE 4 line looks at the right pixels. Although it slides a
  24-bit window over the bytes, each output pair is picked from the table by the six pixels around
  it in the line, across byte boundaries, with the border colour standing for the pixels left and
  right of the line, and every byte gives sixteen output pixels.
\<close>

theorem artifact_line_windows:
  "gime_artifact_line src n colours border =
     concat (map (artifact_pair src n colours border) [0..<4 * n]) \<and>
   length (gime_artifact_line src n colours border) = 16 * n"
proof -
  have "gime_artifact_line src n colours border = concat (map (artifact_pair src n colours border) [0..<4 * n])"
    by (simp add: gime_artifact_line_def artifact_bytes_pairs)
  moreover have "length (concat (map (artifact_pair src n colours border) [0..<m])) = 4 * m" for m
    by (induction m) (simp_all add: artifact_pair_def Let_def)
  ultimately show ?thesis by simp
qed

end
