(* ===== verification/Tcc1014.thy ===== *)
theory Tcc1014
  imports Gime_Colour
begin

text \<open>
  The GIME of the CoCo 3 (\<open>src/src/core/tcc1014.cpp\<close>, \<open>tcc1014.h\<close>): registers, MMU, address decode,
  interrupts and timer. The record \<open>tcc1014\<close> has the fields of the C struct, each with the prefix
  \<open>g_\<close>, and the file-scope variables of \<open>tcc1014.cpp\<close> with the prefix \<open>s_\<close>. The struct's pointer to
  RAM is \<open>g_ram\<close>, whether it is set; a page pointer is the offset into RAM it points at, and a read
  of RAM takes the RAM as an argument. The union of the two line buffers is the datatype
  \<open>gime_line\<close>: the buffer written last and the pixels in it.
\<close>

section \<open>State\<close>

datatype gime_line = Rgb565 "u16 list" | Raw8 "u8 list"

record tcc1014 =
  g_S :: nat
  g_Z :: u32
  g_RAS :: bool
  g_FIRQ :: bool
  g_IRQ :: bool
  g_IL0 :: bool
  g_IL1 :: bool
  g_IL2 :: bool
  g_registers :: "nat \<Rightarrow> u8"
  g_COCO :: bool
  g_MMUEN :: bool
  g_MC3 :: bool
  g_MC2 :: bool
  g_MC1 :: bool
  g_MC0 :: bool
  g_TINS :: bool
  g_TR :: nat
  g_BP :: bool
  g_BPI :: bool
  g_MOCH :: bool
  g_H50 :: bool
  g_LPR :: nat
  g_LPF :: nat
  g_HRES :: nat
  g_CRES :: nat
  g_BRDR :: u8
  g_VSC :: nat
  g_Y :: u32
  g_HVEN :: bool
  g_X :: nat
  g_mmu_bank :: "nat \<Rightarrow> u8"
  g_active_banks :: "nat \<Rightarrow> u8"
  g_rd_page :: "nat \<Rightarrow> nat option"
  g_wr_page :: "nat \<Rightarrow> nat option"
  g_palette_reg :: "nat \<Rightarrow> u8"
  g_palette_rgb565 :: "nat \<Rightarrow> u16"
  g_SAM_register :: u16
  g_SAM_V :: nat
  g_SAM_F :: u16
  g_R1 :: bool
  g_TY :: bool
  g_shadow_ddr :: bool
  g_shadow_pdr :: u8
  g_GnA :: bool
  g_GM1 :: bool
  g_GM0 :: bool
  g_CSS :: bool
  g_irq_state :: u8
  g_firq_state :: u8
  g_IL0_state :: u8
  g_IL1_state :: u8
  g_IL2_state :: u8
  g_timer_counter :: int
  g_timer_reload :: u16
  g_timer_left_x2 :: int
  g_timer_fires :: u32
  g_blink :: bool
  g_B :: u32
  g_row :: nat
  g_rowmask :: nat
  g_Xoff :: nat
  g_BPR :: nat
  g_row_stride :: nat
  g_resolution :: nat
  g_lTB :: u32
  g_lAA :: u32
  g_active_area :: bool
  g_lcount :: u32
  g_border_colour :: u8
  g_have_vdata_cache :: bool
  g_vdata_cache :: u8
  g_inverted_text :: bool
  g_dirty_frame :: bool
  g_raw_output :: bool
  g_line_clean :: bool
  g_line :: gime_line
  g_line_width :: nat
  g_ram :: bool
  g_ram_size :: u32
  g_ram_mask :: u32
  g_vram_mask :: u32
  g_vram_base :: u32
  g_bank_mask :: u8
  s_rgb565_lut :: "nat \<Rightarrow> u16"
  s_monitor :: u8
  s_artifacts :: u8
  s_art_colours :: "u8 list"
  s_art_key :: u32
  s_line_sig :: "nat \<Rightarrow> 64 word"
  s_raw_lut :: "(nat \<Rightarrow> u8) option"
  s_direct_raw_lut :: "nat \<Rightarrow> u8"

definition TCC1014_INT_TMR :: u8 where "TCC1014_INT_TMR = 0x20"
definition TCC1014_INT_HBORD :: u8 where "TCC1014_INT_HBORD = 0x10"
definition TCC1014_INT_VBORD :: u8 where "TCC1014_INT_VBORD = 0x08"
definition TCC1014_INT_EI2 :: u8 where "TCC1014_INT_EI2 = 0x04"
definition TCC1014_INT_EI1 :: u8 where "TCC1014_INT_EI1 = 0x02"
definition TCC1014_INT_EI0 :: u8 where "TCC1014_INT_EI0 = 0x01"

section \<open>Tables\<close>

definition VRES_LPF_lTB :: "u32 list list" where
  "VRES_LPF_lTB = [[36, 34, 0xFFFF, 19], [63, 59, 0xFFFF, 46]]"

definition VRES_LPF_lAA :: "u32 list" where
  "VRES_LPF_lAA = [192, 199, 0xFFFF, 225]"

definition VRES_HRES_BPR :: "nat list" where
  "VRES_HRES_BPR = [16, 20, 32, 40, 64, 80, 128, 160]"

definition VRES_HRES_BPR_TEXT :: "nat list" where
  "VRES_HRES_BPR_TEXT = [32, 40, 32, 40, 64, 80, 64, 80]"

definition LPR_rowmask :: "nat list" where
  "LPR_rowmask = [0, 1, 2, 8, 9, 10, 11, 16]"

definition SAM_V_rowmask :: "nat list" where
  "SAM_V_rowmask = [3, 3, 3, 2, 2, 1, 1, 1]"

definition VSC_rowmask :: "nat list" where
  "VSC_rowmask = [11, 10, 9, 8, 7, 6, 5, 4, 3, 2, 1, 4, 3, 2, 1, 12]"

definition TIMER_OFFSET :: int where "TIMER_OFFSET = 1"
definition TIMER_FAST_X2_PER_LINE :: int where "TIMER_FAST_X2_PER_LINE = 456"

section \<open>Timer arming and interrupts\<close>

definition timer_reset :: "tcc1014 \<Rightarrow> int" where
  "timer_reset g = uint (push_bit 8 (ucast (g_registers g 4 AND 0x0F) :: u32) OR ucast (g_registers g 5))"

definition arm_timer :: "tcc1014 \<Rightarrow> tcc1014" where
  "arm_timer g =
     (let g = g\<lparr>g_timer_counter := (if timer_reset g \<noteq> 0 then timer_reset g + TIMER_OFFSET else 0)\<rparr>
      in g\<lparr>g_timer_left_x2 := g_timer_counter g * 2\<rparr>)"

definition irq_output :: "u8 \<Rightarrow> u8 \<Rightarrow> u8 \<Rightarrow> bool" where
  "irq_output init0 master state = (if tst init0 master then state AND 0x3F \<noteq> 0 else False)"

definition set_interrupt :: "u8 \<Rightarrow> tcc1014 \<Rightarrow> tcc1014" where
  "set_interrupt flag g =
     (let g = g\<lparr>g_irq_state := g_irq_state g OR (flag AND g_registers g 2),
                g_firq_state := g_firq_state g OR (flag AND g_registers g 3)\<rparr>
      in g\<lparr>g_IRQ := irq_output (g_registers g 0) 0x20 (g_irq_state g),
           g_FIRQ := irq_output (g_registers g 0) 0x10 (g_firq_state g)\<rparr>)"

definition tcc1014_set_interrupt :: "u8 \<Rightarrow> tcc1014 \<Rightarrow> tcc1014" where
  "tcc1014_set_interrupt flag g = set_interrupt flag g"

definition edge_detect_il :: "tcc1014 \<Rightarrow> tcc1014" where
  "edge_detect_il g =
     (let g = (if g_IL2 g \<and> g_IL2_state g = 0 then set_interrupt TCC1014_INT_EI2 g else g);
          g = g\<lparr>g_IL2_state := (if g_IL2 g then TCC1014_INT_EI2 else 0)\<rparr>;
          g = (if g_IL1 g \<and> g_IL1_state g = 0 then set_interrupt TCC1014_INT_EI1 g else g);
          g = g\<lparr>g_IL1_state := (if g_IL1 g then TCC1014_INT_EI1 else 0)\<rparr>;
          g = (if g_IL0 g \<and> g_IL0_state g = 0 then set_interrupt TCC1014_INT_EI0 g else g)
      in g\<lparr>g_IL0_state := (if g_IL0 g then TCC1014_INT_EI0 else 0)\<rparr>)"

definition enable_latch :: "tcc1014 \<Rightarrow> u8 \<Rightarrow> u8 \<Rightarrow> u8 \<Rightarrow> u8" where
  "enable_latch g state val changed =
     (let set_int = (if g_timer_counter g = 0 then TCC1014_INT_TMR else 0) OR
                    g_IL2_state g OR g_IL1_state g OR g_IL0_state g
      in (state AND val) OR (set_int AND changed AND val))"

section \<open>Colours\<close>

definition rgb565 :: "u32 \<Rightarrow> u16" where
  "rgb565 rgb =
     (let r = (ucast (drop_bit 16 rgb) :: u8); g = (ucast (drop_bit 8 rgb) :: u8); b = (ucast rgb :: u8)
      in push_bit 8 (ucast (r AND 0xF8)) OR push_bit 3 (ucast (g AND 0xFC)) OR drop_bit 3 (ucast b))"

definition swap16 :: "u16 \<Rightarrow> u16" where
  "swap16 v = drop_bit 8 v OR push_bit 8 v"

definition tcc1014_invalidate_lines :: "tcc1014 \<Rightarrow> tcc1014" where
  "tcc1014_invalidate_lines g = g\<lparr>s_line_sig := (\<lambda>_. 0)\<rparr>"

definition tcc1014_init_palette_lut :: "tcc1014 \<Rightarrow> tcc1014" where
  "tcc1014_init_palette_lut g =
     g\<lparr>s_rgb565_lut := (\<lambda>i. if i < 64
          then rgb565 (gime_colour_rgb (gime_monitor_colour (s_monitor g) (of_nat i)))
          else s_rgb565_lut g i)\<rparr>"

definition tcc1014_set_monitor :: "u8 \<Rightarrow> tcc1014 \<Rightarrow> tcc1014" where
  "tcc1014_set_monitor monitor g =
     (if monitor \<ge> GIME_MONITOR_COUNT then g
      else tcc1014_invalidate_lines (tcc1014_init_palette_lut (g\<lparr>s_monitor := monitor\<rparr>)))"

definition tcc1014_display_colour :: "u8 \<Rightarrow> tcc1014 \<Rightarrow> u8" where
  "tcc1014_display_colour colour g = gime_monitor_colour (s_monitor g) colour"

definition tcc1014_set_artifacts :: "u8 \<Rightarrow> tcc1014 \<Rightarrow> tcc1014" where
  "tcc1014_set_artifacts md g =
     (if md \<ge> GIME_ARTIFACT_COUNT \<or> s_artifacts g = md then g
      else tcc1014_invalidate_lines (g\<lparr>s_artifacts := md\<rparr>))"

definition tcc1014_set_raw_lut :: "(nat \<Rightarrow> u8) option \<Rightarrow> (nat \<Rightarrow> u8) \<Rightarrow> tcc1014 \<Rightarrow> tcc1014" where
  "tcc1014_set_raw_lut lut64 direct64 g = g\<lparr>s_raw_lut := lut64, s_direct_raw_lut := direct64\<rparr>"

section \<open>MMU\<close>

definition page_base :: "tcc1014 \<Rightarrow> nat \<Rightarrow> nat" where
  "page_base g i = unat (push_bit 13 (ucast (g_active_banks g i) :: u32) AND g_ram_mask g)"

definition update_fast_pages :: "tcc1014 \<Rightarrow> tcc1014" where
  "update_fast_pages g =
     (let p = (\<lambda>i. if g_ram g then Some (page_base g i) else None)
      in g\<lparr>g_wr_page := (\<lambda>i. if i < 8 then p i else g_wr_page g i),
           g_rd_page := (\<lambda>i. if i < 8
              then if g_TY g \<or> g_active_banks g i AND 0x3F < 0x3C then p i else None
              else g_rd_page g i)\<rparr>)"

definition tcc1014_update_active_banks :: "tcc1014 \<Rightarrow> tcc1014" where
  "tcc1014_update_active_banks g =
     update_fast_pages (g\<lparr>g_active_banks := (\<lambda>i. if i < 8
        then if g_MMUEN g then g_mmu_bank g (g_TR g OR i) else 0x38 OR of_nat i
        else g_active_banks g i)\<rparr>)"

definition tcc1014_set_ram :: "u32 \<Rightarrow> tcc1014 \<Rightarrow> tcc1014" where
  "tcc1014_set_ram sz g =
     tcc1014_update_active_banks
       (g\<lparr>g_ram := True, g_ram_size := sz, g_ram_mask := sz - 1,
          g_vram_mask := (if sz < 0x80000 then sz else 0x80000) - 1, g_vram_base := 0,
          g_bank_mask := (if sz > 0x100000 then 0xFF else if sz > 0x80000 then 0x7F else 0x3F)\<rparr>)"

section \<open>Derived video state\<close>

definition gime_border :: "tcc1014 \<Rightarrow> u8" where
  "gime_border g =
     (if g_COCO g then
        if \<not> g_GnA g then
          let GM2 = tst (g_shadow_pdr g) 0x40;
              text_border = \<not> g_GM1 g \<and> GM2;
              text_border_colour = (if g_CSS g then 0x26 else 0x12)
          in if text_border then text_border_colour else 0
        else if g_CSS g then 0x3F else 0x12
      else g_BRDR g)"

definition gime_row_stride :: "tcc1014 \<Rightarrow> nat" where
  "gime_row_stride g =
     (if g_COCO g \<or> g_BP g then if g_HVEN g then 256 else g_BPR g
      else if g_HVEN g then 256 else push_bit (g_CRES g AND 1) (g_BPR g))"

definition decode_vdg :: "tcc1014 \<Rightarrow> tcc1014" where
  "decode_vdg g =
     g\<lparr>g_GnA := tst (g_shadow_pdr g) 0x80, g_GM1 := tst (g_shadow_pdr g) 0x20,
       g_GM0 := tst (g_shadow_pdr g) 0x10, g_CSS := tst (g_shadow_pdr g) 0x08\<rparr>"

definition decode_mode :: "tcc1014 \<Rightarrow> tcc1014" where
  "decode_mode g =
     (if g_COCO g then
        let g = (if \<not> g_GnA g \<or> even (g_SAM_V g) then g\<lparr>g_BPR := 32, g_resolution := 1\<rparr>
                 else g\<lparr>g_BPR := 16, g_resolution := 0\<rparr>)
        in g\<lparr>g_lTB := (if g_H50 g then 63 else 36),
             g_rowmask := (if g_GnA g then SAM_V_rowmask ! g_SAM_V g else VSC_rowmask ! g_VSC g)\<rparr>
      else
        let g = (if g_BP g
                 then g\<lparr>g_BPR := VRES_HRES_BPR ! g_HRES g, g_resolution := drop_bit 1 (g_HRES g)\<rparr>
                 else g\<lparr>g_BPR := VRES_HRES_BPR_TEXT ! g_HRES g,
                        g_resolution := (if g_HRES g AND 4 \<noteq> 0 then 2 else 1)\<rparr>)
        in g\<lparr>g_lTB := VRES_LPF_lTB ! (if g_H50 g then 1 else 0) ! g_LPF g,
             g_rowmask := LPR_rowmask ! g_LPR g\<rparr>)"

definition update_from_gime_registers :: "tcc1014 \<Rightarrow> tcc1014" where
  "update_from_gime_registers g =
     (let g = decode_mode (decode_vdg g);
          g = g\<lparr>g_lAA := (if g_COCO g then 192 else VRES_LPF_lAA ! g_LPF g)\<rparr>;
          g = g\<lparr>g_row_stride := gime_row_stride g\<rparr>
      in g\<lparr>g_border_colour := gime_border g\<rparr>)"

definition update_from_sam_register :: "tcc1014 \<Rightarrow> tcc1014" where
  "update_from_sam_register g =
     update_from_gime_registers (update_fast_pages
       (g\<lparr>g_TY := tst (g_SAM_register g) 0x8000, g_R1 := tst (g_SAM_register g) 0x1000,
          g_SAM_F := drop_bit 3 (g_SAM_register g) AND 0x7F,
          g_SAM_V := unat (g_SAM_register g AND 0x07)\<rparr>))"

definition tcc1014_update_mode :: "tcc1014 \<Rightarrow> tcc1014" where
  "tcc1014_update_mode g = update_from_gime_registers g"

definition tcc1014_set_inverted_text :: "bool \<Rightarrow> tcc1014 \<Rightarrow> tcc1014" where
  "tcc1014_set_inverted_text v g = g\<lparr>g_inverted_text := v\<rparr>"

section \<open>Register access\<close>

definition write_init1 :: "u8 \<Rightarrow> tcc1014 \<Rightarrow> tcc1014" where
  "write_init1 val g =
     (let tins = tst val 0x20;
          tr = (if tst val 0x01 then 8 else 0);
          g = (if tins \<noteq> g_TINS g then arm_timer (g\<lparr>g_TINS := tins\<rparr>) else g)
      in if tr \<noteq> g_TR g then tcc1014_update_active_banks (g\<lparr>g_TR := tr\<rparr>) else g)"

definition tcc1014_write_register :: "nat \<Rightarrow> u8 \<Rightarrow> tcc1014 \<Rightarrow> tcc1014" where
  "tcc1014_write_register reg0 val g0 =
     (let reg = reg0 AND 0x0F;
          changed = g_registers g0 reg XOR val;
          g = g0\<lparr>g_registers := (g_registers g0)(reg := val)\<rparr>
      in if reg = 0 then
           update_from_gime_registers (tcc1014_update_active_banks
             (g\<lparr>g_COCO := tst val 0x80, g_MMUEN := tst val 0x40, g_MC3 := tst val 0x08,
                g_MC2 := tst val 0x04, g_MC1 := tst val 0x02, g_MC0 := tst val 0x01,
                g_IRQ := irq_output val 0x20 (g_irq_state g),
                g_FIRQ := irq_output val 0x10 (g_firq_state g)\<rparr>))
         else if reg = 1 then write_init1 val g
         else if reg = 2 then
           let g = g\<lparr>g_irq_state := enable_latch g (g_irq_state g) val changed\<rparr>
           in g\<lparr>g_IRQ := irq_output (g_registers g 0) 0x20 (g_irq_state g)\<rparr>
         else if reg = 3 then
           let g = g\<lparr>g_firq_state := enable_latch g (g_firq_state g) val changed\<rparr>
           in g\<lparr>g_FIRQ := irq_output (g_registers g 0) 0x10 (g_firq_state g)\<rparr>
         else if reg = 4 then arm_timer g
         else if reg = 5 \<or> reg = 6 \<or> reg = 7 then g
         else if reg = 8 then
           update_from_gime_registers
             (g\<lparr>g_BP := tst val 0x80, g_BPI := tst val 0x20, g_MOCH := tst val 0x10,
                g_H50 := tst val 0x08, g_LPR := unat (val AND 7), g_dirty_frame := True\<rparr>)
         else if reg = 9 then
           update_from_gime_registers
             (g\<lparr>g_LPF := unat (drop_bit 5 val AND 3), g_HRES := unat (drop_bit 2 val AND 7),
                g_CRES := unat (val AND 3), g_dirty_frame := True\<rparr>)
         else if reg = 10 then
           update_from_gime_registers (g\<lparr>g_BRDR := val AND 0x3F, g_dirty_frame := True\<rparr>)
         else if reg = 11 then
           (if g_bank_mask g \<noteq> 0x3F
            then g\<lparr>g_vram_base := push_bit 19 (ucast (val AND 0x03)) AND g_ram_mask g, g_dirty_frame := True\<rparr>
            else g)
         else if reg = 12 then update_from_gime_registers (g\<lparr>g_VSC := unat (val AND 0x0F)\<rparr>)
         else if reg = 13 then
           g\<lparr>g_Y := push_bit 11 (ucast val) OR push_bit 3 (ucast (g_registers g 14))\<rparr>
         else if reg = 14 then
           g\<lparr>g_Y := push_bit 11 (ucast (g_registers g 13)) OR push_bit 3 (ucast val)\<rparr>
         else
           update_from_gime_registers
             (g\<lparr>g_HVEN := tst val 0x80, g_X := push_bit 1 (unat (val AND 0x7F))\<rparr>))"

definition tcc1014_read_register :: "nat \<Rightarrow> tcc1014 \<Rightarrow> u8 \<times> tcc1014" where
  "tcc1014_read_register reg0 g =
     (let reg = reg0 AND 0x0F in
      if reg = 2 then
        let g = edge_detect_il g in (g_irq_state g, g\<lparr>g_irq_state := 0, g_IRQ := False\<rparr>)
      else if reg = 3 then
        let g = edge_detect_il g in (g_firq_state g, g\<lparr>g_firq_state := 0, g_FIRQ := False\<rparr>)
      else (0xFF, g))"

definition tcc1014_write_mmu :: "nat \<Rightarrow> u8 \<Rightarrow> tcc1014 \<Rightarrow> tcc1014" where
  "tcc1014_write_mmu offset val g =
     tcc1014_update_active_banks
       (g\<lparr>g_mmu_bank := (g_mmu_bank g)(offset AND 0x0F := val AND g_bank_mask g)\<rparr>)"

definition tcc1014_read_mmu :: "nat \<Rightarrow> tcc1014 \<Rightarrow> u8" where
  "tcc1014_read_mmu offset g = g_mmu_bank g (offset AND 0x0F)"

definition tcc1014_write_palette :: "nat \<Rightarrow> u8 \<Rightarrow> tcc1014 \<Rightarrow> tcc1014" where
  "tcc1014_write_palette offset0 val g =
     (let offset = offset0 AND 0x0F in
      g\<lparr>g_palette_reg := (g_palette_reg g)(offset := val AND 0x3F),
        g_palette_rgb565 := (g_palette_rgb565 g)(offset := swap16 (s_rgb565_lut g (unat (val AND 0x3F)))),
        g_dirty_frame := True\<rparr>)"

definition tcc1014_read_palette :: "nat \<Rightarrow> tcc1014 \<Rightarrow> u8" where
  "tcc1014_read_palette offset g = g_palette_reg g (offset AND 0x0F) AND 0x3F"

definition tcc1014_write_sam :: "nat \<Rightarrow> tcc1014 \<Rightarrow> tcc1014" where
  "tcc1014_write_sam offset g =
     (let b = (push_bit (drop_bit 1 offset AND 0x0F) 1 :: u16)
      in update_from_sam_register
           (if odd offset then g\<lparr>g_SAM_register := g_SAM_register g OR b\<rparr>
            else g\<lparr>g_SAM_register := g_SAM_register g AND NOT b\<rparr>))"

definition tcc1014_set_sam_register :: "u16 \<Rightarrow> tcc1014 \<Rightarrow> tcc1014" where
  "tcc1014_set_sam_register val g = update_from_sam_register (g\<lparr>g_SAM_register := val\<rparr>)"

definition tcc1014_snoop_pia1b :: "u16 \<Rightarrow> u8 \<Rightarrow> tcc1014 \<Rightarrow> tcc1014" where
  "tcc1014_snoop_pia1b addr val g =
     (if addr = 0xFF22 then
        if g_shadow_ddr g then update_from_gime_registers (g\<lparr>g_shadow_pdr := val AND 0xF8\<rparr>) else g
      else if addr = 0xFF23 then g\<lparr>g_shadow_ddr := tst val 0x04\<rparr>
      else g)"

section \<open>Timer\<close>

definition timer_expired :: "tcc1014 \<Rightarrow> tcc1014" where
  "timer_expired g = set_interrupt TCC1014_INT_TMR
     (g\<lparr>g_blink := \<not> g_blink g, g_timer_fires := g_timer_fires g + 1\<rparr>)"

text \<open>The expiry loop. Each pass re-arms with a period of at least four half-ticks, or stops.\<close>

definition timer_pass :: "tcc1014 \<Rightarrow> tcc1014" where
  "timer_pass g =
     (let over_x2 = g_timer_left_x2 g; g = arm_timer (timer_expired g)
      in if g_timer_counter g = 0 then g else g\<lparr>g_timer_left_x2 := g_timer_left_x2 g + over_x2\<rparr>)"

lemma timer_reset_nonneg: "0 \<le> timer_reset g"
  by (simp add: timer_reset_def)

lemma timer_reset_frame: "timer_reset (arm_timer (timer_expired g)) = timer_reset g"
  by (simp add: timer_expired_def set_interrupt_def arm_timer_def timer_reset_def Let_def)

lemma timer_pass_shape:
  "g_timer_counter (timer_pass g) = (if timer_reset g \<noteq> 0 then timer_reset g + 1 else 0)"
  "timer_reset g \<noteq> 0 \<Longrightarrow> g_timer_left_x2 (timer_pass g) = (timer_reset g + 1) * 2 + g_timer_left_x2 g"
  "timer_reset (timer_pass g) = timer_reset g"
proof -
  have c: "g_timer_counter (arm_timer h) = (if timer_reset h \<noteq> 0 then timer_reset h + 1 else 0)"
    "g_timer_left_x2 (arm_timer h) = g_timer_counter (arm_timer h) * 2" for h
    by (simp_all add: arm_timer_def TIMER_OFFSET_def Let_def timer_reset_def)
  have r: "timer_reset (timer_expired g) = timer_reset g"
    by (simp add: timer_expired_def set_interrupt_def timer_reset_def Let_def)
  show "g_timer_counter (timer_pass g) = (if timer_reset g \<noteq> 0 then timer_reset g + 1 else 0)"
    by (simp add: timer_pass_def Let_def c r)
  show "timer_reset g \<noteq> 0 \<Longrightarrow> g_timer_left_x2 (timer_pass g) = (timer_reset g + 1) * 2 + g_timer_left_x2 g"
    using timer_reset_nonneg [of g] by (simp add: timer_pass_def Let_def c r)
  show "timer_reset (timer_pass g) = timer_reset g"
    using timer_reset_frame [of g] by (simp add: timer_pass_def Let_def timer_reset_def)
qed

function timer_loop :: "tcc1014 \<Rightarrow> tcc1014" where
  "timer_loop g =
     (if g_timer_left_x2 g \<le> 0 then
        let g = timer_pass g in if g_timer_counter g = 0 then g else timer_loop g
      else g)"
  by pat_completeness auto

termination
proof (relation "measure (\<lambda>g. nat (1 - g_timer_left_x2 g))")
  fix g x assume "g_timer_left_x2 g \<le> 0" and "x = timer_pass g" and c: "g_timer_counter x \<noteq> 0"
  moreover have "timer_reset g \<noteq> 0" using timer_pass_shape(1) [of g] c calculation(2) by (auto split: if_splits)
  ultimately show "(x, g) \<in> measure (\<lambda>g. nat (1 - g_timer_left_x2 g))"
    using timer_pass_shape(2) [of g] timer_reset_nonneg [of g] by simp
qed simp

declare timer_loop.simps [simp del]

definition tcc1014_tick_scanline :: "tcc1014 \<Rightarrow> tcc1014" where
  "tcc1014_tick_scanline g =
     (if g_timer_counter g \<le> 0 then g
      else if \<not> g_TINS g then
        let g = g\<lparr>g_timer_counter := g_timer_counter g - 1\<rparr>
        in if g_timer_counter g \<le> 0 then arm_timer (timer_expired g) else g
      else timer_loop (g\<lparr>g_timer_left_x2 := g_timer_left_x2 g - TIMER_FAST_X2_PER_LINE\<rparr>))"

section \<open>Address decode\<close>

text \<open>
  \<open>tcc1014_mem_cycle\<close>: the byte stored through \<open>read_data\<close> (if any), \<open>is_reg_access\<close>, and the new
  state. \<open>read_data\<close> is given exactly on reads, as both callers do.
\<close>

definition decode_memory :: "u16 \<Rightarrow> tcc1014 \<Rightarrow> tcc1014" where
  "decode_memory addr g =
     (let use_mmu = (if addr \<ge> 0xFE00 \<and> g_MC3 g then False else g_MMUEN g);
          g = (if addr \<ge> 0xFE00 \<and> g_MC3 g then g\<lparr>g_RAS := True\<rparr> else g);
          slot = unat (drop_bit 13 addr);
          bank = (if use_mmu then g_mmu_bank g (g_TR g OR slot) else 0x38 OR of_nat slot);
          g = (if \<not> g_TY g \<and> bank AND 0x3F \<ge> 0x3C then
                 if \<not> g_MC1 g then g\<lparr>g_S := (if bank AND 0x3F \<ge> 0x3E then 1 else 0)\<rparr>
                 else g\<lparr>g_S := (if g_MC0 g then 1 else 0)\<rparr>
               else g\<lparr>g_RAS := True\<rparr>)
      in g\<lparr>g_Z := push_bit 13 (ucast bank) OR ucast (addr AND 0x1FFF)\<rparr>)"

definition tcc1014_mem_cycle ::
  "u16 \<Rightarrow> bool \<Rightarrow> u8 \<Rightarrow> tcc1014 \<Rightarrow> u8 option \<times> bool \<times> tcc1014" where
  "tcc1014_mem_cycle addr RnW write_data g0 =
     (let g = (edge_detect_il g0)\<lparr>g_S := 7, g_RAS := False\<rparr>;
          low = unat (addr AND 0x0F)
      in if addr < 0xFF00 then (None, False, decode_memory addr g)
         else if addr < 0xFF40 then
           (None, False,
            if addr AND 0x10 = 0 then
              let g = g\<lparr>g_S := 2\<rparr> in
              if addr = 0xFF22 \<and> \<not> RnW then
                if g_shadow_ddr g
                then update_from_gime_registers (g\<lparr>g_shadow_pdr := write_data AND 0xF8\<rparr>) else g
              else if addr = 0xFF23 \<and> \<not> RnW then g\<lparr>g_shadow_ddr := tst write_data 0x04\<rparr>
              else g
            else g)
         else if addr < 0xFF60 then
           (None, False, if g_MC2 g \<or> addr \<ge> 0xFF50 then g\<lparr>g_S := 6\<rparr> else g)
         else if addr < 0xFF90 then (None, False, g)
         else if addr < 0xFFA0 then
           (if \<not> RnW then (None, True, tcc1014_write_register low write_data g)
            else if addr = 0xFF92 then
              (Some (g_irq_state g), True, g\<lparr>g_irq_state := 0, g_IRQ := False\<rparr>)
            else if addr = 0xFF93 then
              (Some (g_firq_state g), True, g\<lparr>g_firq_state := 0, g_FIRQ := False\<rparr>)
            else if addr = 0xFF9B \<and> g_bank_mask g \<noteq> 0x3F then
              (Some (0xFC OR ucast (drop_bit 19 (g_vram_base g))), True, g)
            else (Some 0xFF, True, g))
         else if addr < 0xFFB0 then
           (if \<not> RnW then (None, True, tcc1014_write_mmu low write_data g)
            else (Some (tcc1014_read_mmu low g), True, g))
         else if addr < 0xFFC0 then
           (if \<not> RnW then (None, True, tcc1014_write_palette low write_data g)
            else (Some (tcc1014_read_palette low g), True, g))
         else if addr < 0xFFE0 then
           (None, True, if \<not> RnW then tcc1014_write_sam (unat (addr - 0xFFC0)) g else g)
         else (None, False, g\<lparr>g_S := 0\<rparr>))"

section \<open>Init and reset\<close>

text \<open>
  The state before \<open>tcc1014_init\<close>: the struct in zeroed storage, the file-scope variables as
  initialised (the palette table is empty until it is built, no display table is registered).
\<close>

definition tcc1014_static :: tcc1014 where
  "tcc1014_static =
     \<lparr>g_S = 0, g_Z = 0, g_RAS = False, g_FIRQ = False, g_IRQ = False, g_IL0 = False, g_IL1 = False,
      g_IL2 = False, g_registers = (\<lambda>_. 0), g_COCO = False, g_MMUEN = False, g_MC3 = False,
      g_MC2 = False, g_MC1 = False, g_MC0 = False, g_TINS = False, g_TR = 0, g_BP = False,
      g_BPI = False, g_MOCH = False, g_H50 = False, g_LPR = 0, g_LPF = 0, g_HRES = 0, g_CRES = 0,
      g_BRDR = 0, g_VSC = 0, g_Y = 0, g_HVEN = False, g_X = 0, g_mmu_bank = (\<lambda>_. 0),
      g_active_banks = (\<lambda>_. 0), g_rd_page = (\<lambda>_. None), g_wr_page = (\<lambda>_. None),
      g_palette_reg = (\<lambda>_. 0), g_palette_rgb565 = (\<lambda>_. 0), g_SAM_register = 0, g_SAM_V = 0,
      g_SAM_F = 0, g_R1 = False, g_TY = False, g_shadow_ddr = False, g_shadow_pdr = 0,
      g_GnA = False, g_GM1 = False, g_GM0 = False, g_CSS = False, g_irq_state = 0, g_firq_state = 0,
      g_IL0_state = 0, g_IL1_state = 0, g_IL2_state = 0, g_timer_counter = 0, g_timer_reload = 0,
      g_timer_left_x2 = 0, g_timer_fires = 0, g_blink = False, g_B = 0, g_row = 0, g_rowmask = 0,
      g_Xoff = 0, g_BPR = 0, g_row_stride = 0, g_resolution = 0, g_lTB = 0, g_lAA = 0,
      g_active_area = False, g_lcount = 0, g_border_colour = 0, g_have_vdata_cache = False,
      g_vdata_cache = 0, g_inverted_text = False, g_dirty_frame = False, g_raw_output = False,
      g_line_clean = False, g_line = Rgb565 [], g_line_width = 0, g_ram = False, g_ram_size = 0,
      g_ram_mask = 0, g_vram_mask = 0, g_vram_base = 0, g_bank_mask = 0,
      s_rgb565_lut = (\<lambda>_. 0), s_monitor = GIME_MONITOR_RGB, s_artifacts = GIME_ARTIFACT_OFF,
      s_art_colours = replicate 16 0, s_art_key = 0, s_line_sig = (\<lambda>_. 0), s_raw_lut = None,
      s_direct_raw_lut = (\<lambda>_. 0)\<rparr>"

text \<open>The cleared struct; the file-scope variables are kept.\<close>

definition gime_cleared :: "tcc1014 \<Rightarrow> tcc1014" where
  "gime_cleared g =
     tcc1014_static\<lparr>s_rgb565_lut := s_rgb565_lut g, s_monitor := s_monitor g, s_artifacts := s_artifacts g,
       s_art_colours := s_art_colours g, s_art_key := s_art_key g, s_line_sig := s_line_sig g,
       s_raw_lut := s_raw_lut g, s_direct_raw_lut := s_direct_raw_lut g\<rparr>"

definition tcc1014_init :: "tcc1014 \<Rightarrow> tcc1014" where
  "tcc1014_init g =
     tcc1014_init_palette_lut ((tcc1014_invalidate_lines (gime_cleared g))\<lparr>g_B := 0x60400\<rparr>)"

definition reset_register :: "nat \<Rightarrow> tcc1014 \<Rightarrow> tcc1014" where
  "reset_register i g =
     (let g = tcc1014_write_register i 0 g;
          g = g\<lparr>g_palette_reg := (g_palette_reg g)(i := 0)\<rparr>
      in g\<lparr>g_palette_rgb565 := (g_palette_rgb565 g)(i := swap16 (s_rgb565_lut g 0))\<rparr>)"

definition tcc1014_reset :: "tcc1014 \<Rightarrow> tcc1014" where
  "tcc1014_reset g =
     (let g = fold reset_register [0..<16] (tcc1014_invalidate_lines g);
          g = tcc1014_set_sam_register 0 g;
          g = g\<lparr>g_mmu_bank := (\<lambda>i. if i < 16 then 0x38 OR of_nat (i AND 7) else g_mmu_bank g i)\<rparr>;
          g = tcc1014_update_active_banks g;
          g = g\<lparr>g_row := 0, g_active_area := False, g_lcount := 0, g_shadow_pdr := 0,
                g_shadow_ddr := False, g_have_vdata_cache := False, g_blink := False,
                g_inverted_text := False, g_dirty_frame := True, g_timer_counter := 0,
                g_timer_reload := 0, g_timer_left_x2 := 0, g_irq_state := 0, g_firq_state := 0,
                g_IRQ := False, g_FIRQ := False, g_IL0 := False, g_IL1 := False, g_IL2 := False,
                g_IL0_state := 0, g_IL1_state := 0, g_IL2_state := 0, g_line_width := 0\<rparr>
      in update_from_gime_registers g)"

end
