(* ===== verification/Gime_Proofs.thy ===== *)
theory Gime_Proofs
  imports Tcc1014
begin

text \<open>
  Correctness of the GIME's registers: an invariant that every bus access keeps (decoded fields equal
  what the registers encode, derived video state and page tables are current, pending interrupts are
  enabled ones and the outputs follow them), the exact rate of both timer modes, and the edge
  detection of the external interrupt inputs.
\<close>

section \<open>Decoded fields\<close>

definition gime_decoded :: "tcc1014 \<Rightarrow> bool" where
  "gime_decoded g \<longleftrightarrow>
     g_COCO g = tst (g_registers g 0) 0x80 \<and> g_MMUEN g = tst (g_registers g 0) 0x40 \<and>
     g_MC3 g = tst (g_registers g 0) 0x08 \<and> g_MC2 g = tst (g_registers g 0) 0x04 \<and>
     g_MC1 g = tst (g_registers g 0) 0x02 \<and> g_MC0 g = tst (g_registers g 0) 0x01 \<and>
     g_TINS g = tst (g_registers g 1) 0x20 \<and> g_TR g = (if tst (g_registers g 1) 0x01 then 8 else 0) \<and>
     g_BP g = tst (g_registers g 8) 0x80 \<and> g_BPI g = tst (g_registers g 8) 0x20 \<and>
     g_MOCH g = tst (g_registers g 8) 0x10 \<and> g_H50 g = tst (g_registers g 8) 0x08 \<and>
     g_LPR g = unat (g_registers g 8 AND 7) \<and> g_LPF g = unat (drop_bit 5 (g_registers g 9) AND 3) \<and>
     g_HRES g = unat (drop_bit 2 (g_registers g 9) AND 7) \<and> g_CRES g = unat (g_registers g 9 AND 3) \<and>
     g_BRDR g = g_registers g 10 AND 0x3F \<and> g_VSC g = unat (g_registers g 12 AND 0x0F) \<and>
     g_Y g = push_bit 11 (ucast (g_registers g 13)) OR push_bit 3 (ucast (g_registers g 14)) \<and>
     g_HVEN g = tst (g_registers g 15) 0x80 \<and> g_X g = push_bit 1 (unat (g_registers g 15 AND 0x7F)) \<and>
     g_TY g = tst (g_SAM_register g) 0x8000 \<and> g_R1 g = tst (g_SAM_register g) 0x1000 \<and>
     g_SAM_F g = drop_bit 3 (g_SAM_register g) AND 0x7F \<and> g_SAM_V g = unat (g_SAM_register g AND 0x07)"

section \<open>Derived state\<close>

type_synonym derived_fields =
  "bool \<times> bool \<times> bool \<times> bool \<times> nat \<times> nat \<times> u32 \<times> nat \<times> u32 \<times> nat \<times> u8"

definition gime_derived :: "tcc1014 \<Rightarrow> derived_fields" where
  "gime_derived g = (g_GnA g, g_GM1 g, g_GM0 g, g_CSS g, g_BPR g, g_resolution g, g_lTB g, g_rowmask g,
     g_lAA g, g_row_stride g, g_border_colour g)"

definition gime_base :: "tcc1014 \<Rightarrow> u8 \<times> bool \<times> nat \<times> bool \<times> nat \<times> bool \<times> nat \<times> nat \<times> nat \<times> bool \<times> nat \<times> u8" where
  "gime_base g = (g_shadow_pdr g, g_COCO g, g_SAM_V g, g_H50 g, g_VSC g, g_BP g, g_HRES g, g_LPF g, g_LPR g,
     g_HVEN g, g_CRES g, g_BRDR g)"

definition gime_map :: "tcc1014 \<Rightarrow> nat \<Rightarrow> u8 \<times> nat option \<times> nat option" where
  "gime_map g i = (g_active_banks g i, g_rd_page g i, g_wr_page g i)"

definition gime_mmu :: "tcc1014 \<Rightarrow> (nat \<Rightarrow> u8) \<times> bool \<times> nat \<times> bool \<times> bool \<times> u32" where
  "gime_mmu g = (g_mmu_bank g, g_MMUEN g, g_TR g, g_TY g, g_ram g, g_ram_mask g)"

definition derived_ok :: "tcc1014 \<Rightarrow> bool" where
  "derived_ok g \<longleftrightarrow> gime_derived g = gime_derived (update_from_gime_registers g)"

text \<open>The mode decoder as one record update.\<close>

lemma decode_mode_eq:
  "decode_mode g =
    g\<lparr>g_BPR := (if g_COCO g then if \<not> g_GnA g \<or> even (g_SAM_V g) then 32 else 16
         else if g_BP g then VRES_HRES_BPR ! g_HRES g else VRES_HRES_BPR_TEXT ! g_HRES g),
      g_resolution := (if g_COCO g then if \<not> g_GnA g \<or> even (g_SAM_V g) then 1 else 0
         else if g_BP g then drop_bit 1 (g_HRES g) else if g_HRES g AND 4 \<noteq> 0 then 2 else 1),
      g_lTB := (if g_COCO g then if g_H50 g then 63 else 36
         else VRES_LPF_lTB ! (if g_H50 g then 1 else 0) ! g_LPF g),
      g_rowmask := (if g_COCO g then if g_GnA g then SAM_V_rowmask ! g_SAM_V g else VSC_rowmask ! g_VSC g
         else LPR_rowmask ! g_LPR g)\<rparr>"
  by (simp add: decode_mode_def Let_def)

text \<open>The derived fields one by one.\<close>

lemma vdg_fields:
  "g_GnA (decode_vdg g) = tst (g_shadow_pdr g) 0x80" "g_GM1 (decode_vdg g) = tst (g_shadow_pdr g) 0x20"
  "g_GM0 (decode_vdg g) = tst (g_shadow_pdr g) 0x10" "g_CSS (decode_vdg g) = tst (g_shadow_pdr g) 0x08"
  "gime_base (decode_vdg g) = gime_base g"
  by (simp_all add: decode_vdg_def gime_base_def)

lemma mode_fields:
  "g_GnA (decode_mode g) = g_GnA g" "g_GM1 (decode_mode g) = g_GM1 g"
  "g_GM0 (decode_mode g) = g_GM0 g" "g_CSS (decode_mode g) = g_CSS g"
  "gime_base (decode_mode g) = gime_base g"
  by (simp_all add: decode_mode_eq gime_base_def)

lemma mode_cong:
  assumes "gime_base g = gime_base h" and "g_GnA g = g_GnA h"
  shows "g_BPR (decode_mode g) = g_BPR (decode_mode h)" "g_resolution (decode_mode g) = g_resolution (decode_mode h)"
    "g_lTB (decode_mode g) = g_lTB (decode_mode h)" "g_rowmask (decode_mode g) = g_rowmask (decode_mode h)"
  using assms by (simp_all add: decode_mode_eq gime_base_def)

lemma update_fields:
  fixes g :: tcc1014
  defines "h \<equiv> decode_mode (decode_vdg g)"
  shows "g_GnA (update_from_gime_registers g) = g_GnA h" "g_GM1 (update_from_gime_registers g) = g_GM1 h"
    "g_GM0 (update_from_gime_registers g) = g_GM0 h" "g_CSS (update_from_gime_registers g) = g_CSS h"
    "g_BPR (update_from_gime_registers g) = g_BPR h" "g_resolution (update_from_gime_registers g) = g_resolution h"
    "g_lTB (update_from_gime_registers g) = g_lTB h" "g_rowmask (update_from_gime_registers g) = g_rowmask h"
    "g_lAA (update_from_gime_registers g) = (if g_COCO h then 192 else VRES_LPF_lAA ! g_LPF h)"
    "g_row_stride (update_from_gime_registers g) = gime_row_stride h"
    "g_border_colour (update_from_gime_registers g) = gime_border h"
    "gime_base (update_from_gime_registers g) = gime_base h"
    "gime_mmu (update_from_gime_registers g) = gime_mmu h"
    "gime_map (update_from_gime_registers g) i = gime_map h i"
    "g_registers (update_from_gime_registers g) = g_registers h"
  by (simp_all add: update_from_gime_registers_def h_def [symmetric] Let_def gime_row_stride_def gime_border_def
      gime_base_def gime_mmu_def gime_map_def)

lemma derived_cong:
  assumes "gime_base g = gime_base h"
  shows "gime_derived (update_from_gime_registers g) = gime_derived (update_from_gime_registers h)"
proof -
  let ?g = "decode_mode (decode_vdg g)" and ?h = "decode_mode (decode_vdg h)"
  have v: "g_GnA (decode_vdg g) = g_GnA (decode_vdg h)" "g_GM1 ?g = g_GM1 ?h" "g_GM0 ?g = g_GM0 ?h"
      "g_CSS ?g = g_CSS ?h" "g_GnA ?g = g_GnA ?h"
    using assms by (simp_all add: vdg_fields mode_fields gime_base_def)
  have b: "gime_base ?g = gime_base ?h" "gime_base (decode_vdg g) = gime_base (decode_vdg h)"
    using assms by (simp_all add: vdg_fields mode_fields)
  note m = mode_cong [OF b(2) v(1)]
  have "gime_row_stride ?g = gime_row_stride ?h" "gime_border ?g = gime_border ?h"
    "g_COCO ?g = g_COCO ?h" "g_LPF ?g = g_LPF ?h"
    using b(1) v m(1) by (simp_all add: gime_row_stride_def gime_border_def gime_base_def)
  then show ?thesis using v m by (simp add: gime_derived_def update_fields)
qed

lemma base_update [simp]: "gime_base (update_from_gime_registers g) = gime_base g"
  by (simp add: update_fields vdg_fields mode_fields)

lemma derived_ok_update [simp]: "derived_ok (update_from_gime_registers g)"
  unfolding derived_ok_def by (rule derived_cong) simp

lemma derived_frame:
  "derived_ok g \<Longrightarrow> gime_base h = gime_base g \<Longrightarrow> gime_derived h = gime_derived g \<Longrightarrow> derived_ok h"
  unfolding derived_ok_def using derived_cong by metis

section \<open>Page tables\<close>

definition pages_ok :: "tcc1014 \<Rightarrow> bool" where
  "pages_ok g \<longleftrightarrow> (\<forall>i<8. gime_map g i = gime_map (tcc1014_update_active_banks g) i)"

lemma map_update:
  "i < 8 \<Longrightarrow> gime_map (tcc1014_update_active_banks g) i =
    (let bank = (if g_MMUEN g then g_mmu_bank g (g_TR g OR i) else 0x38 OR of_nat i);
         p = (if g_ram g then Some (unat (push_bit 13 (ucast bank :: u32) AND g_ram_mask g)) else None)
     in (bank, if g_TY g \<or> bank AND 0x3F < 0x3C then p else None, p))"
  by (simp add: gime_map_def tcc1014_update_active_banks_def update_fast_pages_def page_base_def Let_def)

lemma mmu_update [simp]: "gime_mmu (tcc1014_update_active_banks g) = gime_mmu g"
  by (simp add: gime_mmu_def tcc1014_update_active_banks_def update_fast_pages_def Let_def)

lemma pages_ok_update [simp]: "pages_ok (tcc1014_update_active_banks g)"
proof -
  have "gime_mmu (tcc1014_update_active_banks g) = gime_mmu g" by simp
  then show ?thesis unfolding pages_ok_def gime_mmu_def by (auto simp: map_update)
qed

lemma pages_frame_gime:
  "pages_ok g \<Longrightarrow> gime_mmu h = gime_mmu g \<Longrightarrow> (\<And>i. gime_map h i = gime_map g i) \<Longrightarrow> pages_ok h"
  unfolding pages_ok_def gime_mmu_def by (auto simp: map_update)

text \<open>The MMU and the derived video state do not meet.\<close>

lemma update_maps [simp]:
  "gime_map (update_from_gime_registers g) i = gime_map g i"
  "gime_mmu (update_from_gime_registers g) = gime_mmu g"
  "pages_ok (update_from_gime_registers g) = pages_ok g"
proof -
  show m: "gime_map (update_from_gime_registers g) i = gime_map g i" for i
    by (simp add: update_fields) (simp add: gime_map_def decode_mode_eq decode_vdg_def)
  show u: "gime_mmu (update_from_gime_registers g) = gime_mmu g"
    by (simp add: update_fields) (simp add: gime_mmu_def decode_mode_eq decode_vdg_def)
  show "pages_ok (update_from_gime_registers g) = pages_ok g"
    using pages_frame_gime [OF _ u] pages_frame_gime [OF _ u [symmetric]] m by metis
qed

lemma banks_derive [simp]:
  "gime_base (tcc1014_update_active_banks g) = gime_base g"
  "gime_derived (tcc1014_update_active_banks g) = gime_derived g"
  "gime_base (update_fast_pages g) = gime_base g"
  "gime_derived (update_fast_pages g) = gime_derived g"
  by (simp_all add: gime_base_def gime_derived_def tcc1014_update_active_banks_def update_fast_pages_def Let_def)

section \<open>Interrupts\<close>

definition ints_ok :: "tcc1014 \<Rightarrow> bool" where
  "ints_ok g \<longleftrightarrow>
     g_irq_state g AND NOT (g_registers g 2) = 0 \<and> g_firq_state g AND NOT (g_registers g 3) = 0 \<and>
     g_IRQ g = irq_output (g_registers g 0) 0x20 (g_irq_state g) \<and>
     g_FIRQ g = irq_output (g_registers g 0) 0x10 (g_firq_state g)"

definition gime_wf :: "tcc1014 \<Rightarrow> bool" where
  "gime_wf g \<longleftrightarrow> gime_decoded g \<and> derived_ok g \<and> pages_ok g \<and> ints_ok g"

section \<open>Frames of the helpers\<close>

lemma update_shape:
  "\<exists>a b c d e f h i j k l. update_from_gime_registers g =
     g\<lparr>g_GnA := a, g_GM1 := b, g_GM0 := c, g_CSS := d, g_BPR := e, g_resolution := f, g_lTB := h,
       g_rowmask := i, g_lAA := j, g_row_stride := k, g_border_colour := l\<rparr>"
  unfolding update_from_gime_registers_def Let_def decode_mode_eq decode_vdg_def by (intro exI) (rule refl)

lemma update_keeps [simp]:
  "gime_decoded (update_from_gime_registers g) = gime_decoded g"
  "ints_ok (update_from_gime_registers g) = ints_ok g"
proof -
  obtain a b c d e f h i j k l where u: "update_from_gime_registers g =
     g\<lparr>g_GnA := a, g_GM1 := b, g_GM0 := c, g_CSS := d, g_BPR := e, g_resolution := f, g_lTB := h,
       g_rowmask := i, g_lAA := j, g_row_stride := k, g_border_colour := l\<rparr>"
    using update_shape [of g] by (elim exE) (rule that)
  show "gime_decoded (update_from_gime_registers g) = gime_decoded g"
    "ints_ok (update_from_gime_registers g) = ints_ok g"
    unfolding u by (simp_all add: gime_decoded_def ints_ok_def)
qed

lemma banks_shape:
  "\<exists>a b c. tcc1014_update_active_banks g = g\<lparr>g_active_banks := a, g_wr_page := b, g_rd_page := c\<rparr>"
  unfolding tcc1014_update_active_banks_def update_fast_pages_def Let_def by (intro exI) (rule refl)

lemma fast_pages_shape: "\<exists>b c. update_fast_pages g = g\<lparr>g_wr_page := b, g_rd_page := c\<rparr>"
  unfolding update_fast_pages_def Let_def by (intro exI) (rule refl)

lemma banks_keep [simp]:
  "gime_decoded (tcc1014_update_active_banks g) = gime_decoded g"
  "ints_ok (tcc1014_update_active_banks g) = ints_ok g"
  "gime_decoded (update_fast_pages g) = gime_decoded g"
  "ints_ok (update_fast_pages g) = ints_ok g"
proof -
  obtain a b c where u: "tcc1014_update_active_banks g = g\<lparr>g_active_banks := a, g_wr_page := b, g_rd_page := c\<rparr>"
    using banks_shape by blast
  show "gime_decoded (tcc1014_update_active_banks g) = gime_decoded g"
    "ints_ok (tcc1014_update_active_banks g) = ints_ok g"
    unfolding u by (simp_all add: gime_decoded_def ints_ok_def)
  obtain b c where v: "update_fast_pages g = g\<lparr>g_wr_page := b, g_rd_page := c\<rparr>"
    using fast_pages_shape by blast
  show "gime_decoded (update_fast_pages g) = gime_decoded g" "ints_ok (update_fast_pages g) = ints_ok g"
    unfolding v by (simp_all add: gime_decoded_def ints_ok_def)
qed

lemma banks_derived [simp]:
  "derived_ok (tcc1014_update_active_banks g) = derived_ok g"
  "derived_ok (update_fast_pages g) = derived_ok g"
proof -
  show "derived_ok (tcc1014_update_active_banks g) = derived_ok g"
    using derived_frame [of g "tcc1014_update_active_banks g"] derived_frame [of "tcc1014_update_active_banks g" g] by auto
  show "derived_ok (update_fast_pages g) = derived_ok g"
    using derived_frame [of g "update_fast_pages g"] derived_frame [of "update_fast_pages g" g] by auto
qed

lemmas gime_tuples = gime_base_def gime_derived_def gime_mmu_def gime_map_def

section \<open>Interrupt logic\<close>

lemma masked_or: "a AND NOT m = 0 \<Longrightarrow> (a OR (f AND m)) AND NOT m = (0 :: u8)"
  by (simp add: bit.conj_disj_distrib2 and.assoc)

lemma latch_masked: "enable_latch g s v c AND NOT v = 0"
  unfolding enable_latch_def Let_def
  by (simp add: bit.conj_disj_distrib2 and.assoc)

lemma set_interrupt_shape:
  "\<exists>a b c d. set_interrupt f g = g\<lparr>g_irq_state := a, g_firq_state := b, g_IRQ := c, g_FIRQ := d\<rparr>"
  unfolding set_interrupt_def Let_def by (intro exI) (rule refl)

lemma arm_timer_shape: "\<exists>a b. arm_timer g = g\<lparr>g_timer_counter := a, g_timer_left_x2 := b\<rparr>"
  unfolding arm_timer_def Let_def by (intro exI) (simp add: timer_reset_def)

text \<open>Two states that agree on everything the invariant reads.\<close>

definition gime_same :: "tcc1014 \<Rightarrow> tcc1014 \<Rightarrow> bool" where
  "gime_same g h \<longleftrightarrow> gime_decoded h = gime_decoded g \<and> gime_base h = gime_base g \<and>
     gime_derived h = gime_derived g \<and> gime_mmu h = gime_mmu g \<and> (\<forall>i. gime_map h i = gime_map g i)"

lemma wf_frame:
  assumes w: "gime_wf g" and s: "gime_same g h" and i: "ints_ok h"
  shows "gime_wf h"
proof -
  have "derived_ok h" by (rule derived_frame [of g]) (use w s in \<open>simp_all add: gime_wf_def gime_same_def\<close>)
  moreover have "pages_ok h"
    by (rule pages_frame_gime [of g]) (use w s in \<open>simp_all add: gime_wf_def gime_same_def\<close>)
  ultimately show ?thesis using w s i by (simp add: gime_wf_def gime_same_def)
qed

lemma wf_derive:
  assumes "gime_decoded g" and "ints_ok g" and "pages_ok g"
  shows "gime_wf (update_from_gime_registers g)"
  using assms by (simp add: gime_wf_def)

lemma same_int: "gime_same g (g\<lparr>g_irq_state := a, g_firq_state := b, g_IRQ := c, g_FIRQ := d\<rparr>)"
  by (simp add: gime_same_def gime_decoded_def gime_tuples)

lemma same_timer: "gime_same g (g\<lparr>g_timer_counter := a, g_timer_left_x2 := b\<rparr>)"
  by (simp add: gime_same_def gime_decoded_def gime_tuples)

lemma ints_timer: "ints_ok (g\<lparr>g_timer_counter := a, g_timer_left_x2 := b\<rparr>) = ints_ok g"
  by (simp add: ints_ok_def)

lemma set_interrupt_wf: assumes "gime_wf g" shows "gime_wf (set_interrupt f g)"
proof -
  have "gime_same g (set_interrupt f g)" using set_interrupt_shape [of f g] same_int by metis
  moreover have "ints_ok g" using assms by (simp add: gime_wf_def)
  then have "ints_ok (set_interrupt f g)" by (simp add: ints_ok_def set_interrupt_def Let_def masked_or)
  ultimately show ?thesis by (rule wf_frame [OF assms])
qed

lemma arm_timer_wf: assumes "gime_wf g" shows "gime_wf (arm_timer g)"
proof -
  have "gime_same g (arm_timer g)" using arm_timer_shape [of g] same_timer by metis
  moreover have "ints_ok (arm_timer g)"
    using assms arm_timer_shape [of g] by (metis gime_wf_def ints_timer)
  ultimately show ?thesis by (rule wf_frame [OF assms])
qed

text \<open>Fields the invariant does not read.\<close>

lemma wf_other [simp]:
  "gime_wf (g\<lparr>g_S := n\<rparr>) = gime_wf g" "gime_wf (g\<lparr>g_Z := z\<rparr>) = gime_wf g" "gime_wf (g\<lparr>g_RAS := b\<rparr>) = gime_wf g"
  "gime_wf (g\<lparr>g_timer_left_x2 := t\<rparr>) = gime_wf g" "gime_wf (g\<lparr>g_timer_counter := t\<rparr>) = gime_wf g"
  "gime_wf (g\<lparr>g_timer_fires := k\<rparr>) = gime_wf g" "gime_wf (g\<lparr>g_blink := b\<rparr>) = gime_wf g"
  "gime_wf (g\<lparr>g_IL0 := b\<rparr>) = gime_wf g" "gime_wf (g\<lparr>g_IL1 := b\<rparr>) = gime_wf g" "gime_wf (g\<lparr>g_IL2 := b\<rparr>) = gime_wf g"
  "gime_wf (g\<lparr>g_IL0_state := c\<rparr>) = gime_wf g" "gime_wf (g\<lparr>g_IL1_state := c\<rparr>) = gime_wf g"
  "gime_wf (g\<lparr>g_IL2_state := c\<rparr>) = gime_wf g" "gime_wf (g\<lparr>g_shadow_ddr := b\<rparr>) = gime_wf g"
  "gime_wf (g\<lparr>g_inverted_text := b\<rparr>) = gime_wf g" "gime_wf (g\<lparr>s_monitor := c\<rparr>) = gime_wf g"
  "gime_wf (g\<lparr>s_artifacts := c\<rparr>) = gime_wf g" "gime_wf (g\<lparr>s_rgb565_lut := l\<rparr>) = gime_wf g"
  "gime_wf (g\<lparr>s_line_sig := q\<rparr>) = gime_wf g"
  "gime_wf (g\<lparr>g_row := a1\<rparr>) = gime_wf g" "gime_wf (g\<lparr>g_active_area := a2\<rparr>) = gime_wf g"
  "gime_wf (g\<lparr>g_lcount := a3\<rparr>) = gime_wf g" "gime_wf (g\<lparr>g_B := a4\<rparr>) = gime_wf g"
  "gime_wf (g\<lparr>g_Xoff := a5\<rparr>) = gime_wf g" "gime_wf (g\<lparr>g_line_clean := a6\<rparr>) = gime_wf g"
  "gime_wf (g\<lparr>g_line_width := a7\<rparr>) = gime_wf g" "gime_wf (g\<lparr>g_raw_output := a8\<rparr>) = gime_wf g"
  "gime_wf (g\<lparr>g_palette_rgb565 := a9\<rparr>) = gime_wf g" "gime_wf (g\<lparr>g_line := b1\<rparr>) = gime_wf g"
  "gime_wf (g\<lparr>g_dirty_frame := b2\<rparr>) = gime_wf g" "gime_wf (g\<lparr>g_have_vdata_cache := b3\<rparr>) = gime_wf g"
  "gime_wf (g\<lparr>g_vdata_cache := b4\<rparr>) = gime_wf g" "gime_wf (g\<lparr>s_art_colours := b5\<rparr>) = gime_wf g"
  "gime_wf (g\<lparr>s_art_key := b6\<rparr>) = gime_wf g" "gime_wf (g\<lparr>g_palette_reg := b7\<rparr>) = gime_wf g"
proof -
  have same: "gime_same h g \<and> gime_same g h \<and> ints_ok g = ints_ok h \<Longrightarrow> gime_wf h = gime_wf g" for h
    using wf_frame [of g h] wf_frame [of h g] unfolding gime_wf_def by blast
  show "gime_wf (g\<lparr>g_S := n\<rparr>) = gime_wf g" "gime_wf (g\<lparr>g_Z := z\<rparr>) = gime_wf g" "gime_wf (g\<lparr>g_RAS := b\<rparr>) = gime_wf g"
    "gime_wf (g\<lparr>g_timer_left_x2 := t\<rparr>) = gime_wf g" "gime_wf (g\<lparr>g_timer_counter := t\<rparr>) = gime_wf g"
    "gime_wf (g\<lparr>g_timer_fires := k\<rparr>) = gime_wf g" "gime_wf (g\<lparr>g_blink := b\<rparr>) = gime_wf g"
    "gime_wf (g\<lparr>g_IL0 := b\<rparr>) = gime_wf g" "gime_wf (g\<lparr>g_IL1 := b\<rparr>) = gime_wf g" "gime_wf (g\<lparr>g_IL2 := b\<rparr>) = gime_wf g"
    "gime_wf (g\<lparr>g_IL0_state := c\<rparr>) = gime_wf g" "gime_wf (g\<lparr>g_IL1_state := c\<rparr>) = gime_wf g"
    "gime_wf (g\<lparr>g_IL2_state := c\<rparr>) = gime_wf g" "gime_wf (g\<lparr>g_shadow_ddr := b\<rparr>) = gime_wf g"
    "gime_wf (g\<lparr>g_inverted_text := b\<rparr>) = gime_wf g" "gime_wf (g\<lparr>s_monitor := c\<rparr>) = gime_wf g"
    "gime_wf (g\<lparr>s_artifacts := c\<rparr>) = gime_wf g" "gime_wf (g\<lparr>s_rgb565_lut := l\<rparr>) = gime_wf g"
    "gime_wf (g\<lparr>s_line_sig := q\<rparr>) = gime_wf g"
    "gime_wf (g\<lparr>g_row := a1\<rparr>) = gime_wf g" "gime_wf (g\<lparr>g_active_area := a2\<rparr>) = gime_wf g"
    "gime_wf (g\<lparr>g_lcount := a3\<rparr>) = gime_wf g" "gime_wf (g\<lparr>g_B := a4\<rparr>) = gime_wf g"
    "gime_wf (g\<lparr>g_Xoff := a5\<rparr>) = gime_wf g" "gime_wf (g\<lparr>g_line_clean := a6\<rparr>) = gime_wf g"
    "gime_wf (g\<lparr>g_line_width := a7\<rparr>) = gime_wf g" "gime_wf (g\<lparr>g_raw_output := a8\<rparr>) = gime_wf g"
    "gime_wf (g\<lparr>g_palette_rgb565 := a9\<rparr>) = gime_wf g" "gime_wf (g\<lparr>g_line := b1\<rparr>) = gime_wf g"
    "gime_wf (g\<lparr>g_dirty_frame := b2\<rparr>) = gime_wf g" "gime_wf (g\<lparr>g_have_vdata_cache := b3\<rparr>) = gime_wf g"
    "gime_wf (g\<lparr>g_vdata_cache := b4\<rparr>) = gime_wf g" "gime_wf (g\<lparr>s_art_colours := b5\<rparr>) = gime_wf g"
    "gime_wf (g\<lparr>s_art_key := b6\<rparr>) = gime_wf g" "gime_wf (g\<lparr>g_palette_reg := b7\<rparr>) = gime_wf g"
    by (rule same, simp add: gime_same_def gime_decoded_def gime_tuples ints_ok_def)+
qed

text \<open>A bus write to a register: the register file, the fields of that register, what depends on them.\<close>

lemma mem15: "n AND 15 < (16 :: nat)"
  using take_bit_eq_mask [of 4 n] take_bit_nat_less_exp [of 4 n] by (simp add: mask_eq_exp_minus_1)

lemma gime_reg_cases:
  obtains "r AND 15 = (0 :: nat)" | "r AND 15 = 1" | "r AND 15 = 2" | "r AND 15 = 3" | "r AND 15 = 4"
    | "r AND 15 = 5" | "r AND 15 = 6" | "r AND 15 = 7" | "r AND 15 = 8" | "r AND 15 = 9" | "r AND 15 = 10"
    | "r AND 15 = 11" | "r AND 15 = 12" | "r AND 15 = 13" | "r AND 15 = 14" | "r AND 15 = 15"
  using mem15 [of r] by (auto simp: less_Suc_eq numeral_eq_Suc)

lemma init1_shape:
  "\<exists>a b. write_init1 v g =
     (let h = g\<lparr>g_TINS := tst v 0x20, g_timer_counter := a, g_timer_left_x2 := b\<rparr>
      in if (if tst v 0x01 then 8 else 0) \<noteq> g_TR g
         then tcc1014_update_active_banks (h\<lparr>g_TR := (if tst v 0x01 then 8 else 0)\<rparr>) else h)"
proof (cases "tst v 0x20 = g_TINS g")
  case True
  then have "g = g\<lparr>g_TINS := tst v 0x20, g_timer_counter := g_timer_counter g, g_timer_left_x2 := g_timer_left_x2 g\<rparr>" by simp
  then have "write_init1 v g =
     (let h = g\<lparr>g_TINS := tst v 0x20, g_timer_counter := g_timer_counter g, g_timer_left_x2 := g_timer_left_x2 g\<rparr>
      in if (if tst v 0x01 then 8 else 0) \<noteq> g_TR g
         then tcc1014_update_active_banks (h\<lparr>g_TR := (if tst v 0x01 then 8 else 0)\<rparr>) else h)"
    using True by (simp add: write_init1_def Let_def)
  then show ?thesis by blast
next
  case False
  obtain a b where "arm_timer (g\<lparr>g_TINS := tst v 0x20\<rparr>) =
      g\<lparr>g_TINS := tst v 0x20, g_timer_counter := a, g_timer_left_x2 := b\<rparr>"
    using arm_timer_shape by blast
  then have "write_init1 v g =
     (let h = g\<lparr>g_TINS := tst v 0x20, g_timer_counter := a, g_timer_left_x2 := b\<rparr>
      in if (if tst v 0x01 then 8 else 0) \<noteq> g_TR g
         then tcc1014_update_active_banks (h\<lparr>g_TR := (if tst v 0x01 then 8 else 0)\<rparr>) else h)"
    using False by (simp add: write_init1_def Let_def)
  then show ?thesis by blast
qed

lemma write_reg1: "r AND 15 = 1 \<Longrightarrow>
    tcc1014_write_register r v g = write_init1 v (g\<lparr>g_registers := (g_registers g)(1 := v)\<rparr>)"
  by (simp add: tcc1014_write_register_def Let_def)

lemma write_reg4: "r AND 15 = 4 \<Longrightarrow>
    tcc1014_write_register r v g = arm_timer (g\<lparr>g_registers := (g_registers g)(4 := v)\<rparr>)"
  by (simp add: tcc1014_write_register_def Let_def)

lemma arm_same: "gime_same g (arm_timer g)" and arm_ints: "ints_ok (arm_timer g) = ints_ok g"
  using arm_timer_shape [of g] same_timer ints_timer by metis+

lemma write_keeps:
  assumes "gime_decoded g" and "ints_ok g"
  shows "gime_decoded (tcc1014_write_register r v g) \<and> ints_ok (tcc1014_write_register r v g)"
proof (cases rule: gime_reg_cases [of r])
  case 2
  let ?h = "g\<lparr>g_registers := (g_registers g)(1 := v)\<rparr>"
  obtain a b where a: "write_init1 v ?h =
     (let h = ?h\<lparr>g_TINS := tst v 0x20, g_timer_counter := a, g_timer_left_x2 := b\<rparr>
      in if (if tst v 0x01 then 8 else 0) \<noteq> g_TR ?h
         then tcc1014_update_active_banks (h\<lparr>g_TR := (if tst v 0x01 then 8 else 0)\<rparr>) else h)"
    using init1_shape by blast
  show ?thesis
    unfolding write_reg1 [OF 2] a Let_def by (cases "(if tst v 0x01 then 8 else 0) = g_TR g")
      (use assms in \<open>simp, simp add: gime_decoded_def ints_ok_def\<close>)+
next
  case 5
  have "gime_decoded (g\<lparr>g_registers := (g_registers g)(4 := v)\<rparr>)" "ints_ok (g\<lparr>g_registers := (g_registers g)(4 := v)\<rparr>)"
    using assms by (simp_all add: gime_decoded_def ints_ok_def)
  then show ?thesis using arm_same arm_ints 5 by (simp add: write_reg4 gime_same_def)
qed (simp add: tcc1014_write_register_def Let_def, use assms in \<open>simp add: gime_decoded_def ints_ok_def latch_masked\<close>)+

lemma write_derived:
  assumes "derived_ok g"
  shows "derived_ok (tcc1014_write_register r v g)"
proof -
  note f = derived_frame [OF assms]
  show ?thesis
  proof (cases rule: gime_reg_cases [of r])
    case 2
    obtain a b where a: "write_init1 v (g\<lparr>g_registers := (g_registers g)(1 := v)\<rparr>) =
       (let h = g\<lparr>g_registers := (g_registers g)(1 := v), g_TINS := tst v 0x20, g_timer_counter := a, g_timer_left_x2 := b\<rparr>
        in if (if tst v 0x01 then 8 else 0) \<noteq> g_TR (g\<lparr>g_registers := (g_registers g)(1 := v)\<rparr>)
           then tcc1014_update_active_banks (h\<lparr>g_TR := (if tst v 0x01 then 8 else 0)\<rparr>) else h)"
      using init1_shape by blast
    show ?thesis
      unfolding write_reg1 [OF 2] a Let_def
      by (cases "(if tst v 0x01 then 8 else 0) = g_TR g"; simp split del: if_split; (rule f)?; simp add: gime_tuples split del: if_split)
  next
    case 5
    have "derived_ok (g\<lparr>g_registers := (g_registers g)(4 := v)\<rparr>)" by (rule f) (simp_all add: gime_tuples)
    then show ?thesis using arm_same 5 derived_frame by (simp add: write_reg4 gime_same_def)
  qed (simp add: tcc1014_write_register_def Let_def; (intro conjI impI)?; (rule f)?; simp add: gime_tuples)+
qed

lemma write_pages:
  assumes "pages_ok g"
  shows "pages_ok (tcc1014_write_register r v g)"
proof -
  note f = pages_frame_gime [OF assms]
  show ?thesis
  proof (cases rule: gime_reg_cases [of r])
    case 2
    obtain a b where a: "write_init1 v (g\<lparr>g_registers := (g_registers g)(1 := v)\<rparr>) =
       (let h = g\<lparr>g_registers := (g_registers g)(1 := v), g_TINS := tst v 0x20, g_timer_counter := a, g_timer_left_x2 := b\<rparr>
        in if (if tst v 0x01 then 8 else 0) \<noteq> g_TR (g\<lparr>g_registers := (g_registers g)(1 := v)\<rparr>)
           then tcc1014_update_active_banks (h\<lparr>g_TR := (if tst v 0x01 then 8 else 0)\<rparr>) else h)"
      using init1_shape by blast
    show ?thesis
      unfolding write_reg1 [OF 2] a Let_def
      by (cases "(if tst v 0x01 then 8 else 0) = g_TR g"; simp split del: if_split; (rule f)?; simp add: gime_tuples split del: if_split)
  next
    case 5
    have "pages_ok (g\<lparr>g_registers := (g_registers g)(4 := v)\<rparr>)" by (rule f) (simp_all add: gime_tuples)
    then show ?thesis using arm_same 5 pages_frame_gime by (simp add: write_reg4 gime_same_def)
  qed (simp add: tcc1014_write_register_def Let_def; (intro conjI impI)?; (rule f)?; simp add: gime_tuples)+
qed

lemma write_register_wf: "gime_wf g \<Longrightarrow> gime_wf (tcc1014_write_register r v g)"
  using write_keeps write_derived write_pages by (simp add: gime_wf_def)

section \<open>Every operation keeps the invariant\<close>

lemma same_refl_wf:
  assumes "gime_wf g" and "gime_decoded h = gime_decoded g" and "gime_base h = gime_base g"
    and "gime_derived h = gime_derived g" and "gime_mmu h = gime_mmu g" and "\<And>i. gime_map h i = gime_map g i"
    and "ints_ok h"
  shows "gime_wf h"
  using wf_frame [of g h] assms by (simp add: gime_same_def)

lemma edge_detect_wf: "gime_wf g \<Longrightarrow> gime_wf (edge_detect_il g)"
  by (simp add: edge_detect_il_def Let_def set_interrupt_wf)

lemma decode_memory_wf: "gime_wf g \<Longrightarrow> gime_wf (decode_memory a g)"
  by (simp add: decode_memory_def Let_def)

lemma write_mmu_wf: "gime_wf g \<Longrightarrow> gime_wf (tcc1014_write_mmu n v g)"
proof -
  assume w: "gime_wf g"
  let ?h = "g\<lparr>g_mmu_bank := (g_mmu_bank g)(n AND 0x0F := v AND g_bank_mask g)\<rparr>"
  have "gime_decoded ?h = gime_decoded g" "ints_ok ?h = ints_ok g" "gime_base ?h = gime_base g" "gime_derived ?h = gime_derived g"
    by (simp_all add: gime_decoded_def ints_ok_def gime_tuples)
  then show ?thesis
    using w derived_frame [of g ?h] by (simp add: tcc1014_write_mmu_def gime_wf_def)
qed

lemma write_palette_wf: "gime_wf g \<Longrightarrow> gime_wf (tcc1014_write_palette n v g)"
  by (rule same_refl_wf, assumption)
    (simp_all add: tcc1014_write_palette_def Let_def gime_decoded_def gime_tuples, simp add: gime_wf_def ints_ok_def)

text \<open>The SAM write rebuilds both pages tables from the active banks, which it does not change.\<close>

lemma fast_pages_ok:
  assumes p: "pages_ok g" and m: "g_active_banks h = g_active_banks g" "g_mmu_bank h = g_mmu_bank g"
    "g_MMUEN h = g_MMUEN g" "g_TR h = g_TR g" "g_ram h = g_ram g" "g_ram_mask h = g_ram_mask g"
  shows "pages_ok (update_fast_pages h)"
proof -
  have a: "g_active_banks g i = (if g_MMUEN g then g_mmu_bank g (g_TR g OR i) else 0x38 OR of_nat i)" if "i < 8" for i
  proof -
    have "gime_map g i = gime_map (tcc1014_update_active_banks g) i" using p that by (simp add: pages_ok_def)
    then show ?thesis unfolding map_update [OF that] by (simp add: gime_map_def Let_def)
  qed
  show ?thesis
    unfolding pages_ok_def
  proof (intro allI impI)
    fix i :: nat assume i: "i < 8"
    show "gime_map (update_fast_pages h) i = gime_map (tcc1014_update_active_banks (update_fast_pages h)) i"
      unfolding map_update [OF i]
      using a [OF i] i m by (simp add: gime_map_def update_fast_pages_def page_base_def Let_def)
  qed
qed

lemma sam_keeps:
  assumes "gime_decoded g" and "ints_ok g"
  shows "gime_decoded (update_from_sam_register (g\<lparr>g_SAM_register := v\<rparr>)) \<and>
    ints_ok (update_from_sam_register (g\<lparr>g_SAM_register := v\<rparr>))"
  using assms
  by (simp add: update_from_sam_register_def) (simp add: gime_decoded_def ints_ok_def)

lemma sam_register_wf: "gime_wf g \<Longrightarrow> gime_wf (update_from_sam_register (g\<lparr>g_SAM_register := v\<rparr>))"
proof -
  assume w: "gime_wf g"
  then have "gime_decoded g" "ints_ok g" and p: "pages_ok g" by (simp_all add: gime_wf_def)
  then have "gime_decoded (update_from_sam_register (g\<lparr>g_SAM_register := v\<rparr>)) \<and>
    ints_ok (update_from_sam_register (g\<lparr>g_SAM_register := v\<rparr>))" by (intro sam_keeps)
  moreover have "pages_ok (update_from_sam_register (g\<lparr>g_SAM_register := v\<rparr>))"
    unfolding update_from_sam_register_def update_maps by (rule fast_pages_ok [OF p]) simp_all
  moreover have "derived_ok (update_from_sam_register (g\<lparr>g_SAM_register := v\<rparr>))"
    by (simp add: update_from_sam_register_def)
  ultimately show ?thesis by (simp add: gime_wf_def)
qed

lemma pdr_wf: "gime_wf g \<Longrightarrow> gime_wf (update_from_gime_registers (g\<lparr>g_shadow_pdr := v\<rparr>))"
proof -
  assume w: "gime_wf g"
  let ?h = "g\<lparr>g_shadow_pdr := v\<rparr>"
  have "gime_decoded ?h = gime_decoded g" "ints_ok ?h = ints_ok g" by (simp_all add: gime_decoded_def ints_ok_def)
  moreover have "pages_ok ?h" by (rule pages_frame_gime [of g]) (use w in \<open>simp_all add: gime_wf_def gime_tuples\<close>)
  ultimately show ?thesis using w by (simp add: gime_wf_def)
qed

lemma snoop_wf: "gime_wf g \<Longrightarrow> gime_wf (tcc1014_snoop_pia1b a v g)"
  by (simp add: tcc1014_snoop_pia1b_def pdr_wf)

lemma ack_wf: "gime_wf g \<Longrightarrow> gime_wf (g\<lparr>g_irq_state := 0, g_IRQ := False\<rparr>)"
  "gime_wf g \<Longrightarrow> gime_wf (g\<lparr>g_firq_state := 0, g_FIRQ := False\<rparr>)"
proof -
  assume w: "gime_wf g"
  then have i: "ints_ok g" by (simp add: gime_wf_def)
  show "gime_wf (g\<lparr>g_irq_state := 0, g_IRQ := False\<rparr>)" "gime_wf (g\<lparr>g_firq_state := 0, g_FIRQ := False\<rparr>)"
    by (rule same_refl_wf [OF w]; use i in \<open>simp add: gime_decoded_def gime_tuples ints_ok_def irq_output_def\<close>)+
qed

lemma read_register_wf: "gime_wf g \<Longrightarrow> gime_wf (snd (tcc1014_read_register r g))"
  by (simp add: tcc1014_read_register_def Let_def ack_wf edge_detect_wf)

lemma timer_expired_wf: "gime_wf g \<Longrightarrow> gime_wf (timer_expired g)"
  by (simp add: timer_expired_def set_interrupt_wf)

lemma timer_pass_wf: "gime_wf g \<Longrightarrow> gime_wf (timer_pass g)"
  by (simp add: timer_pass_def Let_def timer_expired_wf arm_timer_wf)

lemma timer_loop_wf: "gime_wf g \<Longrightarrow> gime_wf (timer_loop g)"
proof (induction g rule: timer_loop.induct)
  case (1 g)
  then show ?case by (subst timer_loop.simps) (simp add: Let_def timer_pass_wf)
qed

lemma tick_wf: "gime_wf g \<Longrightarrow> gime_wf (tcc1014_tick_scanline g)"
  by (simp add: tcc1014_tick_scanline_def Let_def timer_loop_wf timer_expired_wf arm_timer_wf)

lemma mem_cycle_wf: "gime_wf g \<Longrightarrow> gime_wf (snd (snd (tcc1014_mem_cycle a rw v g)))"
proof -
  assume w: "gime_wf g"
  show ?thesis
    by (simp add: tcc1014_mem_cycle_def Let_def edge_detect_wf w decode_memory_wf write_register_wf write_mmu_wf
        write_palette_wf pdr_wf ack_wf tcc1014_write_sam_def sam_register_wf)
qed

lemma set_ram_wf: "gime_wf g \<Longrightarrow> gime_wf (tcc1014_set_ram n g)"
proof -
  assume w: "gime_wf g"
  let ?m = "if n < 0x80000 then n else 0x80000"
  let ?b = "if n > 0x100000 then 0xFF else if n > 0x80000 then 0x7F else 0x3F"
  let ?h = "g\<lparr>g_ram := True, g_ram_size := n, g_ram_mask := n - 1, g_vram_mask := ?m - 1, g_vram_base := 0, g_bank_mask := ?b\<rparr>"
  have "gime_decoded ?h = gime_decoded g" "ints_ok ?h = ints_ok g" "gime_base ?h = gime_base g" "gime_derived ?h = gime_derived g"
    by (simp_all add: gime_decoded_def ints_ok_def gime_tuples)
  then show ?thesis
    using w derived_frame [of g ?h] by (simp add: tcc1014_set_ram_def gime_wf_def)
qed

lemma monitor_wf: "gime_wf g \<Longrightarrow> gime_wf (tcc1014_set_monitor m g)"
  by (simp add: tcc1014_set_monitor_def tcc1014_invalidate_lines_def tcc1014_init_palette_lut_def)

lemma artifacts_wf: "gime_wf g \<Longrightarrow> gime_wf (tcc1014_set_artifacts m g)"
  by (simp add: tcc1014_set_artifacts_def tcc1014_invalidate_lines_def)

text \<open>Reset needs only the decoded fields and the interrupts of the state it starts in.\<close>

lemma reset_register_keeps:
  assumes "gime_decoded g \<and> ints_ok g"
  shows "gime_decoded (reset_register i g) \<and> ints_ok (reset_register i g)"
proof -
  have "gime_decoded (tcc1014_write_register i 0 g) \<and> ints_ok (tcc1014_write_register i 0 g)"
    using assms by (intro write_keeps) simp_all
  then show ?thesis by (simp add: reset_register_def Let_def gime_decoded_def ints_ok_def)
qed

lemma reset_wf:
  assumes "gime_decoded g" and "ints_ok g"
  shows "gime_wf (tcc1014_reset g)"
proof -
  let ?g0 = "fold reset_register [0..<16] (tcc1014_invalidate_lines g)"
  have "gime_decoded (tcc1014_invalidate_lines g) \<and> ints_ok (tcc1014_invalidate_lines g)"
    using assms by (simp add: tcc1014_invalidate_lines_def gime_decoded_def ints_ok_def)
  then have "gime_decoded ?g0 \<and> ints_ok ?g0"
    by (rule fold_invariant [where P = "\<lambda>h. gime_decoded h \<and> ints_ok h" and Q = "\<lambda>_. True", rotated])
      (simp_all add: reset_register_keeps)
  then have s: "gime_decoded (tcc1014_set_sam_register 0 ?g0)"
    unfolding tcc1014_set_sam_register_def using sam_keeps by blast
  let ?g1 = "tcc1014_set_sam_register 0 ?g0"
  let ?g2 = "?g1\<lparr>g_mmu_bank := (\<lambda>i. if i < 16 then 0x38 OR of_nat (i AND 7) else g_mmu_bank ?g1 i)\<rparr>"
  have "gime_decoded ?g2" using s by (simp add: gime_decoded_def)
  then have d: "gime_decoded (tcc1014_update_active_banks ?g2)" by simp
  have p: "pages_ok (tcc1014_update_active_banks ?g2)" by simp
  show ?thesis
    unfolding tcc1014_reset_def Let_def
  proof (rule wf_derive)
    let ?h = "tcc1014_update_active_banks ?g2"
    let ?r = "?h\<lparr>g_row := 0, g_active_area := False, g_lcount := 0, g_shadow_pdr := 0,
      g_shadow_ddr := False, g_have_vdata_cache := False, g_blink := False,
      g_inverted_text := False, g_dirty_frame := True, g_timer_counter := 0,
      g_timer_reload := 0, g_timer_left_x2 := 0, g_irq_state := 0, g_firq_state := 0,
      g_IRQ := False, g_FIRQ := False, g_IL0 := False, g_IL1 := False, g_IL2 := False,
      g_IL0_state := 0, g_IL1_state := 0, g_IL2_state := 0, g_line_width := 0\<rparr>"
    show "gime_decoded ?r" using d unfolding gime_decoded_def by simp
    show "ints_ok ?r" by (simp add: ints_ok_def irq_output_def)
    show "pages_ok ?r" by (rule pages_frame_gime [OF p]) (simp_all add: gime_tuples)
  qed
qed

lemma init_keeps: "gime_decoded (tcc1014_init g) \<and> ints_ok (tcc1014_init g)"
  by (simp add: tcc1014_init_def tcc1014_init_palette_lut_def tcc1014_invalidate_lines_def gime_cleared_def tcc1014_static_def
      gime_decoded_def ints_ok_def irq_output_def tst_def)

section \<open>Invariant over every sequence of operations\<close>

datatype gime_op =
    Bus_Cycle u16 bool u8
  | Write_Register nat u8
  | Read_Register nat
  | Write_Mmu nat u8
  | Write_Palette nat u8
  | Write_Sam nat
  | Set_Sam u16
  | Snoop_Pia u16 u8
  | Tick_Line
  | Set_Interrupt u8
  | Drive_Lines bool bool bool
  | Set_Monitor u8
  | Set_Artifacts u8
  | Set_Inverted bool
  | Set_Ram u32
  | Reset_Gime

fun gime_exec :: "gime_op \<Rightarrow> tcc1014 \<Rightarrow> tcc1014" where
  "gime_exec (Bus_Cycle a rw v) g = snd (snd (tcc1014_mem_cycle a rw v g))"
| "gime_exec (Write_Register r v) g = tcc1014_write_register r v g"
| "gime_exec (Read_Register r) g = snd (tcc1014_read_register r g)"
| "gime_exec (Write_Mmu n v) g = tcc1014_write_mmu n v g"
| "gime_exec (Write_Palette n v) g = tcc1014_write_palette n v g"
| "gime_exec (Write_Sam n) g = tcc1014_write_sam n g"
| "gime_exec (Set_Sam v) g = tcc1014_set_sam_register v g"
| "gime_exec (Snoop_Pia a v) g = tcc1014_snoop_pia1b a v g"
| "gime_exec Tick_Line g = tcc1014_tick_scanline g"
| "gime_exec (Set_Interrupt f) g = tcc1014_set_interrupt f g"
| "gime_exec (Drive_Lines l2 l1 l0) g = g\<lparr>g_IL2 := l2, g_IL1 := l1, g_IL0 := l0\<rparr>"
| "gime_exec (Set_Monitor m) g = tcc1014_set_monitor m g"
| "gime_exec (Set_Artifacts m) g = tcc1014_set_artifacts m g"
| "gime_exec (Set_Inverted b) g = tcc1014_set_inverted_text b g"
| "gime_exec (Set_Ram n) g = tcc1014_set_ram n g"
| "gime_exec Reset_Gime g = tcc1014_reset g"

lemma wf_reset: "gime_wf g \<Longrightarrow> gime_wf (tcc1014_reset g)"
  using reset_wf by (simp add: gime_wf_def)

lemma gime_exec_wf: "gime_wf g \<Longrightarrow> gime_wf (gime_exec opn g)"
  by (cases opn) (simp_all add: mem_cycle_wf write_register_wf read_register_wf write_mmu_wf write_palette_wf
      tcc1014_write_sam_def sam_register_wf tcc1014_set_sam_register_def snoop_wf tick_wf tcc1014_set_interrupt_def
      set_interrupt_wf monitor_wf artifacts_wf tcc1014_set_inverted_text_def set_ram_wf wf_reset Let_def)

text \<open>
  C6: The GIME's caches are never stale. After the power-on sequence and any sequence of bus cycles,
  direct register, MMU, palette and SAM accesses, PIA snoops, timer ticks, interrupt inputs, monitor
  and artifact settings, RAM attachments and resets: every decoded field equals what its register
  encodes, the derived video state and both CPU page tables are those the recomputation from the
  current registers would give, only enabled interrupts are pending, and the IRQ and FIRQ outputs
  are what the master enables and the pending sources say.
\<close>
theorem gime_state_consistent: "gime_wf (fold gime_exec ops (tcc1014_reset (tcc1014_init g)))"
proof -
  have "gime_wf (tcc1014_reset (tcc1014_init g))" using init_keeps reset_wf by blast
  then show ?thesis by (induction ops arbitrary: g rule: rev_induct) (simp_all add: gime_exec_wf)
qed

section \<open>Timer rates\<close>

lemma expired_frame:
  "g_timer_fires (timer_expired g) = g_timer_fires g + 1" "g_blink (timer_expired g) = (\<not> g_blink g)"
  "g_TINS (timer_expired g) = g_TINS g" "timer_reset (timer_expired g) = timer_reset g"
  by (simp_all add: timer_expired_def set_interrupt_def timer_reset_def Let_def)

lemma arm_frame:
  "g_timer_fires (arm_timer g) = g_timer_fires g" "g_blink (arm_timer g) = g_blink g"
  "g_TINS (arm_timer g) = g_TINS g" "timer_reset (arm_timer g) = timer_reset g"
  "g_timer_counter (arm_timer g) = (if timer_reset g = 0 then 0 else timer_reset g + 1)"
  "g_timer_left_x2 (arm_timer g) = 2 * (if timer_reset g = 0 then 0 else timer_reset g + 1)"
  by (simp_all add: arm_timer_def timer_reset_def TIMER_OFFSET_def Let_def)

lemma pass_frame:
  "g_timer_fires (timer_pass g) = g_timer_fires g + 1" "g_blink (timer_pass g) = (\<not> g_blink g)"
  "g_TINS (timer_pass g) = g_TINS g"
  by (simp_all add: timer_pass_def Let_def arm_frame expired_frame)

text \<open>The expiry loop leaves between one half-tick and a whole period, and counts the periods passed.\<close>

lemma timer_loop_period:
  assumes "timer_reset g \<noteq> 0" and "p = 2 * (timer_reset g + 1)" and "g_timer_left_x2 g \<le> p"
    and "g_timer_counter g = timer_reset g + 1"
  defines "h \<equiv> timer_loop g" and "k \<equiv> (p - g_timer_left_x2 g) div p"
  shows "g_timer_left_x2 h = p - (p - g_timer_left_x2 g) mod p \<and> g_timer_fires h = g_timer_fires g + of_int k \<and>
    g_blink h = (g_blink g \<noteq> odd k) \<and> g_TINS h = g_TINS g \<and> timer_reset h = timer_reset g \<and>
    g_timer_counter h = timer_reset g + 1"
  using assms(1-4) unfolding h_def k_def
proof (induction g rule: timer_loop.induct)
  case (1 g)
  have r: "0 < timer_reset g" using timer_reset_nonneg [of g] 1(2) by simp
  show ?case
  proof (cases "g_timer_left_x2 g \<le> 0")
    case True
    let ?x = "timer_pass g"
    note x = timer_pass_shape [of g] pass_frame [of g]
    have l: "timer_loop g = timer_loop ?x"
      using True x(1) 1(2) r by (subst timer_loop.simps) (simp add: Let_def)
    have y: "g_timer_left_x2 ?x = p + g_timer_left_x2 g" "timer_reset ?x = timer_reset g"
        "g_timer_counter ?x = timer_reset g + 1"
      using x 1(2,3) by simp_all
    have p: "0 < p" using r 1(3) by simp
    have d: "(p - g_timer_left_x2 g) div p = (p - g_timer_left_x2 ?x) div p + 1"
        "(p - g_timer_left_x2 g) mod p = (p - g_timer_left_x2 ?x) mod p"
      using p div_add_self2 [of p "- g_timer_left_x2 g"] mod_add_self2 [of "- g_timer_left_x2 g" p] y(1)
      by (simp_all add: algebra_simps)
    have "g_timer_counter ?x \<noteq> 0" using y r by simp
    then show ?thesis
      using 1(1) [OF True refl] 1(2,3) True x y d unfolding l by auto
  next
    case False
    then have "timer_loop g = g" by (subst timer_loop.simps) simp
    moreover have "(p - g_timer_left_x2 g) div p = 0"
      using False 1(4) by (intro div_pos_pos_trivial) simp_all
    moreover have "(p - g_timer_left_x2 g) mod p = p - g_timer_left_x2 g"
      using False 1(4) by (intro mod_pos_pos_trivial) simp_all
    then have "p - (p - g_timer_left_x2 g) mod p = g_timer_left_x2 g" by (simp only:)
    ultimately show ?thesis using 1(5) by simp
  qed
qed

text \<open>The periods completed in \<open>n\<close> scanlines by a timer loaded with \<open>r\<close>.\<close>

definition timer_periods :: "bool \<Rightarrow> nat \<Rightarrow> nat \<Rightarrow> nat" where
  "timer_periods fast r n =
     (if r = 0 then 0 else if fast then 456 * n div (2 * (r + 1)) else n div (r + 1))"

lemma tick_slow:
  assumes "\<not> g_TINS g" and "timer_reset g \<noteq> 0" and "r = nat (timer_reset g)"
    and "g_timer_counter g = int (r + 1 - n mod (r + 1))"
  defines "h \<equiv> tcc1014_tick_scanline g"
  shows "g_timer_counter h = int (r + 1 - Suc n mod (r + 1)) \<and>
    g_timer_fires h = g_timer_fires g + of_nat (Suc n div (r + 1) - n div (r + 1)) \<and>
    g_blink h = (g_blink g \<noteq> odd (Suc n div (r + 1) - n div (r + 1))) \<and>
    g_TINS h = g_TINS g \<and> timer_reset h = timer_reset g"
proof -
  have r: "int r = timer_reset g" "0 < r" using assms(2,3) timer_reset_nonneg [of g] by simp_all
  have m: "n mod (r + 1) < r + 1" by simp
  define q where "q = g\<lparr>g_timer_counter := g_timer_counter g - 1\<rparr>"
  have q: "timer_reset q = timer_reset g" "g_timer_fires q = g_timer_fires g" "g_blink q = g_blink g" "g_TINS q = g_TINS g"
    "g_timer_counter q = g_timer_counter g - 1"
    by (simp_all add: q_def timer_reset_def)
  have h: "h = (if g_timer_counter g \<le> 1 then arm_timer (timer_expired q) else q)"
  proof -
    have "0 < r + 1 - n mod (r + 1)" using m by linarith
    then have "0 < g_timer_counter g" unfolding assms(4) by (simp only: of_nat_0_less_iff)
    then show ?thesis using assms(1) by (simp add: h_def tcc1014_tick_scanline_def q_def Let_def)
  qed
  show ?thesis
  proof (cases "n mod (r + 1) = r")
    case True
    then have "Suc n mod (r + 1) = 0" "Suc n div (r + 1) = Suc (n div (r + 1))"
      by (simp_all add: mod_Suc div_Suc)
    then show ?thesis
      using h assms(2,4) True r q by (simp add: arm_frame expired_frame)
  next
    case False
    then have "Suc n mod (r + 1) = Suc (n mod (r + 1))" "Suc n div (r + 1) = n div (r + 1)"
      by (simp_all add: mod_Suc div_Suc)
    moreover have "n mod (r + 1) < r" using m False by linarith
    ultimately show ?thesis using h assms(4) q by (simp add: of_nat_diff)
  qed
qed

lemma tick_fast:
  assumes "g_TINS g" and "timer_reset g \<noteq> 0" and "p = 2 * (nat (timer_reset g) + 1)"
    and "g_timer_counter g = timer_reset g + 1" and "g_timer_left_x2 g = int (p - 456 * n mod p)"
  defines "h \<equiv> tcc1014_tick_scanline g"
  shows "g_timer_left_x2 h = int (p - 456 * Suc n mod p) \<and> g_timer_counter h = timer_reset g + 1 \<and>
    g_timer_fires h = g_timer_fires g + of_nat (456 * Suc n div p - 456 * n div p) \<and>
    g_blink h = (g_blink g \<noteq> odd (456 * Suc n div p - 456 * n div p)) \<and>
    g_TINS h = g_TINS g \<and> timer_reset h = timer_reset g"
proof -
  have r: "0 < timer_reset g" using timer_reset_nonneg [of g] assms(2) by simp
  define q where "q = g\<lparr>g_timer_left_x2 := g_timer_left_x2 g - 456\<rparr>"
  have q: "timer_reset q = timer_reset g" "g_timer_fires q = g_timer_fires g" "g_blink q = g_blink g" "g_TINS q = g_TINS g"
    "g_timer_counter q = g_timer_counter g" "g_timer_left_x2 q = g_timer_left_x2 g - 456"
    by (simp_all add: q_def timer_reset_def)
  have h: "h = timer_loop q"
    using assms(1,4) r by (simp add: h_def tcc1014_tick_scanline_def q_def Let_def TIMER_FAST_X2_PER_LINE_def)
  have p: "int p = 2 * (timer_reset g + 1)" "0 < p" using assms(3) r by simp_all
  let ?m = "456 * n mod p"
  have m: "?m < p" using p by simp
  have e: "int p - g_timer_left_x2 q = int (?m + 456)" using m assms(5) q(6) by (simp add: of_nat_diff)
  have a: "456 * Suc n = ?m + 456 + p * (456 * n div p)" by (simp add: algebra_simps)
  have "456 * Suc n div p = (?m + 456) div p + 456 * n div p" "(?m + 456) mod p = 456 * Suc n mod p"
    unfolding a using p by (simp_all only: div_mult_self2 [OF less_imp_neq [symmetric]] mod_mult_self2)
  then have d: "(?m + 456) div p = 456 * Suc n div p - 456 * n div p" "(?m + 456) mod p = 456 * Suc n mod p" by simp_all
  have "g_timer_left_x2 q \<le> int p" using e by linarith
  note t = timer_loop_period [of q "int p", OF _ _ this, unfolded e zdiv_int [symmetric] zmod_int [symmetric] of_int_of_nat_eq even_of_nat]
  have "g_timer_left_x2 h = int p - int ((?m + 456) mod p)" "g_timer_fires h = g_timer_fires g + of_nat ((?m + 456) div p)"
      "g_blink h = (g_blink g \<noteq> odd ((?m + 456) div p))" "g_TINS h = g_TINS g" "timer_reset h = timer_reset g"
      "g_timer_counter h = timer_reset g + 1"
    using t assms(2,4) p(1) unfolding h q by simp_all
  moreover have "(?m + 456) mod p \<le> p" using p by (simp add: less_imp_le)
  ultimately show ?thesis unfolding d by (simp add: of_nat_diff)
qed

text \<open>What holds after \<open>n\<close> lines of a timer armed at line 0.\<close>

definition timer_after :: "nat \<Rightarrow> tcc1014 \<Rightarrow> tcc1014 \<Rightarrow> bool" where
  "timer_after n g h \<longleftrightarrow>
     (let r = nat (timer_reset g); k = timer_periods (g_TINS g) r n; p = 2 * (r + 1)
      in timer_reset h = timer_reset g \<and> g_TINS h = g_TINS g \<and> g_timer_fires h = g_timer_fires g + of_nat k \<and>
         g_blink h = (g_blink g \<noteq> odd k) \<and>
         (if r = 0 then g_timer_counter h = 0
          else if g_TINS g then g_timer_counter h = timer_reset g + 1 \<and> g_timer_left_x2 h = int (p - 456 * n mod p)
          else g_timer_counter h = int (r + 1 - n mod (r + 1))))"

lemma timer_after_start: "timer_after 0 g (arm_timer g)"
  using timer_reset_nonneg [of g] by (simp add: timer_after_def timer_periods_def arm_frame Let_def)

lemma parity_diff: "(a :: nat) \<le> b \<Longrightarrow> ((x \<noteq> odd a) \<noteq> odd (b - a)) = (x \<noteq> odd b)"
  by (auto simp: even_diff_nat)

lemma timer_after_step:
  assumes a: "timer_after n g h"
  shows "timer_after (Suc n) g (tcc1014_tick_scanline h)"
proof -
  let ?r = "nat (timer_reset g)"
  have f: "timer_reset h = timer_reset g" "g_TINS h = g_TINS g"
      "g_timer_fires h = g_timer_fires g + of_nat (timer_periods (g_TINS g) ?r n)"
      "g_blink h = (g_blink g \<noteq> odd (timer_periods (g_TINS g) ?r n))"
    using a by (simp_all add: timer_after_def Let_def)
  have mono: "timer_periods b ?r n \<le> timer_periods b ?r (Suc n)" for b
    by (simp add: timer_periods_def div_le_mono)
  consider "?r = 0" | "?r \<noteq> 0" "\<not> g_TINS g" | "?r \<noteq> 0" "g_TINS g" by blast
  then show ?thesis
  proof cases
    case 1
    then have "g_timer_counter h = 0" using a by (simp add: timer_after_def Let_def)
    then have "tcc1014_tick_scanline h = h" by (simp add: tcc1014_tick_scanline_def)
    then show ?thesis using a 1 by (simp add: timer_after_def timer_periods_def Let_def)
  next
    case 2
    then have "g_timer_counter h = int (?r + 1 - n mod (?r + 1))" using a by (simp add: timer_after_def Let_def)
    note t = tick_slow [OF _ _ _ this, unfolded f, OF 2(2) _ refl]
    have k: "Suc n div (?r + 1) = timer_periods (g_TINS g) ?r (Suc n)" "n div (?r + 1) = timer_periods (g_TINS g) ?r n"
      using 2 by (simp_all add: timer_periods_def)
    show ?thesis using t [unfolded k parity_diff [OF mono]] mono [of "g_TINS g"] f 2
      by (simp add: timer_after_def Let_def of_nat_diff)
  next
    case 3
    then have "g_timer_counter h = timer_reset g + 1" "g_timer_left_x2 h = int (2 * (?r + 1) - 456 * n mod (2 * (?r + 1)))"
      using a by (simp_all add: timer_after_def Let_def)
    note t = tick_fast [of h "2 * (?r + 1)" n, unfolded f, OF 3(2) _ refl this]
    have k: "456 * Suc n div (2 * (?r + 1)) = timer_periods (g_TINS g) ?r (Suc n)"
        "456 * n div (2 * (?r + 1)) = timer_periods (g_TINS g) ?r n"
      using 3 by (simp_all add: timer_periods_def)
    show ?thesis using t [unfolded k parity_diff [OF mono]] mono [of "g_TINS g"] f 3
      by (simp add: timer_after_def Let_def of_nat_diff)
  qed
qed


section \<open>External interrupt lines\<close>

lemma set_interrupt_lines:
  "g_IL0 (set_interrupt f g) = g_IL0 g" "g_IL1 (set_interrupt f g) = g_IL1 g" "g_IL2 (set_interrupt f g) = g_IL2 g"
  "g_IL0_state (set_interrupt f g) = g_IL0_state g" "g_IL1_state (set_interrupt f g) = g_IL1_state g"
  "g_IL2_state (set_interrupt f g) = g_IL2_state g"
  by (simp_all add: set_interrupt_def Let_def)

definition lines_latched :: "tcc1014 \<Rightarrow> bool" where
  "lines_latched g \<longleftrightarrow>
     g_IL0_state g = (if g_IL0 g then TCC1014_INT_EI0 else 0) \<and>
     g_IL1_state g = (if g_IL1 g then TCC1014_INT_EI1 else 0) \<and>
     g_IL2_state g = (if g_IL2 g then TCC1014_INT_EI2 else 0)"

lemma edge_latches: "lines_latched (edge_detect_il g)"
  by (simp add: lines_latched_def edge_detect_il_def Let_def set_interrupt_lines)

lemma edge_stays:
  assumes "lines_latched g"
  shows "edge_detect_il g = g"
proof -
  have n: "\<not> (g_IL2 g \<and> g_IL2_state g = 0)" "\<not> (g_IL1 g \<and> g_IL1_state g = 0)" "\<not> (g_IL0 g \<and> g_IL0_state g = 0)"
    using assms by (auto simp: lines_latched_def TCC1014_INT_EI0_def TCC1014_INT_EI1_def TCC1014_INT_EI2_def)
  have s: "g\<lparr>g_IL2_state := g_IL2_state g\<rparr> = g" "g\<lparr>g_IL1_state := g_IL1_state g\<rparr> = g" "g\<lparr>g_IL0_state := g_IL0_state g\<rparr> = g"
    by simp_all
  show ?thesis
    using n s assms unfolding edge_detect_il_def Let_def lines_latched_def by (simp only: if_False)
qed

text \<open>The inputs that rose since they were last sampled.\<close>

definition lines_risen :: "tcc1014 \<Rightarrow> u8" where
  "lines_risen g =
     (if g_IL2 g \<and> g_IL2_state g = 0 then TCC1014_INT_EI2 else 0) OR
     (if g_IL1 g \<and> g_IL1_state g = 0 then TCC1014_INT_EI1 else 0) OR
     (if g_IL0 g \<and> g_IL0_state g = 0 then TCC1014_INT_EI0 else 0)"

lemma set_interrupt_state:
  "g_irq_state (set_interrupt f g) = g_irq_state g OR (f AND g_registers g 2)"
  "g_firq_state (set_interrupt f g) = g_firq_state g OR (f AND g_registers g 3)"
  "g_registers (set_interrupt f g) = g_registers g"
  by (simp_all add: set_interrupt_def Let_def)

lemma edge_state:
  "g_irq_state (edge_detect_il g) = g_irq_state g OR (lines_risen g AND g_registers g 2)"
  "g_firq_state (edge_detect_il g) = g_firq_state g OR (lines_risen g AND g_registers g 3)"
  by (simp_all add: edge_detect_il_def Let_def lines_risen_def set_interrupt_state set_interrupt_lines
      bit.conj_disj_distrib2 or.assoc)

lemma edge_ack:
  "edge_detect_il ((edge_detect_il g)\<lparr>g_irq_state := v, g_IRQ := b\<rparr>) = (edge_detect_il g)\<lparr>g_irq_state := v, g_IRQ := b\<rparr>"
  "edge_detect_il ((edge_detect_il g)\<lparr>g_firq_state := v, g_FIRQ := b\<rparr>) = (edge_detect_il g)\<lparr>g_firq_state := v, g_FIRQ := b\<rparr>"
  using edge_latches [of g] by (intro edge_stays; simp add: lines_latched_def)+

text \<open>
  C37: Acknowledging interrupts. A read of register 2 (IRQ) or 3 (FIRQ) returns the pending sources
  together with the enabled external inputs that rose since the last access, and clears them and the
  output; a second read with the inputs unchanged returns no source at all, so an input that stays
  high is delivered once. The direct path returns what the bus cycle at $FF92 or $FF93 returns, and
  leaves the same pending sources.
\<close>
theorem gime_acknowledge:
  "fst (tcc1014_read_register 2 g) = g_irq_state g OR (lines_risen g AND g_registers g 2) \<and>
   fst (tcc1014_read_register 3 g) = g_firq_state g OR (lines_risen g AND g_registers g 3) \<and>
   fst (tcc1014_read_register 2 (snd (tcc1014_read_register 2 g))) = 0 \<and>
   fst (tcc1014_read_register 3 (snd (tcc1014_read_register 3 g))) = 0 \<and>
   \<not> g_IRQ (snd (tcc1014_read_register 2 g)) \<and> \<not> g_FIRQ (snd (tcc1014_read_register 3 g)) \<and>
   (let (d, r, h) = tcc1014_mem_cycle 0xFF92 True w g
    in d = Some (fst (tcc1014_read_register 2 g)) \<and> r \<and>
       h = (snd (tcc1014_read_register 2 g))\<lparr>g_S := 7, g_RAS := False\<rparr>) \<and>
   (let (d, r, h) = tcc1014_mem_cycle 0xFF93 True w g
    in d = Some (fst (tcc1014_read_register 3 g)) \<and> r \<and>
       h = (snd (tcc1014_read_register 3 g))\<lparr>g_S := 7, g_RAS := False\<rparr>)"
  by (intro conjI) (simp_all add: tcc1014_read_register_def tcc1014_mem_cycle_def Let_def edge_state edge_ack)

end
