(* ===== verification/Gime_Render.thy ===== *)
theory Gime_Render
  imports Gime_Proofs
begin

text \<open>
  Scanline rendering of the GIME (\<open>src/src/core/tcc1014.cpp\<close>, from \<open>fetch_byte_vram\<close> to
  \<open>tcc1014_render_scanline\<close>): the legacy renderer, which the source keeps as its reference, and the
  per-mode renderers with the line skip that replace it. A destination pointer is the list of pixels
  written so far; a source pointer is the function from an offset to the byte there; the pixel type
  \<open>P\<close> of the templates is a type variable, and the template argument \<open>RES\<close> is an argument. RAM is a
  function of the offset. The font mirror in DRAM is \<open>font_gime\<close>.
\<close>

section \<open>The legacy renderer\<close>

datatype tcc1014_render_mode = RENDER_SG | RENDER_CG | RENDER_RG | RENDER_RG2

definition TCC1014_GREEN :: nat where "TCC1014_GREEN = 0"
definition TCC1014_WHITE :: nat where "TCC1014_WHITE = 4"
definition TCC1014_RGCSS0_0 :: nat where "TCC1014_RGCSS0_0 = 8"
definition TCC1014_RGCSS0_1 :: nat where "TCC1014_RGCSS0_1 = 9"
definition TCC1014_RGCSS1_0 :: nat where "TCC1014_RGCSS1_0 = 10"
definition TCC1014_RGCSS1_1 :: nat where "TCC1014_RGCSS1_1 = 11"
definition TCC1014_DARK_GREEN :: nat where "TCC1014_DARK_GREEN = 12"
definition TCC1014_BRIGHT_GREEN :: nat where "TCC1014_BRIGHT_GREEN = 13"
definition TCC1014_DARK_ORANGE :: nat where "TCC1014_DARK_ORANGE = 14"
definition TCC1014_BRIGHT_ORANGE :: nat where "TCC1014_BRIGHT_ORANGE = 15"

definition LPR_underline_row :: "int list" where
  "LPR_underline_row = [-1, -1, -1, 7, 8, 8, 9, -1]"

definition fetch_byte_vram :: "(nat \<Rightarrow> u8) \<Rightarrow> tcc1014 \<Rightarrow> u8 \<times> tcc1014" where
  "fetch_byte_vram ram g =
     (if g_have_vdata_cache g then (g_vdata_cache g, g\<lparr>g_have_vdata_cache := False\<rparr>)
      else
        let addr = (g_B g + (of_nat (g_Xoff g) AND 0xFF)) AND g_vram_mask g
        in (ram (unat (g_vram_base g + addr)),
            g\<lparr>g_vdata_cache := ram (unat (g_vram_base g + ((addr + 1) AND g_vram_mask g))),
              g_have_vdata_cache := True, g_Xoff := g_Xoff g + 2\<rparr>))"

text \<open>
  The colour registers a byte selects: render mode, pattern, foreground, background and the base of
  the colour graphics set. Locals the code leaves uninitialised and does not read are 0.
\<close>

type_synonym gime_cell = "tcc1014_render_mode \<times> u8 \<times> nat \<times> nat \<times> nat"

definition legacy_coco_cell :: "u8 \<Rightarrow> tcc1014 \<Rightarrow> gime_cell" where
  "legacy_coco_cell vdata g =
     (let font_row = g_row g AND 0x0F in
      if g_GnA g then
        (if g_GM0 g then
           if g_resolution g \<noteq> 0 \<or> g_shadow_pdr g AND 0x70 = 0x70 then RENDER_RG else RENDER_RG2
         else RENDER_CG,
         vdata,
         if g_CSS g then TCC1014_RGCSS1_1 else TCC1014_RGCSS0_1,
         if g_CSS g then TCC1014_RGCSS1_0 else TCC1014_RGCSS0_0,
         if \<not> g_CSS g then TCC1014_GREEN else TCC1014_WHITE)
      else if tst vdata 0x80 then
        (RENDER_SG, if font_row < 6 then drop_bit 2 vdata else vdata,
         unat (drop_bit 4 vdata AND 7), TCC1014_RGCSS0_0, 0)
      else
        let INV = (tst vdata 0x40 \<noteq> g_GM1 g);
            c = vdata AND 0x7F;
            (c, INV) = (if c < 0x20 then (c OR (if g_GM0 g then 0x60 else 0x40), INV \<noteq> g_GM0 g)
                        else if c \<ge> 0x60 then (c XOR 0x40, INV) else (c, INV));
            gdata = font_gime ! (unat c * 12 + font_row)
        in (RENDER_RG, if INV \<noteq> g_inverted_text g then NOT gdata else gdata,
            if g_CSS g then TCC1014_BRIGHT_ORANGE else TCC1014_BRIGHT_GREEN,
            if g_CSS g then TCC1014_DARK_ORANGE else TCC1014_DARK_GREEN, 0))"

definition legacy_text_row :: "tcc1014 \<Rightarrow> nat" where
  "legacy_text_row g = (let font_row = (g_row g + 1) AND 0x0F in if font_row > 11 then 0 else font_row)"

definition legacy_decode :: "(nat \<Rightarrow> u8) \<Rightarrow> tcc1014 \<Rightarrow> gime_cell \<times> tcc1014" where
  "legacy_decode ram g =
     (let (vdata, g) = fetch_byte_vram ram g in
      if g_COCO g then (legacy_coco_cell vdata g, g)
      else if g_BP g then
        ((RENDER_RG, vdata, 0, 0, 0),
         if g_HRES g = 0 \<and> g_CRES g \<ge> 2 then g\<lparr>g_vdata_cache := 0\<rparr> else g)
      else
        let c = vdata AND 0x7F; gdata = font_gime ! (unat c * 12 + legacy_text_row g) in
        if odd (g_CRES g) then
          let (attr, g) = fetch_byte_vram ram g;
              bg_colour = unat (attr AND 7);
              fg_colour = 8 OR unat (drop_bit 3 attr AND 7);
              fg_colour = (if tst attr 0x80 \<and> g_blink g then bg_colour else fg_colour);
              gdata = (if tst attr 0x40 \<and> int (g_row g) = LPR_underline_row ! g_LPR g then 0xFF else gdata)
          in ((RENDER_RG, gdata, fg_colour, bg_colour, 0), g)
        else ((RENDER_RG, gdata, 1, 0, 0), g))"

text \<open>Four colours of one nibble, and the pattern shifted for the next.\<close>

definition legacy_nibble :: "tcc1014 \<Rightarrow> (nat \<Rightarrow> 'p) \<Rightarrow> gime_cell \<Rightarrow> ('p \<times> 'p \<times> 'p \<times> 'p) \<times> u8" where
  "legacy_nibble g pal cell =
     (let (md, gdata, fg, bg, cg) = cell;
          two = (\<lambda>m. pal (if tst gdata m then fg else bg));
          rg = (two 0x80, two 0x40, two 0x20, two 0x10)
      in if g_COCO g then
           (case md of
              RENDER_SG \<Rightarrow> ((two 0x02, two 0x02, two 0x02, two 0x02), push_bit 1 gdata)
            | RENDER_CG \<Rightarrow>
                (let a = pal (cg + unat (drop_bit 6 gdata AND 3)); b = pal (cg + unat (drop_bit 4 gdata AND 3))
                 in ((a, a, b, b), push_bit 4 gdata))
            | RENDER_RG \<Rightarrow> (rg, push_bit 4 gdata)
            | RENDER_RG2 \<Rightarrow> ((two 0x40, two 0x40, two 0x10, two 0x10), push_bit 4 gdata))
         else if g_BP g then
           (if g_CRES g = 1 then
              let a = pal (unat (drop_bit 6 gdata AND 3)); b = pal (unat (drop_bit 4 gdata AND 3))
              in ((a, a, b, b), push_bit 4 gdata)
            else if g_CRES g = 2 \<or> g_CRES g = 3 then
              let a = pal (unat (drop_bit 4 gdata AND 15)) in ((a, a, a, a), push_bit 4 gdata)
            else
              let p = (\<lambda>s. pal (unat (drop_bit s gdata AND 1))) in ((p 7, p 6, p 5, p 4), push_bit 4 gdata))
         else (rg, push_bit 4 gdata))"

definition legacy_expand :: "nat \<Rightarrow> 'p \<times> 'p \<times> 'p \<times> 'p \<Rightarrow> 'p list" where
  "legacy_expand resolution cs =
     (let (c0, c1, c2, c3) = cs in
      if resolution = 0 then [c0, c0, c0, c0, c1, c1, c1, c1, c2, c2, c2, c2, c3, c3, c3, c3]
      else if resolution = 1 then [c0, c0, c1, c1, c2, c2, c3, c3]
      else if resolution = 2 then [c0, c1, c2, c3]
      else if resolution = 3 then [c0, c2]
      else [])"

text \<open>The byte loop; the second component of the result is the state, the first the pixels.\<close>

primrec legacy_loop :: "(nat \<Rightarrow> u8) \<Rightarrow> (nat \<Rightarrow> 'p) \<Rightarrow> nat \<Rightarrow> 'p list \<times> tcc1014 \<Rightarrow> 'p list \<times> tcc1014" where
  "legacy_loop ram pal 0 s = s"
| "legacy_loop ram pal (Suc k) s =
     (let (pixels, g) = s;
          ((md, gdata, fg, bg, cg), g) = legacy_decode ram g;
          (cs, gdata) = legacy_nibble g pal (md, gdata, fg, bg, cg);
          pixels = pixels @ legacy_expand (g_resolution g) cs
      in if length pixels \<ge> 640 then (pixels, g)
         else
           let (cs, gdata) = legacy_nibble g pal (md, gdata, fg, bg, cg);
               pixels = pixels @ legacy_expand (g_resolution g) cs
           in if length pixels \<ge> 640 then (pixels, g) else legacy_loop ram pal k (pixels, g))"

definition legacy_line :: "(nat \<Rightarrow> u8) \<Rightarrow> (nat \<Rightarrow> 'p) \<Rightarrow> tcc1014 \<Rightarrow> 'p list \<times> tcc1014" where
  "legacy_line ram pal g =
     (let g = g\<lparr>g_Xoff := (if g_COCO g then 0 else g_X g), g_have_vdata_cache := False\<rparr>
      in legacy_loop ram pal (g_BPR g) ([], g))"

definition tcc1014_render_scanline_legacy :: "(nat \<Rightarrow> u8) \<Rightarrow> tcc1014 \<Rightarrow> tcc1014" where
  "tcc1014_render_scanline_legacy ram g =
     (if \<not> g_active_area g \<or> \<not> g_ram g then g
      else
        let (pixels, g) = legacy_line ram (g_palette_rgb565 g) g
        in g\<lparr>g_line := Rgb565 pixels, g_line_width := (if length pixels \<le> 640 then length pixels else 640)\<rparr>)"

section \<open>The per-mode renderers\<close>

definition fetch_line_bytes :: "(nat \<Rightarrow> u8) \<Rightarrow> tcc1014 \<Rightarrow> nat \<Rightarrow> nat \<Rightarrow> u8" where
  "fetch_line_bytes ram g n =
     (let x = (if g_COCO g then 0 else g_X g);
          a = (g_B g + of_nat x) AND g_vram_mask g
      in if x + n \<le> 256 \<and> a + of_nat n \<le> g_vram_mask g + 1
         then (\<lambda>k. ram (unat (g_vram_base g) + unat a + k))
         else (\<lambda>k. ram (unat (g_vram_base g) + unat ((g_B g + (of_nat (x + k) AND 0xFF)) AND g_vram_mask g))))"

definition emit4 :: "nat \<Rightarrow> 'p \<Rightarrow> 'p \<Rightarrow> 'p \<Rightarrow> 'p \<Rightarrow> 'p list" where
  "emit4 res c0 c1 c2 c3 =
     (if res = 0 then [c0, c0, c0, c0, c1, c1, c1, c1, c2, c2, c2, c2, c3, c3, c3, c3]
      else if res = 1 then [c0, c0, c1, c1, c2, c2, c3, c3]
      else if res = 2 then [c0, c1, c2, c3]
      else [c0, c2])"

definition emit_bits8 :: "nat \<Rightarrow> u8 \<Rightarrow> 'p \<Rightarrow> 'p \<Rightarrow> 'p list" where
  "emit_bits8 res g fg bg =
     (let b = (\<lambda>m. if tst g m then fg else bg)
      in emit4 res (b 0x80) (b 0x40) (b 0x20) (b 0x10) @ emit4 res (b 0x08) (b 0x04) (b 0x02) (b 0x01))"

definition native_gfx_byte :: "nat \<Rightarrow> nat \<Rightarrow> (nat \<Rightarrow> 'p) \<Rightarrow> u8 \<Rightarrow> 'p list" where
  "native_gfx_byte cres res pal v =
     (if cres = 0 then
        let p = (\<lambda>s. pal (unat (drop_bit s v AND 1)))
        in emit4 res (p 7) (p 6) (p 5) (p 4) @ emit4 res (p 3) (p 2) (p 1) (p 0)
      else if cres = 1 then
        let p = (\<lambda>s. pal (unat (drop_bit s v AND 3))); a = p 6; b = p 4; c = p 2; e = p 0
        in emit4 res a a b b @ emit4 res c c e e
      else
        let a = pal (unat (drop_bit 4 v)); b = pal (unat (v AND 15))
        in emit4 res a a a a @ emit4 res b b b b)"

definition render_native_gfx :: "nat \<Rightarrow> nat \<Rightarrow> (nat \<Rightarrow> u8) \<Rightarrow> nat \<Rightarrow> (nat \<Rightarrow> 'p) \<Rightarrow> 'p list" where
  "render_native_gfx cres res src n pal = concat (map (\<lambda>k. native_gfx_byte cres res pal (src k)) [0..<n])"

definition render_native_text :: "bool \<Rightarrow> nat \<Rightarrow> tcc1014 \<Rightarrow> (nat \<Rightarrow> u8) \<Rightarrow> nat \<Rightarrow> (nat \<Rightarrow> 'p) \<Rightarrow> 'p list" where
  "render_native_text ATTR res g src n pal =
     (let font_row = (g_row g + 1) AND 0x0F;
          font_row = (if font_row > 11 then 0 else font_row);
          underline = (int (g_row g) = LPR_underline_row ! g_LPR g)
      in concat (map (\<lambda>k.
           if ATTR then
             let gdata = font_gime ! (font_row + unat (src (2 * k) AND 0x7F) * 12);
                 attr = src (2 * k + 1);
                 fg = 8 OR unat (drop_bit 3 attr AND 7);
                 bg = unat (attr AND 7);
                 fg = (if tst attr 0x80 \<and> g_blink g then bg else fg);
                 gdata = (if tst attr 0x40 \<and> underline then 0xFF else gdata)
             in emit_bits8 res gdata (pal fg) (pal bg)
           else emit_bits8 res (font_gime ! (font_row + unat (src k AND 0x7F) * 12)) (pal 1) (pal 0)) [0..<n]))"

definition render_coco_cg :: "nat \<Rightarrow> tcc1014 \<Rightarrow> (nat \<Rightarrow> u8) \<Rightarrow> nat \<Rightarrow> (nat \<Rightarrow> 'p) \<Rightarrow> 'p list" where
  "render_coco_cg res g src n pal =
     (let cg = (\<lambda>i. pal ((if g_CSS g then TCC1014_WHITE else TCC1014_GREEN) + i))
      in concat (map (\<lambda>k.
           let v = src k; p = (\<lambda>s. cg (unat (drop_bit s v AND 3))); a = p 6; b = p 4; c = p 2; e = p 0
           in emit4 res a a b b @ emit4 res c c e e) [0..<n]))"

definition render_coco_rg :: "nat \<Rightarrow> tcc1014 \<Rightarrow> (nat \<Rightarrow> u8) \<Rightarrow> nat \<Rightarrow> (nat \<Rightarrow> 'p) \<Rightarrow> 'p list" where
  "render_coco_rg res g src n pal =
     (let fg = pal (if g_CSS g then TCC1014_RGCSS1_1 else TCC1014_RGCSS0_1);
          bg = pal (if g_CSS g then TCC1014_RGCSS1_0 else TCC1014_RGCSS0_0)
      in concat (map (\<lambda>k. emit_bits8 res (src k) fg bg) [0..<n]))"

definition render_coco_rg2 :: "nat \<Rightarrow> tcc1014 \<Rightarrow> (nat \<Rightarrow> u8) \<Rightarrow> nat \<Rightarrow> (nat \<Rightarrow> 'p) \<Rightarrow> 'p list" where
  "render_coco_rg2 res g src n pal =
     (let fg = pal (if g_CSS g then TCC1014_RGCSS1_1 else TCC1014_RGCSS0_1);
          bg = pal (if g_CSS g then TCC1014_RGCSS1_0 else TCC1014_RGCSS0_0)
      in concat (map (\<lambda>k.
           let v = src k; p = (\<lambda>m. if tst v m then fg else bg); a = p 0x40; b = p 0x10; c = p 0x04; e = p 0x01
           in emit4 res a a b b @ emit4 res c c e e) [0..<n]))"

definition coco_text_byte :: "nat \<Rightarrow> tcc1014 \<Rightarrow> (nat \<Rightarrow> 'p) \<Rightarrow> u8 \<Rightarrow> 'p list" where
  "coco_text_byte res g pal v =
     (let font_row = g_row g AND 0x0F;
          inv_base = (g_GM1 g \<noteq> g_inverted_text g);
          fg = pal (if g_CSS g then TCC1014_BRIGHT_ORANGE else TCC1014_BRIGHT_GREEN);
          bg = pal (if g_CSS g then TCC1014_DARK_ORANGE else TCC1014_DARK_GREEN);
          sg_bg = pal TCC1014_RGCSS0_0
      in if tst v 0x80 then
           let gd = (if font_row < 6 then drop_bit 2 v else v);
               sfg = pal (unat (drop_bit 4 v AND 7));
               a = (if tst gd 0x02 then sfg else sg_bg);
               b = (if tst gd 0x01 then sfg else sg_bg)
           in emit4 res a a a a @ emit4 res b b b b
         else
           let inv = tst v 0x40;
               c = v AND 0x7F;
               (c, inv) = (if c < 0x20 then (c OR (if g_GM0 g then 0x60 else 0x40), inv \<noteq> g_GM0 g)
                           else if c \<ge> 0x60 then (c XOR 0x40, inv) else (c, inv));
               gd = font_gime ! (font_row + unat c * 12);
               gd = (if inv \<noteq> inv_base then NOT gd else gd)
           in emit_bits8 res gd fg bg)"

definition render_coco_text :: "nat \<Rightarrow> tcc1014 \<Rightarrow> (nat \<Rightarrow> u8) \<Rightarrow> nat \<Rightarrow> (nat \<Rightarrow> 'p) \<Rightarrow> 'p list" where
  "render_coco_text res g src n pal = concat (map (\<lambda>k. coco_text_byte res g pal (src k)) [0..<n])"

section \<open>Artifact colours\<close>

definition artifact_line :: "tcc1014 \<Rightarrow> bool" where
  "artifact_line g \<longleftrightarrow>
     s_artifacts g \<noteq> 0 \<and> g_COCO g \<and> g_GnA g \<and> g_GM0 g \<and> g_resolution g AND 3 = 1 \<and>
     g_shadow_pdr g AND 0x70 = 0x70"

definition artifact_key :: "u8 \<Rightarrow> u8 \<Rightarrow> u8 \<Rightarrow> u8 \<Rightarrow> u32" where
  "artifact_key md monitor c0 c1 =
     push_bit 24 (ucast md) OR push_bit 16 (ucast monitor) OR push_bit 8 (ucast c0) OR ucast c1"

definition artifact_colours :: "tcc1014 \<Rightarrow> u8 list \<times> u8 \<times> tcc1014" where
  "artifact_colours g =
     (let c0 = g_palette_reg g (if g_CSS g then TCC1014_RGCSS1_0 else TCC1014_RGCSS0_0) AND 0x3F;
          c1 = g_palette_reg g (if g_CSS g then TCC1014_RGCSS1_1 else TCC1014_RGCSS0_1) AND 0x3F;
          key = artifact_key (s_artifacts g) (s_monitor g) c0 c1;
          g = (if key \<noteq> s_art_key g
               then g\<lparr>s_art_colours := gime_artifact_mix (s_artifacts g) (s_monitor g) c0 c1, s_art_key := key\<rparr>
               else g)
      in (s_art_colours g, c1, g))"

definition display_rgb565_swapped :: "u8 \<Rightarrow> u16" where
  "display_rgb565_swapped c =
     (let rgb = gime_colour_rgb c;
          v = (ucast (push_bit 8 (drop_bit 16 rgb AND 0xF8) OR push_bit 3 (drop_bit 8 rgb AND 0xFC) OR
                      drop_bit 3 (rgb AND 0xFF)) :: u16)
      in swap16 v)"

section \<open>One line\<close>

definition render_line ::
  "tcc1014 \<Rightarrow> (nat \<Rightarrow> u8) \<Rightarrow> (nat \<Rightarrow> 'p) \<Rightarrow> nat \<Rightarrow> (u8 \<Rightarrow> 'p) \<Rightarrow> 'p list \<times> tcc1014" where
  "render_line g src pal n to_pixel =
     (let res = g_resolution g AND 3 in
      if g_COCO g then
        if g_GnA g then
          if \<not> g_GM0 g then (render_coco_cg res g src n pal, g)
          else if artifact_line g then
            let (cols, c1, g) = artifact_colours g
            in (gime_artifact_line src n (\<lambda>i. to_pixel (cols ! i)) (g_border_colour g AND 0x3F = c1), g)
          else if g_resolution g \<noteq> 0 \<or> g_shadow_pdr g AND 0x70 = 0x70 then (render_coco_rg res g src n pal, g)
          else (render_coco_rg2 res g src n pal, g)
        else (render_coco_text res g src n pal, g)
      else if g_BP g then
        let src = (if g_HRES g = 0 \<and> g_CRES g \<ge> 2 then (\<lambda>k. if odd k then 0 else src k) else src)
        in (render_native_gfx (if g_CRES g = 0 then 0 else if g_CRES g = 1 then 1 else 2) res src n pal, g)
      else (render_native_text (odd (g_CRES g)) res g src n pal, g))"

section \<open>Dirty-line skip\<close>

definition GIME_MAX_LINES :: nat where "GIME_MAX_LINES = 225"

definition rotl32 :: "u32 \<Rightarrow> nat \<Rightarrow> u32" where
  "rotl32 v r = push_bit r v OR drop_bit (32 - r) v"

definition SIG_MIX :: "u32 \<Rightarrow> u32 \<times> u32 \<Rightarrow> u32 \<times> u32" where
  "SIG_MIX w h = (case h of (h1, h2) \<Rightarrow> (rotl32 (h1 XOR w) 5 * 0x9E3779B1, rotl32 (h2 + w) 11 * 0xC2B2AE35))"

definition bit_at :: "bool \<Rightarrow> nat \<Rightarrow> u32" where
  "bit_at b i = push_bit i (of_bool b)"

definition sig_mode :: "tcc1014 \<Rightarrow> bool \<Rightarrow> u32" where
  "sig_mode g attr =
     of_bool (g_COCO g) OR bit_at (g_BP g) 1 OR push_bit 2 (of_nat (g_CRES g AND 3)) OR
     push_bit 4 (of_nat (g_HRES g AND 7)) OR push_bit 7 (of_nat (g_resolution g AND 3)) OR
     bit_at (g_GnA g) 9 OR bit_at (g_GM1 g) 10 OR bit_at (g_GM0 g) 11 OR bit_at (g_CSS g) 12 OR
     bit_at (g_inverted_text g) 13 OR bit_at (attr \<and> g_blink g) 14 OR
     bit_at (g_shadow_pdr g AND 0x70 = 0x70) 15 OR push_bit 16 (of_nat (g_row g AND 15)) OR
     push_bit 20 (of_nat (g_rowmask g AND 31)) OR push_bit 25 (ucast (g_border_colour g AND 0x3F)) OR
     bit_at (s_artifacts g \<noteq> 0) 31"

text \<open>Four bytes as one little-endian word, which is what both loads of the code give.\<close>

definition word_of4 :: "(nat \<Rightarrow> u8) \<Rightarrow> nat \<Rightarrow> u32" where
  "word_of4 p k =
     ucast (p k) OR push_bit 8 (ucast (p (k + 1))) OR push_bit 16 (ucast (p (k + 2))) OR
     push_bit 24 (ucast (p (k + 3)))"

text \<open>The words mixed into a signature, in order.\<close>

definition sig_words :: "tcc1014 \<Rightarrow> (nat \<Rightarrow> u8) \<Rightarrow> nat \<Rightarrow> nat \<Rightarrow> bool \<Rightarrow> u32 list" where
  "sig_words g src nbytes n attr =
     [sig_mode g attr, of_nat n OR push_bit 8 (g_lAA g) OR push_bit 24 (ucast (s_artifacts g))] @
     map (\<lambda>k. word_of4 (g_palette_reg g) (4 * k)) [0..<4] @
     map (\<lambda>k. word_of4 src (4 * k)) [0..<(nbytes + 3) div 4]"

definition line_signature :: "tcc1014 \<Rightarrow> (nat \<Rightarrow> u8) \<Rightarrow> nat \<Rightarrow> nat \<Rightarrow> bool \<Rightarrow> 64 word" where
  "line_signature g src nbytes n attr =
     (let (h1, h2) = fold SIG_MIX (sig_words g src nbytes n attr) (0x811C9DC5, 0x01000193);
          h1 = h1 XOR drop_bit 15 h1;
          h2 = h2 XOR drop_bit 13 h2;
          sig = push_bit 32 (ucast h1) OR ucast h2
      in if sig \<noteq> 0 then sig else 1)"

definition line_bytes :: "tcc1014 \<Rightarrow> nat" where
  "line_bytes g = (let max_n = 640 div (drop_bit (g_resolution g AND 3) 32) in if g_BPR g > max_n then max_n else g_BPR g)"

definition draw_line :: "tcc1014 \<Rightarrow> (nat \<Rightarrow> u8) \<Rightarrow> nat \<Rightarrow> tcc1014" where
  "draw_line g src n =
     (case (g_raw_output g, s_raw_lut g) of
        (True, Some lut) \<Rightarrow>
          let pal8 = (\<lambda>i. lut (unat (g_palette_reg g i AND 0x3F)));
              (px, g) = render_line g src pal8 n (\<lambda>c. s_direct_raw_lut g (unat c))
          in g\<lparr>g_line := Raw8 px\<rparr>
      | _ \<Rightarrow>
          let g = g\<lparr>g_raw_output := False\<rparr>;
              g = g\<lparr>g_palette_rgb565 := (\<lambda>i. if i < 16
                     then swap16 (s_rgb565_lut g (unat (g_palette_reg g i AND 0x3F))) else g_palette_rgb565 g i)\<rparr>;
              (px, g) = render_line g src (g_palette_rgb565 g) n display_rgb565_swapped
          in g\<lparr>g_line := Rgb565 px\<rparr>)"

definition tcc1014_render_scanline :: "(nat \<Rightarrow> u8) \<Rightarrow> nat \<Rightarrow> tcc1014 \<Rightarrow> tcc1014" where
  "tcc1014_render_scanline ram scanline g =
     (if \<not> g_active_area g \<or> \<not> g_ram g then g
      else
        let g = g\<lparr>g_line_clean := False\<rparr>;
            n = line_bytes g;
            attr = (\<not> g_COCO g \<and> \<not> g_BP g \<and> odd (g_CRES g));
            nbytes = (if attr then 2 * n else n);
            src = fetch_line_bytes ram g nbytes;
            g = g\<lparr>g_line_width := n * drop_bit (g_resolution g AND 3) 32\<rparr>
        in if scanline < GIME_MAX_LINES then
             let sig = line_signature g src nbytes n attr in
             if g_raw_output g \<and> s_raw_lut g \<noteq> None \<and> sig = s_line_sig g scanline
             then g\<lparr>g_line_clean := True\<rparr>
             else draw_line (g\<lparr>s_line_sig := (s_line_sig g)(scanline := sig)\<rparr>) src n
           else draw_line g src n)"

end
