(* ===== verification/Gime_Reference.thy ===== *)
theory Gime_Reference
  imports Gime_Render
begin

text \<open>
  The per-mode scanline renderers of the GIME against the legacy renderer: pixels of one byte, the
  byte stream behind the two-byte fetch cache, the line loop with its stop at 640 pixels, and the
  public scanline function for both outputs.
\<close>

section \<open>Bits of a byte\<close>

lemma low_masks: "(1 :: u8) = mask 1" "(3 :: u8) = mask 2" "(15 :: u8) = mask 4"
  by (simp_all add: mask_eq_exp_minus_1)

lemma shift_bits:
  "drop_bit 7 (push_bit 4 v) AND 1 = drop_bit 3 v AND (1 :: u8)" "drop_bit 6 (push_bit 4 v) AND 1 = drop_bit 2 v AND (1 :: u8)"
  "drop_bit 5 (push_bit 4 v) AND 1 = drop_bit 1 v AND (1 :: u8)" "drop_bit 4 (push_bit 4 v) AND 1 = v AND (1 :: u8)"
  "drop_bit 6 (push_bit 4 v) AND 3 = drop_bit 2 v AND (3 :: u8)" "drop_bit 4 (push_bit 4 v) AND 3 = v AND (3 :: u8)"
  "drop_bit 4 (push_bit 4 v) = v AND (15 :: u8)" "drop_bit 4 v AND 15 = (drop_bit 4 v :: u8)"
  unfolding low_masks
  by (rule bit_word_eqI, auto simp: bit_simps dest: bit_imp_le_length)+

lemma shifted_tst:
  "tst (push_bit 4 v) 0x80 = tst v (0x08 :: u8)" "tst (push_bit 4 v) 0x40 = tst v (0x04 :: u8)"
  "tst (push_bit 4 v) 0x20 = tst v (0x02 :: u8)" "tst (push_bit 4 v) 0x10 = tst v (0x01 :: u8)"
  "tst (v * 2) 2 = tst v (1 :: u8)"
  by (simp_all add: tst_simps bit_simps mult.commute [of v])

section \<open>A byte's pixels\<close>

text \<open>Both nibbles of a cell as the legacy loop draws them.\<close>

definition cell_pixels :: "tcc1014 \<Rightarrow> (nat \<Rightarrow> 'p) \<Rightarrow> gime_cell \<Rightarrow> 'p list" where
  "cell_pixels g pal cell =
     (let (md, gdata, fg, bg, cg) = cell;
          (cs, gdata) = legacy_nibble g pal cell
      in legacy_expand (g_resolution g) cs @
         legacy_expand (g_resolution g) (fst (legacy_nibble g pal (md, gdata, fg, bg, cg))))"

lemma expand_emit4: "r < 4 \<Longrightarrow> legacy_expand r (a, b, c, d) = emit4 r a b c d"
  by (auto simp: legacy_expand_def emit4_def)

lemma expand_length: "r < 4 \<Longrightarrow> length (legacy_expand r cs) = 16 div 2 ^ r"
proof -
  assume "r < 4"
  then consider "r = 0" | "r = 1" | "r = 2" | "r = 3" by linarith
  then show ?thesis by cases (simp_all add: legacy_expand_def split: prod.splits)
qed

lemma cell_pixels_length: "g_resolution g < 4 \<Longrightarrow> length (cell_pixels g pal cell) = 2 * (16 div 2 ^ g_resolution g)"
  by (simp add: cell_pixels_def expand_length split: prod.splits)

lemma bits_cell:
  assumes "g_resolution g < 4" and "\<not> g_COCO g \<longrightarrow> \<not> g_BP g"
  shows "cell_pixels g pal (RENDER_RG, v, fg, bg, cg) = emit_bits8 (g_resolution g) v (pal fg) (pal bg)"
  using assms by (simp add: cell_pixels_def legacy_nibble_def Let_def expand_emit4 emit_bits8_def shifted_tst if_distrib [of pal])

lemma rg2_cell:
  assumes "g_resolution g < 4" and "g_COCO g"
  shows "cell_pixels g pal (RENDER_RG2, v, fg, bg, cg) =
    (let p = (\<lambda>m. if tst v m then pal fg else pal bg)
     in emit4 (g_resolution g) (p 0x40) (p 0x40) (p 0x10) (p 0x10) @ emit4 (g_resolution g) (p 0x04) (p 0x04) (p 0x01) (p 0x01))"
  using assms by (simp add: cell_pixels_def legacy_nibble_def Let_def expand_emit4 shifted_tst if_distrib [of pal])

lemma sg_cell:
  assumes "g_resolution g < 4" and "g_COCO g"
  shows "cell_pixels g pal (RENDER_SG, v, fg, bg, cg) =
    (let p = (\<lambda>m. if tst v m then pal fg else pal bg)
     in emit4 (g_resolution g) (p 0x02) (p 0x02) (p 0x02) (p 0x02) @ emit4 (g_resolution g) (p 0x01) (p 0x01) (p 0x01) (p 0x01))"
  using assms by (simp add: cell_pixels_def legacy_nibble_def Let_def expand_emit4 shifted_tst if_distrib [of pal])

lemma cg_cell:
  assumes "g_resolution g < 4" and "g_COCO g"
  shows "cell_pixels g pal (RENDER_CG, v, fg, bg, cg) =
    (let p = (\<lambda>s. pal (cg + unat (drop_bit s v AND 3)))
     in emit4 (g_resolution g) (p 6) (p 6) (p 4) (p 4) @ emit4 (g_resolution g) (p 2) (p 2) (p 0) (p 0))"
  using assms by (simp add: cell_pixels_def legacy_nibble_def Let_def expand_emit4 shift_bits and.assoc)

lemma gfx_cell:
  assumes "g_resolution g < 4" and "\<not> g_COCO g" and "g_BP g" and "g_CRES g < 4"
  shows "cell_pixels g pal (md, v, fg, bg, cg) =
    native_gfx_byte (if g_CRES g = 0 then 0 else if g_CRES g = 1 then 1 else 2) (g_resolution g) pal v"
proof -
  consider "g_CRES g = 0" | "g_CRES g = 1" | "g_CRES g = 2" | "g_CRES g = 3" using assms(4) by linarith
  then show ?thesis
    using assms by cases (simp_all add: cell_pixels_def legacy_nibble_def native_gfx_byte_def Let_def expand_emit4 shift_bits and.assoc)
qed

text \<open>The cell of a byte in VDG modes, and what the mode's renderer draws for it.\<close>

lemma coco_cell:
  assumes "g_resolution g < 4" and "g_COCO g"
  shows "cell_pixels g pal (legacy_coco_cell v g) =
    (let res = g_resolution g in
     if g_GnA g then
       if \<not> g_GM0 g then render_coco_cg res g (\<lambda>_. v) 1 pal
       else if g_resolution g \<noteq> 0 \<or> g_shadow_pdr g AND 0x70 = 0x70 then render_coco_rg res g (\<lambda>_. v) 1 pal
       else render_coco_rg2 res g (\<lambda>_. v) 1 pal
     else coco_text_byte res g pal v)"
proof (cases "g_GnA g")
  case True
  then show ?thesis
    using assms by (simp add: legacy_coco_cell_def Let_def bits_cell cg_cell rg2_cell render_coco_cg_def render_coco_rg_def
        render_coco_rg2_def)
next
  case False
  then show ?thesis
    using assms by (auto simp: legacy_coco_cell_def coco_text_byte_def Let_def bits_cell sg_cell add.commute
        split: prod.splits if_splits)
qed

section \<open>The byte stream\<close>

text \<open>Byte \<open>k\<close> of the line, addressed from its start.\<close>

definition line_src :: "(nat \<Rightarrow> u8) \<Rightarrow> tcc1014 \<Rightarrow> nat \<Rightarrow> u8" where
  "line_src ram g k =
     ram (unat (g_vram_base g) + unat ((g_B g + (of_nat ((if g_COCO g then 0 else g_X g) + k) AND 0xFF)) AND g_vram_mask g))"

definition vram_ok :: "tcc1014 \<Rightarrow> bool" where
  "vram_ok g \<longleftrightarrow> (\<exists>m\<le>19. g_vram_mask g = mask m) \<and> g_vram_base g < 0x200000"

lemma unat_mask: "unat ((a :: u32) AND mask m) = unat a mod 2 ^ m"
  unfolding take_bit_eq_mask [symmetric] unsigned_take_bit_eq by (simp add: take_bit_eq_mod)

lemma masked_small: assumes "m \<le> 19" shows "unat ((a :: u32) AND mask m) < 0x80000"
proof -
  have "unat (a AND mask m) < 2 ^ m" by (simp add: unat_mask)
  also have "(2 :: nat) ^ m \<le> 2 ^ 19" using assms by (intro power_increasing) simp_all
  finally show ?thesis by simp
qed

lemma base_sum:
  assumes "vram_ok g"
  shows "unat (g_vram_base g + (a AND g_vram_mask g)) = unat (g_vram_base g) + unat (a AND g_vram_mask g)"
proof -
  obtain m where "m \<le> 19" "g_vram_mask g = mask m" using assms by (auto simp: vram_ok_def)
  then have "unat (a AND g_vram_mask g) < 0x80000" using masked_small by simp
  moreover have "unat (g_vram_base g) < 0x200000" using assms by (simp add: vram_ok_def word_less_nat_alt)
  ultimately show ?thesis by (simp add: unat_word_ariths)
qed

lemma low_byte: "k < 256 \<Longrightarrow> of_nat k AND 0xFF = (of_nat k :: u32)"
proof -
  assume "k < 256"
  have "(0xFF :: u32) = mask 8" by (simp add: mask_eq_exp_minus_1)
  then have "unat (of_nat k AND 0xFF :: u32) = unat (of_nat k :: u32)" using \<open>k < 256\<close> by (simp only: unat_mask) (simp add: unat_of_nat)
  then show ?thesis by (simp only: word_unat_eq_iff)
qed

lemma fetch_line_stream:
  assumes v: "vram_ok g" and k: "k < n" and n: "n \<le> 256"
  shows "fetch_line_bytes ram g n k = line_src ram g k"
proof -
  obtain m where m: "m \<le> 19" "g_vram_mask g = mask m" using v by (auto simp: vram_ok_def)
  let ?x = "if g_COCO g then 0 else g_X g"
  let ?a = "(g_B g + of_nat ?x) AND mask m"
  have "unat ?a + k = unat ((g_B g + (of_nat (?x + k) AND 0xFF)) AND mask m)"
    if x: "?x + n \<le> 256" and a: "?a + of_nat n \<le> mask m + 1"
  proof -
    have p: "(2 :: nat) ^ m \<le> 2 ^ 19" using m(1) by (intro power_increasing) simp_all
    have s: "unat ?a < 0x80000" using masked_small m(1) by blast
    have mm: "mask m + 1 = (2 ^ m :: u32)" by (simp add: mask_eq_exp_minus_1)
    have "unat (?a + of_nat n) = unat ?a + n" using s n by (simp add: unat_word_ariths unat_of_nat)
    moreover have "unat (of_nat (2 ^ m) :: u32) = 2 ^ m" using p by (subst unat_of_nat) simp
    then have "unat (mask m + 1 :: u32) = 2 ^ m" unfolding mm by simp
    ultimately have le: "unat ?a + n \<le> 2 ^ m" using a by (simp add: word_le_nat_alt)
    have l: "of_nat (?x + k) AND 0xFF = (of_nat (?x + k) :: u32)" using x k by (intro low_byte) linarith
    have "unat ((g_B g + of_nat (?x + k)) AND mask m) = (unat (g_B g + of_nat ?x) + k) mod 2 ^ m"
    proof -
      have d: "(2 :: nat) ^ m dvd 2 ^ 32" using m(1) by (intro le_imp_power_dvd) simp
      have "g_B g + of_nat (?x + k) = (g_B g + of_nat ?x) + (of_nat k :: u32)" by (simp add: add.assoc)
      then have "unat (g_B g + of_nat (?x + k)) = (unat (g_B g + of_nat ?x) + k mod 2 ^ 32) mod 2 ^ 32"
        by (simp only: unat_word_ariths unat_of_nat) simp
      also have "\<dots> = (unat (g_B g + of_nat ?x) + k) mod 2 ^ 32" by (simp add: mod_simps)
      finally show ?thesis unfolding unat_mask using mod_mod_cancel [OF d] by simp
    qed
    also have "\<dots> = (unat ?a + k) mod 2 ^ m" by (simp add: unat_mask mod_simps)
    also have "\<dots> = unat ?a + k" using le k by simp
    finally show ?thesis unfolding l by simp
  qed
  then show ?thesis by (simp add: fetch_line_bytes_def line_src_def Let_def m(2) add.assoc)
qed


text \<open>The legacy fetch at position \<open>j\<close> of the stream; \<open>z\<close> when every second byte reads as zero.\<close>

definition line_x :: "tcc1014 \<Rightarrow> nat" where
  "line_x g = (if g_COCO g then 0 else g_X g)"

definition stream :: "tcc1014 \<Rightarrow> nat \<Rightarrow> u8 \<Rightarrow> tcc1014" where
  "stream g j c = g\<lparr>g_Xoff := line_x g + 2 * ((j + 1) div 2), g_have_vdata_cache := odd j, g_vdata_cache := c\<rparr>"

definition cache_ok :: "(nat \<Rightarrow> u8) \<Rightarrow> tcc1014 \<Rightarrow> bool \<Rightarrow> nat \<Rightarrow> u8 \<Rightarrow> bool" where
  "cache_ok ram g z j c \<longleftrightarrow> odd j \<longrightarrow> c = (if z then 0 else line_src ram g j)"

lemma next_byte:
  assumes "even n"
  shows "(of_nat (Suc n) AND 0xFF :: u32) = (of_nat n AND 0xFF) + 1"
proof -
  have m: "(0xFF :: u32) = mask 8" by (simp add: mask_eq_exp_minus_1)
  have a: "unat (of_nat i AND 0xFF :: u32) = i mod 256" for i
  proof -
    have "i mod 2 ^ 32 mod 2 ^ 8 = i mod 2 ^ 8" by (rule mod_mod_cancel) (rule le_imp_power_dvd, simp)
    then show ?thesis unfolding m unat_mask unat_of_nat by simp
  qed
  have "even (n mod 256)" using assms by (simp add: dvd_mod_iff)
  then have "n mod 256 \<noteq> 255" by (intro notI) simp
  then have "Suc n mod 256 = Suc (n mod 256)" "n mod 256 < 255" using mod_less_divisor [of 256 n] by (simp_all add: mod_Suc)
  then have "unat (of_nat (Suc n) AND 0xFF :: u32) = unat ((of_nat n AND 0xFF) + 1 :: u32)"
    unfolding a by (simp add: unat_word_ariths a)
  then show ?thesis by (simp only: word_unat_eq_iff)
qed

lemma masked_next:
  assumes "m \<le> 19"
  shows "((c AND mask m) + 1) AND mask m = (c + 1 :: u32) AND mask m"
proof -
  have "(2 :: nat) ^ m dvd 2 ^ 32" using assms by (intro le_imp_power_dvd) simp
  note d = mod_mod_cancel [OF this]
  have "unat (((c AND mask m) + 1) AND mask m) = unat ((c + 1) AND mask m)"
    unfolding unat_mask by (simp add: unat_word_ariths unat_mask d [simplified] mod_simps)
  then show ?thesis by (simp only: word_unat_eq_iff)
qed

lemma fetch_even:
  assumes j: "even j" and v: "vram_ok g" and x: "even (line_x g)"
  shows "fetch_byte_vram ram (stream g j c) = (line_src ram g j, stream g (Suc j) (line_src ram g (Suc j)))"
proof -
  obtain m where m: "m \<le> 19" "g_vram_mask g = mask m" using v by (auto simp: vram_ok_def)
  have d: "2 * ((j + 1) div 2) = j" "2 * ((Suc j + 1) div 2) = j + 2" using j by auto
  let ?a = "(g_B g + (of_nat (line_x g + j) AND 0xFF)) AND g_vram_mask g"
  have n: "(?a + 1) AND g_vram_mask g = (g_B g + (of_nat (line_x g + Suc j) AND 0xFF)) AND g_vram_mask g"
    using next_byte [of "line_x g + j"] x j unfolding m(2) masked_next [OF m(1)] by (simp add: add.assoc)
  have "line_src ram g j = ram (unat (g_vram_base g + ?a))"
    "line_src ram g (Suc j) = ram (unat (g_vram_base g + ((?a + 1) AND g_vram_mask g)))"
    unfolding n by (simp_all only: base_sum [OF v] line_src_def line_x_def)
  then show ?thesis using j d by (simp add: fetch_byte_vram_def stream_def Let_def)
qed

lemma fetch_odd: "odd j \<Longrightarrow> fetch_byte_vram ram (stream g j c) = (c, stream g (Suc j) c)"
proof -
  assume j: "odd j"
  then have "(Suc j + 1) div 2 = (j + 1) div 2" by (auto elim!: oddE)
  with j show ?thesis by (simp add: fetch_byte_vram_def stream_def)
qed

lemma zero_cache: "(stream g j c)\<lparr>g_vdata_cache := d\<rparr> = stream g j d"
  by (simp add: stream_def)

text \<open>What byte or bytes \<open>k\<close> of the line decode to.\<close>

definition zeroed :: "tcc1014 \<Rightarrow> bool" where
  "zeroed g \<longleftrightarrow> \<not> g_COCO g \<and> g_BP g \<and> g_HRES g = 0 \<and> g_CRES g \<ge> 2"

definition with_attr :: "tcc1014 \<Rightarrow> bool" where
  "with_attr g \<longleftrightarrow> \<not> g_COCO g \<and> \<not> g_BP g \<and> odd (g_CRES g)"

definition text_cell :: "tcc1014 \<Rightarrow> u8 \<Rightarrow> u8 \<Rightarrow> gime_cell" where
  "text_cell g v attr =
     (let gdata = font_gime ! (unat (v AND 0x7F) * 12 + legacy_text_row g) in
      if odd (g_CRES g) then
        (RENDER_RG, if tst attr 0x40 \<and> int (g_row g) = LPR_underline_row ! g_LPR g then 0xFF else gdata,
         if tst attr 0x80 \<and> g_blink g then unat (attr AND 7) else 8 OR unat (drop_bit 3 attr AND 7),
         unat (attr AND 7), 0)
      else (RENDER_RG, gdata, 1, 0, 0))"

definition byte_cell :: "tcc1014 \<Rightarrow> (nat \<Rightarrow> u8) \<Rightarrow> nat \<Rightarrow> gime_cell" where
  "byte_cell g src k =
     (if g_COCO g then legacy_coco_cell (src k) g
      else if g_BP g then (RENDER_RG, if zeroed g \<and> odd k then 0 else src k, 0, 0, 0)
      else if odd (g_CRES g) then text_cell g (src (2 * k)) (src (2 * k + 1)) else text_cell g (src k) 0)"

lemma stream_cells [simp]:
  "legacy_coco_cell v (stream g j c) = legacy_coco_cell v g"
  "legacy_text_row (stream g j c) = legacy_text_row g"
  "legacy_nibble (stream g j c) pal cell = legacy_nibble g pal cell"
  "g_resolution (stream g j c) = g_resolution g"
  by (cases cell; simp add: legacy_coco_cell_def legacy_text_row_def legacy_nibble_def stream_def Let_def)+

lemma stream_fields [simp]:
  "g_COCO (stream g j c) = g_COCO g" "g_BP (stream g j c) = g_BP g" "g_CRES (stream g j c) = g_CRES g"
  "g_HRES (stream g j c) = g_HRES g" "g_blink (stream g j c) = g_blink g" "g_row (stream g j c) = g_row g"
  "g_LPR (stream g j c) = g_LPR g"
  by (simp_all add: stream_def)

lemma decode_at:
  assumes v: "vram_ok g" and x: "even (line_x g)"
    and c: "cache_ok ram g (zeroed g) ((if with_attr g then 2 else 1) * k) c"
  obtains c' where "legacy_decode ram (stream g ((if with_attr g then 2 else 1) * k) c) =
      (byte_cell g (line_src ram g) k, stream g ((if with_attr g then 2 else 1) * Suc k) c')"
    and "cache_ok ram g (zeroed g) ((if with_attr g then 2 else 1) * Suc k) c'"
proof (cases "with_attr g")
  case True
  then have m: "\<not> g_COCO g" "\<not> g_BP g" "odd (g_CRES g)" by (simp_all add: with_attr_def)
  have "legacy_decode ram (stream g (2 * k) c) = (byte_cell g (line_src ram g) k,
      stream g (2 * Suc k) (line_src ram g (Suc (2 * k))))"
    using m fetch_even [of "2 * k", OF _ v x] fetch_odd [of "Suc (2 * k)"]
    by (simp add: legacy_decode_def byte_cell_def text_cell_def Let_def)
  then show ?thesis using that True by (simp add: cache_ok_def)
next
  case False
  have f: "fetch_byte_vram ram (stream g k c) =
      (if zeroed g \<and> odd k then 0 else line_src ram g k, stream g (Suc k) (if odd k then c else line_src ram g (Suc k)))"
    using c False fetch_even [of k, OF _ v x] fetch_odd [of k] by (auto simp: cache_ok_def)
  let ?c = "if zeroed g then 0 else if odd k then c else line_src ram g (Suc k)"
  have "legacy_decode ram (stream g k c) = (byte_cell g (line_src ram g) k, stream g (Suc k) ?c)"
    using False f by (auto simp: legacy_decode_def byte_cell_def text_cell_def Let_def zeroed_def with_attr_def zero_cache)
  moreover have "cache_ok ram g (zeroed g) (Suc k) ?c" by (simp add: cache_ok_def)
  ultimately show ?thesis using that False by simp
qed

section \<open>The line loop\<close>

lemma half_pixels: "r < 4 \<Longrightarrow> 2 * (16 div 2 ^ r) = (32 :: nat) div 2 ^ r \<and> 0 < (16 :: nat) div 2 ^ r \<and> 640 mod (32 div 2 ^ r) = (0 :: nat)
    \<and> 0 < 640 div (32 div 2 ^ r :: nat)"
proof -
  assume "r < 4"
  then consider "r = 0" | "r = 1" | "r = 2" | "r = 3" by linarith
  then show ?thesis by cases simp_all
qed

definition line_cells :: "(nat \<Rightarrow> u8) \<Rightarrow> (nat \<Rightarrow> 'p) \<Rightarrow> tcc1014 \<Rightarrow> nat \<Rightarrow> nat \<Rightarrow> 'p list" where
  "line_cells ram pal g i n = concat (map (\<lambda>k. cell_pixels g pal (byte_cell g (line_src ram g) k)) [i..<n])"

lemma legacy_loop_cells:
  fixes pal :: "nat \<Rightarrow> 'p" and px :: "'p list"
  assumes v: "vram_ok g" and x: "even (line_x g)" and r: "g_resolution g < 4"
    and s: "s = (32 :: nat) div 2 ^ g_resolution g" and i: "i < 640 div s" and l: "length px = s * i"
    and c: "cache_ok ram g (zeroed g) ((if with_attr g then 2 else 1) * i) c"
  shows "fst (legacy_loop ram pal m (px, stream g ((if with_attr g then 2 else 1) * i) c)) =
    px @ line_cells ram pal g i (min (i + m) (640 div s))"
  using i l c
proof (induction m arbitrary: i px c)
  case 0
  then show ?case by (simp add: line_cells_def)
next
  case (Suc m)
  let ?w = "(if with_attr g then 2 else 1) :: nat"
  obtain c' where d: "legacy_decode ram (stream g (?w * i) c) = (byte_cell g (line_src ram g) i, stream g (?w * Suc i) c')"
    and c': "cache_ok ram g (zeroed g) (?w * Suc i) c'"
    using decode_at [OF v x Suc.prems(3)] by blast
  obtain md gdata fg bg cg where b: "byte_cell g (line_src ram g) i = (md, gdata, fg, bg, cg)" by (metis prod_cases5)
  obtain cs gdata' where n1: "legacy_nibble g pal (md, gdata, fg, bg, cg) = (cs, gdata')" by (metis surj_pair)
  obtain cs2 gdata2 where n2: "legacy_nibble g pal (md, gdata', fg, bg, cg) = (cs2, gdata2)" by (metis surj_pair)
  let ?h = "(16 :: nat) div 2 ^ g_resolution g"
  let ?p1 = "legacy_expand (g_resolution g) cs" and ?p2 = "legacy_expand (g_resolution g) cs2"
  have h: "2 * ?h = s" "0 < ?h" "s * (640 div s) = 640" using half_pixels [OF r] s by auto
  have cp: "cell_pixels g pal (byte_cell g (line_src ram g) i) = ?p1 @ ?p2"
    unfolding b by (simp add: cell_pixels_def n1 n2)
  have "s * Suc i \<le> s * (640 div s)" using Suc.prems(1) by (intro mult_le_mono2) simp
  then have le: "s * i + s \<le> 640" using h(3) by simp
  have l1: "length (px @ ?p1) = s * i + ?h" using Suc.prems(2) by (simp add: expand_length r)
  have l2: "length ((px @ ?p1) @ ?p2) = s * Suc i" using Suc.prems(2) h(1) by (simp add: expand_length r)
  have n: "\<not> 640 \<le> length (px @ ?p1)" using l1 le h by linarith
  have step: "legacy_loop ram pal (Suc m) (px, stream g (?w * i) c) =
    (if 640 \<le> length ((px @ ?p1) @ ?p2) then ((px @ ?p1) @ ?p2, stream g (?w * Suc i) c')
     else legacy_loop ram pal m ((px @ ?p1) @ ?p2, stream g (?w * Suc i) c'))"
    unfolding legacy_loop.simps(2) Let_def prod.case d b stream_cells n1 n2 if_not_P [OF n] by (rule refl)
  have first: "line_cells ram pal g i k = (?p1 @ ?p2) @ line_cells ram pal g (Suc i) k" if "i < k" for k
    using that by (simp add: line_cells_def upt_conv_Cons cp)
  have ik: "i < min (i + Suc m) (640 div s)" using Suc.prems(1) by simp
  show ?case
  proof (cases "Suc i < 640 div s")
    case True
    then have "s * Suc i < s * (640 div s)" using h by (intro mult_strict_left_mono) simp_all
    then have "\<not> 640 \<le> length ((px @ ?p1) @ ?p2)" using l2 h(3) by simp
    then show ?thesis unfolding step using Suc.IH [OF True l2 c'] first [OF ik] by simp
  next
    case False
    then have e: "640 div s = Suc i" using Suc.prems(1) by simp
    then have "640 \<le> length ((px @ ?p1) @ ?p2)" using l2 h(3) by simp
    then show ?thesis unfolding step using first [OF ik] e by (simp add: line_cells_def)
  qed
qed

text \<open>The cells of a line are what the per-mode renderer draws.\<close>

lemma and_lt: "unat ((a :: u8) AND 7) < 8" "unat (a AND 3) < 4"
  using word_and_le1 [of a 7] word_and_le1 [of a 3] by (simp_all add: word_le_nat_alt)

lemma wf_ranges:
  assumes "gime_wf g"
  shows "g_resolution g < 4" "g_CRES g < 4" "even (line_x g)" "g_HRES g < 8"
proof -
  have d: "gime_decoded g" "derived_ok g" using assms by (simp_all add: gime_wf_def)
  show "g_CRES g < 4" "g_HRES g < 8" using d(1) and_lt by (simp_all add: gime_decoded_def)
  show "even (line_x g)" using d(1) by (simp add: gime_decoded_def line_x_def)
  have "g_resolution g = g_resolution (update_from_gime_registers g)"
    using d(2) by (simp add: derived_ok_def gime_derived_def)
  also have "\<dots> = g_resolution (decode_mode (decode_vdg g))" by (simp add: update_fields)
  also have "\<dots> < 4"
    using \<open>g_HRES g < 8\<close> vdg_fields(5) [of g] by (auto simp: decode_mode_eq gime_base_def drop_bit_eq_div)
  finally show "g_resolution g < 4" .
qed

lemma res_and: "r < 4 \<Longrightarrow> r AND 3 = (r :: nat)"
  using take_bit_eq_mask [of 2 r] by (simp add: mask_eq_exp_minus_1 take_bit_nat_eq_self)

lemma one_byte:
  "render_coco_cg res g src n pal = concat (map (\<lambda>k. render_coco_cg res g (\<lambda>_. src k) 1 pal) [0..<n])"
  "render_coco_rg res g src n pal = concat (map (\<lambda>k. render_coco_rg res g (\<lambda>_. src k) 1 pal) [0..<n])"
  "render_coco_rg2 res g src n pal = concat (map (\<lambda>k. render_coco_rg2 res g (\<lambda>_. src k) 1 pal) [0..<n])"
  by (simp_all add: render_coco_cg_def render_coco_rg_def render_coco_rg2_def Let_def)

text \<open>Each mode, for any source.\<close>

lemma coco_line:
  assumes "g_resolution g < 4" and "g_COCO g" and "\<not> artifact_line g"
  shows "fst (render_line g src pal n tp) = concat (map (\<lambda>k. cell_pixels g pal (legacy_coco_cell (src k) g)) [0..<n])"
proof (cases "g_GnA g")
  case True
  show ?thesis
  proof (cases "g_GM0 g")
    case False
    then show ?thesis using assms True
      by (simp add: render_line_def coco_cell res_and Let_def one_byte(1) [of _ _ src])
  next
    case True
    then show ?thesis using assms \<open>g_GnA g\<close>
      by (cases "g_resolution g \<noteq> 0 \<or> g_shadow_pdr g AND 0x70 = 0x70")
        (simp_all add: render_line_def coco_cell res_and Let_def one_byte(2,3) [of _ _ src])
  qed
next
  case False
  then show ?thesis using assms
    by (simp add: render_line_def coco_cell res_and Let_def render_coco_text_def)
qed

lemma gfx_line:
  assumes "g_resolution g < 4" and "g_CRES g < 4" and "\<not> g_COCO g" and "g_BP g"
  shows "fst (render_line g src pal n tp) =
    concat (map (\<lambda>k. cell_pixels g pal (RENDER_RG, if zeroed g \<and> odd k then 0 else src k, 0, 0, 0)) [0..<n])"
  using assms by (cases "g_HRES g = 0")
    (simp_all add: render_line_def gfx_cell res_and Let_def render_native_gfx_def zeroed_def)

lemma text_line:
  assumes "g_resolution g < 4" and "\<not> g_COCO g" and "\<not> g_BP g"
  shows "fst (render_line g src pal n tp) = concat (map (\<lambda>k. cell_pixels g pal
    (if odd (g_CRES g) then text_cell g (src (2 * k)) (src (2 * k + 1)) else text_cell g (src k) 0)) [0..<n])"
proof (cases "odd (g_CRES g)")
  case True
  have "fst (render_line g src pal n tp) = concat (map (\<lambda>k. cell_pixels g pal (text_cell g (src (2 * k)) (src (2 * k + 1)))) [0..<n])"
    using assms True by (cases "11 < (g_row g + 1) AND 15")
      (simp_all add: render_line_def render_native_text_def text_cell_def legacy_text_row_def bits_cell res_and
        Let_def add.commute if_distrib [of pal] cong: if_cong)
  then show ?thesis using True by simp
next
  case False
  then show ?thesis
    using assms by (cases "11 < (g_row g + 1) AND 15")
      (simp_all add: render_line_def render_native_text_def text_cell_def legacy_text_row_def bits_cell res_and
        Let_def add.commute)
qed

lemma render_line_cells:
  assumes w: "gime_wf g" and v: "vram_ok g" and a: "\<not> artifact_line g" and n: "(if with_attr g then 2 else 1) * n \<le> 256"
  shows "fst (render_line g (fetch_line_bytes ram g ((if with_attr g then 2 else 1) * n)) pal n tp) = line_cells ram pal g 0 n"
proof -
  let ?w = "(if with_attr g then 2 else 1) :: nat"
  let ?src = "fetch_line_bytes ram g (?w * n)"
  note r = wf_ranges [OF w]
  have s: "?src k = line_src ram g k" if "k < ?w * n" for k
    using fetch_line_stream [OF v that n] .
  have b: "byte_cell g ?src k = byte_cell g (line_src ram g) k" if "k < n" for k
    using s [of k] s [of "2 * k"] s [of "2 * k + 1"] that by (auto simp: byte_cell_def with_attr_def)
  have "fst (render_line g ?src pal n tp) = concat (map (\<lambda>k. cell_pixels g pal (byte_cell g ?src k)) [0..<n])"
  proof (cases "g_COCO g")
    case True
    then show ?thesis unfolding coco_line [OF r(1) True a] byte_cell_def by simp
  next
    case c: False
    show ?thesis
    proof (cases "g_BP g")
      case True
      then show ?thesis unfolding gfx_line [OF r(1,2) c True] byte_cell_def using c by simp
    next
      case False
      then show ?thesis unfolding text_line [OF r(1) c False] byte_cell_def using c by simp
    qed
  qed
  also have "\<dots> = line_cells ram pal g 0 n"
    unfolding line_cells_def by (rule arg_cong [of _ _ concat], rule map_cong) (simp_all add: b)
  finally show ?thesis .
qed

lemma wf_bpr:
  assumes "gime_wf g"
  shows "g_BPR g \<le> 160" "with_attr g \<Longrightarrow> g_BPR g \<le> 80"
proof -
  have t: "VRES_HRES_BPR ! i \<le> 160" "VRES_HRES_BPR_TEXT ! i \<le> 80" if "i < 8" for i
  proof -
    have "list_all (\<lambda>x. x \<le> 160) VRES_HRES_BPR" "list_all (\<lambda>x. x \<le> 80) VRES_HRES_BPR_TEXT"
      by (simp_all add: VRES_HRES_BPR_def VRES_HRES_BPR_TEXT_def)
    then show "VRES_HRES_BPR ! i \<le> 160" "VRES_HRES_BPR_TEXT ! i \<le> 80"
      using that by (simp_all add: list_all_length VRES_HRES_BPR_def VRES_HRES_BPR_TEXT_def)
  qed
  have "g_BPR g = g_BPR (decode_mode (decode_vdg g))"
    using assms by (simp add: gime_wf_def derived_ok_def gime_derived_def update_fields)
  then show "g_BPR g \<le> 160" "with_attr g \<Longrightarrow> g_BPR g \<le> 80"
    using t [OF wf_ranges(4) [OF assms]] vdg_fields(5) [of g]
    by (auto simp: decode_mode_eq gime_base_def with_attr_def intro: le_trans [of _ 80])
qed

lemma line_bytes_min:
  assumes "g_resolution g < 4"
  shows "line_bytes g = min (g_BPR g) (640 div ((32 :: nat) div 2 ^ g_resolution g))"
  using assms by (simp add: line_bytes_def res_and drop_bit_eq_div Let_def)

lemma legacy_line_cells:
  assumes "gime_wf g" and "vram_ok g"
  shows "fst (legacy_line ram pal g) = line_cells ram pal g 0 (line_bytes g)"
proof -
  note r = wf_ranges [OF assms(1)]
  have s: "0 < 640 div ((32 :: nat) div 2 ^ g_resolution g)" using half_pixels [OF r(1)] by blast
  have "legacy_line ram pal g = legacy_loop ram pal (g_BPR g) ([], stream g 0 (g_vdata_cache g))"
    by (simp add: legacy_line_def stream_def line_x_def)
  then show ?thesis
    using legacy_loop_cells [OF assms(2) r(3,1) refl s, of "[]" ram "g_vdata_cache g"]
    by (simp add: cache_ok_def line_bytes_min [OF r(1)])
qed

theorem renderers_agree:
  assumes w: "gime_wf g" and v: "vram_ok g" and a: "\<not> artifact_line g"
  shows "fst (render_line g (fetch_line_bytes ram g (if with_attr g then 2 * line_bytes g else line_bytes g)) pal (line_bytes g) tp) =
    fst (legacy_line ram pal g)"
proof -
  have "line_bytes g \<le> g_BPR g" by (simp add: line_bytes_def Let_def)
  then have b: "(if with_attr g then 2 else 1) * line_bytes g \<le> 256" using wf_bpr [OF w] by auto
  have e: "(if with_attr g then 2 * line_bytes g else line_bytes g) = (if with_attr g then 2 else 1) * line_bytes g" by simp
  show ?thesis unfolding e legacy_line_cells [OF w v] using render_line_cells [OF w v a b] .
qed

text \<open>The fields a scanline sets do not change what is drawn.\<close>

lemma cell_frame:
  "cell_pixels (g\<lparr>g_line_clean := a\<rparr>) = cell_pixels g" "byte_cell (g\<lparr>g_line_clean := a\<rparr>) = byte_cell g"
  "cell_pixels (g\<lparr>g_line_width := b\<rparr>) = cell_pixels g" "byte_cell (g\<lparr>g_line_width := b\<rparr>) = byte_cell g"
  "cell_pixels (g\<lparr>s_line_sig := c\<rparr>) = cell_pixels g" "byte_cell (g\<lparr>s_line_sig := c\<rparr>) = byte_cell g"
  "cell_pixels (g\<lparr>g_raw_output := d\<rparr>) = cell_pixels g" "byte_cell (g\<lparr>g_raw_output := d\<rparr>) = byte_cell g"
  "cell_pixels (g\<lparr>g_palette_rgb565 := e\<rparr>) = cell_pixels g" "byte_cell (g\<lparr>g_palette_rgb565 := e\<rparr>) = byte_cell g"
  by (intro ext; simp add: cell_pixels_def legacy_nibble_def byte_cell_def legacy_coco_cell_def text_cell_def
      legacy_text_row_def zeroed_def Let_def cong: if_cong split: prod.splits)+

lemma src_frame:
  "line_src ram (g\<lparr>g_line_clean := a\<rparr>) = line_src ram g" "line_src ram (g\<lparr>g_line_width := b\<rparr>) = line_src ram g"
  "line_src ram (g\<lparr>s_line_sig := c\<rparr>) = line_src ram g" "line_src ram (g\<lparr>g_raw_output := d\<rparr>) = line_src ram g"
  "line_src ram (g\<lparr>g_palette_rgb565 := e\<rparr>) = line_src ram g"
  by (intro ext; simp add: line_src_def)+

lemma line_cells_frame [simp]:
  "line_cells ram pal (g\<lparr>g_line_clean := a\<rparr>) = line_cells ram pal g"
  "line_cells ram pal (g\<lparr>g_line_width := b\<rparr>) = line_cells ram pal g"
  "line_cells ram pal (g\<lparr>s_line_sig := c\<rparr>) = line_cells ram pal g"
  "line_cells ram pal (g\<lparr>g_raw_output := d\<rparr>) = line_cells ram pal g"
  "line_cells ram pal (g\<lparr>g_palette_rgb565 := e\<rparr>) = line_cells ram pal g"
  by (intro ext; simp add: line_cells_def cell_frame src_frame)+

text \<open>A state in which a scanline is about to be drawn.\<close>

definition drawable :: "tcc1014 \<Rightarrow> bool" where
  "drawable g \<longleftrightarrow> gime_wf g \<and> vram_ok g \<and> \<not> artifact_line g"

lemma drawable_frame [simp]:
  "drawable (g\<lparr>g_line_clean := a\<rparr>) = drawable g" "drawable (g\<lparr>g_line_width := b\<rparr>) = drawable g"
  "drawable (g\<lparr>s_line_sig := c\<rparr>) = drawable g" "drawable (g\<lparr>g_raw_output := d\<rparr>) = drawable g"
  "drawable (g\<lparr>g_palette_rgb565 := e\<rparr>) = drawable g"
  by (simp_all add: drawable_def) (simp_all add: vram_ok_def artifact_line_def)

lemma bytes_frame [simp]:
  "line_bytes (g\<lparr>g_line_clean := a\<rparr>) = line_bytes g" "line_bytes (g\<lparr>g_line_width := b\<rparr>) = line_bytes g"
  "line_bytes (g\<lparr>s_line_sig := c\<rparr>) = line_bytes g" "line_bytes (g\<lparr>g_raw_output := d\<rparr>) = line_bytes g"
  "line_bytes (g\<lparr>g_palette_rgb565 := e\<rparr>) = line_bytes g"
  "with_attr (g\<lparr>g_line_clean := a\<rparr>) = with_attr g" "with_attr (g\<lparr>g_line_width := b\<rparr>) = with_attr g"
  "with_attr (g\<lparr>s_line_sig := c\<rparr>) = with_attr g" "with_attr (g\<lparr>g_raw_output := d\<rparr>) = with_attr g"
  "with_attr (g\<lparr>g_palette_rgb565 := e\<rparr>) = with_attr g"
  "fetch_line_bytes ram (g\<lparr>g_line_clean := a\<rparr>) n = fetch_line_bytes ram g n"
  "fetch_line_bytes ram (g\<lparr>g_line_width := b\<rparr>) n = fetch_line_bytes ram g n"
  "fetch_line_bytes ram (g\<lparr>s_line_sig := c\<rparr>) n = fetch_line_bytes ram g n"
  "fetch_line_bytes ram (g\<lparr>g_raw_output := d\<rparr>) n = fetch_line_bytes ram g n"
  "fetch_line_bytes ram (g\<lparr>g_palette_rgb565 := e\<rparr>) n = fetch_line_bytes ram g n"
  by (simp_all add: line_bytes_def with_attr_def fetch_line_bytes_def Let_def cong: if_cong)

definition line_source :: "(nat \<Rightarrow> u8) \<Rightarrow> tcc1014 \<Rightarrow> nat \<Rightarrow> u8" where
  "line_source ram g = fetch_line_bytes ram g (if with_attr g then 2 * line_bytes g else line_bytes g)"

lemma source_frame [simp]:
  "line_source ram (g\<lparr>g_line_clean := a\<rparr>) = line_source ram g" "line_source ram (g\<lparr>g_line_width := b\<rparr>) = line_source ram g"
  "line_source ram (g\<lparr>s_line_sig := c\<rparr>) = line_source ram g" "line_source ram (g\<lparr>g_raw_output := d\<rparr>) = line_source ram g"
  "line_source ram (g\<lparr>g_palette_rgb565 := e\<rparr>) = line_source ram g"
  by (simp_all add: line_source_def)

lemma drawn_cells:
  "drawable g \<Longrightarrow> fst (render_line g (line_source ram g) pal (line_bytes g) tp) = line_cells ram pal g 0 (line_bytes g)"
  unfolding line_source_def using renderers_agree [of g ram pal tp] legacy_line_cells [of g ram pal] by (simp add: drawable_def)

text \<open>The palettes of the two outputs.\<close>

definition raw_palette :: "(nat \<Rightarrow> u8) \<Rightarrow> tcc1014 \<Rightarrow> nat \<Rightarrow> u8" where
  "raw_palette lut g i = lut (unat (g_palette_reg g i AND 0x3F))"

definition rgb_palette :: "tcc1014 \<Rightarrow> nat \<Rightarrow> u16" where
  "rgb_palette g i = (if i < 16 then swap16 (s_rgb565_lut g (unat (g_palette_reg g i AND 0x3F))) else g_palette_rgb565 g i)"

lemma draw_line_pixels:
  assumes d: "drawable g"
  shows "g_line (draw_line g (line_source ram g) (line_bytes g)) =
    (case (g_raw_output g, s_raw_lut g) of
       (True, Some lut) \<Rightarrow> Raw8 (line_cells ram (raw_palette lut g) g 0 (line_bytes g))
     | _ \<Rightarrow> Rgb565 (line_cells ram (rgb_palette g) g 0 (line_bytes g)))"
proof -
  have raw: "fst (render_line g (line_source ram g) (\<lambda>i. lut (unat (g_palette_reg g i AND 0x3F))) (line_bytes g) tp) =
      line_cells ram (raw_palette lut g) g 0 (line_bytes g)" for lut :: "nat \<Rightarrow> u8" and tp
    using drawn_cells [OF d, of ram "raw_palette lut g" tp] by (simp add: raw_palette_def [abs_def])
  let ?h = "g\<lparr>g_raw_output := False, g_palette_rgb565 := rgb_palette g\<rparr>"
  have rgb: "fst (render_line ?h (line_source ram g) (rgb_palette g) (line_bytes g) tp) =
      line_cells ram (rgb_palette g) g 0 (line_bytes g)" for tp
    using drawn_cells [of ?h ram "rgb_palette g" tp] d by simp
  have e: "(\<lambda>i. if i < 16 then swap16 (s_rgb565_lut g (unat (g_palette_reg g i AND 0x3F))) else g_palette_rgb565 g i) = rgb_palette g"
    by (simp add: rgb_palette_def [abs_def])
  show ?thesis
    using raw rgb by (cases "g_raw_output g"; cases "s_raw_lut g") (simp_all add: draw_line_def Let_def case_prod_unfold e cong: if_cong)
qed

lemma render_line_state: "\<not> artifact_line g \<Longrightarrow> snd (render_line g src pal n tp) = g"
  by (simp add: render_line_def Let_def)

lemma draw_line_frame:
  assumes "\<not> artifact_line g"
  shows "g_line_clean (draw_line g src n) = g_line_clean g \<and> g_line_width (draw_line g src n) = g_line_width g"
proof -
  have a: "\<not> artifact_line (g\<lparr>g_raw_output := b, g_palette_rgb565 := e\<rparr>)" for b e
    using assms by (simp add: artifact_line_def)
  show ?thesis
    by (cases "g_raw_output g"; cases "s_raw_lut g")
      (simp_all add: draw_line_def Let_def case_prod_unfold render_line_state assms a)
qed

lemma line_cells_length:
  assumes "g_resolution g < 4"
  shows "length (line_cells ram pal g 0 n) = n * (32 div 2 ^ g_resolution g)"
  using half_pixels [OF assms]
  by (induction n) (simp_all add: line_cells_def cell_pixels_length [OF assms])

text \<open>
  C5: A scanline of the display is the reference line. For a GIME in any reachable register state with
  the active area on and RAM attached, and no artifact colours on the line, \<open>tcc1014_render_scanline\<close>
  either marks the line clean, which it does only for raw output, and leaves the buffer alone, or
  writes exactly the pixels of the legacy renderer: as raw display bytes when they are asked for and
  a table is registered, as byte-swapped RGB565 otherwise. The width it reports is the number of
  pixels of the reference line.
\<close>
theorem gime_scanline_is_reference:
  fixes ram :: "nat \<Rightarrow> u8" and y :: nat
  assumes "gime_wf g" and "vram_ok g" and "\<not> artifact_line g" and "g_active_area g" and "g_ram g"
  defines "h \<equiv> tcc1014_render_scanline ram y g"
  shows "(if g_line_clean h then g_raw_output g \<and> s_raw_lut g \<noteq> None \<and> g_line h = g_line g
     else case (g_raw_output g, s_raw_lut g) of
         (True, Some lut) \<Rightarrow> g_line h = Raw8 (fst (legacy_line ram (raw_palette lut g) g))
       | _ \<Rightarrow> g_line h = Rgb565 (fst (legacy_line ram (rgb_palette g) g))) \<and>
    g_line_width h = length (fst (legacy_line ram (rgb_palette g) g))"
proof -
  have d: "drawable g" using assms(1-3) by (simp add: drawable_def)
  note r = wf_ranges [OF assms(1)]
  let ?w = "line_bytes g * drop_bit (g_resolution g AND 3) 32"
  let ?g1 = "g\<lparr>g_line_clean := False, g_line_width := ?w\<rparr>"
  let ?n = "line_bytes g"
  obtain sg where s: "h = ?g1\<lparr>g_line_clean := True\<rparr> \<and> g_raw_output g \<and> s_raw_lut g \<noteq> None \<or>
      h = draw_line (?g1\<lparr>s_line_sig := sg\<rparr>) (line_source ram g) ?n"
  proof -
    have "?g1 = ?g1\<lparr>s_line_sig := s_line_sig g\<rparr>" by simp
    then show ?thesis
    proof (cases "y < GIME_MAX_LINES")
      case True
      define sg where "sg = line_signature ?g1 (line_source ram g) (if with_attr g then 2 * ?n else ?n) ?n (with_attr g)"
      have "h = (if g_raw_output g \<and> s_raw_lut g \<noteq> None \<and> sg = s_line_sig g y then ?g1\<lparr>g_line_clean := True\<rparr>
          else draw_line (?g1\<lparr>s_line_sig := (s_line_sig g)(y := sg)\<rparr>) (line_source ram g) ?n)"
        unfolding h_def tcc1014_render_scanline_def Let_def with_attr_def [symmetric]
        using True assms(4,5) by (simp add: sg_def line_source_def with_attr_def del: not_None_eq)
      then show ?thesis using that by (auto split: if_splits)
    next
      case False
      then have "h = draw_line ?g1 (line_source ram g) ?n"
        using assms(4,5) by (simp add: h_def tcc1014_render_scanline_def Let_def line_source_def with_attr_def)
      then show ?thesis using that [of "s_line_sig g"] by simp
    qed
  qed
  have len: "length (fst (legacy_line ram (rgb_palette g) g)) = ?w"
    using line_cells_length [OF r(1)] r(1) by (simp add: legacy_line_cells [OF assms(1,2)] res_and drop_bit_eq_div)
  let ?g2 = "?g1\<lparr>s_line_sig := sg\<rparr>"
  have p: "raw_palette lut ?g2 = raw_palette lut g" "rgb_palette ?g2 = rgb_palette g" for lut
    by (simp_all add: raw_palette_def [abs_def] rgb_palette_def [abs_def] cong: if_cong)
  have dr: "g_line (draw_line ?g2 (line_source ram g) ?n) =
     (case (g_raw_output g, s_raw_lut g) of
       (True, Some lut) \<Rightarrow> Raw8 (line_cells ram (raw_palette lut g) g 0 ?n)
     | _ \<Rightarrow> Rgb565 (line_cells ram (rgb_palette g) g 0 ?n))"
    using draw_line_pixels [of ?g2 ram] d by (cases "g_raw_output g"; cases "s_raw_lut g") (simp_all add: p)
  have fr: "\<not> g_line_clean (draw_line ?g2 (line_source ram g) ?n)" "g_line_width (draw_line ?g2 (line_source ram g) ?n) = ?w"
    using draw_line_frame [of ?g2 "line_source ram g" ?n] assms(3) by (simp_all add: artifact_line_def)
  from s show ?thesis
  proof
    assume "h = ?g1\<lparr>g_line_clean := True\<rparr> \<and> g_raw_output g \<and> s_raw_lut g \<noteq> None"
    then show ?thesis unfolding len by auto
  next
    assume "h = draw_line ?g2 (line_source ram g) ?n"
    then show ?thesis unfolding len
      using dr fr by (simp add: legacy_line_cells [OF assms(1,2)] split: bool.splits option.splits)
  qed
qed

text \<open>The GIME as a 512 KB machine powers it on, with the picture on.\<close>

definition demo_gime :: tcc1014 where
  "demo_gime = (tcc1014_set_artifacts 0 (tcc1014_set_ram 0x80000 (tcc1014_reset (tcc1014_init tcc1014_static))))
     \<lparr>g_active_area := True, s_art_key := 0\<rparr>"

lemma demo_gime_ok:
  "gime_wf demo_gime" "vram_ok demo_gime" "g_active_area demo_gime" "g_ram demo_gime"
  "s_artifacts demo_gime = 0" "s_art_key demo_gime = 0"
proof -
  have "gime_wf (tcc1014_reset (tcc1014_init tcc1014_static))" using init_keeps reset_wf by blast
  then show "gime_wf demo_gime" by (simp add: demo_gime_def artifacts_wf set_ram_wf)
  have "(0x7FFFF :: u32) = mask 19" by (simp add: mask_eq_exp_minus_1)
  then show "vram_ok demo_gime"
    by (auto simp: demo_gime_def vram_ok_def tcc1014_set_artifacts_def tcc1014_invalidate_lines_def tcc1014_set_ram_def
        tcc1014_update_active_banks_def update_fast_pages_def Let_def)
  show "g_active_area demo_gime" "g_ram demo_gime" "s_artifacts demo_gime = 0" "s_art_key demo_gime = 0"
    by (simp_all add: demo_gime_def tcc1014_set_artifacts_def tcc1014_invalidate_lines_def tcc1014_set_ram_def
        tcc1014_update_active_banks_def update_fast_pages_def GIME_ARTIFACT_COUNT_def Let_def)
qed

lemma gime_scanline_is_reference_witness:
  "g_line_width (tcc1014_render_scanline (\<lambda>_. 0x41) 3 demo_gime) =
     length (fst (legacy_line (\<lambda>_. 0x41) (rgb_palette demo_gime) demo_gime))"
  using gime_scanline_is_reference [of demo_gime "\<lambda>_. 0x41" 3] demo_gime_ok by (simp add: artifact_line_def)

end
