(* ===== verification/Gime_Skip.thy ===== *)
theory Gime_Skip
  imports Gime_Reference
begin

text \<open>
  Soundness of the GIME's dirty-line skip up to collisions of the 64-bit hash: the words mixed into a
  line's signature determine the pixels of the line, in every mode, artifact colours included.
\<close>

section \<open>What the signature words encode\<close>

lemma field_bit:
  assumes "m = 2 ^ k - 1" and "s + k \<le> 32"
  shows "bit (push_bit s (of_nat (x AND m)) :: u32) i \<longleftrightarrow> s \<le> i \<and> i < s + k \<and> bit x (i - s)"
proof -
  have "x AND m = x AND mask k" unfolding assms(1) mask_eq_exp_minus_1 ..
  then show ?thesis using assms(2) by (auto simp: bit_simps)
qed

lemma border_bit:
  "bit (push_bit 25 (ucast ((b :: u8) AND 0x3F)) :: u32) i \<longleftrightarrow> 25 \<le> i \<and> i < 31 \<and> bit b (i - 25)"
proof -
  have e: "b AND 0x3F = b AND mask 6" by (simp add: mask_eq_exp_minus_1)
  show ?thesis unfolding e by (auto simp: bit_simps dest: bit_imp_le_length)
qed

lemma flag_bit: "i < 32 \<Longrightarrow> bit (bit_at b i) j \<longleftrightarrow> b \<and> j = i"
  by (auto simp: bit_at_def bit_simps)

lemma sig_mode_bit:
  "bit (sig_mode g a) i \<longleftrightarrow>
     g_COCO g \<and> i = 0 \<or> g_BP g \<and> i = 1 \<or> 2 \<le> i \<and> i < 4 \<and> bit (g_CRES g) (i - 2) \<or>
     4 \<le> i \<and> i < 7 \<and> bit (g_HRES g) (i - 4) \<or> 7 \<le> i \<and> i < 9 \<and> bit (g_resolution g) (i - 7) \<or>
     g_GnA g \<and> i = 9 \<or> g_GM1 g \<and> i = 10 \<or> g_GM0 g \<and> i = 11 \<or> g_CSS g \<and> i = 12 \<or>
     g_inverted_text g \<and> i = 13 \<or> (a \<and> g_blink g) \<and> i = 14 \<or> g_shadow_pdr g AND 0x70 = 0x70 \<and> i = 15 \<or>
     16 \<le> i \<and> i < 20 \<and> bit (g_row g) (i - 16) \<or> 20 \<le> i \<and> i < 25 \<and> bit (g_rowmask g) (i - 20) \<or>
     25 \<le> i \<and> i < 31 \<and> bit (g_border_colour g) (i - 25) \<or> s_artifacts g \<noteq> 0 \<and> i = 31"
proof -
  have b0: "bit (of_bool b :: u32) i \<longleftrightarrow> b \<and> i = 0" for b by (auto simp: bit_simps)
  show ?thesis
    unfolding sig_mode_def bit_or_iff b0 border_bit
      field_bit [of 3 2 2, simplified] field_bit [of 7 3 4, simplified] field_bit [of 3 2 7, simplified]
      field_bit [of 15 4 16, simplified] field_bit [of 31 5 20, simplified]
    by (simp add: flag_bit disj_ac)
qed

lemma byte_of4: "i < 4 \<Longrightarrow> p (k + i) = ucast (drop_bit (8 * i) (word_of4 p k))"
proof -
  assume "i < 4"
  then consider "i = 0" | "i = 1" | "i = 2" | "i = 3" by linarith
  then show ?thesis
    by cases (rule bit_word_eqI, auto simp: word_of4_def bit_simps dest: bit_imp_le_length)+
qed

lemma nat_bits_eq:
  assumes "\<And>i. i < k \<Longrightarrow> bit (x :: nat) i = bit y i" and "x < 2 ^ k" and "y < 2 ^ k"
  shows "x = y"
proof -
  have "take_bit k x = take_bit k y" by (rule bit_eqI) (use assms(1) in \<open>auto simp: bit_take_bit_iff\<close>)
  then show ?thesis using assms(2,3) by (simp add: take_bit_nat_eq_self)
qed

lemma low_bits_eq:
  assumes "\<And>i. i < k \<Longrightarrow> bit (x :: nat) i = bit y i"
  shows "x mod 2 ^ k = y mod 2 ^ k"
proof -
  have "take_bit k x = take_bit k y" by (rule bit_eqI) (use assms in \<open>auto simp: bit_take_bit_iff\<close>)
  then show ?thesis by (simp add: take_bit_eq_mod)
qed

lemma sig_mode_inject:
  assumes e: "sig_mode g a = sig_mode h b"
    and "g_CRES g < 4" "g_CRES h < 4" "g_HRES g < 8" "g_HRES h < 8" "g_resolution g < 4" "g_resolution h < 4"
    and "g_rowmask g < 32" "g_rowmask h < 32"
  shows "g_COCO g = g_COCO h" "g_BP g = g_BP h" "g_CRES g = g_CRES h" "g_HRES g = g_HRES h"
    "g_resolution g = g_resolution h" "g_GnA g = g_GnA h" "g_GM1 g = g_GM1 h" "g_GM0 g = g_GM0 h" "g_CSS g = g_CSS h"
    "g_inverted_text g = g_inverted_text h" "(a \<and> g_blink g) = (b \<and> g_blink h)"
    "(g_shadow_pdr g AND 0x70 = 0x70) = (g_shadow_pdr h AND 0x70 = 0x70)" "g_row g mod 16 = g_row h mod 16"
    "g_rowmask g = g_rowmask h" "g_border_colour g AND 0x3F = g_border_colour h AND 0x3F"
    "(s_artifacts g \<noteq> 0) = (s_artifacts h \<noteq> 0)"
proof -
  have eb: "bit (sig_mode g a) i = bit (sig_mode h b) i" for i using e by simp
  note s = sig_mode_bit
  show "g_COCO g = g_COCO h" using eb [of 0] by (simp add: s)
  show "g_BP g = g_BP h" using eb [of 1] by (simp add: s)
  show "g_GnA g = g_GnA h" using eb [of 9] by (simp add: s)
  show "g_GM1 g = g_GM1 h" using eb [of 10] by (simp add: s)
  show "g_GM0 g = g_GM0 h" using eb [of 11] by (simp add: s)
  show "g_CSS g = g_CSS h" using eb [of 12] by (simp add: s)
  show "g_inverted_text g = g_inverted_text h" using eb [of 13] by (simp add: s)
  show "(a \<and> g_blink g) = (b \<and> g_blink h)" using eb [of 14] by (simp add: s)
  show "(g_shadow_pdr g AND 0x70 = 0x70) = (g_shadow_pdr h AND 0x70 = 0x70)" using eb [of 15] by (simp add: s)
  show "(s_artifacts g \<noteq> 0) = (s_artifacts h \<noteq> 0)" using eb [of 31] by (simp add: s)
  show "g_CRES g = g_CRES h"
  proof (rule nat_bits_eq)
    show "bit (g_CRES g) i = bit (g_CRES h) i" if "i < 2" for i using eb [of "i + 2"] that by (simp add: s)
  qed (use assms in simp_all)
  show "g_HRES g = g_HRES h"
  proof (rule nat_bits_eq)
    show "bit (g_HRES g) i = bit (g_HRES h) i" if "i < 3" for i using eb [of "i + 4"] that by (simp add: s)
  qed (use assms in simp_all)
  show "g_resolution g = g_resolution h"
  proof (rule nat_bits_eq)
    show "bit (g_resolution g) i = bit (g_resolution h) i" if "i < 2" for i using eb [of "i + 7"] that by (simp add: s)
  qed (use assms in simp_all)
  show "g_rowmask g = g_rowmask h"
  proof (rule nat_bits_eq)
    show "bit (g_rowmask g) i = bit (g_rowmask h) i" if "i < 5" for i using eb [of "i + 20"] that by (simp add: s)
  qed (use assms in simp_all)
  show "g_row g mod 16 = g_row h mod 16"
  proof -
    have "bit (g_row g) i = bit (g_row h) i" if "i < 4" for i using eb [of "i + 16"] that by (simp add: s)
    then show ?thesis using low_bits_eq [of 4 "g_row g" "g_row h"] by simp
  qed
  have m: "(0x3F :: u8) = mask 6" by (simp add: mask_eq_exp_minus_1)
  have "bit (g_border_colour g) i = bit (g_border_colour h) i" if "i < 6" for i using eb [of "i + 25"] that by (simp add: s)
  then show "g_border_colour g AND 0x3F = g_border_colour h AND 0x3F"
    unfolding m by (intro bit_word_eqI) (auto simp: bit_simps)
qed

lemma second_word_inject:
  assumes e: "of_nat n OR push_bit 8 l OR push_bit 24 (ucast x) = (of_nat n' OR push_bit 8 l' OR push_bit 24 (ucast y) :: u32)"
    and "n < 256" "n' < 256" and l: "l < 0x10000" "l' < 0x10000"
  shows "n = n'" "x = (y :: u8)"
proof -
  have eb: "bit (of_nat n OR push_bit 8 l OR push_bit 24 (ucast x) :: u32) i =
      bit (of_nat n' OR push_bit 8 l' OR push_bit 24 (ucast y) :: u32) i" for i using e by simp
  have hi: "\<not> bit k i" if "k < 2 ^ w" "w \<le> i" for k i w :: nat
  proof -
    have "k < 2 ^ i" using that power_increasing [of w i "2 :: nat"] by linarith
    then show ?thesis by (simp add: bit_iff_odd)
  qed
  have hl: "\<not> bit k i" if "k < 0x10000" "16 \<le> i" for k :: u32 and i
  proof -
    have "unat k < 2 ^ 16" using that(1) by (simp add: word_less_nat_alt)
    then have "\<not> bit (unat k) i" using that(2) by (rule hi)
    then show ?thesis by (simp add: bit_unsigned_iff)
  qed
  show "n = n'"
  proof (rule nat_bits_eq)
    fix i :: nat assume "i < 8"
    then show "bit n i = bit n' i" using eb [of i] by (simp add: bit_simps)
  qed (use assms in simp_all)
  show "x = y"
  proof (rule bit_word_eqI)
    fix i assume "i < LENGTH(8)"
    then show "bit x i = bit y i"
      using eb [of "i + 24"] hi [of n 8 "i + 24"] hi [of n' 8 "i + 24"] assms(2,3) hl [OF l(1), of "16 + i"] hl [OF l(2), of "16 + i"]
      by (simp add: bit_simps)
  qed
qed

lemma words_inject:
  assumes e: "map (\<lambda>k. word_of4 p (4 * k)) [0..<m] = map (\<lambda>k. word_of4 q (4 * k)) [0..<m']"
  shows "m = m'" and "i < 4 * m \<Longrightarrow> p i = q i"
proof -
  show "m = m'" using arg_cong [OF e, of length] by simp
  assume i: "i < 4 * m"
  then have "i div 4 < m" by (simp add: div_less_iff_less_mult mult.commute)
  then have "word_of4 p (4 * (i div 4)) = word_of4 q (4 * (i div 4))"
    using e \<open>m = m'\<close> by (auto simp: list_eq_iff_nth_eq)
  then show "p i = q i" using byte_of4 [of "i mod 4" p "4 * (i div 4)"] byte_of4 [of "i mod 4" q "4 * (i div 4)"] by simp
qed

section \<open>What the pixels depend on\<close>

definition same_look :: "tcc1014 \<Rightarrow> tcc1014 \<Rightarrow> bool" where
  "same_look g h \<longleftrightarrow>
     g_COCO g = g_COCO h \<and> g_BP g = g_BP h \<and> g_CRES g = g_CRES h \<and> g_HRES g = g_HRES h \<and>
     g_resolution g = g_resolution h \<and> g_GnA g = g_GnA h \<and> g_GM1 g = g_GM1 h \<and> g_GM0 g = g_GM0 h \<and>
     g_CSS g = g_CSS h \<and> g_inverted_text g = g_inverted_text h \<and> (with_attr g \<longrightarrow> g_blink g = g_blink h) \<and>
     (g_shadow_pdr g AND 0x70 = 0x70) = (g_shadow_pdr h AND 0x70 = 0x70) \<and> g_row g mod 16 = g_row h mod 16 \<and>
     (with_attr g \<longrightarrow> (int (g_row g) = LPR_underline_row ! g_LPR g) = (int (g_row h) = LPR_underline_row ! g_LPR h)) \<and>
     g_border_colour g AND 0x3F = g_border_colour h AND 0x3F \<and> s_artifacts g = s_artifacts h \<and>
     s_monitor g = s_monitor h \<and> g_palette_reg g = g_palette_reg h"

text \<open>The cache of mixed artifact colours.\<close>

definition art_ok :: "tcc1014 \<Rightarrow> bool" where
  "art_ok g \<longleftrightarrow> s_art_key g = 0 \<or>
     (\<exists>md monitor c0 c1. md \<noteq> 0 \<and> s_art_key g = artifact_key md monitor c0 c1 \<and>
        s_art_colours g = gime_artifact_mix md monitor c0 c1)"

lemma artifact_key_bytes:
  "artifact_key md monitor c0 c1 = word_of4 (\<lambda>i. if i = 0 then c1 else if i = 1 then c0 else if i = 2 then monitor else md) 0"
  by (simp add: artifact_key_def word_of4_def or.commute or.left_commute)

lemma artifact_key_inject:
  "artifact_key a b c d = artifact_key a' b' c' d' \<Longrightarrow> a = a' \<and> b = b' \<and> c = c' \<and> d = d'"
  unfolding artifact_key_bytes
  using byte_of4 [of 0 "\<lambda>i. if i = 0 then d else if i = 1 then c else if i = 2 then b else a" 0]
    byte_of4 [of 1 "\<lambda>i. if i = 0 then d else if i = 1 then c else if i = 2 then b else a" 0]
    byte_of4 [of 2 "\<lambda>i. if i = 0 then d else if i = 1 then c else if i = 2 then b else a" 0]
    byte_of4 [of 3 "\<lambda>i. if i = 0 then d else if i = 1 then c else if i = 2 then b else a" 0]
    byte_of4 [of 0 "\<lambda>i. if i = 0 then d' else if i = 1 then c' else if i = 2 then b' else a'" 0]
    byte_of4 [of 1 "\<lambda>i. if i = 0 then d' else if i = 1 then c' else if i = 2 then b' else a'" 0]
    byte_of4 [of 2 "\<lambda>i. if i = 0 then d' else if i = 1 then c' else if i = 2 then b' else a'" 0]
    byte_of4 [of 3 "\<lambda>i. if i = 0 then d' else if i = 1 then c' else if i = 2 then b' else a'" 0]
  by simp

lemma artifact_key_nonzero: "md \<noteq> 0 \<Longrightarrow> artifact_key md monitor c0 c1 \<noteq> 0"
proof
  assume "md \<noteq> 0" and "artifact_key md monitor c0 c1 = 0"
  moreover have "artifact_key 0 0 0 0 = 0" by (simp add: artifact_key_def)
  ultimately show False using artifact_key_inject [of md monitor c0 c1 0 0 0 0] by simp
qed

lemma artifact_colours_mix:
  assumes "art_ok g" and "s_artifacts g \<noteq> 0"
  defines "c0 \<equiv> g_palette_reg g (if g_CSS g then TCC1014_RGCSS1_0 else TCC1014_RGCSS0_0) AND 0x3F"
    and "c1 \<equiv> g_palette_reg g (if g_CSS g then TCC1014_RGCSS1_1 else TCC1014_RGCSS0_1) AND 0x3F"
  shows "fst (artifact_colours g) = gime_artifact_mix (s_artifacts g) (s_monitor g) c0 c1 \<and>
    fst (snd (artifact_colours g)) = c1 \<and> art_ok (snd (snd (artifact_colours g))) \<and>
    g_border_colour (snd (snd (artifact_colours g))) = g_border_colour g"
proof -
  let ?key = "artifact_key (s_artifacts g) (s_monitor g) c0 c1"
  show ?thesis
  proof (cases "?key = s_art_key g")
    case True
    then have "s_art_key g \<noteq> 0" using artifact_key_nonzero [OF assms(2)] by metis
    then obtain md mon d0 d1 where k: "s_art_key g = artifact_key md mon d0 d1" "s_art_colours g = gime_artifact_mix md mon d0 d1"
      using assms(1) by (auto simp: art_ok_def)
    then have "s_art_colours g = gime_artifact_mix (s_artifacts g) (s_monitor g) c0 c1"
      using artifact_key_inject True by metis
    then show ?thesis using True assms(1) by (simp add: artifact_colours_def Let_def c0_def [symmetric] c1_def [symmetric])
  next
    case False
    then have "artifact_colours g = (gime_artifact_mix (s_artifacts g) (s_monitor g) c0 c1, c1,
        g\<lparr>s_art_colours := gime_artifact_mix (s_artifacts g) (s_monitor g) c0 c1, s_art_key := ?key\<rparr>)"
      by (simp add: artifact_colours_def Let_def c0_def [symmetric] c1_def [symmetric])
    then show ?thesis using assms(2) by (auto simp: art_ok_def)
  qed
qed

text \<open>Only the first bytes of the source are read.\<close>

lemma concat_cong: "(\<And>k. k < n \<Longrightarrow> f k = h k) \<Longrightarrow> concat (map f [0..<n]) = concat (map h [0..<n])"
  by (rule arg_cong [of _ _ concat], rule map_cong) simp_all

lemma artifact_bytes_cong:
  "(\<And>k. k < n \<Longrightarrow> src k = src' k) \<Longrightarrow> m \<le> n \<Longrightarrow> artifact_bytes src n cols b m = artifact_bytes src' n cols b m"
  by (induction m) (simp_all add: Let_def)

lemma render_line_src:
  assumes s: "\<And>k. k < (if with_attr g then 2 * n else n) \<Longrightarrow> src k = src' k"
  shows "fst (render_line g src pal n tp) = fst (render_line g src' pal n tp)"
proof -
  have k: "src k = src' k" if "k < n" for k using s [of k] that by (auto split: if_splits)
  show ?thesis
  proof (cases "with_attr g")
    case True
    then have a: "src (2 * k) = src' (2 * k)" "src (Suc (2 * k)) = src' (Suc (2 * k))" if "k < n" for k
      using s [of "2 * k"] s [of "Suc (2 * k)"] that by simp_all
    then have "render_native_text True r g src n pal = render_native_text True r g src' n pal" for r
      unfolding render_native_text_def Let_def by (intro concat_cong) simp
    then show ?thesis using True by (simp add: with_attr_def render_line_def)
  next
    case False
    have c: "render_coco_cg r g src n pal = render_coco_cg r g src' n pal" "render_coco_rg r g src n pal = render_coco_rg r g src' n pal"
      "render_coco_rg2 r g src n pal = render_coco_rg2 r g src' n pal" "render_coco_text r g src n pal = render_coco_text r g src' n pal"
      "gime_artifact_line src n cols b = gime_artifact_line src' n cols b"
      "render_native_gfx q r (\<lambda>k. if odd k then 0 else src k) n pal = render_native_gfx q r (\<lambda>k. if odd k then 0 else src' k) n pal"
      "render_native_gfx q r src n pal = render_native_gfx q r src' n pal"
      "render_native_text False r g src n pal = render_native_text False r g src' n pal" for r q b cols
      using k artifact_bytes_cong [of n src src' n cols "if b then 0xFF else 0"]
      unfolding render_coco_cg_def render_coco_rg_def render_coco_rg2_def render_coco_text_def gime_artifact_line_def
        render_native_gfx_def render_native_text_def Let_def
      by (simp_all cong: concat_cong if_cong)
    show ?thesis using False
      by (cases "odd (g_CRES g)"; cases "g_COCO g"; cases "g_BP g") (simp_all add: render_line_def Let_def c with_attr_def case_prod_unfold)
  qed
qed

lemma row_and: "n AND 15 = n mod (16 :: nat)"
  using take_bit_eq_mask [of 4 n] by (simp add: mask_eq_exp_minus_1 take_bit_eq_mod)

lemma render_line_look:
  assumes l: "same_look g h" and a: "art_ok g" "art_ok h"
  shows "fst (render_line g src pal n tp) = fst (render_line h src pal n tp)"
proof -
  have f: "g_COCO g = g_COCO h" "g_BP g = g_BP h" "g_CRES g = g_CRES h" "g_HRES g = g_HRES h" "g_resolution g = g_resolution h"
    "g_GnA g = g_GnA h" "g_GM1 g = g_GM1 h" "g_GM0 g = g_GM0 h" "g_CSS g = g_CSS h" "g_inverted_text g = g_inverted_text h"
    "(g_shadow_pdr g AND 0x70 = 0x70) = (g_shadow_pdr h AND 0x70 = 0x70)" "g_row g mod 16 = g_row h mod 16"
    "g_border_colour g AND 0x3F = g_border_colour h AND 0x3F" "s_artifacts g = s_artifacts h" "s_monitor g = s_monitor h"
    "g_palette_reg g = g_palette_reg h"
    using l by (simp_all add: same_look_def)
  have r: "(g_row g + 1) AND 15 = (g_row h + 1) AND 15" "g_row g AND 15 = g_row h AND 15"
    using f(12) by (simp_all add: row_and) (metis mod_Suc_eq)
  have c: "render_coco_cg r g src n pal = render_coco_cg r h src n pal" "render_coco_rg r g src n pal = render_coco_rg r h src n pal"
    "render_coco_rg2 r g src n pal = render_coco_rg2 r h src n pal" for r
    by (simp_all add: render_coco_cg_def render_coco_rg_def render_coco_rg2_def f)
  have t: "render_coco_text r g src n pal = render_coco_text r h src n pal" for r
    unfolding render_coco_text_def coco_text_byte_def r(2) f ..
  have nt: "render_native_text False r g src n pal = render_native_text False r h src n pal" for r
    unfolding render_native_text_def Let_def r(1) by simp
  have na: "render_native_text True r g src n pal = render_native_text True r h src n pal" if "with_attr g" for r
  proof -
    have "g_blink g = g_blink h" "(int (g_row g) = LPR_underline_row ! g_LPR g) = (int (g_row h) = LPR_underline_row ! g_LPR h)"
      using l that by (simp_all add: same_look_def)
    then show ?thesis unfolding render_native_text_def Let_def r(1) by simp
  qed
  have al: "artifact_line g = artifact_line h" by (simp add: artifact_line_def f)
  have ac: "fst (artifact_colours g) = fst (artifact_colours h)" "fst (snd (artifact_colours g)) = fst (snd (artifact_colours h))"
      "g_border_colour (snd (snd (artifact_colours g))) AND 0x3F = g_border_colour (snd (snd (artifact_colours h))) AND 0x3F"
    if "artifact_line g"
  proof -
    have "s_artifacts g \<noteq> 0" "s_artifacts h \<noteq> 0" using that al by (simp_all add: artifact_line_def)
    then show "fst (artifact_colours g) = fst (artifact_colours h)" "fst (snd (artifact_colours g)) = fst (snd (artifact_colours h))"
      "g_border_colour (snd (snd (artifact_colours g))) AND 0x3F = g_border_colour (snd (snd (artifact_colours h))) AND 0x3F"
      using artifact_colours_mix [OF a(1)] artifact_colours_mix [OF a(2)] f by simp_all
  qed
  show ?thesis
  proof (cases "artifact_line g")
    case True
    then have "g_COCO h" "g_GnA h" "g_GM0 h" "artifact_line h" using f al by (auto simp: artifact_line_def)
    then show ?thesis using ac [OF True] True f by (simp add: render_line_def Let_def case_prod_unfold)
  next
    case False
    then have "\<not> artifact_line h" using al by simp
    then show ?thesis using False f c t nt na
      by (cases "odd (g_CRES h)") (simp_all add: render_line_def Let_def with_attr_def)
  qed
qed

lemma small_tables:
  "i < 8 \<Longrightarrow> SAM_V_rowmask ! i < 32" "i < 16 \<Longrightarrow> VSC_rowmask ! i < 32" "i < 8 \<Longrightarrow> LPR_rowmask ! i < 32"
  "i < 4 \<Longrightarrow> VRES_LPF_lAA ! i < 0x10000" "i < 8 \<Longrightarrow> SAM_V_rowmask ! i < 13" "i < 16 \<Longrightarrow> VSC_rowmask ! i < 13"
proof -
  have t: "list_all (\<lambda>x. x < 13) SAM_V_rowmask" "list_all (\<lambda>x. x < 13) VSC_rowmask"
    by (simp_all add: SAM_V_rowmask_def VSC_rowmask_def)
  then show "i < 8 \<Longrightarrow> SAM_V_rowmask ! i < 13" "i < 16 \<Longrightarrow> VSC_rowmask ! i < 13"
    by (simp_all add: list_all_length SAM_V_rowmask_def VSC_rowmask_def)
  have "list_all (\<lambda>x. x < 32) SAM_V_rowmask" "list_all (\<lambda>x. x < 32) VSC_rowmask" "list_all (\<lambda>x. x < 32) LPR_rowmask"
    "list_all (\<lambda>x. x < 0x10000) VRES_LPF_lAA"
    by (simp_all add: SAM_V_rowmask_def VSC_rowmask_def LPR_rowmask_def VRES_LPF_lAA_def)
  then show "i < 8 \<Longrightarrow> SAM_V_rowmask ! i < 32" "i < 16 \<Longrightarrow> VSC_rowmask ! i < 32" "i < 8 \<Longrightarrow> LPR_rowmask ! i < 32"
    "i < 4 \<Longrightarrow> VRES_LPF_lAA ! i < 0x10000"
    by (simp_all add: list_all_length SAM_V_rowmask_def VSC_rowmask_def LPR_rowmask_def VRES_LPF_lAA_def)
qed

lemma wf_rowmask:
  assumes "gime_wf g"
  shows "g_LPR g < 8" "g_rowmask g < 32" "g_lAA g < 0x10000" "\<not> g_COCO g \<Longrightarrow> g_rowmask g = LPR_rowmask ! g_LPR g"
    "g_COCO g \<Longrightarrow> g_rowmask g < 13"
proof -
  have d: "gime_decoded g" "derived_ok g" using assms by (simp_all add: gime_wf_def)
  show l: "g_LPR g < 8" using d(1) and_lt by (simp add: gime_decoded_def)
  have s: "g_SAM_V g < 8" "g_VSC g < 16" "g_LPF g < 4"
    using d(1) and_lt word_and_le1 [of "g_SAM_register g" 7] word_and_le1 [of "g_registers g 12" 15]
    by (simp_all add: gime_decoded_def word_le_nat_alt)
  have e: "g_rowmask g = g_rowmask (decode_mode (decode_vdg g))"
    "g_lAA g = (if g_COCO g then 192 else VRES_LPF_lAA ! g_LPF g)"
    using d(2) mode_fields(5) [of "decode_vdg g"] vdg_fields(5) [of g]
    by (simp_all add: derived_ok_def gime_derived_def update_fields gime_base_def)
  show "g_lAA g < 0x10000" unfolding e(2) using small_tables(4) s(3) by simp
  show "g_rowmask g < 32" "\<not> g_COCO g \<Longrightarrow> g_rowmask g = LPR_rowmask ! g_LPR g" "g_COCO g \<Longrightarrow> g_rowmask g < 13"
    using e(1) vdg_fields(5) [of g] small_tables s l by (simp_all add: decode_mode_eq gime_base_def)
qed

lemma rowmask_inject:
  assumes "LPR_rowmask ! i = LPR_rowmask ! j" and "i < 8" and "j < 8"
  shows "i = j"
proof -
  have "distinct LPR_rowmask" "length LPR_rowmask = 8" by (simp_all add: LPR_rowmask_def)
  then show ?thesis using assms by (simp add: nth_eq_iff_index_eq)
qed

lemma underline_row:
  assumes "i < 8" and "r \<le> 16" and "r' \<le> 16" and "r mod 16 = r' mod 16"
  shows "(int r = LPR_underline_row ! i) = (int r' = LPR_underline_row ! i)"
proof (cases "r = r'")
  case False
  have "r = 16 \<and> r' = 0 \<or> r = 0 \<and> r' = 16"
    using assms(2-4) False by (cases "r = 16"; cases "r' = 16") simp_all
  moreover have "list_all (\<lambda>x. x \<noteq> 0 \<and> x \<noteq> 16) LPR_underline_row" by (simp add: LPR_underline_row_def)
  then have "LPR_underline_row ! i \<noteq> 0 \<and> LPR_underline_row ! i \<noteq> 16"
    using assms(1) by (simp add: list_all_length LPR_underline_row_def)
  ultimately show ?thesis by auto
qed simp

lemma same_sig_look:
  assumes e: "sig_words g src nb n (with_attr g) = sig_words h src' nb' n' (with_attr h)"
    and w: "gime_wf g" "gime_wf h" and n: "n < 256" "n' < 256"
    and r: "g_row g \<le> 16" "g_row h \<le> 16" and m: "s_monitor g = s_monitor h"
    and p: "\<And>i. 16 \<le> i \<Longrightarrow> g_palette_reg g i = g_palette_reg h i"
  shows "same_look g h" and "n = n'" and "\<And>k. k < nb \<Longrightarrow> src k = src' k" and "with_attr g = with_attr h"
proof -
  have mode: "sig_mode g (with_attr g) = sig_mode h (with_attr h)"
    and two: "of_nat n OR push_bit 8 (g_lAA g) OR push_bit 24 (ucast (s_artifacts g)) =
      (of_nat n' OR push_bit 8 (g_lAA h) OR push_bit 24 (ucast (s_artifacts h)) :: u32)"
    using e by (simp_all add: sig_words_def)
  have tl: "map (\<lambda>k. word_of4 (g_palette_reg g) (4 * k)) [0..<4] @ map (\<lambda>k. word_of4 src (4 * k)) [0..<(nb + 3) div 4] =
      map (\<lambda>k. word_of4 (g_palette_reg h) (4 * k)) [0..<4] @ map (\<lambda>k. word_of4 src' (4 * k)) [0..<(nb' + 3) div 4]"
    using e unfolding sig_words_def by (simp only: append_Cons append_Nil list.inject)
  have pal: "map (\<lambda>k. word_of4 (g_palette_reg g) (4 * k)) [0..<4] = map (\<lambda>k. word_of4 (g_palette_reg h) (4 * k)) [0..<4]"
    and bytes: "map (\<lambda>k. word_of4 src (4 * k)) [0..<(nb + 3) div 4] = map (\<lambda>k. word_of4 src' (4 * k)) [0..<(nb' + 3) div 4]"
    using tl by (subst (asm) append_eq_append_conv; simp)+
  note f = sig_mode_inject [OF mode wf_ranges(2) [OF w(1)] wf_ranges(2) [OF w(2)] wf_ranges(4) [OF w(1)] wf_ranges(4) [OF w(2)]
      wf_ranges(1) [OF w(1)] wf_ranges(1) [OF w(2)] wf_rowmask(2) [OF w(1)] wf_rowmask(2) [OF w(2)]]
  note s = second_word_inject [OF two n wf_rowmask(3) [OF w(1)] wf_rowmask(3) [OF w(2)]]
  show "n = n'" by (rule s(1))
  show wa: "with_attr g = with_attr h" using f(1-3) by (simp add: with_attr_def)
  show "src k = src' k" if "k < nb" for k
    using words_inject(2) [OF bytes, of k] that by linarith
  have "g_palette_reg g i = g_palette_reg h i" for i
    using words_inject(2) [OF pal, of i] p [of i] by (cases "i < 16") simp_all
  then have pr: "g_palette_reg g = g_palette_reg h" by (rule ext)
  have "(int (g_row g) = LPR_underline_row ! g_LPR g) = (int (g_row h) = LPR_underline_row ! g_LPR h)" if "with_attr g"
  proof -
    have "\<not> g_COCO g" "\<not> g_COCO h" using that wa by (simp_all add: with_attr_def)
    then have "g_LPR g = g_LPR h"
      using rowmask_inject f(14) wf_rowmask(1,4) [OF w(1)] wf_rowmask(1,4) [OF w(2)] by metis
    then show ?thesis using underline_row [OF wf_rowmask(1) [OF w(2)] r f(13)] by simp
  qed
  then show "same_look g h" using f s(2) m pr wa by (auto simp: same_look_def)
qed

text \<open>
  C7: Skipping a line never shows a stale line, hash collisions aside. The words that go into a line's
  signature determine its pixels: if two register states, with the sources of their lines, give the
  same words, then the raw pixels rendered from them agree, whatever the mode, attributes, blink
  phase, underline, border, palette and artifact setting. A skipped line is one whose signature is
  unchanged, so its buffer would be filled with what the display already shows.
\<close>
theorem gime_skip_sound:
  assumes e: "sig_words g src nb n (with_attr g) = sig_words h src' nb' n' (with_attr h)"
    and w: "gime_wf g" "gime_wf h" and a: "art_ok g" "art_ok h"
    and n: "n = line_bytes g" "n' = line_bytes h" and nb: "nb = (if with_attr g then 2 * n else n)"
    and r: "g_row g \<le> 16" "g_row h \<le> 16" and m: "s_monitor g = s_monitor h"
    and p: "\<And>i. 16 \<le> i \<Longrightarrow> g_palette_reg g i = g_palette_reg h i"
  shows "n = n' \<and> fst (render_line g src (raw_palette lut g) n tp) = fst (render_line h src' (raw_palette lut h) n' tp)"
proof -
  have l: "n < 256" "n' < 256" using wf_bpr(1) [OF w(1)] wf_bpr(1) [OF w(2)] by (auto simp: n line_bytes_def Let_def)
  note s = same_sig_look [OF e w l r m p]
  have "raw_palette lut g = raw_palette lut h"
    using s(1) by (intro ext) (simp add: raw_palette_def same_look_def)
  moreover have "fst (render_line g src (raw_palette lut g) n tp) = fst (render_line g src' (raw_palette lut g) n tp)"
    using s(3) by (intro render_line_src) (simp add: nb)
  ultimately show ?thesis using s(2) render_line_look [OF s(1) a] by simp
qed

lemma gime_skip_sound_witness:
  "line_bytes demo_gime = line_bytes (demo_gime\<lparr>g_row := 16\<rparr>) \<and>
   fst (render_line (demo_gime\<lparr>g_row := 0\<rparr>) (\<lambda>_. 0x41) (raw_palette of_nat (demo_gime\<lparr>g_row := 0\<rparr>)) (line_bytes demo_gime) id) =
   fst (render_line (demo_gime\<lparr>g_row := 16\<rparr>) (\<lambda>_. 0x41) (raw_palette of_nat (demo_gime\<lparr>g_row := 16\<rparr>)) (line_bytes demo_gime) id)"
proof -
  let ?g = "demo_gime\<lparr>g_row := 0\<rparr>" and ?h = "demo_gime\<lparr>g_row := 16\<rparr>"
  let ?n = "line_bytes demo_gime"
  let ?nb = "if with_attr demo_gime then 2 * ?n else ?n"
  have s: "line_bytes ?g = ?n" "line_bytes ?h = ?n" "with_attr ?g = with_attr demo_gime" "with_attr ?h = with_attr demo_gime"
    by (simp_all add: line_bytes_def with_attr_def cong: if_cong)
  have e: "sig_words ?g (\<lambda>_. 0x41) ?nb ?n (with_attr ?g) = sig_words ?h (\<lambda>_. 0x41) ?nb ?n (with_attr ?h)"
    unfolding s by (simp add: sig_words_def sig_mode_def)
  have w: "gime_wf ?g" "gime_wf ?h" "art_ok ?g" "art_ok ?h" using demo_gime_ok by (simp_all add: art_ok_def)
  have "?n = ?n \<and> fst (render_line ?g (\<lambda>_. 0x41) (raw_palette of_nat ?g) ?n id) =
      fst (render_line ?h (\<lambda>_. 0x41) (raw_palette of_nat ?h) ?n id)"
    by (rule gime_skip_sound [OF e w]) (simp_all only: s, simp_all)
  then show ?thesis unfolding s by blast
qed

end
