(* ===== verification/Machine_CoCo3.thy ===== *)
theory Machine_CoCo3
  imports Machine_Base Gime_Render
begin

text \<open>
  The CoCo 3 half of \<open>src/src/core/machine.cpp\<close>: the memory map behind the CPU's callbacks with its
  direct paths, the GIME's page tables that bypass them, init, ROM loading, reset, and the scanline
  and frame loops. The record \<open>coco3\<close> adds to the shared machine the GIME, physical RAM and the
  buffers the CoCo 3 uses; the display's operations are the record \<open>gime_display\<close>. The four PIA
  callbacks of a CoCo 3 do nothing, so the lines the PIAs drive are dropped here and read back from
  the control registers once per scanline. The function-local statics are fields: \<open>last_joy_scanline\<close>
  of the shared machine and \<open>fast_carry\<close>.
\<close>

section \<open>State\<close>

record 'p gime_display =
  hal_video_capture_armed :: "'p \<Rightarrow> bool"
  hal_video_render_scanline_gime_raw :: "u32 \<Rightarrow> u32 \<Rightarrow> u8 \<Rightarrow> u8 list \<Rightarrow> nat \<Rightarrow> 'p \<Rightarrow> 'p"
  hal_video_render_scanline_gime :: "u32 \<Rightarrow> u32 \<Rightarrow> u8 \<Rightarrow> u16 list \<Rightarrow> nat \<Rightarrow> (nat \<Rightarrow> u16) \<Rightarrow> 'p \<Rightarrow> 'p"
  hal_video_render_border_gime :: "int \<Rightarrow> u32 \<Rightarrow> u8 \<Rightarrow> 'p \<Rightarrow> 'p"
  hal_video_gime_frame :: "u32 \<Rightarrow> nat \<Rightarrow> 'p \<Rightarrow> 'p"
  hal_video_present_gime :: "bool \<Rightarrow> 'p \<Rightarrow> bool \<times> 'p"

text \<open>\<open>cart_bank\<close>: the offset into \<open>rom_disk\<close> the bank pointer has, if it is set.\<close>

record 'p coco3 = "'p machine" +
  gime :: tcc1014
  ram_physical :: "nat \<Rightarrow> u8"
  physical_size :: nat
  rom_coco3 :: "nat \<Rightarrow> u8"
  rom_disk :: "nat \<Rightarrow> u8"
  rom_coco3_loaded :: bool
  rom_disk_loaded :: bool
  rom_disk_end :: u16
  cart_bank :: "nat option"
  cart_bank_mask :: u8
  g_coco3_ram_kb :: u16
  fast_carry :: u32

definition COCO3_ROM_SIZE :: u32 where "COCO3_ROM_SIZE = 32 * 1024"
definition COCO3_RAM_KB :: u16 where "COCO3_RAM_KB = 512"
definition CART_BANK_SIZE :: nat where "CART_BANK_SIZE = 16384"
definition CART_ROM_MAX_SIZE :: nat where "CART_ROM_MAX_SIZE = 131072"

definition coco3_ram_kb_valid :: "u16 \<Rightarrow> bool" where
  "coco3_ram_kb_valid kb \<longleftrightarrow> kb = 128 \<or> kb = 512 \<or> kb = 1024 \<or> kb = 2048"

section \<open>Reads\<close>

definition upd_gime :: "(tcc1014 \<Rightarrow> tcc1014) \<Rightarrow> 'p coco3 \<Rightarrow> 'p coco3" where
  "upd_gime f m = m\<lparr>gime := f (gime m)\<rparr>"

text \<open>The bank the MMU maps at an address, and the byte of RAM it then selects.\<close>

definition cpu_bank :: "u16 \<Rightarrow> 'p coco3 \<Rightarrow> u8" where
  "cpu_bank addr m = g_active_banks (gime m) (unat (drop_bit 13 addr))"

definition bank_z :: "u8 \<Rightarrow> u16 \<Rightarrow> u32" where
  "bank_z bank addr = push_bit 13 (ucast bank) OR ucast (addr AND 0x1FFF)"

definition phys :: "u32 \<Rightarrow> 'p coco3 \<Rightarrow> nat" where
  "phys z m = unat (z AND g_ram_mask (gime m))"

definition poke_phys :: "u32 \<Rightarrow> u8 \<Rightarrow> 'p coco3 \<Rightarrow> 'p coco3" where
  "poke_phys z val m =
     m\<lparr>ram_physical := (ram_physical m)(phys z m := val), gime := (gime m)\<lparr>g_dirty_frame := True\<rparr>\<rparr>"

definition rom3_byte :: "u16 \<Rightarrow> 'p coco3 \<Rightarrow> u8" where
  "rom3_byte addr m =
     (if rom_coco3_loaded m then
        let rom_off = (ucast (addr AND 0x7FFF) :: u32)
        in if rom_off < COCO3_ROM_SIZE then rom_coco3 m (unat rom_off) else 0xFF
      else 0xFF)"

definition cts_byte :: "u16 \<Rightarrow> 'p coco3 \<Rightarrow> u8" where
  "cts_byte addr m =
     (case cart_bank m of
        Some off \<Rightarrow> rom_disk m (off + unat (addr AND (of_nat CART_BANK_SIZE - 1)))
      | None \<Rightarrow>
          if rom_disk_loaded m \<and> addr \<ge> 0xC000 \<and> addr < rom_disk_end m
          then rom_disk m (unat (addr - 0xC000)) else rom3_byte addr m)"

definition scan_inputs_coco3 :: "'p devices \<Rightarrow> 'p coco3 \<Rightarrow> 'p coco3" where
  "scan_inputs_coco3 D m =
     (let row_data = kbd_rows D m;
          m = joy_refresh D m;
          row_data = (if joy_compare D m then row_data OR 0x80 else row_data AND NOT 0x80);
          m = m\<lparr>gime := (gime m)\<lparr>g_IL1 := (row_data OR 0x80) \<noteq> 0xFF\<rparr>\<rparr>
      in m\<lparr>pia0 := mc6821_set_input_a (pia0 m) row_data\<rparr>)"

definition pia0_read_coco3 :: "'p devices \<Rightarrow> u8 \<Rightarrow> 'p coco3 \<Rightarrow> u8 \<times> 'p coco3" where
  "pia0_read_coco3 D reg m =
     (let m = (if reg = 0 \<and> tst (ctrl_a (pia0 m)) PIA_CR_DDR_SEL then scan_inputs_coco3 D m else m);
          (v, p, evs) = mc6821_read (pia0 m) reg
      in (v, m\<lparr>pia0 := p\<rparr>))"

definition pia1_read_coco3 :: "u8 \<Rightarrow> 'p coco3 \<Rightarrow> u8 \<times> 'p coco3" where
  "pia1_read_coco3 reg m = (let (v, p, evs) = mc6821_read (pia1 m) reg in (v, m\<lparr>pia1 := p\<rparr>))"

text \<open>The device the GIME's select lines \<open>S\<close> name, for a read.\<close>

definition select_read_coco3 :: "'p devices \<Rightarrow> u16 \<Rightarrow> 'p coco3 \<Rightarrow> u8 \<times> 'p coco3" where
  "select_read_coco3 D addr m =
     (let S = g_S (gime m) in
      if S = 0 then (rom3_byte addr m, m)
      else if S = 1 then (cts_byte addr m, m)
      else if S = 2 then
        (if addr AND 0x20 = 0 then pia0_read_coco3 D (ucast (addr AND 0x03)) m
         else pia1_read_coco3 (ucast (addr AND 0x03)) m)
      else if S = 6 then
        (if becker_enabled D (dev m) \<and> addr = BECKER_STATUS_ADDR then dev_read (becker_read_status D) m
         else if becker_enabled D (dev m) \<and> addr = BECKER_DATA_ADDR then dev_read (becker_read_data D) m
         else fdc_read D addr m)
      else (0xFF, m))"

text \<open>The chain behind the direct paths: the cartridges, then the GIME's full decode.\<close>

definition chain_read_coco3 :: "'p devices \<Rightarrow> u16 \<Rightarrow> 'p coco3 \<Rightarrow> u8 \<times> 'p coco3" where
  "chain_read_coco3 D addr m =
     (if rs232_pak_enabled D (dev m) \<and> addr AND 0xFFFC = 0xFF68 then
        dev_read (rs232_read D (ucast (addr AND 0x03))) m
      else if ssc_enabled D (dev m) \<and> addr - SSC_CTRL_ADDR < 2 then dev_read (ssc_read D addr) m
      else if vhd_enabled D (dev m) \<and> vhd_is_port addr then (vhd_read addr (vhd_dev m), m)
      else
        let (data, is_reg, g) = tcc1014_mem_cycle addr True 0 (gime m);
            reg_data = (case data of Some v \<Rightarrow> v | None \<Rightarrow> 0xFF);
            m = m\<lparr>gime := g\<rparr>
        in if is_reg then (reg_data, m)
           else if g_RAS g then (ram_physical m (phys (g_Z g) m), m)
           else select_read_coco3 D addr m)"

definition machine_read_coco3 :: "'p devices \<Rightarrow> u16 \<Rightarrow> 'p coco3 \<Rightarrow> u8 \<times> 'p coco3" where
  "machine_read_coco3 D addr m =
     (if addr < 0xFE00 \<and> (g_TY (gime m) \<or> cpu_bank addr m AND 0x3F < 0x3C) then
        (ram_physical m (phys (bank_z (cpu_bank addr m) addr) m), m)
      else if addr = 0xFF92 \<or> addr = 0xFF93 then
        (let (v, g) = tcc1014_read_register (unat (addr AND 0x0F)) (gime m) in (v, m\<lparr>gime := g\<rparr>))
      else if addr \<ge> 0xFFE0 then (rom3_byte addr m, m)
      else if addr \<ge> 0xFE00 \<and> addr < 0xFF00 \<and> g_MC3 (gime m) then
        (ram_physical m (phys (bank_z 0x3F addr) m), m)
      else chain_read_coco3 D addr m)"

section \<open>Writes\<close>

definition pia0_write_coco3 :: "u8 \<Rightarrow> u8 \<Rightarrow> 'p coco3 \<Rightarrow> 'p coco3" where
  "pia0_write_coco3 reg val m = sound_pia0_written reg (m\<lparr>pia0 := fst (mc6821_write (pia0 m) reg val)\<rparr>)"

definition pia1_write_coco3 :: "u8 \<Rightarrow> u8 \<Rightarrow> 'p coco3 \<Rightarrow> 'p coco3" where
  "pia1_write_coco3 reg val m = sound_pia1_written reg (m\<lparr>pia1 := fst (mc6821_write (pia1 m) reg val)\<rparr>)"

definition select_write_coco3 :: "'p devices \<Rightarrow> u16 \<Rightarrow> u8 \<Rightarrow> 'p coco3 \<Rightarrow> 'p coco3" where
  "select_write_coco3 D addr val m =
     (let S = g_S (gime m) in
      if S = 2 then
        (if addr AND 0x20 = 0 then pia0_write_coco3 (ucast (addr AND 0x03)) val m
         else pia1_write_coco3 (ucast (addr AND 0x03)) val m)
      else if S = 6 then
        (if becker_enabled D (dev m) \<and> (addr = BECKER_STATUS_ADDR \<or> addr = BECKER_DATA_ADDR) then
           (if addr = BECKER_DATA_ADDR then dev_write (becker_write_data D val) m else m)
         else if cart_bank m \<noteq> None then
           (if addr = 0xFF40
            then m\<lparr>cart_bank := Some (unat (val AND cart_bank_mask m) * CART_BANK_SIZE)\<rparr> else m)
         else fdc_write D addr val m)
      else m)"

text \<open>\<open>wr\<close> is the write a hard-disk command makes for each byte of its sector.\<close>

definition chain_write_coco3 ::
  "'p devices \<Rightarrow> (u16 \<Rightarrow> u8 \<Rightarrow> 'p coco3 \<Rightarrow> 'p coco3) \<Rightarrow> u16 \<Rightarrow> u8 \<Rightarrow> 'p coco3 \<Rightarrow> 'p coco3" where
  "chain_write_coco3 D wr addr val m =
     (if rs232_pak_enabled D (dev m) \<and> addr AND 0xFFFC = 0xFF68 then
        dev_write (rs232_write D (ucast (addr AND 0x03)) val) m
      else if orch90_enabled D (dev m) \<and> addr AND 0xFFFE = ORCH90_LEFT_ADDR then
        (let (o', s') = orch90_write addr val (orch m, snd_core m) in m\<lparr>orch := o', snd_core := s'\<rparr>)
      else if ssc_enabled D (dev m) \<and> addr - SSC_CTRL_ADDR < 2 then dev_write (ssc_write D addr val) m
      else if vhd_enabled D (dev m) \<and> vhd_is_port addr then
        vhd_write D (machine_read_coco3 D) wr addr val m
      else
        let (data, is_reg, g) = tcc1014_mem_cycle addr False val (gime m);
            m = m\<lparr>gime := g\<rparr>
        in if is_reg then m
           else if g_RAS g then poke_phys (g_Z g) val m
           else select_write_coco3 D addr val m)"

definition write_body_coco3 ::
  "'p devices \<Rightarrow> (u16 \<Rightarrow> u8 \<Rightarrow> 'p coco3 \<Rightarrow> 'p coco3) \<Rightarrow> u16 \<Rightarrow> u8 \<Rightarrow> 'p coco3 \<Rightarrow> 'p coco3" where
  "write_body_coco3 D wr addr val m =
     (if addr < 0xFE00 then poke_phys (bank_z (cpu_bank addr m) addr) val m
      else if addr = 0xFF20 then pia1_write_coco3 0 val m
      else if addr = 0xFF91 then upd_gime (tcc1014_write_register 1 val) m
      else if addr < 0xFF00 \<and> g_MC3 (gime m) then poke_phys (bank_z 0x3F addr) val m
      else chain_write_coco3 D wr addr val m)"

primrec write_nested_coco3 :: "'p devices \<Rightarrow> nat \<Rightarrow> u16 \<Rightarrow> u8 \<Rightarrow> 'p coco3 \<Rightarrow> 'p coco3" where
  "write_nested_coco3 D 0 = (\<lambda>addr val m. m\<lparr>stack_overflow := True\<rparr>)"
| "write_nested_coco3 D (Suc n) = write_body_coco3 D (write_nested_coco3 D n)"

definition machine_write_coco3 :: "'p devices \<Rightarrow> u16 \<Rightarrow> u8 \<Rightarrow> 'p coco3 \<Rightarrow> 'p coco3" where
  "machine_write_coco3 D = write_body_coco3 D (write_nested_coco3 D (stack_depth D))"

text \<open>The bus of the CPU core; the page tables are the GIME's.\<close>

definition coco3_bus :: "'p devices \<Rightarrow> 'p coco3 bus" where
  "coco3_bus D =
     \<lparr>bus_read = machine_read_coco3 D,
      bus_write = machine_write_coco3 D,
      bus_rd_page = (\<lambda>i m. map_option (\<lambda>b j. ram_physical m (b + j)) (g_rd_page (gime m) i)),
      bus_wr_page = (\<lambda>i m. map_option (\<lambda>b j v. m\<lparr>ram_physical := (ram_physical m)(b + j := v)\<rparr>)
                       (g_wr_page (gime m) i))\<rparr>"

section \<open>Init, ROMs and reset\<close>

text \<open>
  \<open>machine_init_coco3\<close> with the size \<open>g_coco3_ram_kb\<close> asked for. \<open>fits n\<close> says whether a block of
  \<open>n\<close> bytes of RAM can be allocated; the ROM buffers are taken to be. The peripherals' own state and
  the file-scope state of other modules are carried over.
\<close>

definition zero_coco3 :: "'p coco3 \<Rightarrow> 'p coco3" where
  "zero_coco3 m =
     m\<lparr>cycles_per_frame := 0, cycles_this_frame := 0, m_scanline := 0, initialized := False,
       cart_inserted := False, cart_autostart := False, ntsc := False, frame_count := 0,
       rom_coco3_loaded := False, rom_disk_loaded := False, rom_disk_end := 0, cart_bank := None,
       cart_bank_mask := 0, gime := gime_cleared (gime m)\<rparr>"

definition wire_coco3 :: "u8 \<Rightarrow> 'p coco3 \<Rightarrow> 'p coco3" where
  "wire_coco3 cpu_variant m =
     (let m = m\<lparr>rom_coco3 := (\<lambda>_. 0xFF), rom_disk := (\<lambda>_. 0xFF), rom_disk_end := 0xE000\<rparr>;
          m = upd_gime tcc1014_init m;
          m = mc6809_init m;
          m = m\<lparr>variant := cpu_variant, read_cb := True, write_cb := True, fast_limit := 0xFE00,
            idle_skip := True\<rparr>;
          m = m\<lparr>pia0 := mc6821_init\<lparr>irq_a_callback := True, irq_b_callback := True\<rparr>,
            pia1 := mc6821_init\<lparr>irq_a_callback := True, irq_b_callback := True\<rparr>\<rparr>
      in m\<lparr>ntsc := True, cycles_per_frame := CYCLES_PER_FRAME, cart_inserted := False,
           cart_autostart := False, initialized := True\<rparr>)"

definition machine_init_coco3 :: "(nat \<Rightarrow> bool) \<Rightarrow> u8 \<Rightarrow> 'p coco3 \<Rightarrow> 'p coco3" where
  "machine_init_coco3 fits cpu_variant m =
     (let m = zero_coco3 m;
          m = (if \<not> coco3_ram_kb_valid (g_coco3_ram_kb m) then m\<lparr>g_coco3_ram_kb := COCO3_RAM_KB\<rparr> else m);
          m = m\<lparr>physical_size := unat (g_coco3_ram_kb m) * 1024\<rparr>;
          ok = fits (physical_size m);
          m = (if \<not> ok \<and> g_coco3_ram_kb m > 512
               then m\<lparr>g_coco3_ram_kb := 512, physical_size := 512 * 1024\<rparr> else m);
          ok = fits (physical_size m)
      in if \<not> ok then m else wire_coco3 cpu_variant m)"

text \<open>
  \<open>load_cart_rom\<close>: the requested file (if one is requested, and if it exists) or the 8 KB Disk BASIC
  image. The result: loaded at all, whether the fallback was taken, the size and the buffer.
\<close>

definition load_cart_rom ::
  "u8 list option option \<Rightarrow> u8 list option \<Rightarrow> nat \<Rightarrow> (nat \<Rightarrow> u8) \<Rightarrow> bool \<times> bool \<times> nat \<times> (nat \<Rightarrow> u8)" where
  "load_cart_rom want disk11 max_size dst =
     (case want of
        Some (Some bs) \<Rightarrow>
          (True, False, if length bs > max_size then max_size else length bs, load_into (Some bs) max_size dst)
      | _ \<Rightarrow>
          (case disk11 of
             Some bs \<Rightarrow> (True, want \<noteq> None, 8192, load_into (Some bs) 8192 dst)
           | None \<Rightarrow> (False, want \<noteq> None, 0, dst)))"

text \<open>The bank count doubles from two until the cartridge fits.\<close>

function bank_count :: "nat \<Rightarrow> nat \<Rightarrow> nat" where
  "bank_count banks sz =
     (if 0 < banks \<and> banks * CART_BANK_SIZE < sz then bank_count (banks * 2) sz else banks)"
  by pat_completeness auto

termination by (relation "measure (\<lambda>(b, s). s - b)") (auto simp: CART_BANK_SIZE_def)

declare bank_count.simps [simp del]

definition machine_load_roms_coco3 ::
  "u8 list option \<Rightarrow> u8 list option option \<Rightarrow> u8 list option \<Rightarrow> 'p coco3 \<Rightarrow> bool \<times> 'p coco3" where
  "machine_load_roms_coco3 coco3_rom want disk11 m =
     (if \<not> initialized m then (False, m)
      else
        let m = m\<lparr>rom_coco3 := load_into coco3_rom (unat COCO3_ROM_SIZE) (rom_coco3 m),
                  rom_coco3_loaded := rom_coco3_loaded m \<or> coco3_rom \<noteq> None\<rparr>;
            (ok, fell_back, cart_size, buf) = load_cart_rom want disk11 CART_ROM_MAX_SIZE (rom_disk m);
            m = m\<lparr>rom_disk := buf\<rparr>;
            m = (if ok then
                   let m = m\<lparr>rom_disk_loaded := True,
                             rom_disk_end := (if cart_size > 8192 then 0xFF00 else 0xE000)\<rparr>;
                       m = (if cart_size > CART_BANK_SIZE
                            then m\<lparr>cart_bank_mask := of_nat (bank_count 2 cart_size - 1), cart_bank := Some 0\<rparr>
                            else m)
                   in m\<lparr>cart_autostart := cart_rom_autostarts (rom_disk m)\<rparr>
                 else m)
        in (rom_coco3_loaded m, m))"

definition reset_devices_coco3 :: "'p coco3 \<Rightarrow> 'p coco3" where
  "reset_devices_coco3 m =
     (let m = (if cart_bank m \<noteq> None then m\<lparr>cart_bank := Some 0\<rparr> else m);
          m = m\<lparr>ram_physical := (\<lambda>i. if i < physical_size m then 0 else ram_physical m i)\<rparr>;
          m = upd_gime tcc1014_reset m;
          m = upd_gime (tcc1014_set_ram (of_nat (physical_size m))) m;
          m = m\<lparr>pia0 := fst (mc6821_reset (pia0 m)), pia1 := fst (mc6821_reset (pia1 m))\<rparr>;
          m = m\<lparr>snd_core := sound_reset (snd_core m)\<rparr>;
          m = m\<lparr>pia0 := (pia0 m)\<lparr>irq_a_callback := True, irq_b_callback := True\<rparr>,
                pia1 := (pia1 m)\<lparr>irq_a_callback := True, irq_b_callback := True\<rparr>\<rparr>
      in m\<lparr>cycles_this_frame := 0, m_scanline := 0, frame_count := 0\<rparr>)"

definition machine_reset_coco3 :: "'p devices \<Rightarrow> 'p coco3 \<Rightarrow> 'p coco3" where
  "machine_reset_coco3 D m =
     (if \<not> initialized m then m
      else snd (run_state (mc6809_reset (coco3_bus D)) (reset_devices_coco3 m)))"

section \<open>Scanlines and frames\<close>

definition rs232_line_coco3 :: "'p devices \<Rightarrow> int \<Rightarrow> 'p coco3 \<Rightarrow> 'p coco3" where
  "rs232_line_coco3 D actual m =
     (if rs232_pak_enabled D (dev m) then
        let cyc = (word_of_int actual :: u32);
            (cyc, m) = (if g_R1 (gime m) then
                          let cyc = cyc + fast_carry m
                          in (drop_bit 1 cyc, m\<lparr>fast_carry := cyc AND 1\<rparr>)
                        else (cyc, m))
        in m\<lparr>dev := rs232_tick D cyc (dev m)\<rparr>
      else m)"

definition hs_pulse_coco3 :: "'p coco3 \<Rightarrow> 'p coco3" where
  "hs_pulse_coco3 m =
     (let m = m\<lparr>pia0 := fst (mc6821_ca1_transition (pia0 m) False)\<rparr>
      in m\<lparr>pia0 := fst (mc6821_ca1_transition (pia0 m) True)\<rparr>)"

definition fs_edge_coco3 :: "bool \<Rightarrow> 'p coco3 \<Rightarrow> 'p coco3" where
  "fs_edge_coco3 rising m = m\<lparr>pia0 := fst (mc6821_cb1_transition (pia0 m) rising)\<rparr>"

definition route_lines_coco3 :: "'p devices \<Rightarrow> 'p coco3 \<Rightarrow> 'p coco3" where
  "route_lines_coco3 D m =
     (let pia0_irq = pia_irq_out (ctrl_a (pia0 m)) \<or> pia_irq_out (ctrl_b (pia0 m));
          pia1_irq = pia_irq_out (ctrl_a (pia1 m)) \<or> pia_irq_out (ctrl_b (pia1 m));
          new_irq = pia0_irq \<or> g_IRQ (gime m);
          new_firq = pia1_irq \<or> g_FIRQ (gime m) \<or> (rs232_pak_enabled D (dev m) \<and> rs232_irq_active D (dev m))
      in m\<lparr>irq_pending := new_irq, firq_pending := new_firq\<rparr>)"

text \<open>The vertical parameters latched at the start of a frame, and the start of the field.\<close>

definition latch_vertical :: "tcc1014 \<Rightarrow> tcc1014" where
  "latch_vertical g =
     (let g = g\<lparr>g_lAA := (if g_COCO g then 192 else if g_LPF g = 0 then 192 else if g_LPF g = 1 then 199
                else if g_LPF g = 3 then 225 else 0xFFFF)\<rparr>
      in if g_COCO g then g\<lparr>g_lTB := (if g_H50 g then 63 else 36)\<rparr> else g)"

definition start_field :: "tcc1014 \<Rightarrow> tcc1014" where
  "start_field g =
     g\<lparr>g_B := (if g_COCO g then (g_Y g AND 0x701FF) OR push_bit 9 (ucast (g_SAM_F g)) else g_Y g),
       g_lcount := 0, g_active_area := False\<rparr>"

definition enter_active :: "tcc1014 \<Rightarrow> tcc1014" where
  "enter_active g =
     (if \<not> g_active_area g \<and> g_lcount g = g_lTB g then
        let g = g\<lparr>g_active_area := True\<rparr>
        in if \<not> g_COCO g then
             let g = g\<lparr>g_row := g_VSC g\<rparr>
             in if g_row g AND g_rowmask g = g_rowmask g then g\<lparr>g_row := 0\<rparr> else g
           else g\<lparr>g_row := 0\<rparr>
      else g)"

definition leave_active :: "tcc1014 \<Rightarrow> tcc1014" where
  "leave_active g =
     (if g_active_area g \<and> g_lcount g - g_lTB g \<ge> g_lAA g
      then tcc1014_set_interrupt TCC1014_INT_VBORD (g\<lparr>g_active_area := False\<rparr>) else g)"

definition advance_row :: "tcc1014 \<Rightarrow> tcc1014" where
  "advance_row g =
     (let g = g\<lparr>g_row := (g_row g + 1) AND 15\<rparr>;
          row_advance = (g_row g AND g_rowmask g = g_rowmask g);
          g = (if row_advance then g\<lparr>g_row := 0\<rparr> else g);
          row_advance = (if \<not> g_COCO g \<and> g_LPR g = 7 then False else row_advance)
      in if row_advance then g\<lparr>g_B := g_B g + of_nat (g_row_stride g)\<rparr> else g)"

text \<open>The line union read through its two members, little-endian.\<close>

fun line_raw :: "gime_line \<Rightarrow> u8 list" where
  "line_raw (Raw8 px) = px"
| "line_raw (Rgb565 px) = concat (map (\<lambda>w. [ucast w, ucast (drop_bit 8 w)]) px)"

fun byte_pairs :: "u8 list \<Rightarrow> u16 list" where
  "byte_pairs (lo # hi # px) = (push_bit 8 (ucast hi) OR ucast lo) # byte_pairs px"
| "byte_pairs px = []"

fun line_rgb565 :: "gime_line \<Rightarrow> u16 list" where
  "line_rgb565 (Rgb565 px) = px"
| "line_rgb565 (Raw8 px) = byte_pairs px"

definition show_line :: "'p gime_display \<Rightarrow> u32 \<Rightarrow> tcc1014 \<Rightarrow> 'p \<Rightarrow> 'p" where
  "show_line V display_line g d =
     (if g_line_clean g then d
      else if g_raw_output g then
        hal_video_render_scanline_gime_raw V display_line (g_lAA g) (g_border_colour g) (line_raw (g_line g)) (g_line_width g) d
      else
        hal_video_render_scanline_gime V display_line (g_lAA g) (g_border_colour g) (line_rgb565 (g_line g))
          (g_line_width g) (g_palette_rgb565 g) d)"

definition active_line_coco3 :: "'p gime_display \<Rightarrow> 'p coco3 \<Rightarrow> 'p coco3" where
  "active_line_coco3 V m =
     (let g = gime m;
          display_line = g_lcount g - g_lTB g;
          g = g\<lparr>g_Xoff := g_X g\<rparr>;
          g = g\<lparr>g_row_stride := gime_row_stride g\<rparr>;
          g = g\<lparr>g_raw_output := \<not> hal_video_capture_armed V (dev m)\<rparr>;
          g = tcc1014_render_scanline (ram_physical m) (unat display_line) g
      in m\<lparr>gime := advance_row g, dev := show_line V display_line g (dev m)\<rparr>)"

definition border_line_coco3 :: "'p gime_display \<Rightarrow> 'p coco3 \<Rightarrow> 'p coco3" where
  "border_line_coco3 V m =
     (let g = gime m
      in m\<lparr>dev := hal_video_render_border_gime V (sint (g_lcount g) - sint (g_lTB g)) (g_lAA g) (g_border_colour g) (dev m)\<rparr>)"

definition visible_line_coco3 :: "'p gime_display \<Rightarrow> 'p coco3 \<Rightarrow> 'p coco3" where
  "visible_line_coco3 V m =
     (let m = upd_gime enter_active m;
          m = upd_gime (\<lambda>g. g\<lparr>g_border_colour := gime_border g\<rparr>) m;
          m = upd_gime leave_active m;
          m = (if g_active_area (gime m) then active_line_coco3 V m else border_line_coco3 V m)
      in upd_gime (\<lambda>g. g\<lparr>g_lcount := g_lcount g + 1\<rparr>) m)"

definition video_line_coco3 :: "'p gime_display \<Rightarrow> 'p coco3 \<Rightarrow> 'p coco3" where
  "video_line_coco3 V m =
     (let line = m_scanline m;
          m = (if line = 0 then upd_gime latch_vertical (fs_edge_coco3 False m) else m);
          m = (if line = 4 then fs_edge_coco3 True m else m);
          m = (if line = 7 then upd_gime start_field m else m);
          m = (if line \<ge> 7 then visible_line_coco3 V m else m);
          m = upd_gime (tcc1014_set_interrupt TCC1014_INT_HBORD) m;
          m = m\<lparr>m_scanline := m_scanline m + 1\<rparr>
      in if m_scanline m \<ge> of_nat SCANLINES_PER_FRAME then m\<lparr>m_scanline := 0\<rparr> else m)"

definition machine_run_scanline_coco3 ::
  "'p devices \<Rightarrow> 'p gime_display \<Rightarrow> (int \<Rightarrow> 'p coco3 \<Rightarrow> (int \<times> 'p coco3) option) \<Rightarrow> 'p coco3 \<Rightarrow> 'p coco3 option" where
  "machine_run_scanline_coco3 D V hd6309_run m =
     (if \<not> initialized m then Some m
      else
        case mc6809_run_variant hd6309_run (coco3_bus D) (line_budget m) (fdc_tick D m) of
          None \<Rightarrow> None
        | Some (actual, m) \<Rightarrow>
            let m = m\<lparr>cycles_this_frame := cycles_this_frame m + word_of_int actual\<rparr>;
                m = rs232_line_coco3 D actual m;
                m = upd_gime tcc1014_tick_scanline m;
                m = hs_pulse_coco3 m;
                m = route_lines_coco3 D m
            in Some (video_line_coco3 V m))"

definition cart_autostart_pulse_coco3 :: "'p coco3 \<Rightarrow> 'p coco3" where
  "cart_autostart_pulse_coco3 m =
     (if \<not> cart_autostart m then m
      else let m = m\<lparr>pia1 := fst (mc6821_cb1_transition (pia1 m) True)\<rparr>
           in m\<lparr>pia1 := fst (mc6821_cb1_transition (pia1 m) False)\<rparr>)"

definition line_step_coco3 ::
  "'p devices \<Rightarrow> 'p gime_display \<Rightarrow> (int \<Rightarrow> 'p coco3 \<Rightarrow> (int \<times> 'p coco3) option) \<Rightarrow> 'p coco3 \<Rightarrow> 'p coco3 option" where
  "line_step_coco3 D V hd6309_run m = map_option (line_ticks D) (machine_run_scanline_coco3 D V hd6309_run m)"

definition present_coco3 :: "'p devices \<Rightarrow> 'p gime_display \<Rightarrow> 'p coco3 \<Rightarrow> 'p coco3" where
  "present_coco3 D V m =
     (let d = hal_audio_commit_frame D (dev m);
          d = hal_video_gime_frame V (g_lAA (gime m)) (g_line_width (gime m)) d;
          (dirty, d) = hal_video_present_gime V (g_dirty_frame (gime m)) d
      in m\<lparr>dev := d, gime := (gime m)\<lparr>g_dirty_frame := dirty\<rparr>, frame_count := frame_count m + 1\<rparr>)"

definition machine_run_frame_coco3 ::
  "'p devices \<Rightarrow> 'p gime_display \<Rightarrow> (int \<Rightarrow> 'p coco3 \<Rightarrow> (int \<times> 'p coco3) option) \<Rightarrow> 'p coco3 \<Rightarrow> 'p coco3 option" where
  "machine_run_frame_coco3 D V hd6309_run m =
     (if \<not> initialized m then Some m
      else
        let m = m\<lparr>cycles_per_frame := (if g_R1 (gime m) then 2 * CYCLES_PER_FRAME else CYCLES_PER_FRAME)\<rparr>;
            m = m\<lparr>scanline_cycle_targets := line_targets (cycles_per_frame m) (scanline_cycle_targets m)\<rparr>;
            m = m\<lparr>cycles_this_frame := 0, m_scanline := 0\<rparr>;
            m = cart_autostart_pulse_coco3 m
        in map_option (present_coco3 D V) (for_lines (line_step_coco3 D V hd6309_run) SCANLINES_PER_FRAME m))"

end
