(* ===== verification/Gime_Ram.thy ===== *)
theory Gime_Ram
  imports Gime_Skip
begin

text \<open>
  The GIME attached to RAM: the masks \<open>tcc1014_set_ram\<close> derives from the size of RAM, the video base
  that stays inside it, and the fields no bus access touches. With them every address the MMU or the
  video fetch forms is a byte of RAM.
\<close>

section \<open>Attachment\<close>

definition ram_sizes :: "nat set" where
  "ram_sizes = {0x20000, 0x80000, 0x100000, 0x200000}"

text \<open>What only \<open>tcc1014_set_ram\<close>, the row counter and the renderer change.\<close>

definition gime_fix :: "tcc1014 \<Rightarrow> bool \<times> u32 \<times> u32 \<times> u32 \<times> u8 \<times> u32 \<times> u8 list \<times> nat" where
  "gime_fix g = (g_ram g, g_ram_size g, g_ram_mask g, g_vram_mask g, g_bank_mask g, s_art_key g, s_art_colours g, g_row g)"

definition attached :: "nat \<Rightarrow> tcc1014 \<Rightarrow> bool" where
  "attached sz g \<longleftrightarrow> sz \<in> ram_sizes \<and> g_ram g \<and> g_ram_size g = of_nat sz \<and> g_ram_mask g = of_nat sz - 1 \<and>
     g_vram_mask g = (if sz < 0x80000 then of_nat sz else 0x80000) - 1 \<and>
     g_bank_mask g = (if sz > 0x100000 then 0xFF else if sz > 0x80000 then 0x7F else 0x3F) \<and>
     unat (g_vram_base g) + unat (g_vram_mask g) < sz"

lemma attached_frame:
  "gime_fix h = gime_fix g \<Longrightarrow> g_vram_base h = g_vram_base g \<Longrightarrow> attached sz h = attached sz g"
  by (simp add: gime_fix_def attached_def)

lemma size_cases:
  assumes "sz \<in> ram_sizes"
  obtains k where "sz = 2 ^ k" and "17 \<le> k" and "k \<le> 21" and "of_nat sz - 1 = (mask k :: u32)"
  using assms unfolding ram_sizes_def
  by (auto intro: that [of 17] that [of 19] that [of 20] that [of 21] simp: mask_eq_exp_minus_1)

lemma attached_ram: "attached sz g \<Longrightarrow> g_ram g"
  unfolding attached_def by blast

lemma attached_mask:
  assumes "attached sz g"
  obtains k where "sz = 2 ^ k" and "17 \<le> k" and "k \<le> 21" and "g_ram_mask g = mask k"
  using assms size_cases [of sz] by (auto simp: attached_def)

lemma attached_vram: "attached sz g \<Longrightarrow> vram_ok g"
proof -
  assume a: "attached sz g"
  then have "sz \<le> 0x200000" "unat (g_vram_base g) < sz" by (auto simp: attached_def ram_sizes_def)
  then have "g_vram_base g < 0x200000" by (simp add: word_less_nat_alt)
  moreover have "(0x7FFFF :: u32) = mask 19" "(0x1FFFF :: u32) = mask 17" by (simp_all add: mask_eq_exp_minus_1)
  ultimately show "vram_ok g" using a unfolding vram_ok_def attached_def ram_sizes_def
    by (auto intro: exI [of _ "19 :: nat"] exI [of _ "17 :: nat"])
qed

section \<open>Addresses stay inside RAM\<close>

lemma masked_in_ram: "attached sz g \<Longrightarrow> unat (z AND g_ram_mask g) < sz"
  by (erule attached_mask) (simp add: unat_mask)

lemma bank_address:
  assumes "attached sz g"
  shows "unat ((push_bit 13 (ucast (b :: u8)) OR ucast (a AND 0x1FFF :: u16)) AND g_ram_mask g) =
    unat (push_bit 13 (ucast b) AND g_ram_mask g) + unat (a AND 0x1FFF)"
proof -
  obtain k where k: "sz = 2 ^ k" "17 \<le> k" "k \<le> 21" "g_ram_mask g = mask k" by (rule attached_mask [OF assms])
  have b: "unat b < 256" using unsigned_less [of b] by simp
  have o: "unat (a AND 0x1FFF) < 8192"
    by (rule page_bounds)
  have uc: "unat (ucast b :: u32) = unat b" "unat (ucast (a AND 0x1FFF) :: u32) = unat (a AND 0x1FFF)"
    by (simp_all add: unsigned_ucast_eq take_bit_nat_eq_self_iff order_less_trans [OF u8_lt])
  have ub: "unat (push_bit 13 (ucast b) :: u32) = unat b * 8192"
    using b by (simp add: push_bit_eq_mult unat_word_ariths uc)
  have m: "a AND 0x1FFF = take_bit 13 a" by (simp add: take_bit_eq_mask mask_eq_exp_minus_1)
  have "push_bit 13 (ucast b) OR ucast (a AND 0x1FFF) = (push_bit 13 (ucast b) + ucast (a AND 0x1FFF) :: u32)"
    unfolding m by (rule disjunctive_add [symmetric]) (auto simp: bit_simps)
  moreover have "unat (push_bit 13 (ucast b) + ucast (a AND 0x1FFF) :: u32) = unat b * 8192 + unat (a AND 0x1FFF)"
    using b o ub by (subst unat_plus_simple [THEN iffD1]) (simp_all add: word_le_nat_alt unat_word_ariths uc)
  ultimately have "unat ((push_bit 13 (ucast b) OR ucast (a AND 0x1FFF)) AND g_ram_mask g) =
      (unat b * 8192 + unat (a AND 0x1FFF)) mod 2 ^ k"
    by (simp only: k(4) unat_mask)
  also have "\<dots> = (unat b * 8192) mod 2 ^ k + unat (a AND 0x1FFF)"
  proof -
    have "k = 13 + (k - 13)" using k(2) by simp
    then have "(2 :: nat) ^ k = 2 ^ 13 * 2 ^ (k - 13)" by (metis power_add)
    then obtain j where j: "(2 :: nat) ^ k = 8192 * 2 ^ j" by simp
    have "(unat b * 8192 + unat (a AND 0x1FFF)) mod (8192 * 2 ^ j) = 8192 * (unat b mod 2 ^ j) + unat (a AND 0x1FFF)"
      using o by (simp add: mod_mult2_eq)
    then show ?thesis unfolding j by (simp add: mult.commute mod_mult_mult2)
  qed
  also have "\<dots> = unat (push_bit 13 (ucast b) AND g_ram_mask g) + unat (a AND 0x1FFF)"
    by (simp only: k(4) unat_mask ub)
  finally show ?thesis .
qed

lemma line_src_in_ram:
  assumes "attached sz g"
  shows "unat (g_vram_base g) + unat (x AND g_vram_mask g) < sz"
proof -
  have "x AND g_vram_mask g \<le> g_vram_mask g" by (rule word_and_le1)
  moreover have "unat (g_vram_base g) + unat (g_vram_mask g) < sz" using assms unfolding attached_def by blast
  ultimately show ?thesis by (simp add: word_le_nat_alt)
qed

section \<open>Operations that keep the attachment\<close>

text \<open>\<open>stays h g\<close>: \<open>h\<close> is still attached as \<open>g\<close> is, with the same row and artifact cache.\<close>

definition stays :: "tcc1014 \<Rightarrow> tcc1014 \<Rightarrow> bool" where
  "stays h g \<longleftrightarrow> gime_fix h = gime_fix g \<and> g_vram_base h = g_vram_base g"

lemma stays_refl [simp]: "stays g g"
  by (simp add: stays_def)

lemma stays_trans: "stays h i \<Longrightarrow> stays i g \<Longrightarrow> stays h g"
  by (simp add: stays_def)

lemma stays_attached: "stays h g \<Longrightarrow> attached sz h = attached sz g"
  by (rule attached_frame) (simp_all add: stays_def)

lemma stays_art: "stays h g \<Longrightarrow> art_ok h = art_ok g" and stays_row: "stays h g \<Longrightarrow> g_row h = g_row g"
  by (simp_all add: stays_def gime_fix_def art_ok_def)

named_theorems stay_rules \<open>operations that stay attached\<close>

lemma stays_helpers [stay_rules]:
  "stays (update_from_gime_registers g) g" "stays (tcc1014_update_active_banks g) g"
  "stays (update_fast_pages g) g" "stays (set_interrupt f g) g" "stays (arm_timer g) g"
proof -
  show "stays (update_from_gime_registers g) g"
    using update_shape [of g] by (elim exE) (simp add: stays_def gime_fix_def)
  show "stays (tcc1014_update_active_banks g) g"
    using banks_shape [of g] by (elim exE) (simp add: stays_def gime_fix_def)
  show "stays (update_fast_pages g) g"
    using fast_pages_shape [of g] by (elim exE) (simp add: stays_def gime_fix_def)
  show "stays (set_interrupt f g) g"
    using set_interrupt_shape [of f g] by (elim exE) (simp add: stays_def gime_fix_def)
  show "stays (arm_timer g) g"
    using arm_timer_shape [of g] by (elim exE) (simp add: stays_def gime_fix_def)
qed

text \<open>A chain of record updates and the helpers above: peel them off one at a time.\<close>

lemma stays_helper_of [stay_rules]:
  "stays h g \<Longrightarrow> stays (update_from_gime_registers h) g" "stays h g \<Longrightarrow> stays (tcc1014_update_active_banks h) g"
  "stays h g \<Longrightarrow> stays (update_fast_pages h) g" "stays h g \<Longrightarrow> stays (set_interrupt f h) g"
  "stays h g \<Longrightarrow> stays (arm_timer h) g"
  by (blast intro: stays_trans stays_helpers)+

lemma stays_fields [simp]:
  "stays (h\<lparr>g_S := a1\<rparr>) g = stays h g" "stays (h\<lparr>g_Z := a2\<rparr>) g = stays h g" "stays (h\<lparr>g_RAS := b1\<rparr>) g = stays h g"
  "stays (h\<lparr>g_IRQ := b2\<rparr>) g = stays h g" "stays (h\<lparr>g_FIRQ := b3\<rparr>) g = stays h g"
  "stays (h\<lparr>g_IL0 := b4\<rparr>) g = stays h g" "stays (h\<lparr>g_IL1 := b5\<rparr>) g = stays h g" "stays (h\<lparr>g_IL2 := b6\<rparr>) g = stays h g"
  "stays (h\<lparr>g_IL0_state := c1\<rparr>) g = stays h g" "stays (h\<lparr>g_IL1_state := c2\<rparr>) g = stays h g"
  "stays (h\<lparr>g_IL2_state := c3\<rparr>) g = stays h g" "stays (h\<lparr>g_irq_state := c4\<rparr>) g = stays h g"
  "stays (h\<lparr>g_firq_state := c5\<rparr>) g = stays h g" "stays (h\<lparr>g_registers := d1\<rparr>) g = stays h g"
  "stays (h\<lparr>g_COCO := b7\<rparr>) g = stays h g" "stays (h\<lparr>g_MMUEN := b8\<rparr>) g = stays h g"
  "stays (h\<lparr>g_MC3 := b9\<rparr>) g = stays h g" "stays (h\<lparr>g_MC2 := e1\<rparr>) g = stays h g"
  "stays (h\<lparr>g_MC1 := e2\<rparr>) g = stays h g" "stays (h\<lparr>g_MC0 := e3\<rparr>) g = stays h g"
  "stays (h\<lparr>g_TINS := e4\<rparr>) g = stays h g" "stays (h\<lparr>g_TR := n1\<rparr>) g = stays h g"
  "stays (h\<lparr>g_BP := e5\<rparr>) g = stays h g" "stays (h\<lparr>g_BPI := e6\<rparr>) g = stays h g" "stays (h\<lparr>g_MOCH := e7\<rparr>) g = stays h g"
  "stays (h\<lparr>g_H50 := e8\<rparr>) g = stays h g" "stays (h\<lparr>g_LPR := n2\<rparr>) g = stays h g" "stays (h\<lparr>g_LPF := n3\<rparr>) g = stays h g"
  "stays (h\<lparr>g_HRES := n4\<rparr>) g = stays h g" "stays (h\<lparr>g_CRES := n5\<rparr>) g = stays h g" "stays (h\<lparr>g_BRDR := c6\<rparr>) g = stays h g"
  "stays (h\<lparr>g_VSC := n6\<rparr>) g = stays h g" "stays (h\<lparr>g_Y := w1\<rparr>) g = stays h g" "stays (h\<lparr>g_HVEN := e9\<rparr>) g = stays h g"
  "stays (h\<lparr>g_X := n7\<rparr>) g = stays h g" "stays (h\<lparr>g_mmu_bank := d2\<rparr>) g = stays h g"
  "stays (h\<lparr>g_palette_reg := d3\<rparr>) g = stays h g" "stays (h\<lparr>g_palette_rgb565 := d4\<rparr>) g = stays h g"
  "stays (h\<lparr>g_SAM_register := w2\<rparr>) g = stays h g" "stays (h\<lparr>g_SAM_V := n8\<rparr>) g = stays h g"
  "stays (h\<lparr>g_SAM_F := w3\<rparr>) g = stays h g" "stays (h\<lparr>g_R1 := f1\<rparr>) g = stays h g" "stays (h\<lparr>g_TY := f2\<rparr>) g = stays h g"
  "stays (h\<lparr>g_shadow_ddr := f3\<rparr>) g = stays h g" "stays (h\<lparr>g_shadow_pdr := c7\<rparr>) g = stays h g"
  "stays (h\<lparr>g_timer_counter := i1\<rparr>) g = stays h g" "stays (h\<lparr>g_timer_left_x2 := i2\<rparr>) g = stays h g"
  "stays (h\<lparr>g_timer_fires := w4\<rparr>) g = stays h g" "stays (h\<lparr>g_blink := f4\<rparr>) g = stays h g"
  "stays (h\<lparr>g_dirty_frame := f5\<rparr>) g = stays h g" "stays (h\<lparr>g_B := w5\<rparr>) g = stays h g"
  "stays (h\<lparr>g_lAA := w6\<rparr>) g = stays h g" "stays (h\<lparr>g_lTB := w7\<rparr>) g = stays h g" "stays (h\<lparr>g_lcount := w8\<rparr>) g = stays h g"
  "stays (h\<lparr>g_active_area := f6\<rparr>) g = stays h g" "stays (h\<lparr>g_border_colour := c8\<rparr>) g = stays h g"
  "stays (h\<lparr>g_Xoff := n9\<rparr>) g = stays h g" "stays (h\<lparr>g_row_stride := m1\<rparr>) g = stays h g"
  "stays (h\<lparr>g_raw_output := f7\<rparr>) g = stays h g" "stays (h\<lparr>g_line_clean := f8\<rparr>) g = stays h g"
  "stays (h\<lparr>g_line_width := m2\<rparr>) g = stays h g" "stays (h\<lparr>g_line := l1\<rparr>) g = stays h g"
  "stays (h\<lparr>s_line_sig := q1\<rparr>) g = stays h g"
  by (simp_all add: stays_def gime_fix_def)

lemma stays_edge [stay_rules]: "stays (edge_detect_il g) g"
  by (simp add: edge_detect_il_def Let_def stay_rules)

lemma stays_decode [stay_rules]: "stays h g \<Longrightarrow> stays (decode_memory a h) g"
  by (simp add: decode_memory_def Let_def)

lemma stays_init1: "stays h g \<Longrightarrow> stays (write_init1 v h) g"
  by (simp add: write_init1_def Let_def stay_rules)

lemma stays_read_register [stay_rules]: "stays (snd (tcc1014_read_register r g)) g"
  using stays_edge [of g] by (simp add: tcc1014_read_register_def Let_def)

lemma stays_mmu [stay_rules]: "stays h g \<Longrightarrow> stays (tcc1014_write_mmu n v h) g"
  by (simp add: tcc1014_write_mmu_def stay_rules)

lemma stays_palette [stay_rules]: "stays h g \<Longrightarrow> stays (tcc1014_write_palette n v h) g"
  by (simp add: tcc1014_write_palette_def Let_def)

lemma stays_sam [stay_rules]: "stays h g \<Longrightarrow> stays (tcc1014_write_sam n h) g"
  by (simp add: tcc1014_write_sam_def update_from_sam_register_def Let_def stay_rules)

lemma stays_timer [stay_rules]: "stays (tcc1014_tick_scanline g) g"
proof -
  have e: "stays h g \<Longrightarrow> stays (timer_expired h) g" for h g
    by (simp add: timer_expired_def stay_rules)
  have p: "stays h g \<Longrightarrow> stays (timer_pass h) g" for h g
    by (simp add: timer_pass_def Let_def stay_rules e)
  have l: "stays h g \<Longrightarrow> stays (timer_loop h) g" for h g
    by (induction h rule: timer_loop.induct) (subst timer_loop.simps, simp add: Let_def p)
  show ?thesis by (simp add: tcc1014_tick_scanline_def Let_def l e stay_rules)
qed

text \<open>A register write moves the video base only through $FF9B, and keeps it inside RAM.\<close>

lemma write_register_stays:
  assumes "r AND 15 \<noteq> 11"
  shows "stays h g \<Longrightarrow> stays (tcc1014_write_register r v h) g"
  using assms by (simp add: tcc1014_write_register_def Let_def stay_rules stays_init1)

lemma write_register_fix:
  shows "gime_fix (tcc1014_write_register r v g) = gime_fix g"
proof (cases "r AND 15 = 11")
  case True
  then show ?thesis by (simp add: tcc1014_write_register_def Let_def gime_fix_def)
next
  case False
  from write_register_stays [OF this, of g g v] show ?thesis by (simp add: stays_def)
qed

lemma vram_base_in_ram:
  assumes a: "attached sz g" and b: "g_bank_mask g \<noteq> 0x3F"
  shows "unat (push_bit 19 (ucast (v AND 0x03 :: u8)) AND g_ram_mask g :: u32) + unat (g_vram_mask g) < sz"
proof -
  have s: "sz = 0x100000 \<or> sz = 0x200000" and m: "g_ram_mask g = of_nat sz - 1" "g_vram_mask g = 0x7FFFF"
    using a b by (auto simp: attached_def ram_sizes_def)
  have "v AND 3 \<in> {0, 1, 2, 3}"
  proof -
    have "unat (v AND 3) < 4" by (rule and_lt)
    then consider "unat (v AND 3) = unat (0 :: u8)" | "unat (v AND 3) = unat (1 :: u8)" |
      "unat (v AND 3) = unat (2 :: u8)" | "unat (v AND 3) = unat (3 :: u8)" by fastforce
    then show ?thesis by cases (simp_all only: word_unat_eq_iff [symmetric] insert_iff simp_thms)
  qed
  with s m show ?thesis by (elim insertE disjE emptyE) simp_all
qed

lemma write_register_attached:
  assumes "attached sz g"
  shows "attached sz (tcc1014_write_register r v g)"
proof (cases "r AND 15 = 11")
  case True
  show ?thesis
  proof (cases "g_bank_mask g = 0x3F")
    case False
    have e: "tcc1014_write_register r v g = g\<lparr>g_registers := (g_registers g)(11 := v),
        g_vram_base := push_bit 19 (ucast (v AND 0x03)) AND g_ram_mask g, g_dirty_frame := True\<rparr>"
      using True False by (simp add: tcc1014_write_register_def Let_def)
    show ?thesis using assms vram_base_in_ram [OF assms False, of v] unfolding e attached_def by simp
  next
    case 63: True
    have "tcc1014_write_register r v g = g\<lparr>g_registers := (g_registers g)(11 := v)\<rparr>"
      using True 63 by (simp add: tcc1014_write_register_def Let_def)
    then show ?thesis using assms stays_attached [of "g\<lparr>g_registers := (g_registers g)(11 := v)\<rparr>" g sz] by simp
  qed
next
  case False
  from write_register_stays [OF this, of g g v] show ?thesis using assms by (simp add: stays_attached)
qed

text \<open>Every bus cycle.\<close>

lemma mem_cycle_attached:
  assumes "attached sz g"
  shows "attached sz (snd (snd (tcc1014_mem_cycle a rw v g)))"
    and "gime_fix (snd (snd (tcc1014_mem_cycle a rw v g))) = gime_fix g"
proof -
  let ?g = "(edge_detect_il g)\<lparr>g_S := 7, g_RAS := False\<rparr>"
  have s: "stays ?g g" by (simp add: stay_rules)
  then have at: "attached sz ?g" "gime_fix ?g = gime_fix g" using assms stays_attached [of ?g g sz] by (auto simp: stays_def)
  define h where "h = snd (snd (tcc1014_mem_cycle a rw v g))"
  have "stays h g \<or> h = tcc1014_write_register (unat (a AND 0x0F)) v ?g"
  proof (cases "\<not> a < 0xFF90 \<and> a < 0xFFA0 \<and> \<not> rw")
    case True
    then have "\<not> a < 0xFF00" "\<not> a < 0xFF40" "\<not> a < 0xFF60" by (simp_all add: word_less_nat_alt)
    with True show ?thesis by (simp add: h_def tcc1014_mem_cycle_def Let_def)
  next
    case False
    let ?st = "\<lambda>x. stays x g"
    have "stays h g \<or> (\<not> a < 0xFF90 \<and> a < 0xFFA0 \<and> \<not> rw)"
      using s unfolding h_def tcc1014_mem_cycle_def Let_def
      by (simp add: stay_rules if_distrib [of snd] if_distrib [of ?st] cong: if_cong split del: if_split) auto
    with False show ?thesis by blast
  qed
  then have "attached sz h \<and> gime_fix h = gime_fix g"
    using write_register_attached [OF at(1)] write_register_fix at(2) assms stays_attached [of h g sz] by (auto simp: stays_def)
  then show "attached sz (snd (snd (tcc1014_mem_cycle a rw v g)))" "gime_fix (snd (snd (tcc1014_mem_cycle a rw v g))) = gime_fix g"
    unfolding h_def by blast+
qed

end
