(* ===== verification/CoCo3_Memory.thy ===== *)
theory CoCo3_Memory
  imports Machine_CoCo3 Gime_Ram
begin

text \<open>
  The memory side of the CoCo 3 of \<open>src/src/core/machine.cpp\<close>: the page tables of the GIME agree with
  the read and write callbacks, the direct paths of the callbacks agree with the full GIME decode, no
  access leaves the buffers, and an invariant of the whole machine that every bus access keeps.
\<close>

section \<open>MMU\<close>

text \<open>The page tables and the bank registers, when they are current.\<close>

lemma current_pages:
  assumes "pages_ok g" and "i < 8"
  shows "g_active_banks g i = (if g_MMUEN g then g_mmu_bank g (g_TR g OR i) else 0x38 OR of_nat i)"
    and "g_wr_page g i = (if g_ram g then Some (unat (push_bit 13 (ucast (g_active_banks g i) :: u32) AND g_ram_mask g)) else None)"
    and "g_rd_page g i = (if g_TY g \<or> g_active_banks g i AND 0x3F < 0x3C then g_wr_page g i else None)"
  using assms(1)[unfolded pages_ok_def, rule_format, OF assms(2)]
  by (simp_all add: map_update [OF assms(2)] Let_def) (simp_all add: gime_map_def)

definition mapped :: "nat \<Rightarrow> 'p coco3 \<Rightarrow> bool" where
  "mapped sz m \<longleftrightarrow> pages_ok (gime m) \<and> attached sz (gime m)"

lemma page_pointer:
  assumes "mapped sz m"
  shows "g_wr_page (gime m) (unat (drop_bit 13 a)) = Some (unat (push_bit 13 (ucast (cpu_bank a m) :: u32) AND g_ram_mask (gime m)))"
    and "g_rd_page (gime m) (unat (drop_bit 13 a)) =
      (if g_TY (gime m) \<or> cpu_bank a m AND 0x3F < 0x3C
       then Some (unat (push_bit 13 (ucast (cpu_bank a m) :: u32) AND g_ram_mask (gime m))) else None)"
    and "unat (push_bit 13 (ucast b :: u32) AND g_ram_mask (gime m)) + unat (a AND 0x1FFF) = phys (bank_z b a) m"
proof -
  have ok: "pages_ok (gime m)" and r: "g_ram (gime m)" and at: "attached sz (gime m)"
    using assms attached_ram by (auto simp: mapped_def)
  note c = current_pages [OF ok page_bounds(1) [of a]]
  show w: "g_wr_page (gime m) (unat (drop_bit 13 a)) = Some (unat (push_bit 13 (ucast (cpu_bank a m) :: u32) AND g_ram_mask (gime m)))"
    using c(2) r by (simp add: cpu_bank_def)
  show "g_rd_page (gime m) (unat (drop_bit 13 a)) =
      (if g_TY (gime m) \<or> cpu_bank a m AND 0x3F < 0x3C
       then Some (unat (push_bit 13 (ucast (cpu_bank a m) :: u32) AND g_ram_mask (gime m))) else None)"
    unfolding c(3) w by (simp add: cpu_bank_def)
  show "unat (push_bit 13 (ucast b :: u32) AND g_ram_mask (gime m)) + unat (a AND 0x1FFF) = phys (bank_z b a) m"
    unfolding phys_def bank_z_def by (rule bank_address [OF at, symmetric])
qed

lemma clean_poke: "(poke_phys z v m)\<lparr>gime := (gime m)\<lparr>g_dirty_frame := d\<rparr>\<rparr> =
    m\<lparr>ram_physical := (ram_physical m)(phys z m := v), gime := (gime m)\<lparr>g_dirty_frame := d\<rparr>\<rparr>"
  by (simp add: poke_phys_def)

definition undirty :: "'p coco3 \<Rightarrow> 'p coco3" where
  "undirty m = upd_gime (\<lambda>g. g\<lparr>g_dirty_frame := False\<rparr>) m"

text \<open>
  C15: The page tables mirror the memory map. With the tables current and RAM attached, a read of the CPU
  core below $FE00 gives the same byte and the same machine whether it goes through the GIME's page
  pointers or through \<open>machine_read_coco3\<close>; a write stores the same byte at the same physical address,
  and differs from \<open>machine_write_coco3\<close> only in not marking the frame dirty.
\<close>

theorem coco3_fast_path:
  assumes "mapped sz m" and "fast_limit m = 0xFE00"
  shows "run_state (mem_read (coco3_bus D) a) m = machine_read_coco3 D a m \<and>
    undirty (snd (run_state (mem_write (coco3_bus D) a v) m)) = undirty (machine_write_coco3 D a v m)"
proof
  note p = page_pointer [OF assms(1)]
  show "run_state (mem_read (coco3_bus D) a) m = machine_read_coco3 D a m"
    using assms(2) by (simp add: mem_read_def coco3_bus_def p machine_read_coco3_def)
  show "undirty (snd (run_state (mem_write (coco3_bus D) a v) m)) = undirty (machine_write_coco3 D a v m)"
    using assms(2) by (simp add: mem_write_def coco3_bus_def p machine_write_coco3_def write_body_coco3_def
        undirty_def upd_gime_def poke_phys_def)
qed

section \<open>Machine invariant\<close>

text \<open>What holds from reset on, whatever program runs.\<close>

definition cart_ok :: "'p coco3 \<Rightarrow> bool" where
  "cart_ok m \<longleftrightarrow> cart_bank_mask m \<le> 7 \<and> (\<forall>off. cart_bank m = Some off \<longrightarrow> off \<le> 7 * CART_BANK_SIZE) \<and>
     rom_disk_end m \<le> 0xFF00"

definition gime_ok :: "nat \<Rightarrow> tcc1014 \<Rightarrow> bool" where
  "gime_ok sz g \<longleftrightarrow> gime_wf g \<and> attached sz g \<and> art_ok g \<and> g_row g \<le> 15"

definition coco3_inv :: "'p coco3 \<Rightarrow> bool" where
  "coco3_inv m \<longleftrightarrow> gime_ok (physical_size m) (gime m) \<and> cart_ok m \<and> fast_limit m = 0xFE00 \<and> read_cb m \<and> write_cb m \<and>
     sound_current (snd_core m) \<and> sound_wf (snd_core m) \<and>
     irq_a_callback (pia0 m) \<and> irq_b_callback (pia0 m) \<and> irq_a_callback (pia1 m) \<and> irq_b_callback (pia1 m)"

definition kept3 :: "timing_state \<Rightarrow> 'p coco3 \<Rightarrow> bool" where
  "kept3 c m \<longleftrightarrow> coco3_inv m \<and> timing m = c"

lemmas kept3_defs = kept3_def coco3_inv_def timing_def cart_ok_def

lemma kept3_lines [simp]:
  "kept3 c (mc6809_nmi l m) = kept3 c m" "kept3 c (m\<lparr>halted := h\<rparr>) = kept3 c m"
  "kept3 c (m\<lparr>dev := d\<rparr>) = kept3 c m" "kept3 c (m\<lparr>vhd_dev := vh\<rparr>) = kept3 c m"
  "kept3 c (m\<lparr>stack_overflow := so\<rparr>) = kept3 c m" "kept3 c (m\<lparr>last_joy_scanline := j\<rparr>) = kept3 c m"
  "kept3 c (m\<lparr>ram_physical := r\<rparr>) = kept3 c m" "kept3 c (m\<lparr>orch := q\<rparr>) = kept3 c m"
  "kept3 c (m\<lparr>fast_carry := fc\<rparr>) = kept3 c m" "kept3 c (m\<lparr>irq_pending := x\<rparr>) = kept3 c m"
  "kept3 c (m\<lparr>firq_pending := x\<rparr>) = kept3 c m"
  by (simp_all add: kept3_defs mc6809_nmi_def Let_def)

lemma kept3_pia0 [simp]:
  "irq_a_callback p = irq_a_callback (pia0 m) \<Longrightarrow> irq_b_callback p = irq_b_callback (pia0 m) \<Longrightarrow>
   kept3 c (m\<lparr>pia0 := p\<rparr>) = kept3 c m"
  by (simp add: kept3_defs)

lemma kept3_pia1 [simp]:
  "irq_a_callback p = irq_a_callback (pia1 m) \<Longrightarrow> irq_b_callback p = irq_b_callback (pia1 m) \<Longrightarrow>
   kept3 c (m\<lparr>pia1 := p\<rparr>) = kept3 c m"
  by (simp add: kept3_defs)

lemma kept3_sound:
  "kept3 c m \<Longrightarrow> sound_current q \<Longrightarrow> sound_wf q \<Longrightarrow> kept3 c (m\<lparr>snd_core := q\<rparr>)"
  by (simp add: kept3_defs)

lemma kept3_gime:
  "kept3 c m \<Longrightarrow> gime_ok (physical_size m) g \<Longrightarrow> kept3 c (m\<lparr>gime := g\<rparr>)"
  by (simp add: kept3_defs)

lemma kept3_gimeD: "kept3 c m \<Longrightarrow> gime_ok (physical_size m) (gime m)"
  by (simp add: kept3_def coco3_inv_def)

lemma ok_stays: "gime_ok sz g \<Longrightarrow> gime_wf h \<Longrightarrow> stays h g \<Longrightarrow> gime_ok sz h"
  by (simp add: gime_ok_def stays_attached stays_art stays_row)

lemma ok_fix: "gime_ok sz g \<Longrightarrow> gime_wf h \<Longrightarrow> attached sz h \<Longrightarrow> gime_fix h = gime_fix g \<Longrightarrow> gime_ok sz h"
  by (simp add: gime_ok_def gime_fix_def art_ok_def)

lemma ok_wf: "gime_ok sz g \<Longrightarrow> gime_wf g"
  by (simp add: gime_ok_def)

lemma ok_mem_cycle: "gime_ok sz g \<Longrightarrow> gime_ok sz (snd (snd (tcc1014_mem_cycle a rw v g)))"
  by (rule ok_fix [of sz g]) (simp_all add: gime_ok_def mem_cycle_wf mem_cycle_attached [of sz])

lemma ok_read_register: "gime_ok sz g \<Longrightarrow> gime_ok sz (snd (tcc1014_read_register r g))"
  by (rule ok_stays [of sz g]) (simp_all add: gime_ok_def read_register_wf stay_rules)

lemma ok_write_register: "gime_ok sz g \<Longrightarrow> gime_ok sz (tcc1014_write_register r v g)"
  by (rule ok_fix [of sz g]) (simp_all add: gime_ok_def write_register_wf write_register_attached write_register_fix)

lemma ok_fields:
  "gime_ok sz (g\<lparr>g_dirty_frame := b\<rparr>) = gime_ok sz g" "gime_ok sz (g\<lparr>g_IL1 := b\<rparr>) = gime_ok sz g"
  by (simp_all add: gime_ok_def attached_def art_ok_def)

lemma kept3_poke: "kept3 c m \<Longrightarrow> kept3 c (poke_phys z v m)"
  using kept3_gimeD [of c m] unfolding poke_phys_def
  by (intro kept3_gime) (simp_all add: ok_fields)

lemma kept3_fold: "(\<And>x m. x \<in> set xs \<Longrightarrow> kept3 c m \<Longrightarrow> kept3 c (g x m)) \<Longrightarrow> kept3 c m \<Longrightarrow> kept3 c (fold g xs m)"
  by (induction xs arbitrary: m) auto

lemma kept3_fdc_apply [simp]: "kept3 c (fdc_apply e m) = kept3 c m"
  by (cases e) simp_all

lemma kept3_dev_ops [simp]:
  "kept3 c (snd (dev_read f m)) = kept3 c m" "kept3 c (dev_write g m) = kept3 c m"
  "kept3 c (snd (fdc_read D a m)) = kept3 c m" "kept3 c (fdc_write D a v m) = kept3 c m"
  "kept3 c (fdc_tick D m) = kept3 c m" "kept3 c (vhd_status st m) = kept3 c m"
  by (simp_all add: dev_read_def dev_write_def fdc_read_def fdc_write_def fdc_tick_def vhd_status_def
      case_prod_unfold Let_def fold_frame [of _ "kept3 c"])

lemma kept3_scan: "kept3 c m \<Longrightarrow> kept3 c (scan_inputs_coco3 D m)"
proof -
  assume m: "kept3 c m"
  have j: "kept3 c (joy_refresh D m)" "gime (joy_refresh D m) = gime m" "physical_size (joy_refresh D m) = physical_size m"
    using m by (simp_all add: joy_refresh_def Let_def)
  then have "kept3 c ((joy_refresh D m)\<lparr>gime := (gime m)\<lparr>g_IL1 := b\<rparr>\<rparr>)" for b
    using kept3_gimeD [OF m] by (intro kept3_gime) (simp_all add: ok_fields)
  then show ?thesis using j by (simp add: scan_inputs_coco3_def Let_def mc6821_set_input_a_def)
qed

lemma kept3_pia_reads:
  assumes "kept3 c m"
  shows "kept3 c (snd (pia0_read_coco3 D r m))" "kept3 c (snd (pia1_read_coco3 r m))"
  using assms kept3_scan [OF assms, of D] by (simp_all add: pia0_read_coco3_def pia1_read_coco3_def Let_def case_prod_unfold)

lemma kept3_select_read: "kept3 c m \<Longrightarrow> kept3 c (snd (select_read_coco3 D a m))"
  by (simp add: select_read_coco3_def Let_def kept3_pia_reads)

lemma kept3_chain_read: "kept3 c m \<Longrightarrow> kept3 c (snd (chain_read_coco3 D a m))"
proof -
  assume m: "kept3 c m"
  have "kept3 c (m\<lparr>gime := snd (snd (tcc1014_mem_cycle a True 0 (gime m)))\<rparr>)"
    by (rule kept3_gime [OF m ok_mem_cycle [OF kept3_gimeD [OF m]]])
  then show ?thesis using m
    by (simp add: chain_read_coco3_def Let_def case_prod_unfold kept3_select_read)
qed

lemma kept3_read: "kept3 c m \<Longrightarrow> kept3 c (snd (machine_read_coco3 D a m))"
proof -
  assume m: "kept3 c m"
  have "kept3 c (m\<lparr>gime := snd (tcc1014_read_register r (gime m))\<rparr>)" for r
    by (rule kept3_gime [OF m ok_read_register [OF kept3_gimeD [OF m]]])
  then show ?thesis using m
    by (simp add: machine_read_coco3_def Let_def case_prod_unfold kept3_chain_read)
qed

lemma sound_ops_kept3:
  assumes "kept3 c m"
  shows "kept3 c (m\<lparr>snd_core := sound_exec op (snd_core m)\<rparr>)"
  using assms sound_exec_current [of "snd_core m" op] sound_exec_wf [of "snd_core m" op]
  by (intro kept3_sound) (simp_all add: kept3_def coco3_inv_def)

lemmas sound_setters_kept3 =
  sound_ops_kept3 [where op = "SndMuxSource x" for x, simplified]
  sound_ops_kept3 [where op = "SndDac x" for x, simplified]
  sound_ops_kept3 [where op = "SndSbs x y" for x y, simplified]
  sound_ops_kept3 [where op = "SndMuxEnabled x" for x, simplified]
  sound_ops_kept3 [where op = "SndExternal x y" for x y, simplified]

lemma kept3_sound_written:
  assumes "kept3 c m"
  shows "kept3 c (sound_pia0_written reg m)" "kept3 c (sound_pia1_written reg m)"
proof -
  show "kept3 c (sound_pia0_written reg m)"
    using assms by (simp add: sound_pia0_written_def sound_setters_kept3(1))
  have sbs: "kept3 c (m\<lparr>snd_core := sound_set_mux_enabled x (sound_set_sbs y z (snd_core m))\<rparr>)" for x y z
    using sound_setters_kept3(4) [OF sound_setters_kept3(3) [OF assms]] by simp
  show "kept3 c (sound_pia1_written reg m)"
    using assms by (auto simp: sound_pia1_written_def Let_def sbs sound_setters_kept3(2,3))
qed

lemma kept3_pia_writes:
  assumes "kept3 c m"
  shows "kept3 c (pia0_write_coco3 reg v m)" "kept3 c (pia1_write_coco3 reg v m)"
  using assms by (simp_all add: pia0_write_coco3_def pia1_write_coco3_def kept3_sound_written)

lemma bank_select_ok:
  assumes "cart_ok m"
  shows "unat (v AND cart_bank_mask m) * CART_BANK_SIZE \<le> 7 * CART_BANK_SIZE"
proof -
  have "v AND cart_bank_mask m \<le> cart_bank_mask m" by (rule word_and_le1)
  then have "v AND cart_bank_mask m \<le> 7" using assms by (auto simp: cart_ok_def)
  then show ?thesis by (simp add: word_le_nat_alt)
qed

lemma kept3_select_write: "kept3 c m \<Longrightarrow> kept3 c (select_write_coco3 D a v m)"
proof -
  assume m: "kept3 c m"
  then have "kept3 c (m\<lparr>cart_bank := Some (unat (v AND cart_bank_mask m) * CART_BANK_SIZE)\<rparr>)"
    using bank_select_ok [of m v] by (auto simp: kept3_defs)
  then show ?thesis using m by (simp add: select_write_coco3_def Let_def kept3_pia_writes)
qed

lemma kept3_vhd_write:
  assumes wr: "\<And>a v m. kept3 c m \<Longrightarrow> kept3 c (wr a v m)" and m: "kept3 c m"
  shows "kept3 c (vhd_write D (machine_read_coco3 D) wr a v m)"
proof -
  have r: "kept3 c (cmd_read D wr bf m)" if "kept3 c m" for bf m
    using that by (simp add: cmd_read_def Let_def case_prod_unfold) (auto intro!: kept3_fold wr)
  have w: "kept3 c (cmd_write D (machine_read_coco3 D) bf m)" if "kept3 c m" for bf m
    using that by (simp add: cmd_write_def Let_def case_prod_unfold) (auto intro!: kept3_fold simp: kept3_read)
  have f: "kept3 c (m\<lparr>dev := d, vhd_dev := h\<rparr>)" for d h using m by simp
  show ?thesis using m r w f by (simp add: vhd_write_def vhd_command_def Let_def)
qed

lemma kept3_chain_write:
  assumes wr: "\<And>a v m. kept3 c m \<Longrightarrow> kept3 c (wr a v m)" and m: "kept3 c m"
  shows "kept3 c (chain_write_coco3 D wr a v m)"
proof -
  have o: "kept3 c (m\<lparr>orch := fst (orch90_write a v (orch m, snd_core m)),
      snd_core := snd (orch90_write a v (orch m, snd_core m))\<rparr>)" for a v
    using sound_setters_kept3(5) [of c "m\<lparr>orch := q\<rparr>" l r for q l r] m by (simp add: orch90_write_def Let_def)
  have g: "kept3 c (m\<lparr>gime := snd (snd (tcc1014_mem_cycle a False v (gime m)))\<rparr>)" for a v
    by (rule kept3_gime [OF m ok_mem_cycle [OF kept3_gimeD [OF m]]])
  show ?thesis
    unfolding chain_write_coco3_def case_prod_unfold Let_def using m
    by (simp add: kept3_vhd_write [OF wr m] o g kept3_poke kept3_select_write)
qed

lemma kept3_write_body:
  assumes wr: "\<And>a v m. kept3 c m \<Longrightarrow> kept3 c (wr a v m)" and m: "kept3 c m"
  shows "kept3 c (write_body_coco3 D wr a v m)"
proof -
  have "kept3 c (upd_gime (tcc1014_write_register 1 v) m)"
    unfolding upd_gime_def by (rule kept3_gime [OF m ok_write_register [OF kept3_gimeD [OF m]]])
  then show ?thesis using m
    by (simp add: write_body_coco3_def kept3_poke kept3_pia_writes kept3_chain_write [OF wr m] del: One_nat_def)
qed

lemma kept3_write: "kept3 c m \<Longrightarrow> kept3 c (machine_write_coco3 D a v m)"
proof -
  have "kept3 c m \<Longrightarrow> kept3 c (write_nested_coco3 D n a v m)" for n a v m
    by (induction n arbitrary: a v m) (simp_all add: kept3_write_body)
  then show "kept3 c m \<Longrightarrow> kept3 c (machine_write_coco3 D a v m)"
    by (simp add: machine_write_coco3_def kept3_write_body)
qed

interpretation coco3_keeps: inv_bus "coco3_bus D" "kept3 c" for D :: "'p devices" and c
proof unfold_locales
  fix s t :: "'p coco3" assume "outer s = outer t"
  then show "kept3 c s = kept3 c t"
    by (cases s, cases t) (simp add: outer_def kept3_defs)
qed (auto simp: coco3_bus_def kept3_read kept3_write)

end
