(* ===== verification/CoCo3_Reset.thy ===== *)
theory CoCo3_Reset
  imports CoCo3_Memory
begin

text \<open>
  Init, ROM loading and reset of the CoCo 3: they establish the machine invariant of
  \<open>CoCo3_Memory\<close> for each of the four RAM sizes, and start the CPU at the vector in the ROM.
\<close>

section \<open>GIME\<close>

definition art_cache :: "tcc1014 \<Rightarrow> u32 \<times> u8 list" where
  "art_cache g = (s_art_key g, s_art_colours g)"

lemma art_cache_ok: "art_cache h = art_cache g \<Longrightarrow> art_ok h = art_ok g"
  by (simp add: art_cache_def art_ok_def)

lemma stays_cache: "stays h g \<Longrightarrow> art_cache h = art_cache g"
  by (simp add: stays_def gime_fix_def art_cache_def)

lemma set_ram_shape:
  "\<exists>h. stays (tcc1014_set_ram n g) h \<and> art_cache h = art_cache g \<and> g_row h = g_row g \<and>
     (\<forall>sz \<in> ram_sizes. n = of_nat sz \<longrightarrow> attached sz h)"
proof -
  let ?m = "if n < 0x80000 then n else 0x80000"
  let ?b = "if n > 0x100000 then 0xFF else if n > 0x80000 then 0x7F else 0x3F"
  let ?h = "g\<lparr>g_ram := True, g_ram_size := n, g_ram_mask := n - 1, g_vram_mask := ?m - 1, g_vram_base := 0, g_bank_mask := ?b\<rparr>"
  have "stays (tcc1014_set_ram n g) ?h" unfolding tcc1014_set_ram_def by (rule stays_helpers)
  moreover have "\<forall>sz \<in> ram_sizes. n = of_nat sz \<longrightarrow> attached sz ?h" by (auto simp: attached_def ram_sizes_def)
  moreover have "art_cache ?h = art_cache g" "g_row ?h = g_row g" by (simp_all add: art_cache_def)
  ultimately show ?thesis by blast
qed

lemma set_ram_attached: "sz \<in> ram_sizes \<Longrightarrow> attached sz (tcc1014_set_ram (of_nat sz) g)"
  using set_ram_shape [of "of_nat sz" g] stays_attached by blast

lemma set_ram_art: "art_ok (tcc1014_set_ram n g) = art_ok g" "g_row (tcc1014_set_ram n g) = g_row g"
proof -
  obtain h where h: "stays (tcc1014_set_ram n g) h" "art_cache h = art_cache g" "g_row h = g_row g"
    using set_ram_shape [of n g] by blast
  show "art_ok (tcc1014_set_ram n g) = art_ok g" using stays_cache [OF h(1)] h(2) by (intro art_cache_ok) simp
  show "g_row (tcc1014_set_ram n g) = g_row g" using stays_row [OF h(1)] h(3) by simp
qed

lemma reset_register_art: "art_cache (reset_register i g) = art_cache g"
  using write_register_fix [of i 0 g] by (simp add: reset_register_def Let_def gime_fix_def art_cache_def)

lemma reset_art: "art_ok (tcc1014_reset g) = art_ok g" "g_row (tcc1014_reset g) = 0"
proof -
  let ?g0 = "fold reset_register [0..<16] (tcc1014_invalidate_lines g)"
  have "art_cache ?g0 = art_cache (tcc1014_invalidate_lines g)"
    by (rule fold_frame) (rule reset_register_art)
  then have 0: "art_cache ?g0 = art_cache g" by (simp add: art_cache_def tcc1014_invalidate_lines_def)
  have up: "art_cache (update_from_gime_registers h) = art_cache h" "art_cache (tcc1014_update_active_banks h) = art_cache h"
    "g_row (update_from_gime_registers h) = g_row h" for h
    using stays_cache [OF stays_helpers(1)] stays_cache [OF stays_helpers(2)] stays_row [OF stays_helpers(1)] by blast+
  have "stays (tcc1014_set_sam_register 0 ?g0) ?g0"
    by (simp add: tcc1014_set_sam_register_def update_from_sam_register_def stay_rules)
  then have 1: "art_cache (tcc1014_set_sam_register 0 ?g0) = art_cache g" using 0 stays_cache by metis
  have upd: "art_cache (h\<lparr>g_mmu_bank := b\<rparr>) = art_cache h" for h b by (simp add: art_cache_def)
  show "g_row (tcc1014_reset g) = 0" by (simp add: tcc1014_reset_def up Let_def)
  have "art_cache (tcc1014_reset g) = art_cache (tcc1014_update_active_banks ((tcc1014_set_sam_register 0 ?g0)
      \<lparr>g_mmu_bank := (\<lambda>i. if i < 16 then 0x38 OR of_nat (i AND 7) else g_mmu_bank (tcc1014_set_sam_register 0 ?g0) i)\<rparr>))"
    unfolding tcc1014_reset_def Let_def up(1) by (simp add: art_cache_def)
  then show "art_ok (tcc1014_reset g) = art_ok g" by (intro art_cache_ok) (simp only: up upd 1)
qed

lemma init_art: "art_ok (tcc1014_init g) = art_ok g"
  by (simp add: tcc1014_init_def tcc1014_init_palette_lut_def tcc1014_invalidate_lines_def gime_cleared_def tcc1014_static_def art_ok_def)

lemma reset_gime_ok:
  assumes "sz \<in> ram_sizes" and "art_ok g" and "gime_decoded g" and "ints_ok g"
  shows "gime_ok sz (tcc1014_set_ram (of_nat sz) (tcc1014_reset g))"
  using assms by (simp add: gime_ok_def set_ram_wf reset_wf set_ram_attached set_ram_art reset_art)

section \<open>Reset\<close>

lemma reset_devices3_inv:
  assumes "physical_size m \<in> ram_sizes" and "art_ok (gime m)" and "gime_decoded (gime m)" and "ints_ok (gime m)"
    and "cart_ok m" and "fast_limit m = 0xFE00" and "read_cb m" and "write_cb m"
  shows "coco3_inv (reset_devices_coco3 m)"
  using assms reset_gime_ok [of "physical_size m" "gime m"]
  by (auto simp: reset_devices_coco3_def coco3_inv_def cart_ok_def upd_gime_def sound_reset_ok Let_def)

lemma vector3_fetch:
  assumes "fast_limit s = 0xFE00" and "a \<in> cpu_vectors"
  shows "run_state (mem_read (coco3_bus D) a) s = (rom3_byte a s, s)"
proof -
  have "0xFFE0 \<le> a" using vector_address(1) [OF assms(2)] .
  then have "\<not> a < 0xFE00" "a \<noteq> 0xFF92" "a \<noteq> 0xFF93" "0xFFE0 \<le> a" by (auto simp: word_less_nat_alt word_le_nat_alt)
  then show ?thesis using assms(1) by (simp add: mem_read_def coco3_bus_def machine_read_coco3_def)
qed

lemma rom3_frame: "rom_coco3 m = rom_coco3 m' \<Longrightarrow> rom_coco3_loaded m = rom_coco3_loaded m' \<Longrightarrow> rom3_byte a m = rom3_byte a m'"
  unfolding rom3_byte_def Let_def by simp

lemma cpu_reset_coco3:
  assumes "fast_limit m = 0xFE00" and "read_cb m"
  shows "snd (run_state (mc6809_reset (coco3_bus D)) m) =
    (cpu_reset_regs m)\<lparr>r_pc := pack16 (rom3_byte 0xFFFE m) (rom3_byte 0xFFFF m)\<rparr>"
proof -
  have v: "0xFFFE \<in> cpu_vectors" "0xFFFF \<in> cpu_vectors" by (simp_all add: cpu_vectors_def)
  have f: "fast_limit (cpu_reset_regs m) = 0xFE00" "read_cb (cpu_reset_regs m)"
    using assms by (simp_all add: cpu_reset_regs_def)
  have "rom3_byte a (cpu_reset_regs m) = rom3_byte a m" for a
    by (rule rom3_frame) (simp_all add: cpu_reset_regs_def)
  then show ?thesis
    using assms(2) vector3_fetch [OF f(1) v(1), of D] vector3_fetch [OF f(1) v(2), of D] by (intro cpu_reset_vector) simp_all
qed

lemma rom3_vector:
  "rom_coco3_loaded m \<Longrightarrow> rom3_byte 0xFFFE m = rom_coco3 m 0x7FFE" "rom_coco3_loaded m \<Longrightarrow> rom3_byte 0xFFFF m = rom_coco3 m 0x7FFF"
  "\<not> rom_coco3_loaded m \<Longrightarrow> rom3_byte a m = 0xFF"
  by (simp_all add: rom3_byte_def COCO3_ROM_SIZE_def)

text \<open>Init and ROM loading from any contents of the struct.\<close>

definition coco3_loaded ::
  "u8 list option \<Rightarrow> u8 list option option \<Rightarrow> u8 list option \<Rightarrow> (nat \<Rightarrow> bool) \<Rightarrow> u8 \<Rightarrow> 'p coco3 \<Rightarrow> 'p coco3" where
  "coco3_loaded rom want disk11 fits v m0 =
     snd (machine_load_roms_coco3 rom want disk11 (machine_init_coco3 fits v m0))"

lemma bank_count_cases:
  assumes "sz \<le> CART_ROM_MAX_SIZE"
  shows "bank_count 2 sz \<in> {2, 4, 8} \<and> sz \<le> bank_count 2 sz * CART_BANK_SIZE"
  using assms
  by (simp add: bank_count.simps [of 2] bank_count.simps [of 4] bank_count.simps [of 8] CART_BANK_SIZE_def CART_ROM_MAX_SIZE_def)

lemma load_cart_size: "load_cart_rom want disk11 CART_ROM_MAX_SIZE dst = (ok, fb, n, buf) \<Longrightarrow> n \<le> CART_ROM_MAX_SIZE"
  by (auto simp: load_cart_rom_def CART_ROM_MAX_SIZE_def split: option.splits if_splits)

section \<open>Power-on\<close>

text \<open>The RAM size a CoCo 3 gets: the one asked for if it is one of the four and fits, else 512 KB.\<close>

definition chosen_kb :: "(nat \<Rightarrow> bool) \<Rightarrow> u16 \<Rightarrow> u16 option" where
  "chosen_kb fits asked =
     (let kb = (if coco3_ram_kb_valid asked then asked else 512)
      in if fits (unat kb * 1024) then Some kb
         else if kb > 512 \<and> fits (512 * 1024) then Some 512 else None)"

lemma chosen_size: "chosen_kb fits asked = Some kb \<Longrightarrow> unat kb * 1024 \<in> ram_sizes"
  by (auto simp: chosen_kb_def coco3_ram_kb_valid_def ram_sizes_def Let_def split: if_splits)

lemma init3_shape:
  "chosen_kb fits (g_coco3_ram_kb m0) = Some kb \<Longrightarrow>
     machine_init_coco3 fits v m0 = wire_coco3 v ((zero_coco3 m0)\<lparr>g_coco3_ram_kb := kb, physical_size := unat kb * 1024\<rparr>)"
  "chosen_kb fits (g_coco3_ram_kb m0) = None \<Longrightarrow> \<not> initialized (machine_init_coco3 fits v m0)"
proof -
  obtain z where z: "z = zero_coco3 m0" by simp
  then have k: "g_coco3_ram_kb m0 = g_coco3_ram_kb z" and i: "\<not> initialized z" by (simp_all add: zero_coco3_def)
  have v: "coco3_ram_kb_valid 512" by (simp add: coco3_ram_kb_valid_def)
  note defs = machine_init_coco3_def z [symmetric] chosen_kb_def COCO3_RAM_KB_def Let_def
  show "chosen_kb fits (g_coco3_ram_kb m0) = Some kb \<Longrightarrow>
     machine_init_coco3 fits v m0 = wire_coco3 v ((zero_coco3 m0)\<lparr>g_coco3_ram_kb := kb, physical_size := unat kb * 1024\<rparr>)"
    unfolding k by (cases "coco3_ram_kb_valid (g_coco3_ram_kb z)") (auto simp: defs split: if_splits)
  show "chosen_kb fits (g_coco3_ram_kb m0) = None \<Longrightarrow> \<not> initialized (machine_init_coco3 fits v m0)"
    unfolding k using i by (cases "coco3_ram_kb_valid (g_coco3_ram_kb z)") (auto simp: defs split: if_splits)
qed

lemma cpu_init3_fields:
  "physical_size (mc6809_init m) = physical_size m" "gime (mc6809_init m) = gime m" "rom_coco3 (mc6809_init m) = rom_coco3 m"
  "rom_disk (mc6809_init m) = rom_disk m" "rom_disk_end (mc6809_init m) = rom_disk_end m" "cart_bank (mc6809_init m) = cart_bank m"
  "cart_bank_mask (mc6809_init m) = cart_bank_mask m" "rom_coco3_loaded (mc6809_init m) = rom_coco3_loaded m"
  "rom_disk_loaded (mc6809_init m) = rom_disk_loaded m" "ram_physical (mc6809_init m) = ram_physical m" for m :: "'p coco3"
  by (cases m, simp add: mc6809_init_def)+

lemma init3_fields:
  fixes v :: u8
  assumes "chosen_kb fits (g_coco3_ram_kb m0) = Some kb"
  defines "i \<equiv> machine_init_coco3 fits v m0"
  shows "initialized i" and "variant i = v" and "physical_size i = unat kb * 1024" and "gime i = tcc1014_init (gime_cleared (gime m0))"
    and "rom_coco3 i = (\<lambda>_. 0xFF)" and "rom_disk i = (\<lambda>_. 0xFF)" and "rom_disk_end i = 0xE000" and "cart_bank i = None"
    and "cart_bank_mask i = 0" and "\<not> rom_coco3_loaded i" and "\<not> rom_disk_loaded i" and "fast_limit i = 0xFE00"
    and "read_cb i" and "write_cb i" and "cycles_per_frame i = CYCLES_PER_FRAME" and "ram_physical i = ram_physical m0"
proof -
  have i: "i = wire_coco3 v ((zero_coco3 m0)\<lparr>g_coco3_ram_kb := kb, physical_size := unat kb * 1024\<rparr>)"
    using init3_shape(1) [OF assms(1), of v] by (simp add: i_def)
  show "initialized i" "variant i = v" "physical_size i = unat kb * 1024" "gime i = tcc1014_init (gime_cleared (gime m0))"
    "rom_coco3 i = (\<lambda>_. 0xFF)" "rom_disk i = (\<lambda>_. 0xFF)" "rom_disk_end i = 0xE000" "cart_bank i = None"
    "cart_bank_mask i = 0" "\<not> rom_coco3_loaded i" "\<not> rom_disk_loaded i" "fast_limit i = 0xFE00"
    "read_cb i" "write_cb i" "cycles_per_frame i = CYCLES_PER_FRAME" "ram_physical i = ram_physical m0"
    by (simp_all add: i wire_coco3_def zero_coco3_def upd_gime_def Let_def cpu_init3_fields)
qed

lemma load3_fields:
  fixes rom disk11 :: "u8 list option" and want :: "u8 list option option"
  assumes "initialized i"
  defines "l \<equiv> machine_load_roms_coco3 rom want disk11 i"
  shows "fst l = (rom_coco3_loaded i \<or> rom \<noteq> None)" and "initialized (snd l)" and "variant (snd l) = variant i"
    and "physical_size (snd l) = physical_size i" and "gime (snd l) = gime i" and "fast_limit (snd l) = fast_limit i"
    and "read_cb (snd l) = read_cb i" and "write_cb (snd l) = write_cb i" and "cycles_per_frame (snd l) = cycles_per_frame i"
    and "ram_physical (snd l) = ram_physical i" and "rom_coco3 (snd l) = load_into rom 32768 (rom_coco3 i)"
    and "rom_coco3_loaded (snd l) = (rom_coco3_loaded i \<or> rom \<noteq> None)" and "cart_ok i \<Longrightarrow> cart_ok (snd l)"
proof -
  obtain ok fb n buf where c: "load_cart_rom want disk11 CART_ROM_MAX_SIZE (rom_disk i) = (ok, fb, n, buf)"
    by (metis prod_cases4)
  note bc = bank_count_cases [OF load_cart_size [OF c]]
  show "fst l = (rom_coco3_loaded i \<or> rom \<noteq> None)" "initialized (snd l)" "variant (snd l) = variant i"
    "physical_size (snd l) = physical_size i" "gime (snd l) = gime i" "fast_limit (snd l) = fast_limit i"
    "read_cb (snd l) = read_cb i" "write_cb (snd l) = write_cb i" "cycles_per_frame (snd l) = cycles_per_frame i"
    "ram_physical (snd l) = ram_physical i" "rom_coco3 (snd l) = load_into rom 32768 (rom_coco3 i)"
    "rom_coco3_loaded (snd l) = (rom_coco3_loaded i \<or> rom \<noteq> None)"
    using assms(1) by (simp_all add: l_def machine_load_roms_coco3_def c Let_def COCO3_ROM_SIZE_def)
  show "cart_ok i \<Longrightarrow> cart_ok (snd l)"
    using assms(1) bc by (auto simp: l_def machine_load_roms_coco3_def c Let_def cart_ok_def)
qed

lemma reset3_fields:
  "initialized (reset_devices_coco3 m) = initialized m" "variant (reset_devices_coco3 m) = variant m"
  "cycles_per_frame (reset_devices_coco3 m) = cycles_per_frame m" "physical_size (reset_devices_coco3 m) = physical_size m"
  "fast_limit (reset_devices_coco3 m) = fast_limit m" "read_cb (reset_devices_coco3 m) = read_cb m"
  "rom_coco3 (reset_devices_coco3 m) = rom_coco3 m" "rom_coco3_loaded (reset_devices_coco3 m) = rom_coco3_loaded m"
  "ram_physical (reset_devices_coco3 m) = (\<lambda>i. if i < physical_size m then 0 else ram_physical m i)"
  by (simp_all add: reset_devices_coco3_def upd_gime_def Let_def cong: if_cong)

lemma coco3_inv_cpu_reset: "coco3_inv ((cpu_reset_regs m)\<lparr>r_pc := p\<rparr>) = coco3_inv m"
  by (simp add: cpu_reset_regs_def coco3_inv_def cart_ok_def)

lemma boot3_state:
  fixes D :: "'p devices" and m0 :: "'p coco3" and rom disk11 :: "u8 list option" and want :: "u8 list option option" and v :: u8
  assumes kb: "chosen_kb fits (g_coco3_ram_kb m0) = Some kb"
  defines "m' \<equiv> machine_reset_coco3 D (coco3_loaded rom want disk11 fits v m0)"
  shows "art_ok (gime m0) \<Longrightarrow> coco3_inv m'" and "initialized m'" and "variant m' = v" and "cycles_per_frame m' = CYCLES_PER_FRAME"
    and "physical_size m' = unat kb * 1024" and "\<forall>i < unat kb * 1024. ram_physical m' i = 0"
    and "r_cc m' = MC6809_FLAG_I OR MC6809_FLAG_F" and "\<not> halted m'" and "\<not> nmi_pending m'" and "\<not> firq_pending m'" and "\<not> irq_pending m'"
    and "r_pc m' = (if rom \<noteq> None then pack16 (load_into rom 32768 (\<lambda>_. 0xFF) 0x7FFE) (load_into rom 32768 (\<lambda>_. 0xFF) 0x7FFF) else 0xFFFF)"
    and "fst (machine_load_roms_coco3 rom want disk11 (machine_init_coco3 fits v m0)) = (rom \<noteq> None)"
proof -
  let ?i = "machine_init_coco3 fits v m0" and ?l = "coco3_loaded rom want disk11 fits v m0"
  note i = init3_fields [OF kb, of v]
  note l = load3_fields [OF i(1), of rom want disk11, folded coco3_loaded_def]
  let ?r = "reset_devices_coco3 ?l"
  have m': "m' = (cpu_reset_regs ?r)\<lparr>r_pc := pack16 (rom3_byte 0xFFFE ?r) (rom3_byte 0xFFFF ?r)\<rparr>"
    using cpu_reset_coco3 [of ?r D] l i by (simp add: m'_def machine_reset_coco3_def reset3_fields)
  have g: "gime ?l = tcc1014_init (gime_cleared (gime m0))" using l(5) i(4) by simp
  have "coco3_inv ?r" if "art_ok (gime m0)"
  proof (rule reset_devices3_inv)
    show "art_ok (gime ?l)" using that unfolding g init_art by (simp add: gime_cleared_def tcc1014_static_def art_ok_def)
    show "gime_decoded (gime ?l)" "ints_ok (gime ?l)" unfolding g using init_keeps by blast+
    show "cart_ok ?l" by (rule l(13)) (simp add: cart_ok_def i)
  qed (use l i chosen_size [OF kb] in simp_all)
  then show "art_ok (gime m0) \<Longrightarrow> coco3_inv m'" by (simp add: m' coco3_inv_cpu_reset)
  have "pack16 0xFF 0xFF = 0xFFFF" by (simp add: pack16_def)
  then show "r_pc m' = (if rom \<noteq> None then pack16 (load_into rom 32768 (\<lambda>_. 0xFF) 0x7FFE) (load_into rom 32768 (\<lambda>_. 0xFF) 0x7FFF) else 0xFFFF)"
    using rom3_vector [of ?r] l i by (auto simp: m' reset3_fields)
  show "fst (machine_load_roms_coco3 rom want disk11 ?i) = (rom \<noteq> None)" using l(1) i by simp
qed (use load3_fields [OF init3_fields(1) [OF kb, of v], of rom want disk11, folded coco3_loaded_def] init3_fields [OF kb, of v] in
  \<open>simp_all add: m'_def machine_reset_coco3_def cpu_reset_coco3 reset3_fields cpu_reset_regs_def\<close>)

lemma boot3_refused:
  assumes "chosen_kb fits (g_coco3_ram_kb m0) = None"
  shows "\<not> initialized (machine_reset_coco3 D (coco3_loaded rom want disk11 fits v m0))"
    and "\<not> fst (machine_load_roms_coco3 rom want disk11 (machine_init_coco3 fits v m0))"
  using init3_shape(2) [OF assms, of v]
  by (simp_all add: coco3_loaded_def machine_load_roms_coco3_def machine_reset_coco3_def)

text \<open>
  C16: Power-on of a CoCo 3. Init, ROM loading and reset, from any contents of the struct: the machine gets the
  RAM asked for when it is 128, 512, 1024 or 2048 KB and can be allocated, 512 KB otherwise, and stays
  uninitialised (loading then reports failure) when not even that can be. When it starts, RAM is
  cleared, interrupts are masked and none is pending, the machine invariant holds, and the CPU starts
  at the vector in the last two bytes of the 32 KB ROM, or at $FFFF without one.
\<close>

theorem coco3_power_on:
  assumes "art_ok (gime m0)"
  shows "let (ok, l) = machine_load_roms_coco3 rom want disk11 (machine_init_coco3 fits v m0); m = machine_reset_coco3 D l in
    (case chosen_kb fits (g_coco3_ram_kb m0) of
       None \<Rightarrow> \<not> initialized m \<and> \<not> ok
     | Some kb \<Rightarrow> ok = (rom \<noteq> None) \<and> initialized m \<and> coco3_inv m \<and> variant m = v \<and> physical_size m = unat kb * 1024 \<and>
         (\<forall>i < unat kb * 1024. ram_physical m i = 0) \<and> r_cc m = MC6809_FLAG_I OR MC6809_FLAG_F \<and> \<not> halted m \<and>
         \<not> nmi_pending m \<and> \<not> firq_pending m \<and> \<not> irq_pending m \<and>
         r_pc m = (if rom \<noteq> None then pack16 (load_into rom 32768 (\<lambda>_. 0xFF) 0x7FFE) (load_into rom 32768 (\<lambda>_. 0xFF) 0x7FFF)
                   else 0xFFFF))"
  unfolding Let_def case_prod_unfold coco3_loaded_def [symmetric]
  using boot3_refused [of fits m0] boot3_state [of fits m0] assms
  by (auto split: option.split)

text \<open>A machine struct as it is before init, and the same machine booted with nothing connected.\<close>

definition blank_coco3 :: "unit coco3" where
  "blank_coco3 =
     \<lparr>r_pc = 0, r_d = 0, r_x = 0, r_y = 0, r_u = 0, r_s = 0, r_dp = 0, r_cc = 0, cycles = 0,
      halted = False, wait_for_interrupt = False, cwai_state = False, nmi_armed = False,
      nmi_line = False, nmi_pending = False, firq_pending = False, irq_pending = False,
      read_cb = False, write_cb = False, fast_limit = 0,
      r_w = 0, r_v = 0, r_md = 0, variant = 0, tfm_busy = False, tfm_pc = 0,
      idle_skip = False, idle_rej = 0, idle_br = 0, idle_cyc = 0, idle_budget = 0,
      pia0 = mc6821_init, pia1 = mc6821_init, snd_core = sound_static,
      orch = \<lparr>s_left = 128, s_right = 128\<rparr>,
      vhd_dev = \<lparr>s_offset = 0, s_buf_addr = 0, s_drive_sel = 0, s_status = 2, s_sector = replicate 256 0\<rparr>,
      stack_overflow = False, cycles_per_frame = 0, cycles_this_frame = 0, m_scanline = 0,
      scanline_cycle_targets = (\<lambda>_. 0), initialized = False, cart_inserted = False,
      cart_autostart = False, ntsc = False, frame_count = 0, last_joy_scanline = 0xFFFFFFFF, dev = (),
      gime = tcc1014_static, ram_physical = (\<lambda>_. 0), physical_size = 0, rom_coco3 = (\<lambda>_. 0), rom_disk = (\<lambda>_. 0),
      rom_coco3_loaded = False, rom_disk_loaded = False, rom_disk_end = 0, cart_bank = None, cart_bank_mask = 0,
      g_coco3_ram_kb = 512, fast_carry = 0\<rparr>"

lemma blank_coco3_ok: "art_ok (gime blank_coco3)" "chosen_kb (\<lambda>_. True) (g_coco3_ram_kb blank_coco3) = Some 512"
  by (simp_all add: blank_coco3_def art_ok_def tcc1014_static_def chosen_kb_def coco3_ram_kb_valid_def)

lemma coco3_power_on_witness:
  "initialized (machine_reset_coco3 null_devices
     (snd (machine_load_roms_coco3 (Some (replicate 32768 0x12)) None None (machine_init_coco3 (\<lambda>_. True) 0 blank_coco3))))"
  using coco3_power_on [OF blank_coco3_ok(1), where rom = "Some (replicate 32768 0x12)" and want = None and ?disk11.0 = None
      and fits = "\<lambda>_. True" and v = 0 and D = null_devices]
  by (simp add: case_prod_unfold Let_def blank_coco3_ok(2))

definition demo_coco3 :: "unit coco3" where
  "demo_coco3 = machine_reset_coco3 null_devices (coco3_loaded (Some (replicate 32768 0x12)) None None (\<lambda>_. True) 0 blank_coco3)"

lemmas demo_state3 = boot3_state(1-12) [OF blank_coco3_ok(2), where D = null_devices and rom = "Some (replicate 32768 0x12)"
  and want = None and ?disk11.0 = None and v = 0, folded demo_coco3_def]

lemma demo3_mapped: "mapped (512 * 1024) demo_coco3" "fast_limit demo_coco3 = 0xFE00"
  using demo_state3(1) [OF blank_coco3_ok(1)] demo_state3(5) by (simp_all add: coco3_inv_def gime_ok_def mapped_def gime_wf_def)

lemma coco3_fast_path_witness:
  "run_state (mem_read (coco3_bus null_devices) 0x1234) demo_coco3 = machine_read_coco3 null_devices 0x1234 demo_coco3"
  using coco3_fast_path [OF demo3_mapped, of null_devices "0x1234"] by blast

end
