(* ===== verification/CoCo3_Frame.thy ===== *)
theory CoCo3_Frame
  imports CoCo3_Reset Frame_Clock
begin

text \<open>
  The scanline and frame loops of the CoCo 3 at both clock rates: a frame ends on time with the machine
  invariant, the interrupt lines are the OR of their sources, and the rows of the picture advance as
  the row mask says.
\<close>

section \<open>The bus keeps time\<close>

lemma cycles_gime [frame_simps]: "cycles (m\<lparr>gime := g\<rparr>) = cycles m" "cycles (upd_gime f m) = cycles m" "cycles (poke_phys z v m) = cycles m"
  for m :: "'p coco3"
  by (simp_all add: upd_gime_def poke_phys_def)

lemma cycles_pia3 [frame_simps]:
  "cycles (snd (pia0_read_coco3 D r m)) = cycles m" "cycles (snd (pia1_read_coco3 r m)) = cycles m"
  "cycles (pia0_write_coco3 r v m) = cycles m" "cycles (pia1_write_coco3 r v m) = cycles m"
  by (simp_all add: pia0_read_coco3_def pia1_read_coco3_def pia0_write_coco3_def pia1_write_coco3_def scan_inputs_coco3_def
      joy_refresh_def Let_def case_prod_unfold frame_simps)

lemma cycles_read_coco3: "cycles (snd (machine_read_coco3 D a m)) = cycles m"
proof -
  have s: "cycles (snd (select_read_coco3 D a n)) = cycles n" for n
    by (simp add: select_read_coco3_def Let_def frame_simps)
  have "cycles (snd (chain_read_coco3 D a m)) = cycles m"
    by (simp add: chain_read_coco3_def Let_def case_prod_unfold frame_simps s)
  then show ?thesis by (simp add: machine_read_coco3_def Let_def case_prod_unfold)
qed

lemma cycles_write_body3:
  assumes "\<And>a v m. cycles (wr a v m) = cycles m"
  shows "cycles (write_body_coco3 D wr a v m) = cycles m"
proof -
  have s: "cycles (select_write_coco3 D a v n) = cycles n" for n
    by (simp add: select_write_coco3_def Let_def frame_simps)
  have "cycles (chain_write_coco3 D wr a v m) = cycles m"
    by (simp add: chain_write_coco3_def Let_def case_prod_unfold frame_simps s cycles_vhd_write assms cycles_read_coco3)
  then show ?thesis by (simp add: write_body_coco3_def frame_simps)
qed

lemma cycles_write_coco3: "cycles (machine_write_coco3 D a v m) = cycles m"
proof -
  have "cycles (write_nested_coco3 D n a v m) = cycles m" for n a v m
    by (induction n arbitrary: a v m) (simp_all add: cycles_write_body3)
  then show ?thesis by (simp add: machine_write_coco3_def cycles_write_body3)
qed

interpretation coco3_timed: timed_bus "coco3_bus D" for D :: "'p devices"
  by unfold_locales (auto simp: coco3_bus_def cycles_read_coco3 cycles_write_coco3)

section \<open>The invariant through a scanline\<close>

lemma ok_set_interrupt: "gime_ok sz g \<Longrightarrow> gime_ok sz (tcc1014_set_interrupt f g)"
  unfolding tcc1014_set_interrupt_def by (rule ok_stays [of sz g]) (simp_all add: gime_ok_def set_interrupt_wf stay_rules)

lemma ok_tick: "gime_ok sz g \<Longrightarrow> gime_ok sz (tcc1014_tick_scanline g)"
  by (rule ok_stays [of sz g]) (simp_all add: gime_ok_def tick_wf stay_rules)

text \<open>The vertical counters are outside the invariant.\<close>

lemma ok_counters [simp]:
  "gime_ok sz (g\<lparr>g_B := a1\<rparr>) = gime_ok sz g" "gime_ok sz (g\<lparr>g_lcount := a2\<rparr>) = gime_ok sz g"
  "gime_ok sz (g\<lparr>g_active_area := a3\<rparr>) = gime_ok sz g" "gime_ok sz (g\<lparr>g_Xoff := a4\<rparr>) = gime_ok sz g"
  "gime_ok sz (g\<lparr>g_raw_output := a5\<rparr>) = gime_ok sz g" "gime_ok sz (g\<lparr>g_dirty_frame := a6\<rparr>) = gime_ok sz g"
  "gime_ok sz (g\<lparr>g_line_clean := a7\<rparr>) = gime_ok sz g" "gime_ok sz (g\<lparr>g_line_width := a8\<rparr>) = gime_ok sz g"
  "gime_ok sz (g\<lparr>s_line_sig := a9\<rparr>) = gime_ok sz g" "gime_ok sz (g\<lparr>g_line := b1\<rparr>) = gime_ok sz g"
  "gime_ok sz (g\<lparr>g_palette_rgb565 := b2\<rparr>) = gime_ok sz g"
  by (simp_all add: gime_ok_def attached_def art_ok_def)

lemma attached_row: "attached sz (g\<lparr>g_row := n\<rparr>) = attached sz g" "art_ok (g\<lparr>g_row := n\<rparr>) = art_ok g"
  by (simp_all add: attached_def art_ok_def)

lemma ok_row: "gime_ok sz g \<Longrightarrow> n \<le> 15 \<Longrightarrow> gime_ok sz (g\<lparr>g_row := n\<rparr>)"
  by (simp add: gime_ok_def attached_row)

text \<open>Recomputing a derived field that is already current changes nothing.\<close>

lemma derived_again:
  assumes "gime_wf g"
  shows "g_border_colour g = gime_border g" and "g_row_stride g = gime_row_stride g"
    and "g_lAA g = (if g_COCO g then 192 else VRES_LPF_lAA ! g_LPF g)"
    and "g_COCO g \<Longrightarrow> g_lTB g = (if g_H50 g then 63 else 36)"
proof -
  let ?h = "decode_mode (decode_vdg g)"
  have d: "gime_derived g = gime_derived (update_from_gime_registers g)"
    using assms by (simp add: gime_wf_def derived_ok_def)
  note u = d [unfolded gime_derived_def update_fields, simplified]
  have b: "gime_base ?h = gime_base g" by (simp add: vdg_fields mode_fields)
  have v: "g_GnA ?h = g_GnA g" "g_GM1 ?h = g_GM1 g" "g_CSS ?h = g_CSS g" "g_BPR ?h = g_BPR g" using u by simp_all
  show "g_border_colour g = gime_border g" using u v b by (simp add: gime_border_def gime_base_def)
  show "g_row_stride g = gime_row_stride g" using u v b by (simp add: gime_row_stride_def gime_base_def)
  show "g_lAA g = (if g_COCO g then 192 else VRES_LPF_lAA ! g_LPF g)" using u b by (simp add: gime_base_def)
  show "g_COCO g \<Longrightarrow> g_lTB g = (if g_H50 g then 63 else 36)" using u b
    by (simp add: gime_base_def decode_mode_eq decode_vdg_def)
qed

lemma latch_redundant:
  assumes "gime_wf g"
  shows "latch_vertical g = g"
proof -
  have "g_LPF g < 4" using assms and_lt(2) by (simp add: gime_wf_def gime_decoded_def)
  then have "g_LPF g \<in> {0, 1, 2, 3}" by auto
  then have "VRES_LPF_lAA ! g_LPF g = (if g_LPF g = 0 then 192 else if g_LPF g = 1 then 199 else if g_LPF g = 3 then 225 else 0xFFFF)"
    by (auto simp: VRES_LPF_lAA_def)
  with derived_again(3,4) [OF assms] show ?thesis by (cases "g_COCO g") (simp_all add: latch_vertical_def)
qed

lemma derived_no_change:
  assumes "gime_wf g"
  shows "g\<lparr>g_border_colour := gime_border g\<rparr> = g" and "g\<lparr>g_row_stride := gime_row_stride g\<rparr> = g"
  unfolding derived_again(1,2) [OF assms, symmetric] by simp_all

section \<open>Rendering keeps the invariant\<close>

lemma artifact_colours_keep:
  assumes "gime_ok sz g" and "artifact_line g"
  shows "gime_ok sz (snd (snd (artifact_colours g)))"
proof -
  have a: "art_ok g" "s_artifacts g \<noteq> 0" using assms by (simp_all add: gime_ok_def artifact_line_def)
  then have "art_ok (snd (snd (artifact_colours g)))" using artifact_colours_mix by blast
  moreover have "snd (snd (artifact_colours g)) = g\<lparr>s_art_colours := s_art_colours (snd (snd (artifact_colours g))),
      s_art_key := s_art_key (snd (snd (artifact_colours g)))\<rparr>"
    by (simp add: artifact_colours_def Let_def)
  moreover have "attached sz (g\<lparr>s_art_colours := c, s_art_key := k\<rparr>) = attached sz g" for c k by (simp add: attached_def)
  moreover have "g_row (g\<lparr>s_art_colours := c, s_art_key := k\<rparr>) = g_row g" for c k by simp
  ultimately show ?thesis using assms(1) unfolding gime_ok_def by (metis wf_other(33,34))
qed

lemma render_line_ok: "gime_ok sz g \<Longrightarrow> gime_ok sz (snd (render_line g src pal n tp))"
  using artifact_colours_keep [of sz g] by (auto simp: render_line_def Let_def case_prod_unfold)

lemma draw_line_ok: "gime_ok sz g \<Longrightarrow> gime_ok sz (draw_line g src n)"
  by (cases "g_raw_output g"; cases "s_raw_lut g") (simp_all add: draw_line_def Let_def case_prod_unfold render_line_ok)

lemma render_ok: "gime_ok sz g \<Longrightarrow> gime_ok sz (tcc1014_render_scanline r n g)"
  by (simp add: tcc1014_render_scanline_def Let_def draw_line_ok)

section \<open>The video line\<close>

lemma ok_advance: "gime_ok sz g \<Longrightarrow> gime_ok sz (advance_row g)"
proof -
  assume g: "gime_ok sz g"
  have "(g_row g + 1) AND 15 \<le> 15" using row_and [of "g_row g + 1"] by simp
  then show ?thesis using ok_row [OF g] ok_row [OF ok_row [OF g]] by (simp add: advance_row_def Let_def)
qed

lemma vsc_small: "gime_wf g \<Longrightarrow> g_VSC g \<le> 15"
  using word_and_le1 [of "g_registers g 12" 15] by (simp add: gime_wf_def gime_decoded_def word_le_nat_alt)

lemma ok_enter: "gime_ok sz g \<Longrightarrow> gime_ok sz (enter_active g)"
proof -
  assume g: "gime_ok sz g"
  then have "g_VSC g \<le> 15" using vsc_small by (simp add: gime_ok_def)
  then have "gime_ok sz (g\<lparr>g_active_area := True, g_row := n\<rparr>)" if "n = 0 \<or> n = g_VSC g" for n
    using ok_row [of sz "g\<lparr>g_active_area := True\<rparr>" n] g that by auto
  then show ?thesis using g by (simp add: enter_active_def Let_def)
qed

lemma ok_leave: "gime_ok sz g \<Longrightarrow> gime_ok sz (leave_active g)"
  by (simp add: leave_active_def ok_set_interrupt)

lemma kept3_upd: "kept3 c m \<Longrightarrow> (\<And>g. gime_ok (physical_size m) g \<Longrightarrow> gime_ok (physical_size m) (f g)) \<Longrightarrow> kept3 c (upd_gime f m)"
  unfolding upd_gime_def by (rule kept3_gime) (simp_all add: kept3_gimeD)

lemma kept3_active: "kept3 c m \<Longrightarrow> kept3 c (active_line_coco3 V m)"
proof -
  assume m: "kept3 c m"
  note g = kept3_gimeD [OF m]
  have "gime_wf ((gime m)\<lparr>g_Xoff := x\<rparr>)" for x using g by (simp add: gime_ok_def)
  note n = derived_no_change(2) [OF this]
  show ?thesis unfolding active_line_coco3_def Let_def n
    using kept3_gime [OF m ok_advance [OF render_ok]] g by simp
qed

lemma kept3_visible: "kept3 c m \<Longrightarrow> kept3 c (visible_line_coco3 V m)"
proof -
  assume m: "kept3 c m"
  have "kept3 c (upd_gime enter_active m)" by (rule kept3_upd [OF m ok_enter])
  then have "kept3 c (upd_gime (\<lambda>g. g\<lparr>g_border_colour := gime_border g\<rparr>) (upd_gime enter_active m))"
    by (rule kept3_upd) (simp add: derived_no_change(1) gime_ok_def)
  then have l: "kept3 c (upd_gime leave_active (upd_gime (\<lambda>g. g\<lparr>g_border_colour := gime_border g\<rparr>) (upd_gime enter_active m)))"
    by (rule kept3_upd) (rule ok_leave)
  show ?thesis unfolding visible_line_coco3_def Let_def
    by (rule kept3_upd) (use l in \<open>simp_all add: kept3_active border_line_coco3_def Let_def\<close>)
qed

lemma kept3_fs [simp]: "kept3 c (fs_edge_coco3 r m) = kept3 c m" and kept3_hs [simp]: "kept3 c (hs_pulse_coco3 m) = kept3 c m"
  by (simp_all add: fs_edge_coco3_def hs_pulse_coco3_def mc6821_cb1_transition_def mc6821_ca1_transition_def Let_def)

text \<open>The line counter wraps after the last line.\<close>

definition next_line :: "u32 \<Rightarrow> u32" where
  "next_line l = (if l + 1 \<ge> 262 then 0 else l + 1)"

lemma kept3_video:
  assumes m: "kept3 (p, f, l, t, i, v, n) m"
  shows "kept3 (p, f, next_line l, t, i, v, n) (video_line_coco3 V m)"
proof -
  let ?k = "kept3 (p, f, l, t, i, v, n)"
  have line: "m_scanline m = l" using m by (simp add: kept3_def timing_def)
  define m1 where "m1 = (if l = 0 then upd_gime latch_vertical (fs_edge_coco3 False m) else m)"
  have "gime_ok sz g \<Longrightarrow> gime_ok sz (latch_vertical g)" for sz g by (simp add: gime_ok_def latch_redundant)
  then have 1: "?k m1" using m by (auto simp: m1_def intro: kept3_upd)
  define m2 where "m2 = (if l = 4 then fs_edge_coco3 True m1 else m1)"
  have 2: "?k m2" using 1 by (auto simp: m2_def)
  define m3 where "m3 = (if l = 7 then upd_gime start_field m2 else m2)"
  have 3: "?k m3" using 2 by (auto simp: m3_def start_field_def intro: kept3_upd)
  define m4 where "m4 = (if l \<ge> 7 then visible_line_coco3 V m3 else m3)"
  have 4: "?k m4" using 3 by (simp add: m4_def kept3_visible)
  define m5 where "m5 = upd_gime (tcc1014_set_interrupt TCC1014_INT_HBORD) m4"
  have 5: "?k m5" unfolding m5_def by (rule kept3_upd [OF 4]) (rule ok_set_interrupt)
  have "video_line_coco3 V m = (let m = m5\<lparr>m_scanline := m_scanline m5 + 1\<rparr>
      in if m_scanline m \<ge> of_nat SCANLINES_PER_FRAME then m\<lparr>m_scanline := 0\<rparr> else m)"
    unfolding video_line_coco3_def m5_def m4_def m3_def m2_def m1_def Let_def line ..
  then show ?thesis using 5 by (auto simp: kept3_defs next_line_def SCANLINES_PER_FRAME_def Let_def)
qed

section \<open>Scanlines and frames\<close>

lemma kept3_rs232 [simp]: "kept3 c (rs232_line_coco3 D n m) = kept3 c m"
  by (simp add: rs232_line_coco3_def Let_def)

lemma kept3_routed [simp]: "kept3 c (route_lines_coco3 D m) = kept3 c m"
  by (simp add: route_lines_coco3_def Let_def)

lemma kept3_ticks [simp]: "kept3 c (line_ticks D m) = kept3 c m"
  by (simp add: line_ticks_def Let_def)

lemma kept3_cycles: "kept3 (p, f, l, t, i, v, n) m \<Longrightarrow> kept3 (p, g, l, t, i, v, n) (m\<lparr>cycles_this_frame := g\<rparr>)"
  by (simp add: kept3_defs)

lemma kept3_pulse [simp]: "kept3 c (cart_autostart_pulse_coco3 m) = kept3 c m"
  by (simp add: cart_autostart_pulse_coco3_def mc6821_cb1_transition_def Let_def)

lemma scanline3_runs:
  assumes k: "kept3 (p, f, l, t, True, v, n) m" and v: "v \<noteq> 1"
    and budget: "1 \<le> uint (t (unat l)) - uint f"
  shows "\<exists>m' r. machine_run_scanline_coco3 D V h m = Some m' \<and> kept3 (p, f + word_of_int r, next_line l, t, True, v, n) m' \<and>
    uint (t (unat l)) - uint f \<le> r \<and> r \<le> uint (t (unat l)) - uint f + 38"
proof -
  let ?n = "uint (t (unat l)) - uint f"
  have tm: "timing m = (p, f, l, t, True, v, n)" using k by (simp add: kept3_def)
  have lb: "line_budget m = ?n" using line_budget_exact [of m] budget tm by (simp add: timing_def)
  have kt: "kept3 (p, f, l, t, True, v, n) (fdc_tick D m)" using k by simp
  then have cb: "read_cb (fdc_tick D m)" "write_cb (fdc_tick D m)" "variant (fdc_tick D m) = v"
    by (simp_all add: kept3_def coco3_inv_def timing_def)
  have "uint (t (unat l)) < 65536" using unsigned_less [of "t (unat l)", where 'a = int] by simp
  moreover have "0 \<le> uint f" by simp
  ultimately have "?n + 39 < 2147483648" by linarith
  then obtain r m1 where run: "mc6809_run (coco3_bus D) ?n (fdc_tick D m) = Some (r, m1)"
    and r: "?n \<le> r" "r \<le> ?n + 38"
    using coco3_timed.mc6809_run_returns [OF cb(1,2), of ?n D] budget by auto
  have k1: "kept3 (p, f, l, t, True, v, n) m1" by (rule coco3_keeps.mc6809_run_keeps [OF kt run])
  then have "kept3 (p, f + word_of_int r, l, t, True, v, n) (rs232_line_coco3 D r (m1\<lparr>cycles_this_frame := f + word_of_int r\<rparr>))"
    by (simp add: kept3_cycles)
  then have "kept3 (p, f + word_of_int r, l, t, True, v, n)
      (upd_gime tcc1014_tick_scanline (rs232_line_coco3 D r (m1\<lparr>cycles_this_frame := f + word_of_int r\<rparr>)))"
    by (rule kept3_upd) (rule ok_tick)
  then have "kept3 (p, f + word_of_int r, next_line l, t, True, v, n) (video_line_coco3 V (route_lines_coco3 D (hs_pulse_coco3
      (upd_gime tcc1014_tick_scanline (rs232_line_coco3 D r (m1\<lparr>cycles_this_frame := f + word_of_int r\<rparr>))))))"
    by (intro kept3_video) simp
  moreover have "cycles_this_frame m1 = f" using k1 by (simp add: kept3_def timing_def)
  ultimately show ?thesis using run r tm v cb(3)
    by (intro exI conjI [OF _ conjI]) (auto simp: machine_run_scanline_coco3_def timing_def mc6809_run_variant_def lb Let_def)
qed

text \<open>The clock rate latched at the start of the frame.\<close>

definition frame_cycles :: "bool \<Rightarrow> u32" where
  "frame_cycles fast = (if fast then 2 * CYCLES_PER_FRAME else CYCLES_PER_FRAME)"

lemma frame_cycles_uint: "uint (frame_cycles fast) = (if fast then 29832 else 14916)"
  by (simp add: frame_cycles_def CYCLES_PER_FRAME_def)

definition line_start_coco3 :: "bool \<Rightarrow> u8 \<Rightarrow> u32 \<Rightarrow> nat \<Rightarrow> u32 \<Rightarrow> 'p coco3 \<Rightarrow> bool" where
  "line_start_coco3 fast v n k f m \<longleftrightarrow> v \<noteq> 1 \<and>
     (\<exists>t. kept3 (frame_cycles fast, f, (if k = 262 then 0 else of_nat k), t, True, v, n) m \<and>
        (\<forall>i<262. uint (t i) = line_target (uint (frame_cycles fast)) i))"

lemma next_line_nat:
  assumes "k < 262"
  shows "next_line (of_nat k) = (if Suc k = 262 then 0 else of_nat (Suc k))"
proof -
  have s: "of_nat k + 1 = (of_nat (Suc k) :: u32)" by simp
  have "unat (of_nat (Suc k) :: u32) = Suc k" using assms by (simp only: unat_of_nat) simp
  then show ?thesis using assms unfolding next_line_def s by (auto simp: word_le_nat_alt simp del: of_nat_Suc)
qed

lemma line_step3_runs:
  assumes "line_start_coco3 fast v n k f m" and "k < 262" and "1 \<le> line_target (uint (frame_cycles fast)) k - uint f"
  shows "\<exists>m' r. line_step_coco3 D V h m = Some m' \<and> line_start_coco3 fast v n (Suc k) (f + word_of_int r) m' \<and>
    line_target (uint (frame_cycles fast)) k - uint f \<le> r \<and> r \<le> line_target (uint (frame_cycles fast)) k - uint f + 38"
proof -
  obtain t where v: "v \<noteq> 1" and k: "kept3 (frame_cycles fast, f, of_nat k, t, True, v, n) m"
    and t: "\<forall>i<262. uint (t i) = line_target (uint (frame_cycles fast)) i"
    using assms(1,2) by (auto simp: line_start_coco3_def)
  have "uint (t (unat (of_nat k :: u32))) = line_target (uint (frame_cycles fast)) k"
    using t assms(2) by (simp add: unat_of_nat)
  with scanline3_runs [OF k v, of D V h] assms(3) v t show ?thesis
    unfolding next_line_nat [OF assms(2)] by (fastforce simp: line_step_coco3_def line_start_coco3_def)
qed

interpretation coco3_clock: scanline_clock "line_step_coco3 D V h" "line_start_coco3 fast v n" "frame_cycles fast"
  for D :: "'p devices" and V h v n fast
proof unfold_locales
  show "14916 \<le> uint (frame_cycles fast)" "uint (frame_cycles fast) \<le> 32767" by (simp_all add: frame_cycles_uint)
qed (rule line_step3_runs)


definition null_display :: "unit gime_display" where
  "null_display =
     \<lparr>hal_video_capture_armed = (\<lambda>_. False), hal_video_render_scanline_gime_raw = (\<lambda>_ _ _ _ _ d. d),
      hal_video_render_scanline_gime = (\<lambda>_ _ _ _ _ _ d. d), hal_video_render_border_gime = (\<lambda>_ _ _ d. d),
      hal_video_gime_frame = (\<lambda>_ _ d. d), hal_video_present_gime = (\<lambda>_ d. (False, d))\<rparr>"


end
