(* ===== verification/CoCo3_Direct.thy ===== *)
theory CoCo3_Direct
  imports CoCo3_Reset
begin

text \<open>
  The direct paths of the CoCo 3's read and write callbacks, which bypass the device checks and the
  full GIME decode for RAM, the vectors, $FF91, $FF20 and the interrupt acknowledges, agree with the
  generic chain behind them. The two differ only in when the GIME samples its interrupt inputs.
\<close>

section \<open>Direct paths\<close>

text \<open>What the GIME's address outputs and edge detectors hold until the next bus cycle.\<close>

definition settle :: "'p coco3 \<Rightarrow> 'p coco3" where
  "settle m = upd_gime (\<lambda>g. (edge_detect_il g)\<lparr>g_S := 0, g_Z := 0, g_RAS := False\<rparr>) m"

text \<open>The addresses with a direct path.\<close>

definition direct_read :: "u16 \<Rightarrow> 'p coco3 \<Rightarrow> bool" where
  "direct_read a m \<longleftrightarrow> a < 0xFE00 \<and> (g_TY (gime m) \<or> cpu_bank a m AND 0x3F < 0x3C) \<or>
     a = 0xFF92 \<or> a = 0xFF93 \<or> a \<ge> 0xFFE0 \<or> a \<ge> 0xFE00 \<and> a < 0xFF00 \<and> g_MC3 (gime m)"

lemma machine_read_generic: "\<not> direct_read a m \<Longrightarrow> machine_read_coco3 D a m = chain_read_coco3 D a m"
  by (auto simp: direct_read_def machine_read_coco3_def)

lemma aligned_block:
  assumes "a AND NOT (mask k) = (b :: u16)"
  shows "unat a div 2 ^ k = unat b div 2 ^ k"
proof -
  have "drop_bit k (a AND NOT (mask k)) = drop_bit k a"
    by (rule bit_word_eqI) (auto simp: bit_simps dest: bit_imp_le_length)
  moreover have "unat (drop_bit k x) = unat x div 2 ^ k" for x :: u16
    by (simp only: unsigned_drop_bit_eq) (simp add: drop_bit_eq_div take_bit_nat_eq_self u16_lt)
  ultimately show ?thesis using assms by metis
qed

lemma no_cartridge:
  assumes "a < 0xFF00 \<or> a \<ge> 0xFF90"
  shows "a AND 0xFFFC \<noteq> 0xFF68" and "\<not> a - SSC_CTRL_ADDR < 2" and "\<not> vhd_is_port a" and "a AND 0xFFFE \<noteq> ORCH90_LEFT_ADDR"
proof -
  show "a AND 0xFFFC \<noteq> 0xFF68"
  proof
    have "(0xFFFC :: u16) = NOT (mask 2)" by (simp add: mask_eq_exp_minus_1)
    moreover assume "a AND 0xFFFC = 0xFF68"
    ultimately have e: "a AND NOT (mask 2) = 0xFF68" by (simp only:)
    have "unat a div 4 = 0x3FDA" using aligned_block [OF e] by simp
    then show False using assms by (auto simp: word_less_nat_alt word_le_nat_alt)
  qed
  show "a AND 0xFFFE \<noteq> ORCH90_LEFT_ADDR"
  proof
    have "(0xFFFE :: u16) = NOT (mask 1)" by (simp add: mask_eq_exp_minus_1)
    moreover assume "a AND 0xFFFE = ORCH90_LEFT_ADDR"
    ultimately have e: "a AND NOT (mask 1) = 0xFF7A" by (simp only: ORCH90_LEFT_ADDR_def)
    have "unat a div 2 = 0x7FBD" using aligned_block [OF e] by simp
    then show False using assms by (auto simp: word_less_nat_alt word_le_nat_alt)
  qed
  show "\<not> a - SSC_CTRL_ADDR < 2" using assms u16_lt [of a]
    by (auto simp: SSC_CTRL_ADDR_def word_less_nat_alt word_le_nat_alt unat_sub_if')
  show "\<not> vhd_is_port a" using assms by (auto simp: vhd_is_port_def word_less_nat_alt word_le_nat_alt)
qed

text \<open>The three edge detectors in turn.\<close>

definition il2_step :: "tcc1014 \<Rightarrow> tcc1014" where
  "il2_step g = (let g = (if g_IL2 g \<and> g_IL2_state g = 0 then set_interrupt TCC1014_INT_EI2 g else g)
     in g\<lparr>g_IL2_state := (if g_IL2 g then TCC1014_INT_EI2 else 0)\<rparr>)"

definition il1_step :: "tcc1014 \<Rightarrow> tcc1014" where
  "il1_step g = (let g = (if g_IL1 g \<and> g_IL1_state g = 0 then set_interrupt TCC1014_INT_EI1 g else g)
     in g\<lparr>g_IL1_state := (if g_IL1 g then TCC1014_INT_EI1 else 0)\<rparr>)"

definition il0_step :: "tcc1014 \<Rightarrow> tcc1014" where
  "il0_step g = (let g = (if g_IL0 g \<and> g_IL0_state g = 0 then set_interrupt TCC1014_INT_EI0 g else g)
     in g\<lparr>g_IL0_state := (if g_IL0 g then TCC1014_INT_EI0 else 0)\<rparr>)"

lemmas il_steps = il2_step_def il1_step_def il0_step_def

lemma edge_steps: "edge_detect_il g = il0_step (il1_step (il2_step g))"
  by (simp only: edge_detect_il_def Let_def il_steps)

text \<open>The outputs of the address decode do not reach the edge detectors.\<close>

lemma set_interrupt_pins:
  "set_interrupt f (g\<lparr>g_S := s\<rparr>) = (set_interrupt f g)\<lparr>g_S := s\<rparr>"
  "set_interrupt f (g\<lparr>g_Z := z\<rparr>) = (set_interrupt f g)\<lparr>g_Z := z\<rparr>"
  "set_interrupt f (g\<lparr>g_RAS := r\<rparr>) = (set_interrupt f g)\<lparr>g_RAS := r\<rparr>"
  "set_interrupt f (g\<lparr>g_dirty_frame := d\<rparr>) = (set_interrupt f g)\<lparr>g_dirty_frame := d\<rparr>"
  by (simp_all add: set_interrupt_def Let_def)

lemma il2_pins:
  "il2_step (g\<lparr>g_S := s\<rparr>) = (il2_step g)\<lparr>g_S := s\<rparr>"
  "il2_step (g\<lparr>g_Z := z\<rparr>) = (il2_step g)\<lparr>g_Z := z\<rparr>"
  "il2_step (g\<lparr>g_RAS := r\<rparr>) = (il2_step g)\<lparr>g_RAS := r\<rparr>"
  "il2_step (g\<lparr>g_dirty_frame := d\<rparr>) = (il2_step g)\<lparr>g_dirty_frame := d\<rparr>"
  by (cases "g_IL2 g \<and> g_IL2_state g = 0"; simp add: il2_step_def set_interrupt_pins set_interrupt_lines Let_def del: de_Morgan_conj)+

lemma il1_pins:
  "il1_step (g\<lparr>g_S := s\<rparr>) = (il1_step g)\<lparr>g_S := s\<rparr>"
  "il1_step (g\<lparr>g_Z := z\<rparr>) = (il1_step g)\<lparr>g_Z := z\<rparr>"
  "il1_step (g\<lparr>g_RAS := r\<rparr>) = (il1_step g)\<lparr>g_RAS := r\<rparr>"
  "il1_step (g\<lparr>g_dirty_frame := d\<rparr>) = (il1_step g)\<lparr>g_dirty_frame := d\<rparr>"
  by (cases "g_IL1 g \<and> g_IL1_state g = 0"; simp add: il1_step_def set_interrupt_pins set_interrupt_lines Let_def del: de_Morgan_conj)+

lemma il0_pins:
  "il0_step (g\<lparr>g_S := s\<rparr>) = (il0_step g)\<lparr>g_S := s\<rparr>"
  "il0_step (g\<lparr>g_Z := z\<rparr>) = (il0_step g)\<lparr>g_Z := z\<rparr>"
  "il0_step (g\<lparr>g_RAS := r\<rparr>) = (il0_step g)\<lparr>g_RAS := r\<rparr>"
  "il0_step (g\<lparr>g_dirty_frame := d\<rparr>) = (il0_step g)\<lparr>g_dirty_frame := d\<rparr>"
  by (cases "g_IL0 g \<and> g_IL0_state g = 0"; simp add: il0_step_def set_interrupt_pins set_interrupt_lines Let_def del: de_Morgan_conj)+

lemma edge_pins:
  "edge_detect_il (g\<lparr>g_S := s\<rparr>) = (edge_detect_il g)\<lparr>g_S := s\<rparr>"
  "edge_detect_il (g\<lparr>g_Z := z\<rparr>) = (edge_detect_il g)\<lparr>g_Z := z\<rparr>"
  "edge_detect_il (g\<lparr>g_RAS := r\<rparr>) = (edge_detect_il g)\<lparr>g_RAS := r\<rparr>"
  "edge_detect_il (g\<lparr>g_dirty_frame := d\<rparr>) = (edge_detect_il g)\<lparr>g_dirty_frame := d\<rparr>"
  by (simp_all only: edge_steps il2_pins il1_pins il0_pins)

lemma edge_idem: "edge_detect_il (edge_detect_il g) = edge_detect_il g"
  by (rule edge_stays) (rule edge_latches)


text \<open>The fields the memory map depends on.\<close>

lemma il_map:
  "g_TY (il2_step g) = g_TY g" "g_MC3 (il2_step g) = g_MC3 g" "g_MC2 (il2_step g) = g_MC2 g" "g_active_banks (il2_step g) = g_active_banks g" "g_ram_mask (il2_step g) = g_ram_mask g" "g_MMUEN (il2_step g) = g_MMUEN g" "g_mmu_bank (il2_step g) = g_mmu_bank g" "g_TR (il2_step g) = g_TR g" "g_ram (il2_step g) = g_ram g" "g_rd_page (il2_step g) = g_rd_page g" "g_wr_page (il2_step g) = g_wr_page g"
  "g_TY (il1_step g) = g_TY g" "g_MC3 (il1_step g) = g_MC3 g" "g_MC2 (il1_step g) = g_MC2 g" "g_active_banks (il1_step g) = g_active_banks g" "g_ram_mask (il1_step g) = g_ram_mask g" "g_MMUEN (il1_step g) = g_MMUEN g" "g_mmu_bank (il1_step g) = g_mmu_bank g" "g_TR (il1_step g) = g_TR g" "g_ram (il1_step g) = g_ram g" "g_rd_page (il1_step g) = g_rd_page g" "g_wr_page (il1_step g) = g_wr_page g"
  "g_TY (il0_step g) = g_TY g" "g_MC3 (il0_step g) = g_MC3 g" "g_MC2 (il0_step g) = g_MC2 g" "g_active_banks (il0_step g) = g_active_banks g" "g_ram_mask (il0_step g) = g_ram_mask g" "g_MMUEN (il0_step g) = g_MMUEN g" "g_mmu_bank (il0_step g) = g_mmu_bank g" "g_TR (il0_step g) = g_TR g" "g_ram (il0_step g) = g_ram g" "g_rd_page (il0_step g) = g_rd_page g" "g_wr_page (il0_step g) = g_wr_page g"
  by (simp_all add: il_steps set_interrupt_def Let_def)

lemma edge_map [simp]:
  "g_TY (edge_detect_il g) = g_TY g"
  "g_MC3 (edge_detect_il g) = g_MC3 g"
  "g_MC2 (edge_detect_il g) = g_MC2 g"
  "g_active_banks (edge_detect_il g) = g_active_banks g"
  "g_ram_mask (edge_detect_il g) = g_ram_mask g"
  "g_MMUEN (edge_detect_il g) = g_MMUEN g"
  "g_mmu_bank (edge_detect_il g) = g_mmu_bank g"
  "g_TR (edge_detect_il g) = g_TR g" "g_ram (edge_detect_il g) = g_ram g"
  "g_rd_page (edge_detect_il g) = g_rd_page g" "g_wr_page (edge_detect_il g) = g_wr_page g"
  by (simp_all only: edge_steps il_map)

lemma decode_ram:
  assumes "a < 0xFE00" and "pages_ok g" and "g_TY g \<or> g_active_banks g (unat (drop_bit 13 a)) AND 0x3F < 0x3C"
  shows "decode_memory a (g\<lparr>g_S := 7, g_RAS := False\<rparr>) =
    g\<lparr>g_S := 7, g_RAS := True, g_Z := bank_z (g_active_banks g (unat (drop_bit 13 a))) a\<rparr>"
proof -
  have "\<not> 0xFE00 \<le> a" using assms(1) by simp
  then show ?thesis
    using assms(3) current_pages(1) [OF assms(2) page_bounds(1) [of a]]
    by (auto simp: decode_memory_def bank_z_def Let_def not_less)
qed

lemma decode_mc3:
  assumes "a \<ge> 0xFE00" and "g_MC3 g"
  shows "decode_memory a (g\<lparr>g_S := 7, g_RAS := False\<rparr>) =
    g\<lparr>g_S := (if g_TY g then 7 else if \<not> g_MC1 g then 1 else if g_MC0 g then 1 else 0), g_RAS := True, g_Z := bank_z 0x3F a\<rparr>"
proof -
  have "drop_bit 13 a = 7"
  proof -
    have "0xFE00 \<le> unat a" using assms(1) by (simp add: word_le_nat_alt)
    then have "unat (drop_bit 13 a) = 7" using u16_lt [of a] by (simp add: drop_bit_eq_div unat_div)
    then show ?thesis by (simp add: word_unat_eq_iff)
  qed
  then show ?thesis using assms by (auto simp: decode_memory_def bank_z_def Let_def)
qed


lemma chain_read_gime:
  assumes "a < 0xFF00 \<or> a \<ge> 0xFF90"
  shows "chain_read_coco3 D a m =
    (let (data, is_reg, g) = tcc1014_mem_cycle a True 0 (gime m);
         reg_data = (case data of Some v \<Rightarrow> v | None \<Rightarrow> 0xFF);
         m = m\<lparr>gime := g\<rparr>
     in if is_reg then (reg_data, m) else if g_RAS g then (ram_physical m (phys (g_Z g) m), m)
        else select_read_coco3 D a m)"
  using no_cartridge [OF assms] by (simp add: chain_read_coco3_def)

lemma settle_simp: "settle (m\<lparr>gime := g\<rparr>) = m\<lparr>gime := (edge_detect_il g)\<lparr>g_S := 0, g_Z := 0, g_RAS := False\<rparr>\<rparr>"
  by (simp add: settle_def upd_gime_def)

lemma settle_self: "settle m = m\<lparr>gime := (edge_detect_il (gime m))\<lparr>g_S := 0, g_Z := 0, g_RAS := False\<rparr>\<rparr>"
  by (simp add: settle_def upd_gime_def)

lemmas settle_simps = settle_simp settle_self edge_pins edge_idem

lemma direct_ram_read:
  assumes "pages_ok (gime m)" and a: "a < 0xFE00" and b: "g_TY (gime m) \<or> cpu_bank a m AND 0x3F < 0x3C"
  shows "fst (chain_read_coco3 D a m) = ram_physical m (phys (bank_z (cpu_bank a m) a) m)"
    and "settle (snd (chain_read_coco3 D a m)) = settle m"
proof -
  have io: "a < 0xFF00" using a by (simp add: word_less_nat_alt)
  have p: "pages_ok (edge_detect_il (gime m))"
    by (rule pages_frame_gime [OF assms(1)]) (simp_all add: gime_mmu_def gime_map_def)
  have "tcc1014_mem_cycle a True 0 (gime m) = (None, False, (edge_detect_il (gime m))\<lparr>g_S := 7, g_RAS := True,
      g_Z := bank_z (cpu_bank a m) a\<rparr>)"
    using io decode_ram [OF a p] b by (simp add: tcc1014_mem_cycle_def cpu_bank_def Let_def)
  then have c: "chain_read_coco3 D a m = (ram_physical m (phys (bank_z (cpu_bank a m) a) m),
      m\<lparr>gime := (edge_detect_il (gime m))\<lparr>g_S := 7, g_RAS := True, g_Z := bank_z (cpu_bank a m) a\<rparr>\<rparr>)"
    using io by (simp add: chain_read_gime phys_def)
  show "fst (chain_read_coco3 D a m) = ram_physical m (phys (bank_z (cpu_bank a m) a) m)"
    "settle (snd (chain_read_coco3 D a m)) = settle m"
    unfolding c by (simp_all add: settle_simps)
qed


text \<open>The other direct reads.\<close>

lemma direct_vector_read:
  assumes a: "a \<ge> 0xFFE0"
  shows "chain_read_coco3 D a m = (rom3_byte a m, m\<lparr>gime := (edge_detect_il (gime m))\<lparr>g_S := 0, g_RAS := False\<rparr>\<rparr>)"
proof -
  have n: "\<not> a < 0xFF00" "\<not> a < 0xFF40" "\<not> a < 0xFF60" "\<not> a < 0xFF90" "\<not> a < 0xFFA0" "\<not> a < 0xFFB0" "\<not> a < 0xFFC0"
    "\<not> a < 0xFFE0" "a \<ge> 0xFF90" using a by (simp_all add: word_less_nat_alt word_le_nat_alt)
  have "tcc1014_mem_cycle a True 0 (gime m) = (None, False, (edge_detect_il (gime m))\<lparr>g_S := 0, g_RAS := False\<rparr>)"
    using n by (simp add: tcc1014_mem_cycle_def Let_def)
  then show ?thesis using n by (simp add: chain_read_gime select_read_coco3_def rom3_byte_def Let_def)
qed

lemma direct_mc3_read:
  assumes a: "a \<ge> 0xFE00" "a < 0xFF00" and mc3: "g_MC3 (gime m)"
  shows "fst (chain_read_coco3 D a m) = ram_physical m (phys (bank_z 0x3F a) m)"
    and "settle (snd (chain_read_coco3 D a m)) = settle m"
proof -
  obtain s where "tcc1014_mem_cycle a True 0 (gime m) = (None, False, (edge_detect_il (gime m))\<lparr>g_S := s, g_RAS := True,
      g_Z := bank_z 0x3F a\<rparr>)"
    using a mc3 decode_mc3 [OF a(1), of "edge_detect_il (gime m)"] by (simp add: tcc1014_mem_cycle_def Let_def)
  then have c: "chain_read_coco3 D a m = (ram_physical m (phys (bank_z 0x3F a) m),
      m\<lparr>gime := (edge_detect_il (gime m))\<lparr>g_S := s, g_RAS := True, g_Z := bank_z 0x3F a\<rparr>\<rparr>)"
    using a by (simp add: chain_read_gime phys_def)
  show "fst (chain_read_coco3 D a m) = ram_physical m (phys (bank_z 0x3F a) m)"
    "settle (snd (chain_read_coco3 D a m)) = settle m"
    unfolding c by (simp_all add: settle_simps)
qed

lemma direct_ack_read:
  assumes a: "a = 0xFF92 \<or> a = 0xFF93"
  shows "fst (chain_read_coco3 D a m) = fst (tcc1014_read_register (unat (a AND 0x0F)) (gime m))"
    and "settle (snd (chain_read_coco3 D a m)) = settle (m\<lparr>gime := snd (tcc1014_read_register (unat (a AND 0x0F)) (gime m))\<rparr>)"
proof -
  let ?e = "edge_detect_il (gime m)"
  have n: "a \<ge> 0xFF90" using a by auto
  have "chain_read_coco3 D a m = (if a = 0xFF92 then (g_irq_state ?e, m\<lparr>gime := ?e\<lparr>g_irq_state := 0, g_IRQ := False, g_S := 7, g_RAS := False\<rparr>\<rparr>)
      else (g_firq_state ?e, m\<lparr>gime := ?e\<lparr>g_firq_state := 0, g_FIRQ := False, g_S := 7, g_RAS := False\<rparr>\<rparr>))"
    using a by (auto simp: chain_read_gime tcc1014_mem_cycle_def Let_def)
  moreover have "tcc1014_read_register (unat (a AND 0x0F)) (gime m) =
      (if a = 0xFF92 then (g_irq_state ?e, ?e\<lparr>g_irq_state := 0, g_IRQ := False\<rparr>)
       else (g_firq_state ?e, ?e\<lparr>g_firq_state := 0, g_FIRQ := False\<rparr>))"
    using a by (auto simp: tcc1014_read_register_def Let_def)
  ultimately show "fst (chain_read_coco3 D a m) = fst (tcc1014_read_register (unat (a AND 0x0F)) (gime m))"
    "settle (snd (chain_read_coco3 D a m)) = settle (m\<lparr>gime := snd (tcc1014_read_register (unat (a AND 0x0F)) (gime m))\<rparr>)"
    by (auto simp: settle_simp edge_pins)
qed

lemma direct_read_is_chain:
  assumes "pages_ok (gime m)"
  shows "fst (machine_read_coco3 D a m) = fst (chain_read_coco3 D a m) \<and>
    settle (snd (machine_read_coco3 D a m)) = settle (snd (chain_read_coco3 D a m))"
proof -
  consider (ram) "a < 0xFE00 \<and> (g_TY (gime m) \<or> cpu_bank a m AND 0x3F < 0x3C)" | (ack) "a = 0xFF92 \<or> a = 0xFF93"
    | (vec) "a \<ge> 0xFFE0" | (mc3) "a \<ge> 0xFE00" "a < 0xFF00" "g_MC3 (gime m)" | (other) "\<not> direct_read a m"
    unfolding direct_read_def by blast
  then show ?thesis
  proof cases
    case ram
    then show ?thesis using direct_ram_read [OF assms, of a D] by (simp add: machine_read_coco3_def)
  next
    case ack
    then have "machine_read_coco3 D a m = (fst (tcc1014_read_register (unat (a AND 0x0F)) (gime m)),
        m\<lparr>gime := snd (tcc1014_read_register (unat (a AND 0x0F)) (gime m))\<rparr>)"
      by (auto simp: machine_read_coco3_def case_prod_unfold Let_def)
    then show ?thesis using direct_ack_read [OF ack, of D m] by simp
  next
    case vec
    then have "\<not> a < 0xFE00" "a \<noteq> 0xFF92" "a \<noteq> 0xFF93" by (auto simp: word_less_nat_alt word_le_nat_alt)
    then show ?thesis using vec by (simp add: machine_read_coco3_def direct_vector_read settle_simps)
  next
    case mc3
    then have "\<not> a < 0xFE00" "a \<noteq> 0xFF92" "a \<noteq> 0xFF93" "\<not> a \<ge> 0xFFE0"
      by (auto simp: word_less_nat_alt word_le_nat_alt)
    then show ?thesis using mc3 direct_mc3_read [OF mc3, of D] by (simp add: machine_read_coco3_def)
  next
    case other
    then show ?thesis by (simp add: machine_read_generic)
  qed
qed


section \<open>Direct writes\<close>

lemma set_interrupt_commute:
  "n \<notin> {0, 2, 3} \<Longrightarrow> set_interrupt f (g\<lparr>g_registers := (g_registers g)(n := v)\<rparr>) = (set_interrupt f g)\<lparr>g_registers := (g_registers g)(n := v)\<rparr>"
  "set_interrupt f (g\<lparr>g_TINS := b\<rparr>) = (set_interrupt f g)\<lparr>g_TINS := b\<rparr>"
  "set_interrupt f (g\<lparr>g_TR := k\<rparr>) = (set_interrupt f g)\<lparr>g_TR := k\<rparr>"
  "set_interrupt f (arm_timer g) = arm_timer (set_interrupt f g)"
  "set_interrupt f (tcc1014_update_active_banks g) = tcc1014_update_active_banks (set_interrupt f g)"
  by (simp_all add: set_interrupt_def arm_timer_def timer_reset_def tcc1014_update_active_banks_def
      update_fast_pages_def page_base_def Let_def cong: if_cong)

lemma set_interrupt_init1:
  "set_interrupt f (tcc1014_write_register 1 v g) = tcc1014_write_register 1 v (set_interrupt f g)"
proof -
  have r: "g_TINS (set_interrupt f h) = g_TINS h" "g_TR (set_interrupt f h) = g_TR h"
    "g_registers (set_interrupt f h) = g_registers h" "g_TR (arm_timer h) = g_TR h" for h
    by (simp_all add: set_interrupt_def arm_timer_def timer_reset_def Let_def)
  show ?thesis
    by (simp add: tcc1014_write_register_def write_init1_def Let_def r set_interrupt_commute
        if_distrib [of "set_interrupt f"] cong: if_cong)
qed

lemma init1_lines:
  "g_IL2 (tcc1014_write_register 1 v g) = g_IL2 g" "g_IL2_state (tcc1014_write_register 1 v g) = g_IL2_state g"
  "g_IL1 (tcc1014_write_register 1 v g) = g_IL1 g" "g_IL1_state (tcc1014_write_register 1 v g) = g_IL1_state g"
  "g_IL0 (tcc1014_write_register 1 v g) = g_IL0 g" "g_IL0_state (tcc1014_write_register 1 v g) = g_IL0_state g"
  by (simp_all add: tcc1014_write_register_def write_init1_def arm_timer_def timer_reset_def
      tcc1014_update_active_banks_def update_fast_pages_def Let_def)

text \<open>Fields that neither the timer nor the bank tables read.\<close>

lemma arm_pins:
  "arm_timer (g\<lparr>g_IL2_state := c, g_TINS := t\<rparr>) = (arm_timer (g\<lparr>g_TINS := t\<rparr>))\<lparr>g_IL2_state := c\<rparr>"
  "arm_timer (g\<lparr>g_IL1_state := c, g_TINS := t\<rparr>) = (arm_timer (g\<lparr>g_TINS := t\<rparr>))\<lparr>g_IL1_state := c\<rparr>"
  "arm_timer (g\<lparr>g_IL0_state := c, g_TINS := t\<rparr>) = (arm_timer (g\<lparr>g_TINS := t\<rparr>))\<lparr>g_IL0_state := c\<rparr>"
  "arm_timer (g\<lparr>g_S := n, g_TINS := t\<rparr>) = (arm_timer (g\<lparr>g_TINS := t\<rparr>))\<lparr>g_S := n\<rparr>"
  "arm_timer (g\<lparr>g_RAS := b, g_TINS := t\<rparr>) = (arm_timer (g\<lparr>g_TINS := t\<rparr>))\<lparr>g_RAS := b\<rparr>"
  by (simp_all add: arm_timer_def timer_reset_def Let_def)

lemma banks_pins:
  "tcc1014_update_active_banks (g\<lparr>g_IL2_state := c, g_TR := t\<rparr>) = (tcc1014_update_active_banks (g\<lparr>g_TR := t\<rparr>))\<lparr>g_IL2_state := c\<rparr>"
  "tcc1014_update_active_banks (g\<lparr>g_IL1_state := c, g_TR := t\<rparr>) = (tcc1014_update_active_banks (g\<lparr>g_TR := t\<rparr>))\<lparr>g_IL1_state := c\<rparr>"
  "tcc1014_update_active_banks (g\<lparr>g_IL0_state := c, g_TR := t\<rparr>) = (tcc1014_update_active_banks (g\<lparr>g_TR := t\<rparr>))\<lparr>g_IL0_state := c\<rparr>"
  "tcc1014_update_active_banks (g\<lparr>g_S := n, g_TR := t\<rparr>) = (tcc1014_update_active_banks (g\<lparr>g_TR := t\<rparr>))\<lparr>g_S := n\<rparr>"
  "tcc1014_update_active_banks (g\<lparr>g_RAS := b, g_TR := t\<rparr>) = (tcc1014_update_active_banks (g\<lparr>g_TR := t\<rparr>))\<lparr>g_RAS := b\<rparr>"
  by (simp_all add: tcc1014_update_active_banks_def update_fast_pages_def page_base_def Let_def cong: if_cong)

lemma init1_pin:
  "write_init1 w (g\<lparr>g_IL2_state := c\<rparr>) = (write_init1 w g)\<lparr>g_IL2_state := c\<rparr>"
  "write_init1 w (g\<lparr>g_IL1_state := c\<rparr>) = (write_init1 w g)\<lparr>g_IL1_state := c\<rparr>"
  "write_init1 w (g\<lparr>g_IL0_state := c\<rparr>) = (write_init1 w g)\<lparr>g_IL0_state := c\<rparr>"
  "write_init1 w (g\<lparr>g_S := n\<rparr>) = (write_init1 w g)\<lparr>g_S := n\<rparr>"
  "write_init1 w (g\<lparr>g_RAS := b\<rparr>) = (write_init1 w g)\<lparr>g_RAS := b\<rparr>"
  by (simp_all add: write_init1_def Let_def arm_pins banks_pins)

lemma init1_regs:
  "g\<lparr>g_IL2_state := c, g_registers := r\<rparr> = g\<lparr>g_registers := r, g_IL2_state := c\<rparr>"
  "g\<lparr>g_IL1_state := c, g_registers := r\<rparr> = g\<lparr>g_registers := r, g_IL1_state := c\<rparr>"
  "g\<lparr>g_IL0_state := c, g_registers := r\<rparr> = g\<lparr>g_registers := r, g_IL0_state := c\<rparr>"
  "g\<lparr>g_S := n, g_registers := r\<rparr> = g\<lparr>g_registers := r, g_S := n\<rparr>"
  "g\<lparr>g_RAS := b, g_registers := r\<rparr> = g\<lparr>g_registers := r, g_RAS := b\<rparr>"
  by simp_all

lemma write1_eq: "tcc1014_write_register 1 w h = write_init1 w (h\<lparr>g_registers := (g_registers h)(1 := w)\<rparr>)"
  by (simp add: tcc1014_write_register_def Let_def)

lemma init1_pins:
  "tcc1014_write_register 1 w (g\<lparr>g_IL2_state := c\<rparr>) = (tcc1014_write_register 1 w g)\<lparr>g_IL2_state := c\<rparr>"
  "tcc1014_write_register 1 w (g\<lparr>g_IL1_state := c\<rparr>) = (tcc1014_write_register 1 w g)\<lparr>g_IL1_state := c\<rparr>"
  "tcc1014_write_register 1 w (g\<lparr>g_IL0_state := c\<rparr>) = (tcc1014_write_register 1 w g)\<lparr>g_IL0_state := c\<rparr>"
  "tcc1014_write_register 1 w (g\<lparr>g_S := n\<rparr>) = (tcc1014_write_register 1 w g)\<lparr>g_S := n\<rparr>"
  "tcc1014_write_register 1 w (g\<lparr>g_RAS := b\<rparr>) = (tcc1014_write_register 1 w g)\<lparr>g_RAS := b\<rparr>"
  by (simp_all add: write1_eq init1_regs init1_pin del: One_nat_def)

lemma edge_init1: "edge_detect_il (tcc1014_write_register 1 v g) = tcc1014_write_register 1 v (edge_detect_il g)"
proof -
  have "il2_step (tcc1014_write_register 1 v h) = tcc1014_write_register 1 v (il2_step h)"
    "il1_step (tcc1014_write_register 1 v h) = tcc1014_write_register 1 v (il1_step h)"
    "il0_step (tcc1014_write_register 1 v h) = tcc1014_write_register 1 v (il0_step h)" for h
    by (simp_all add: il_steps Let_def init1_lines init1_pins set_interrupt_init1 set_interrupt_lines del: One_nat_def)
  then show ?thesis by (simp only: edge_steps)
qed


text \<open>The chain behind the direct writes.\<close>

lemma chain_write_gime:
  assumes "a < 0xFF00 \<or> a \<ge> 0xFF90"
  shows "chain_write_coco3 D wr a v m =
    (let (data, is_reg, g) = tcc1014_mem_cycle a False v (gime m); m = m\<lparr>gime := g\<rparr>
     in if is_reg then m else if g_RAS g then poke_phys (g_Z g) v m else select_write_coco3 D a v m)"
  using no_cartridge [OF assms] by (simp add: chain_write_coco3_def)

lemma direct_ram_write:
  assumes "pages_ok (gime m)" and a: "a < 0xFE00" and b: "g_TY (gime m) \<or> cpu_bank a m AND 0x3F < 0x3C"
  shows "settle (chain_write_coco3 D wr a v m) = settle (poke_phys (bank_z (cpu_bank a m) a) v m)"
proof -
  have io: "a < 0xFF00" using a by (simp add: word_less_nat_alt)
  have p: "pages_ok (edge_detect_il (gime m))"
    by (rule pages_frame_gime [OF assms(1)]) (simp_all add: gime_mmu_def gime_map_def)
  have "tcc1014_mem_cycle a False v (gime m) = (None, False, (edge_detect_il (gime m))\<lparr>g_S := 7, g_RAS := True,
      g_Z := bank_z (cpu_bank a m) a\<rparr>)"
    using io decode_ram [OF a p] b by (simp add: tcc1014_mem_cycle_def cpu_bank_def Let_def)
  then show ?thesis using io by (simp add: chain_write_gime poke_phys_def phys_def settle_simps)
qed

lemma direct_mc3_write:
  assumes a: "a \<ge> 0xFE00" "a < 0xFF00" and mc3: "g_MC3 (gime m)"
  shows "settle (chain_write_coco3 D wr a v m) = settle (poke_phys (bank_z 0x3F a) v m)"
proof -
  obtain s where "tcc1014_mem_cycle a False v (gime m) = (None, False, (edge_detect_il (gime m))\<lparr>g_S := s, g_RAS := True,
      g_Z := bank_z 0x3F a\<rparr>)"
    using a mc3 decode_mc3 [OF a(1), of "edge_detect_il (gime m)"] by (simp add: tcc1014_mem_cycle_def Let_def)
  then show ?thesis using a by (simp add: chain_write_gime poke_phys_def phys_def settle_simps)
qed

lemma sound_gime:
  "sound_pia1_written r (m\<lparr>gime := g\<rparr>) = (sound_pia1_written r m)\<lparr>gime := g\<rparr>" "gime (sound_pia1_written r m) = gime m"
  by (simp_all add: sound_pia1_written_def Let_def)

lemma direct_dac_write: "settle (chain_write_coco3 D wr 0xFF20 v m) = settle (pia1_write_coco3 0 v m)"
proof -
  have "tcc1014_mem_cycle 0xFF20 False v (gime m) = (None, False, (edge_detect_il (gime m))\<lparr>g_S := 2, g_RAS := False\<rparr>)"
    by (simp add: tcc1014_mem_cycle_def Let_def)
  then have "chain_write_coco3 D wr 0xFF20 v m = pia1_write_coco3 0 v (m\<lparr>gime := (edge_detect_il (gime m))\<lparr>g_S := 2, g_RAS := False\<rparr>\<rparr>)"
    by (simp add: chain_write_coco3_def vhd_is_port_def SSC_CTRL_ADDR_def ORCH90_LEFT_ADDR_def select_write_coco3_def Let_def)
  also have "\<dots> = (pia1_write_coco3 0 v m)\<lparr>gime := (edge_detect_il (gime m))\<lparr>g_S := 2, g_RAS := False\<rparr>\<rparr>"
  proof -
    have swap: "m\<lparr>gime := g, pia1 := p\<rparr> = m\<lparr>pia1 := p, gime := g\<rparr>" and sel: "pia1 (m\<lparr>gime := g\<rparr>) = pia1 m" for g p
      by simp_all
    show ?thesis by (simp only: pia1_write_coco3_def sel swap sound_gime(1))
  qed
  finally show ?thesis by (simp add: settle_simps pia1_write_coco3_def sound_gime)
qed

lemma direct_task_write: "settle (chain_write_coco3 D wr 0xFF91 v m) = settle (upd_gime (tcc1014_write_register 1 v) m)"
proof -
  have "tcc1014_mem_cycle 0xFF91 False v (gime m) = (None, True, tcc1014_write_register 1 v ((edge_detect_il (gime m))\<lparr>g_S := 7, g_RAS := False\<rparr>))"
    by (simp add: tcc1014_mem_cycle_def Let_def)
  then have "chain_write_coco3 D wr 0xFF91 v m = m\<lparr>gime := (tcc1014_write_register 1 v (edge_detect_il (gime m)))\<lparr>g_S := 7, g_RAS := False\<rparr>\<rparr>"
    by (simp add: chain_write_gime init1_pins del: One_nat_def)
  then show ?thesis by (simp add: settle_simps upd_gime_def edge_init1 del: One_nat_def)
qed

text \<open>The writes that reach RAM or a device through the GIME's decode as well.\<close>

definition decoded_write :: "u16 \<Rightarrow> 'p coco3 \<Rightarrow> bool" where
  "decoded_write a m \<longleftrightarrow> a \<ge> 0xFE00 \<or> g_TY (gime m) \<or> cpu_bank a m AND 0x3F < 0x3C"

lemma direct_write_is_chain:
  assumes "pages_ok (gime m)" and "decoded_write a m"
  shows "settle (write_body_coco3 D wr a v m) = settle (chain_write_coco3 D wr a v m)"
proof -
  consider (ram) "a < 0xFE00" | (dac) "a = 0xFF20" | (task) "a = 0xFF91"
    | (mc3) "a \<ge> 0xFE00" "a < 0xFF00" "g_MC3 (gime m)" "a \<noteq> 0xFF20" "a \<noteq> 0xFF91"
    | (other) "\<not> a < 0xFE00" "a \<noteq> 0xFF20" "a \<noteq> 0xFF91" "\<not> (a < 0xFF00 \<and> g_MC3 (gime m))" by fastforce
  then show ?thesis
  proof cases
    case ram
    then have "g_TY (gime m) \<or> cpu_bank a m AND 0x3F < 0x3C" using assms(2) by (auto simp: decoded_write_def)
    with ram show ?thesis using direct_ram_write [OF assms(1), of a D wr v] by (simp add: write_body_coco3_def)
  next
    case mc3
    then show ?thesis using direct_mc3_write [OF mc3(1-3), of D wr v] by (simp add: write_body_coco3_def)
  next
    case task
    then show ?thesis by (simp add: write_body_coco3_def direct_task_write)
  next
    case other
    then show ?thesis by (auto simp: write_body_coco3_def)
  qed (simp add: write_body_coco3_def direct_dac_write)
qed

text \<open>
  C3: The shortcuts of the CoCo 3's memory callbacks are transparent. For every address, reading through
  \<open>machine_read_coco3\<close> gives the byte the generic chain (cartridge checks and full GIME decode) gives;
  and every write does what the chain does, except that below $FE00 a write also reaches the RAM under
  a mapped ROM. The machines afterwards agree up to the GIME's address outputs, once it has sampled
  its interrupt inputs, which the shortcuts leave to the next decoded cycle.
\<close>

theorem coco3_direct_paths:
  assumes "pages_ok (gime m)"
  shows "fst (machine_read_coco3 D a m) = fst (chain_read_coco3 D a m) \<and>
    settle (snd (machine_read_coco3 D a m)) = settle (snd (chain_read_coco3 D a m)) \<and>
    (decoded_write a m \<longrightarrow> settle (write_body_coco3 D wr a v m) = settle (chain_write_coco3 D wr a v m)) \<and>
    (\<not> decoded_write a m \<longrightarrow> write_body_coco3 D wr a v m = poke_phys (bank_z (cpu_bank a m) a) v m)"
proof -
  have "write_body_coco3 D wr a v m = poke_phys (bank_z (cpu_bank a m) a) v m" if "\<not> decoded_write a m"
    using that by (auto simp: decoded_write_def write_body_coco3_def not_le)
  then show ?thesis using direct_read_is_chain [OF assms] direct_write_is_chain [OF assms] by blast
qed

lemma coco3_direct_paths_witness:
  "settle (write_body_coco3 null_devices (\<lambda>_ _ m. m) 0xFF90 0x4C demo_coco3) = settle (chain_write_coco3 null_devices (\<lambda>_ _ m. m) 0xFF90 0x4C demo_coco3)"
proof -
  have "pages_ok (gime demo_coco3)" "decoded_write 0xFF90 demo_coco3"
    using demo3_mapped(1) by (simp_all add: mapped_def decoded_write_def)
  then show ?thesis using coco3_direct_paths [of demo_coco3 null_devices "0xFF90" "\<lambda>_ _ m. m" "0x4C"] by blast
qed

end
