(* ===== verification/Gime_Rows.thy ===== *)
theory Gime_Rows
  imports Machine_CoCo3 Gime_Skip
begin

text \<open>
  The character-row counter of the GIME.  After each active line the code increments a four-bit row
  counter, compares it with the mask of the current lines-per-row setting (all mask bits set), and on a
  match clears it and moves the video address to the next row.  The masks are not of the form
  \<open>2 ^ k - 1\<close>; that this still counts rows of a fixed height rests on the fact that the first row number
  with all the mask's bits is the mask itself.
\<close>

definition row_height :: "tcc1014 \<Rightarrow> nat" where
  "row_height g = max 1 (g_rowmask g)"

definition endless_row :: "tcc1014 \<Rightarrow> bool" where
  "endless_row g \<longleftrightarrow> \<not> g_COCO g \<and> g_LPR g = 7"

lemma row_match:
  assumes "k < 13" and "r < max 1 k"
  shows "(Suc r AND k = k) \<longleftrightarrow> Suc r = max 1 k" "Suc r AND 15 = Suc r"
proof -
  have "list_all (\<lambda>k. list_all (\<lambda>r. (Suc r AND k = k) = (Suc r = max 1 k) \<and> Suc r AND 15 = Suc r) [0..<max 1 k]) [0..<13]"
    by code_simp
  then show "(Suc r AND k = k) \<longleftrightarrow> Suc r = max 1 k" "Suc r AND 15 = Suc r"
    using assms by (simp_all add: list_all_iff del: upt_Suc)
qed

lemma row_endless: "(Suc r AND 15) AND 16 \<noteq> (16 :: nat)" "Suc r AND 15 = Suc r mod 16"
proof -
  have "(15 :: nat) AND 16 = 0" by code_simp
  then have "(Suc r AND 15) AND 16 = 0" by (simp only: and.assoc) simp
  then show "(Suc r AND 15) AND 16 \<noteq> (16 :: nat)" by simp
  have "(15 :: nat) = mask 4" by (simp add: mask_eq_exp_minus_1)
  then show "Suc r AND 15 = Suc r mod 16" by (simp only: take_bit_eq_mask [symmetric]) (simp add: take_bit_eq_mod)
qed

lemma wf_rowmask_cases:
  assumes w: "gime_wf g"
  shows "g_rowmask g = (if endless_row g then 16 else g_rowmask g)" "\<not> endless_row g \<Longrightarrow> g_rowmask g < 13"
proof -
  have t: "LPR_rowmask ! 7 = 16" "\<And>i. i < 7 \<Longrightarrow> LPR_rowmask ! i < 13"
  proof -
    have "list_all (\<lambda>x. x < 13) (take 7 LPR_rowmask)" "length LPR_rowmask = 8" by (simp_all add: LPR_rowmask_def)
    then show "\<And>i. i < 7 \<Longrightarrow> LPR_rowmask ! i < 13" by (auto simp: list_all_length)
  qed (simp add: LPR_rowmask_def)
  show "g_rowmask g = (if endless_row g then 16 else g_rowmask g)"
    using wf_rowmask(4) [OF w] t(1) by (simp add: endless_row_def)
  assume "\<not> endless_row g"
  then consider "g_COCO g" | "\<not> g_COCO g" "g_LPR g < 7"
    using wf_rowmask(1) [OF w] unfolding endless_row_def by linarith
  then show "g_rowmask g < 13" using wf_rowmask(4,5) [OF w] t(2) by cases auto
qed

text \<open>One line, seen from the row counter and the video address.\<close>

lemma advance_row_shape:
  "advance_row g = g\<lparr>g_row := g_row (advance_row g), g_B := g_B (advance_row g)\<rparr>"
  by (simp add: advance_row_def Let_def)

lemma advance_row_match:
  defines "r \<equiv> (\<lambda>g. g_row g + 1 AND 15)"
  shows "g_row (advance_row g) = (if r g AND g_rowmask g = g_rowmask g then 0 else r g)"
    and "g_B (advance_row g) = (if \<not> endless_row g \<and> r g AND g_rowmask g = g_rowmask g
      then g_B g + of_nat (g_row_stride g) else g_B g)"
  by (simp_all add: advance_row_def Let_def endless_row_def r_def)

lemma advance_row_counts:
  assumes w: "g_rowmask g < 13" and r: "g_row g < row_height g" and n: "\<not> endless_row g"
  shows "g_row (advance_row g) = (if Suc (g_row g) = row_height g then 0 else Suc (g_row g))"
    and "g_B (advance_row g) = (if Suc (g_row g) = row_height g then g_B g + of_nat (g_row_stride g) else g_B g)"
  using n row_match [OF w, of "g_row g", folded row_height_def, OF r]
  by (simp_all only: advance_row_match Suc_eq_plus1 simp_thms)

lemma advance_row_endless:
  assumes "g_rowmask g = 16" and "endless_row g"
  shows "g_row (advance_row g) = Suc (g_row g) mod 16" "g_B (advance_row g) = g_B g"
  using assms row_endless(1) by (simp_all add: advance_row_match flip: row_endless(2))

lemma rows_frame:
  "g_rowmask ((advance_row ^^ n) g) = g_rowmask g" "g_row_stride ((advance_row ^^ n) g) = g_row_stride g"
  "endless_row ((advance_row ^^ n) g) = endless_row g"
proof (induction n)
  case (Suc n)
  case 1 show ?case using Suc by (subst funpow.simps, subst o_apply, subst advance_row_shape) simp
  case 2 show ?case using Suc by (subst funpow.simps, subst o_apply, subst advance_row_shape) simp
  case 3 show ?case using Suc by (subst funpow.simps, subst o_apply, subst advance_row_shape) (simp add: endless_row_def)
qed simp_all

lemma Suc_mod_div:
  assumes "0 < (R :: nat)"
  shows "Suc n mod R = (if Suc (n mod R) = R then 0 else Suc (n mod R))"
    and "Suc n div R = (if Suc (n mod R) = R then Suc (n div R) else n div R)"
  using assms by (simp_all add: mod_Suc div_Suc)



end
