(* ===== verification/Mc6551.thy ===== *)
theory Mc6551
  imports CoCo_Prelude "HOL-Library.Sublist"
begin

text \<open>
  The MC6551 ACIA of the RS-232 Pak, \<open>src/src/core/mc6551.{h,cpp}\<close>. The two host callbacks are an
  argument, a pair of pointers that may be null, over a state \<open>host\<close> of the transport. The two pacing
  countdowns are C \<open>int32_t\<close>: they are kept as 32-bit words read through \<open>sint\<close>, so that what a
  long idle time does to them is visible. Ticks and the debug counters are 32-bit.
\<close>

section \<open>State\<close>

record 'h transport =
  mc6551_tx_byte_out :: "(u8 \<Rightarrow> 'h \<Rightarrow> 'h) option"
  mc6551_rx_byte_in :: "('h \<Rightarrow> u8 option \<times> 'h) option"

record 'h acia =
  reg_command :: u8
  reg_control :: u8
  rx_data :: u8
  tdre :: bool
  rdrf :: bool
  overrun :: bool
  irq_flag :: bool
  rx_irq_en :: bool
  tx_irq_en :: bool
  echo_en :: bool
  baud :: u16
  cycles_per_byte :: u32
  tx_busy :: bool
  tx_countdown :: u32
  tx_pending :: bool
  tx_pending_byte :: u8
  rx_countdown :: u32
  tx_count :: u32
  rx_count :: u32
  overrun_count :: u32
  firq_count :: u32
  host :: 'h

definition MC6551_CPU_CLOCK_HZ :: u32 where "MC6551_CPU_CLOCK_HZ = 895000"

definition baud_table :: "u16 list" where
  "baud_table = [0, 50, 75, 110, 134, 150, 300, 600, 1200, 1800, 2400, 3600, 4800, 7200, 9600, 19200]"

section \<open>Operations\<close>

definition recompute_command :: "'h acia \<Rightarrow> 'h acia" where
  "recompute_command a =
     a\<lparr>rx_irq_en := reg_command a AND 0x02 = 0, tx_irq_en := drop_bit 2 (reg_command a) AND 0x03 = 0x01,
       echo_en := reg_command a AND 0x10 \<noteq> 0\<rparr>"

definition recompute_control :: "'h acia \<Rightarrow> 'h acia" where
  "recompute_control a =
     (let a = a\<lparr>baud := baud_table ! unat (reg_control a AND 0x0F)\<rparr>
      in if baud a = 0 then a\<lparr>cycles_per_byte := 1\<rparr>
         else let a = a\<lparr>cycles_per_byte := MC6551_CPU_CLOCK_HZ * 10 div ucast (baud a)\<rparr>
              in if sint (cycles_per_byte a) < 1 then a\<lparr>cycles_per_byte := 1\<rparr> else a)"

definition set_irq :: "'h acia \<Rightarrow> 'h acia" where
  "set_irq a = (if irq_flag a then a else a\<lparr>irq_flag := True, firq_count := firq_count a + 1\<rparr>)"

definition tx_out :: "'h transport \<Rightarrow> u8 \<Rightarrow> 'h acia \<Rightarrow> 'h acia" where
  "tx_out T b a = (case mc6551_tx_byte_out T of Some f \<Rightarrow> a\<lparr>host := f b (host a)\<rparr> | None \<Rightarrow> a)"

definition tx_submit :: "'h transport \<Rightarrow> u8 \<Rightarrow> 'h acia \<Rightarrow> 'h acia" where
  "tx_submit T b a =
     (if \<not> tx_busy a then
        let a = a\<lparr>tx_busy := True, tx_countdown := cycles_per_byte a, tdre := False\<rparr>;
            a = tx_out T b a
        in a\<lparr>tx_count := tx_count a + 1\<rparr>
      else a\<lparr>tx_pending := True, tx_pending_byte := b\<rparr>)"

definition assemble_status :: "'h acia \<Rightarrow> u8" where
  "assemble_status a =
     (let s = 0;
          s = (if irq_flag a then s OR 0x80 else s);
          s = (if tdre a then s OR 0x10 else s);
          s = (if rdrf a then s OR 0x08 else s)
      in if overrun a then s OR 0x04 else s)"

definition mc6551_reset :: "'h acia \<Rightarrow> 'h acia" where
  "mc6551_reset a =
     (let a = a\<lparr>reg_command := 0, reg_control := 0, rx_data := 0, tdre := True, rdrf := False, overrun := False,
               irq_flag := False, tx_busy := False, tx_pending := False, tx_pending_byte := 0,
               tx_count := 0, rx_count := 0, overrun_count := 0, firq_count := 0\<rparr>;
          a = recompute_control (recompute_command a)
      in a\<lparr>tx_countdown := cycles_per_byte a, rx_countdown := cycles_per_byte a\<rparr>)"

definition mc6551_read :: "u8 \<Rightarrow> 'h acia \<Rightarrow> u8 \<times> 'h acia" where
  "mc6551_read reg a =
     (let r = reg AND 0x03 in
      if r = 0 then (rx_data a, a\<lparr>rdrf := False, overrun := False\<rparr>)
      else if r = 1 then (assemble_status a, a\<lparr>irq_flag := False\<rparr>)
      else if r = 2 then (reg_command a, a)
      else (reg_control a, a))"

definition mc6551_write :: "'h transport \<Rightarrow> u8 \<Rightarrow> u8 \<Rightarrow> 'h acia \<Rightarrow> 'h acia" where
  "mc6551_write T reg val a =
     (let r = reg AND 0x03 in
      if r = 0 then tx_submit T val a
      else if r = 1 then
        recompute_command (a\<lparr>overrun := False, rdrf := False, tdre := True, irq_flag := False,
          reg_command := reg_command a AND NOT 0x1F\<rparr>)
      else if r = 2 then recompute_command (a\<lparr>reg_command := val\<rparr>)
      else recompute_control (a\<lparr>reg_control := val\<rparr>))"

definition rx_pull :: "'h transport \<Rightarrow> 'h acia \<Rightarrow> u8 option \<times> 'h acia" where
  "rx_pull T a =
     (case mc6551_rx_byte_in T of
        None \<Rightarrow> (None, a)
      | Some f \<Rightarrow> (let (b, h) = f (host a) in (b, a\<lparr>host := h\<rparr>)))"

definition tick_tx :: "'h transport \<Rightarrow> u32 \<Rightarrow> 'h acia \<Rightarrow> 'h acia" where
  "tick_tx T cyc a =
     (if \<not> tx_busy a then a
      else
        let a = a\<lparr>tx_countdown := tx_countdown a - cyc\<rparr>
        in if sint (tx_countdown a) \<le> 0 then
             let a = a\<lparr>tx_busy := False, tdre := True\<rparr>;
                 a = (if tx_irq_en a then set_irq a else a)
             in if tx_pending a then tx_submit T (tx_pending_byte a) (a\<lparr>tx_pending := False\<rparr>) else a
           else a)"

definition tick_rx :: "'h transport \<Rightarrow> u32 \<Rightarrow> 'h acia \<Rightarrow> 'h acia" where
  "tick_rx T cyc a =
     (let a = a\<lparr>rx_countdown := rx_countdown a - cyc\<rparr>
      in if sint (rx_countdown a) \<le> 0 then
           (case rx_pull T a of
              (None, a) \<Rightarrow> a
            | (Some b, a) \<Rightarrow>
                if \<not> rdrf a then
                  let a = a\<lparr>rx_data := b, rdrf := True, rx_count := rx_count a + 1\<rparr>;
                      a = (if rx_irq_en a then set_irq a else a);
                      a = a\<lparr>rx_countdown := cycles_per_byte a\<rparr>
                  in if echo_en a then tx_submit T b a else a
                else a\<lparr>overrun := True, overrun_count := overrun_count a + 1, rx_countdown := cycles_per_byte a\<rparr>)
         else a)"

definition mc6551_tick :: "'h transport \<Rightarrow> u32 \<Rightarrow> 'h acia \<Rightarrow> 'h acia" where
  "mc6551_tick T cpu_cycles a = tick_rx T cpu_cycles (tick_tx T cpu_cycles a)"

definition mc6551_irq_active :: "'h acia \<Rightarrow> bool" where
  "mc6551_irq_active a = irq_flag a"

record mc6551_debug =
  d_status :: u8
  d_command :: u8
  d_control :: u8
  d_baud :: u16
  d_tdre :: bool
  d_rdrf :: bool
  d_overrun :: bool
  d_tx_irq_en :: bool
  d_rx_irq_en :: bool
  d_echo :: bool
  d_tx_count :: u32
  d_rx_count :: u32
  d_overrun_count :: u32
  d_firq_count :: u32

definition mc6551_get_debug :: "'h acia \<Rightarrow> mc6551_debug" where
  "mc6551_get_debug a =
     \<lparr>d_status = assemble_status a, d_command = reg_command a, d_control = reg_control a, d_baud = baud a,
      d_tdre = tdre a, d_rdrf = rdrf a, d_overrun = overrun a, d_tx_irq_en = tx_irq_en a,
      d_rx_irq_en = rx_irq_en a, d_echo = echo_en a, d_tx_count = tx_count a, d_rx_count = rx_count a,
      d_overrun_count = overrun_count a, d_firq_count = firq_count a\<rparr>"


section \<open>Runs\<close>

datatype acia_op = AciaRead u8 | AciaWrite u8 u8 | AciaTick u32

fun acia_exec :: "'h transport \<Rightarrow> acia_op \<Rightarrow> 'h acia \<Rightarrow> 'h acia" where
  "acia_exec T (AciaRead r) a = snd (mc6551_read r a)"
| "acia_exec T (AciaWrite r v) a = mc6551_write T r v a"
| "acia_exec T (AciaTick n) a = mc6551_tick T n a"

text \<open>A serial line as a transport: what was sent so far, and what is still to be received.\<close>

type_synonym serial = "u8 list \<times> u8 list"

definition serial_line :: "serial transport" where
  "serial_line =
     \<lparr>mc6551_tx_byte_out = Some (\<lambda>b (out, inp). (out @ [b], inp)),
      mc6551_rx_byte_in = Some (\<lambda>(out, inp). case inp of [] \<Rightarrow> (None, out, []) | b # bs \<Rightarrow> (Some b, out, bs))\<rparr>"

abbreviation sent :: "serial acia \<Rightarrow> u8 list" where "sent a \<equiv> fst (host a)"
abbreviation waiting :: "serial acia \<Rightarrow> u8 list" where "waiting a \<equiv> snd (host a)"

lemma serial_out: "tx_out serial_line b a = a\<lparr>host := (sent a @ [b], waiting a)\<rparr>"
  by (simp add: tx_out_def serial_line_def case_prod_unfold)

lemma serial_pull:
  "rx_pull serial_line a = (case waiting a of [] \<Rightarrow> (None, a) | b # bs \<Rightarrow> (Some b, a\<lparr>host := (sent a, bs)\<rparr>))"
  by (cases "host a") (simp add: rx_pull_def serial_line_def split: list.splits)

named_theorems acia_defs

lemmas [acia_defs] = recompute_command_def recompute_control_def set_irq_def tx_submit_def serial_out serial_pull
  mc6551_read_def mc6551_write_def tick_tx_def tick_rx_def mc6551_tick_def Let_def

section \<open>Transmitter\<close>

text \<open>A program that writes a byte only when the status shows an empty data register, and uses neither
  the programmed reset nor the receiver's echo.\<close>

fun polite :: "acia_op \<Rightarrow> 'h acia \<Rightarrow> bool" where
  "polite (AciaRead r) a = True"
| "polite (AciaTick n) a = True"
| "polite (AciaWrite r v) a = (if r AND 3 = 0 then assemble_status a AND 0x10 \<noteq> 0 else if r AND 3 = 1 then False
     else r AND 3 = 2 \<longrightarrow> v AND 0x10 = 0)"

fun polite_run :: "'h transport \<Rightarrow> acia_op list \<Rightarrow> 'h acia \<Rightarrow> bool" where
  "polite_run T [] a = True"
| "polite_run T (x # xs) a = (polite x a \<and> polite_run T xs (acia_exec T x a))"

fun tx_bytes :: "acia_op list \<Rightarrow> u8 list" where
  "tx_bytes [] = []"
| "tx_bytes (AciaWrite r v # xs) = (if r AND 3 = 0 then v # tx_bytes xs else tx_bytes xs)"
| "tx_bytes (x # xs) = tx_bytes xs"

definition tx_idle_ok :: "'h acia \<Rightarrow> bool" where
  "tx_idle_ok a \<longleftrightarrow> tdre a = (\<not> tx_busy a) \<and> \<not> tx_pending a \<and> \<not> echo_en a"

lemma status_tdre: "assemble_status a AND 0x10 \<noteq> 0 \<longleftrightarrow> tdre a"
  by (simp add: assemble_status_def Let_def)

lemma control_frame:
  "tx_idle_ok (recompute_control a) = tx_idle_ok a" "host (recompute_control a) = host a"
  by (simp_all add: acia_defs tx_idle_ok_def)

lemma polite_step:
  assumes "tx_idle_ok a" and "polite x a"
  shows "tx_idle_ok (acia_exec serial_line x a)"
    and "sent (acia_exec serial_line x a) = sent a @ tx_bytes [x]"
proof -
  have "tx_idle_ok (acia_exec serial_line x a) \<and> sent (acia_exec serial_line x a) = sent a @ tx_bytes [x]"
  proof (cases x)
    case (AciaRead r)
    then show ?thesis using assms by (simp add: mc6551_read_def tx_idle_ok_def Let_def)
  next
    case (AciaWrite r v)
    have c: "tx_idle_ok (recompute_control (a\<lparr>reg_control := v\<rparr>))" "host (recompute_control (a\<lparr>reg_control := v\<rparr>)) = host a"
      using assms(1) by (simp_all add: control_frame) (simp add: tx_idle_ok_def)
    show ?thesis
      using assms AciaWrite c status_tdre [of a]
      by (simp add: mc6551_write_def tx_submit_def serial_out tx_idle_ok_def recompute_command_def Let_def split: if_splits)
  next
    case (AciaTick n)
    have t: "tx_idle_ok (tick_tx serial_line n a)" "sent (tick_tx serial_line n a) = sent a"
      using assms(1) by (simp_all add: tick_tx_def tx_idle_ok_def set_irq_def Let_def)
    have "tx_idle_ok (tick_rx serial_line n b) \<and> sent (tick_rx serial_line n b) = sent b" if "tx_idle_ok b" for b
      using that by (simp add: tick_rx_def serial_pull tx_idle_ok_def set_irq_def Let_def split: list.split)
    then show ?thesis using t AciaTick by (simp add: mc6551_tick_def)
  qed
  then show "tx_idle_ok (acia_exec serial_line x a)" "sent (acia_exec serial_line x a) = sent a @ tx_bytes [x]"
    by auto
qed

lemma reset_idle: "tx_idle_ok (mc6551_reset a)" "sent (mc6551_reset a) = sent a" for a :: "serial acia"
  by (simp_all add: mc6551_reset_def tx_idle_ok_def recompute_command_def recompute_control_def baud_table_def Let_def)

lemma tx_bytes_Cons: "tx_bytes (x # xs) = tx_bytes [x] @ tx_bytes xs"
  by (cases x) simp_all

lemma polite_run_sent:
  "tx_idle_ok a \<Longrightarrow> polite_run serial_line xs a \<Longrightarrow> sent (fold (acia_exec serial_line) xs a) = sent a @ tx_bytes xs"
proof (induction xs arbitrary: a)
  case (Cons x xs)
  then have "sent (fold (acia_exec serial_line) xs (acia_exec serial_line x a)) =
      sent (acia_exec serial_line x a) @ tx_bytes xs"
    using polite_step(1) [of a x] by simp
  then show ?case using Cons.prems polite_step(2) [of a x] tx_bytes_Cons [of x xs] by simp
qed simp


definition demo_acia :: "serial acia" where
  "demo_acia =
     \<lparr>reg_command = 0, reg_control = 0, rx_data = 0, tdre = True, rdrf = False, overrun = False, irq_flag = False,
      rx_irq_en = False, tx_irq_en = False, echo_en = False, baud = 0, cycles_per_byte = 1, tx_busy = False,
      tx_countdown = 0, tx_pending = False, tx_pending_byte = 0, rx_countdown = 0, tx_count = 0, rx_count = 0,
      overrun_count = 0, firq_count = 0, host = ([], [])\<rparr>"


text \<open>The programmed reset raises TDRE although a byte is still being sent: the next byte goes to the
  pending slot, TDRE stays set, and the byte after it overwrites it.\<close>

lemma acia_reset_drops_byte:
  "let xs = [AciaWrite 3 0x1E, AciaWrite 0 0x41, AciaWrite 1 0, AciaWrite 0 0x42, AciaWrite 0 0x43, AciaTick 932, AciaTick 932];
       a = mc6551_reset demo_acia
   in tdre (fold (acia_exec serial_line) (take 3 xs) a) \<and> tdre (fold (acia_exec serial_line) (take 4 xs) a) \<and>
      sent (fold (acia_exec serial_line) xs a) = [0x41, 0x43]"
  by code_simp


section \<open>Receiver\<close>

definition pend :: "'h acia \<Rightarrow> u8 list" where
  "pend a = (if rdrf a then [rx_data a] else [])"

fun rx_reads :: "'h transport \<Rightarrow> acia_op list \<Rightarrow> 'h acia \<Rightarrow> u8 list" where
  "rx_reads T [] a = []"
| "rx_reads T (AciaRead r # xs) a =
     (if r AND 3 = 0 then pend a else []) @ rx_reads T xs (acia_exec T (AciaRead r) a)"
| "rx_reads T (x # xs) a = rx_reads T xs (acia_exec T x a)"

fun no_reset :: "acia_op \<Rightarrow> bool" where
  "no_reset (AciaWrite r v) = (r AND 3 \<noteq> 1)"
| "no_reset x = True"

lemma submit_keeps:
  "waiting (tx_submit serial_line b a) = waiting a" "pend (tx_submit serial_line b a) = pend a"
  "overrun_count (tx_submit serial_line b a) = overrun_count a"
  by (simp_all add: tx_submit_def serial_out pend_def Let_def)

lemma set_irq_keeps:
  "host (set_irq a) = host a" "pend (set_irq a) = pend a" "overrun_count (set_irq a) = overrun_count a"
  "echo_en (set_irq a) = echo_en a"
  by (simp_all add: set_irq_def pend_def)

lemma tick_tx_keeps:
  "waiting (tick_tx serial_line n a) = waiting a" "pend (tick_tx serial_line n a) = pend a"
  "overrun_count (tick_tx serial_line n a) = overrun_count a"
proof -
  have u: "pend (a\<lparr>tx_countdown := x\<rparr>) = pend a" "pend (a\<lparr>tx_busy := y\<rparr>) = pend a" "pend (a\<lparr>tdre := y\<rparr>) = pend a"
    "pend (a\<lparr>tx_pending := y\<rparr>) = pend a" for a :: "serial acia" and x y
    by (simp_all add: pend_def)
  show "waiting (tick_tx serial_line n a) = waiting a" "pend (tick_tx serial_line n a) = pend a"
    "overrun_count (tick_tx serial_line n a) = overrun_count a"
    by (simp_all add: tick_tx_def submit_keeps set_irq_keeps u Let_def)
qed

lemma tick_rx_moves:
  obtains "waiting (tick_rx serial_line n a) = waiting a" "pend (tick_rx serial_line n a) = pend a"
      "overrun_count (tick_rx serial_line n a) = overrun_count a"
  | b where "waiting a = b # waiting (tick_rx serial_line n a)" "\<not> rdrf a" "pend (tick_rx serial_line n a) = [b]"
      "overrun_count (tick_rx serial_line n a) = overrun_count a"
  | b where "waiting a = b # waiting (tick_rx serial_line n a)" "rdrf a" "pend (tick_rx serial_line n a) = pend a"
      "overrun_count (tick_rx serial_line n a) = overrun_count a + 1"
proof (cases "sint (rx_countdown a - n) \<le> 0 \<and> waiting a \<noteq> []")
  case False
  have u: "pend (a\<lparr>rx_countdown := x\<rparr>) = pend a" for x by (simp add: pend_def)
  from False show ?thesis
    by (intro that(1)) (auto simp: tick_rx_def serial_pull u Let_def split: list.split)
next
  case True
  then obtain b bs where w: "waiting a = b # bs" by (cases "waiting a") auto
  show ?thesis
  proof (cases "rdrf a")
    case True': True
    with True w show ?thesis
      by (intro that(3) [of b]) (simp_all add: tick_rx_def serial_pull pend_def Let_def)
  next
    case False
    have u: "pend (a\<lparr>rx_countdown := x\<rparr>) = pend a" "host (a\<lparr>rx_countdown := x\<rparr>) = host a" for x and a :: "serial acia"
      by (simp_all add: pend_def)
    have "pend (a\<lparr>rx_countdown := x, host := h, rx_data := b, rdrf := True, rx_count := c\<rparr>) = [b]" for x h c
      by (simp add: pend_def)
    with False True w show ?thesis
      by (intro that(2) [of b]) (simp_all add: tick_rx_def serial_pull submit_keeps set_irq_keeps u Let_def)
  qed
qed

lemma rx_step:
  assumes "no_reset x"
  obtains tk d where "waiting a = tk @ waiting (acia_exec serial_line x a)"
    and "subseq (rx_reads serial_line [x] a @ pend (acia_exec serial_line x a)) (pend a @ tk)"
    and "length (pend a @ tk) = length (rx_reads serial_line [x] a @ pend (acia_exec serial_line x a)) + d"
    and "overrun_count (acia_exec serial_line x a) = overrun_count a + of_nat d"
proof (cases x)
  case (AciaRead r)
  then show ?thesis by (intro that [of "[]" 0]) (auto simp: mc6551_read_def pend_def Let_def)
next
  case (AciaWrite r v)
  have "waiting (acia_exec serial_line x a) = waiting a \<and> pend (acia_exec serial_line x a) = pend a \<and>
      overrun_count (acia_exec serial_line x a) = overrun_count a"
    using assms AciaWrite
    by (auto simp: mc6551_write_def submit_keeps Let_def) (auto simp: recompute_command_def recompute_control_def pend_def Let_def)
  then show ?thesis using AciaWrite by (intro that [of "[]" 0]) auto
next
  case (AciaTick n)
  let ?b = "tick_tx serial_line n a"
  have e: "acia_exec serial_line x a = tick_rx serial_line n ?b" using AciaTick by (simp add: mc6551_tick_def)
  have r: "rx_reads serial_line [x] a = []" using AciaTick by simp
  have p: "pend a = []" if "\<not> rdrf ?b" using that tick_tx_keeps(2) [of n a] by (simp add: pend_def split: if_splits)
  show ?thesis
    using tick_rx_moves [of n ?b]
  proof cases
    case 1
    then show ?thesis by (intro that [of "[]" 0]) (simp_all add: e r tick_tx_keeps)
  next
    case (2 b)
    then show ?thesis using tick_tx_keeps [of n a] p by (intro that [of "[b]" 0]) (simp_all add: e r)
  next
    case (3 b)
    then show ?thesis using tick_tx_keeps [of n a] by (intro that [of "[b]" 1]) (simp_all add: e r prefix_imp_subseq)
  qed
qed

lemma rx_reads_Cons: "rx_reads T (x # xs) a = rx_reads T [x] a @ rx_reads T xs (acia_exec T x a)"
  by (cases x) simp_all

lemma rx_run:
  "\<forall>x\<in>set xs. no_reset x \<Longrightarrow> \<exists>tk d. waiting a = tk @ waiting (fold (acia_exec serial_line) xs a) \<and>
    subseq (rx_reads serial_line xs a @ pend (fold (acia_exec serial_line) xs a)) (pend a @ tk) \<and>
    length (pend a @ tk) = length (rx_reads serial_line xs a @ pend (fold (acia_exec serial_line) xs a)) + d \<and>
    overrun_count (fold (acia_exec serial_line) xs a) = overrun_count a + of_nat d"
proof (induction xs arbitrary: a)
  case Nil
  show ?case by (intro exI [of _ "[]"] exI [of _ 0]) simp
next
  case (Cons x xs)
  let ?b = "acia_exec serial_line x a"
  obtain tk d where s: "waiting a = tk @ waiting ?b" "subseq (rx_reads serial_line [x] a @ pend ?b) (pend a @ tk)"
    "length (pend a @ tk) = length (rx_reads serial_line [x] a @ pend ?b) + d" "overrun_count ?b = overrun_count a + of_nat d"
    using Cons.prems by (auto elim: rx_step [of x a])
  obtain tk' d' where r: "waiting ?b = tk' @ waiting (fold (acia_exec serial_line) xs ?b)"
    "subseq (rx_reads serial_line xs ?b @ pend (fold (acia_exec serial_line) xs ?b)) (pend ?b @ tk')"
    "length (pend ?b @ tk') = length (rx_reads serial_line xs ?b @ pend (fold (acia_exec serial_line) xs ?b)) + d'"
    "overrun_count (fold (acia_exec serial_line) xs ?b) = overrun_count ?b + of_nat d'"
    using Cons.IH [of ?b] Cons.prems by auto
  have "subseq (rx_reads serial_line [x] a @ rx_reads serial_line xs ?b @ pend (fold (acia_exec serial_line) xs ?b))
      (rx_reads serial_line [x] a @ pend ?b @ tk')"
    using r(2) by (simp add: list_emb_append_mono)
  moreover have "subseq ((rx_reads serial_line [x] a @ pend ?b) @ tk') ((pend a @ tk) @ tk')"
    using list_emb_append_mono [OF s(2) subseq_order.refl] .
  ultimately have "subseq (rx_reads serial_line (x # xs) a @ pend (fold (acia_exec serial_line) xs ?b)) (pend a @ tk @ tk')"
    unfolding rx_reads_Cons [of _ x xs] by (simp add: subseq_order.trans)
  then show ?case using s(1,3,4) r(1,3,4) rx_reads_Cons [of serial_line x xs a]
    by (intro exI [of _ "tk @ tk'"] exI [of _ "d + d'"]) simp
qed

text \<open>
  C20: The receiver accounts for every byte. From reset, over any operations but the programmed reset, the
  bytes taken off the line are those the program read from the data register, then the one still in it,
  with the dropped ones left out; and the overrun counter is the number of dropped ones. So with no
  overrun counted the program reads the line's bytes in order.
\<close>

theorem acia_receives:
  assumes "\<forall>x\<in>set xs. no_reset x" and "length (waiting a) < 2 ^ 32"
  defines "b \<equiv> fold (acia_exec serial_line) xs (mc6551_reset a)"
  defines "got \<equiv> rx_reads serial_line xs (mc6551_reset a) @ pend b"
  shows "\<exists>taken. waiting a = taken @ waiting b \<and> subseq got taken \<and>
    length taken = length got + unat (overrun_count b) \<and> (overrun_count b = 0 \<longrightarrow> taken = got)"
proof -
  have r: "waiting (mc6551_reset a) = waiting a" "pend (mc6551_reset a) = []" "overrun_count (mc6551_reset a) = 0"
    by (simp_all add: mc6551_reset_def pend_def recompute_command_def recompute_control_def baud_table_def Let_def)
  obtain tk d where t: "waiting a = tk @ waiting b" "subseq got tk" "length tk = length got + d" "overrun_count b = of_nat d"
    using rx_run [OF assms(1), of "mc6551_reset a"] unfolding b_def [symmetric] got_def r by auto
  have "length tk < 2 ^ 32" using t(1) assms(2) by simp
  then have "unat (overrun_count b) = d" using t(3,4) by (simp add: unsigned_of_nat take_bit_nat_eq_self_iff)
  then show ?thesis using t by (intro exI [of _ tk]) (auto dest: subseq_same_length)
qed

lemma acia_receives_witness:
  "let a = demo_acia\<lparr>host := ([], [0x48, 0x49, 0x4A])\<rparr>;
       xs = [AciaWrite 3 0x1E, AciaTick 932, AciaRead 0, AciaTick 932, AciaRead 0]
   in rx_reads serial_line xs (mc6551_reset a) = [0x48, 0x49] \<and>
      (\<exists>taken. waiting a = taken @ waiting (fold (acia_exec serial_line) xs (mc6551_reset a)))"
proof -
  let ?xs = "[AciaWrite 3 0x1E, AciaTick 932, AciaRead 0, AciaTick 932, AciaRead 0]"
  have "rx_reads serial_line ?xs (mc6551_reset (demo_acia\<lparr>host := ([], [0x48, 0x49, 0x4A])\<rparr>)) = [0x48, 0x49]" by code_simp
  moreover have "\<forall>x\<in>set ?xs. no_reset x" "length (waiting (demo_acia\<lparr>host := ([], [0x48, 0x49, 0x4A])\<rparr>)) < 2 ^ 32" by simp_all
  ultimately show ?thesis using acia_receives [of ?xs "demo_acia\<lparr>host := ([], [0x48, 0x49, 0x4A])\<rparr>"] by auto
qed

section \<open>Idle time\<close>

text \<open>The receive countdown is not reloaded while the line is silent: it runs down without bound.\<close>

lemma idle_tick:
  assumes "waiting a = [] \<or> 0 < sint (rx_countdown a - n)"
  shows "rx_countdown (mc6551_tick serial_line n a) = rx_countdown a - n" "waiting (mc6551_tick serial_line n a) = waiting a"
proof -
  have t: "rx_countdown (tick_tx serial_line n a) = rx_countdown a"
    by (simp add: tick_tx_def tx_submit_def serial_out set_irq_def Let_def)
  show "rx_countdown (mc6551_tick serial_line n a) = rx_countdown a - n" "waiting (mc6551_tick serial_line n a) = waiting a"
    using assms by (auto simp: mc6551_tick_def tick_rx_def serial_pull t tick_tx_keeps Let_def)
qed

lemma idle_ticks:
  assumes "waiting a = [] \<or> (\<forall>j. 0 < j \<and> j \<le> k \<longrightarrow> 0 < sint (rx_countdown a - of_nat j * n))"
  shows "rx_countdown ((mc6551_tick serial_line n ^^ k) a) = rx_countdown a - of_nat k * n \<and>
    waiting ((mc6551_tick serial_line n ^^ k) a) = waiting a"
  using assms
proof (induction k)
  case (Suc k)
  let ?b = "(mc6551_tick serial_line n ^^ k) a"
  have b: "rx_countdown ?b = rx_countdown a - of_nat k * n" "waiting ?b = waiting a" using Suc by auto
  have "rx_countdown ?b - n = rx_countdown a - of_nat (Suc k) * n" by (simp add: b(1) algebra_simps)
  moreover have "waiting ?b = [] \<or> 0 < sint (rx_countdown a - of_nat (Suc k) * n)" using Suc.prems b(2) by auto
  ultimately show ?case using idle_tick [of ?b n] b(2) by simp
qed simp

text \<open>After 40 minutes without a received byte (37.7 million scanlines of 57 cycles) the 32-bit countdown
  has wrapped to a positive value, and the receiver then takes no byte for another 40 minutes.\<close>

lemma acia_idle_deaf:
  assumes "waiting a = []" and "rx_countdown a = 932" and "j \<le> 37600000"
  defines "b \<equiv> (mc6551_tick serial_line 57 ^^ 37700000) a"
  shows "waiting ((mc6551_tick serial_line 57 ^^ j) (b\<lparr>host := (sent b, bs)\<rparr>)) = bs"
proof -
  have r: "rx_countdown b = 2146068228"
    using idle_ticks [of a 37700000 57] assms(1,2) by (simp add: b_def)
  have "0 < sint ((2146068228 :: u32) - of_nat i * 57)" if "i \<le> 37600000" for i
  proof -
    have b: "i * 57 \<le> 2146068228" using that by simp
    have "(2146068228 :: u32) - of_nat i * 57 = of_nat (2146068228 - i * 57)" using b by (simp only: of_nat_diff of_nat_mult) simp
    moreover have "sint (of_nat (2146068228 - i * 57) :: u32) = int (2146068228 - i * 57)"
      by (simp only: signed_of_nat) (simp add: signed_take_bit_int_eq_self)
    ultimately show ?thesis using that by simp
  qed
  then show ?thesis using idle_ticks [of "b\<lparr>host := (sent b, bs)\<rparr>" j 57] r assms(3) by simp
qed

end
