(* ===== verification/Byte_Stream.thy ===== *)
theory Byte_Stream
  imports CoCo_Prelude
begin

text \<open>
  The contract the buffers between the machine and the host share: a bounded queue of bytes, one
  operation that accepts some of what it is offered at the end and one that delivers from the front.
  Whatever order they are called in, what was delivered and what is still held is what was accepted.
  Also the index arithmetic of the ring buffers that provide it.
\<close>

section \<open>The contract\<close>

datatype ('x, 'y) stream_op = Put 'x | Get 'y

fun stream_run ::
  "('x \<Rightarrow> 's \<Rightarrow> 'a list \<times> 's) \<Rightarrow> ('y \<Rightarrow> 's \<Rightarrow> 'a list \<times> 's) \<Rightarrow> ('x, 'y) stream_op list \<Rightarrow> 's \<Rightarrow>
   'a list \<times> 'a list \<times> 's" where
  "stream_run put get [] s = ([], [], s)"
| "stream_run put get (Put x # ops) s =
     (let (acc, s) = put x s; (accs, dels, s) = stream_run put get ops s in (acc @ accs, dels, s))"
| "stream_run put get (Get y # ops) s =
     (let (del, s) = get y s; (accs, dels, s) = stream_run put get ops s in (accs, del @ dels, s))"

locale byte_stream =
  fixes ok :: "'s \<Rightarrow> bool"
    and queue :: "'s \<Rightarrow> 'a list"
    and cap :: nat
    and put :: "'x \<Rightarrow> 's \<Rightarrow> 'a list \<times> 's"
    and get :: "'y \<Rightarrow> 's \<Rightarrow> 'a list \<times> 's"
  assumes put_ok: "ok s \<Longrightarrow> ok (snd (put x s))"
    and put_queue: "ok s \<Longrightarrow> queue (snd (put x s)) = queue s @ fst (put x s)"
    and get_ok: "ok s \<Longrightarrow> ok (snd (get y s))"
    and get_queue: "ok s \<Longrightarrow> queue s = fst (get y s) @ queue (snd (get y s))"
    and queue_cap: "ok s \<Longrightarrow> length (queue s) \<le> cap"
begin

lemma stream_conserves:
  "ok s \<Longrightarrow> stream_run put get ops s = (accs, dels, s') \<Longrightarrow>
    ok s' \<and> queue s @ accs = dels @ queue s' \<and> length (queue s') \<le> cap"
proof (induction ops arbitrary: s accs dels)
  case Nil
  then show ?case using queue_cap by simp
next
  case (Cons op ops)
  show ?case
  proof (cases op)
    case (Put x)
    obtain acc s1 where p: "put x s = (acc, s1)" by (cases "put x s")
    obtain accs' dels' s2 where r: "stream_run put get ops s1 = (accs', dels', s2)" by (cases "stream_run put get ops s1")
    show ?thesis
      using Cons.prems Put p r Cons.IH [of s1 accs' dels'] put_ok [of s x] put_queue [of s x] by auto
  next
    case (Get y)
    obtain del s1 where p: "get y s = (del, s1)" by (cases "get y s")
    obtain accs' dels' s2 where r: "stream_run put get ops s1 = (accs', dels', s2)" by (cases "stream_run put get ops s1")
    show ?thesis
      using Cons.prems Get p r Cons.IH [of s1 accs' dels'] get_ok [of s y] get_queue [of s y] by auto
  qed
qed

end

section \<open>Rings\<close>

text \<open>\<open>n\<close> elements from index \<open>t\<close> of a buffer of \<open>2 ^ k\<close> cells, indices masked on access.\<close>

definition ring_cell :: "nat \<Rightarrow> u32 \<Rightarrow> nat" where
  "ring_cell k i = unat (i AND (2 ^ k - 1))"

definition ring_list :: "nat \<Rightarrow> (nat \<Rightarrow> 'a) \<Rightarrow> u32 \<Rightarrow> nat \<Rightarrow> 'a list" where
  "ring_list k buf t n = map (\<lambda>i. buf (ring_cell k (t + of_nat i))) [0..<n]"

lemma ring_cell_mod: "k \<le> 32 \<Longrightarrow> ring_cell k (t + of_nat i) = (unat t + i) mod 2 ^ k"
proof -
  assume k: "k \<le> 32"
  have "(2 :: nat) ^ k dvd 2 ^ 32" using k by (rule le_imp_power_dvd)
  then have d: "x mod 2 ^ 32 mod 2 ^ k = x mod 2 ^ k" for x :: nat by (rule mod_mod_cancel)
  have "ring_cell k (t + of_nat i) = unat (take_bit k (t + of_nat i))"
    by (simp add: ring_cell_def take_bit_eq_mask mask_eq_exp_minus_1)
  also have "\<dots> = unat (t + of_nat i) mod 2 ^ k"
    by (simp only: unsigned_take_bit_eq) (simp only: take_bit_eq_mod)
  also have "unat (t + of_nat i) = (unat t + i) mod 2 ^ 32"
    by (simp add: unat_word_ariths unsigned_of_nat take_bit_eq_mod mod_simps)
  finally show ?thesis by (simp only: d)
qed

lemma ring_cell_inj:
  assumes "k \<le> 32" and "i < n" and "n < i + 2 ^ k"
  shows "ring_cell k (t + of_nat i) \<noteq> ring_cell k (t + of_nat n)"
proof
  assume "ring_cell k (t + of_nat i) = ring_cell k (t + of_nat n)"
  then have "(unat t + n) mod 2 ^ k = (unat t + i) mod 2 ^ k" using assms(1) by (simp add: ring_cell_mod)
  then have "2 ^ k dvd n - i" using assms(2) mod_eq_dvd_iff_nat [of "unat t + i" "unat t + n" "2 ^ k"] by simp
  then show False using assms(2,3) dvd_imp_le [of "2 ^ k" "n - i"] by linarith
qed

lemma ring_list_0 [simp]: "ring_list k buf t 0 = []" "length (ring_list k buf t n) = n"
  by (simp_all add: ring_list_def)

lemma ring_list_Suc: "ring_list k buf t (Suc n) = buf (ring_cell k t) # ring_list k buf (t + 1) n"
  by (simp add: ring_list_def upt_conv_Cons map_Suc_upt [symmetric] add.assoc del: upt_Suc)

lemma ring_list_add: "ring_list k buf t (m + n) = ring_list k buf t m @ ring_list k buf (t + of_nat m) n"
  by (induction m arbitrary: t) (simp_all add: ring_list_Suc add.assoc)

lemma ring_list_put:
  fixes buf :: "nat \<Rightarrow> 'a"
  assumes "k \<le> 32" and "n < 2 ^ k"
  shows "ring_list k (buf(ring_cell k (t + of_nat n) := x)) t (Suc n) = ring_list k buf t n @ [x]"
proof -
  have "ring_list k (buf(ring_cell k (t + of_nat n) := x)) t n = ring_list k buf t n"
    unfolding ring_list_def using ring_cell_inj [OF assms(1), of _ n] assms(2) by (intro map_cong) auto
  moreover have "ring_list k b t (n + 1) = ring_list k b t n @ [b (ring_cell k (t + of_nat n))]" for b :: "nat \<Rightarrow> 'a"
    by (simp only: ring_list_add) (simp add: ring_list_Suc)
  ultimately show ?thesis by (simp only: Suc_eq_plus1 fun_upd_same)
qed

text \<open>A block stored behind \<open>n\<close> elements.\<close>

definition ring_store :: "nat \<Rightarrow> u32 \<Rightarrow> 'a list \<Rightarrow> (nat \<Rightarrow> 'a) \<Rightarrow> nat \<Rightarrow> 'a" where
  "ring_store k h xs buf = fold (\<lambda>i b. b(ring_cell k (h + of_nat i) := xs ! i)) [0..<length xs] buf"

lemma ring_store_list:
  assumes "k \<le> 32" and "n + length xs \<le> 2 ^ k"
  shows "ring_list k (ring_store k (t + of_nat n) xs buf) t (n + length xs) = ring_list k buf t n @ xs"
  using assms(2)
proof (induction xs rule: rev_induct)
  case Nil
  then show ?case by (simp add: ring_store_def)
next
  case (snoc x xs)
  let ?b = "ring_store k (t + of_nat n) xs buf"
  have "ring_store k (t + of_nat n) (xs @ [x]) buf = ?b(ring_cell k (t + of_nat (n + length xs)) := x)"
    by (simp add: ring_store_def nth_append add.assoc) (intro arg_cong2 [where f = "\<lambda>f z. f(z := x)"] fold_cong, auto)
  then show ?case using snoc ring_list_put [OF assms(1), of "n + length xs" ?b t x] by (simp only: length_append list.size add_Suc_right add_0_right) simp
qed

end
