(* ===== verification/Hal_Rs232.thy ===== *)
theory Hal_Rs232
  imports Mc6551 Byte_Stream
begin

text \<open>
  The bridge between the ACIA and UART0, \<open>src/src/hal/hal_rs232.cpp\<close>: a 256-byte ring filled from the
  UART by the main loop and emptied by the ACIA's receive callback; sent bytes go straight out. The
  Arduino \<open>Serial\<close> object is an argument.
\<close>

section \<open>State and operations\<close>

record 'u uart_driver =
  serial_available :: "'u \<Rightarrow> int"
  serial_read :: "'u \<Rightarrow> int \<times> 'u"
  serial_write :: "u8 \<Rightarrow> 'u \<Rightarrow> 'u"

record 'u rs232_port =
  rx_ring :: "nat \<Rightarrow> u8"
  ring_head :: u32
  ring_tail :: u32
  uart :: 'u

definition RING_SIZE :: u32 where "RING_SIZE = 256"

definition ring_count :: "'u rs232_port \<Rightarrow> u32" where
  "ring_count p = (ring_head p - ring_tail p) AND (RING_SIZE - 1)"

definition ring_full :: "'u rs232_port \<Rightarrow> bool" where
  "ring_full p \<longleftrightarrow> (ring_head p + 1) AND (RING_SIZE - 1) = ring_tail p"

definition ring_clear :: "'u rs232_port \<Rightarrow> 'u rs232_port" where
  "ring_clear p = p\<lparr>ring_tail := 0, ring_head := 0\<rparr>"

definition rs232_tx :: "'u uart_driver \<Rightarrow> u8 \<Rightarrow> 'u rs232_port \<Rightarrow> 'u rs232_port" where
  "rs232_tx U b p = p\<lparr>uart := serial_write U b (uart p)\<rparr>"

definition rs232_rx :: "'u rs232_port \<Rightarrow> u8 option \<times> 'u rs232_port" where
  "rs232_rx p =
     (if ring_head p = ring_tail p then (None, p)
      else (Some (rx_ring p (unat (ring_tail p))), p\<lparr>ring_tail := (ring_tail p + 1) AND (RING_SIZE - 1)\<rparr>))"

text \<open>The callbacks \<open>hal_rs232_begin\<close> installs.\<close>

definition rs232_transport :: "'u uart_driver \<Rightarrow> 'u rs232_port transport" where
  "rs232_transport U = \<lparr>mc6551_tx_byte_out = Some (rs232_tx U), mc6551_rx_byte_in = Some rs232_rx\<rparr>"

definition hal_rs232_begin :: "'u rs232_port \<Rightarrow> 'u rs232_port" where
  "hal_rs232_begin p = ring_clear p"

definition ring_push :: "u8 \<Rightarrow> 'u rs232_port \<Rightarrow> 'u rs232_port" where
  "ring_push b p = p\<lparr>rx_ring := (rx_ring p)(unat (ring_head p) := b), ring_head := (ring_head p + 1) AND (RING_SIZE - 1)\<rparr>"

partial_function (option) hal_rs232_poll :: "'u uart_driver \<Rightarrow> 'u rs232_port \<Rightarrow> 'u rs232_port option" where
  [code]: "hal_rs232_poll U p =
     (if serial_available U (uart p) > 0 \<and> \<not> ring_full p then
        let (c, u) = serial_read U (uart p)
        in hal_rs232_poll U (ring_push (word_of_int c) (p\<lparr>uart := u\<rparr>))
      else Some p)"

partial_function (option) uart_drain :: "'u uart_driver \<Rightarrow> 'u \<Rightarrow> 'u option" where
  [code]: "uart_drain U u = (if serial_available U u > 0 then uart_drain U (snd (serial_read U u)) else Some u)"

definition hal_rs232_flush :: "'u uart_driver \<Rightarrow> 'u rs232_port \<Rightarrow> 'u rs232_port option" where
  "hal_rs232_flush U p = (let p = ring_clear p in map_option (\<lambda>u. p\<lparr>uart := u\<rparr>) (uart_drain U (uart p)))"

definition hal_rs232_ring_fill :: "'u rs232_port \<Rightarrow> u32" where "hal_rs232_ring_fill p = ring_count p"
definition hal_rs232_ring_capacity :: u32 where "hal_rs232_ring_capacity = RING_SIZE"

section \<open>The ring as a queue\<close>

definition port_ok :: "'u rs232_port \<Rightarrow> bool" where
  "port_ok p \<longleftrightarrow> ring_head p < 256 \<and> ring_tail p < 256"

definition buffered :: "'u rs232_port \<Rightarrow> u8 list" where
  "buffered p = ring_list 8 (rx_ring p) (ring_tail p) (unat (ring_count p))"

lemma mask8: "(x :: u32) AND 255 < 256" "unat (x AND 255) = unat x mod 256" "x < 256 \<Longrightarrow> x AND 255 = x"
proof -
  have m: "x AND 255 = take_bit 8 x" by (simp add: take_bit_eq_mask mask_eq_exp_minus_1)
  show u: "unat (x AND 255) = unat x mod 256" unfolding m by (simp only: unsigned_take_bit_eq) (simp add: take_bit_eq_mod)
  show "x AND 255 < 256" by (simp add: word_less_nat_alt u)
  show "x AND 255 = x" if "x < 256" using that by (intro word_unat_eq_iff [THEN iffD2]) (simp add: u word_less_nat_alt)
qed

lemma cell8: "x < 256 \<Longrightarrow> ring_cell 8 x = unat x"
  by (simp add: ring_cell_def mask8)

lemma ring_list_tail: "ring_list 8 buf (t AND 255) n = ring_list 8 buf t n"
proof -
  have "ring_cell 8 ((t AND 255) + of_nat i) = ring_cell 8 (t + of_nat i)" for i
    by (simp add: ring_cell_mod mask8 mod_add_left_eq)
  then show ?thesis by (simp add: ring_list_def)
qed

lemma mask8_take: "(x :: u32) AND 255 = take_bit 8 x"
  by (simp add: take_bit_eq_mask mask_eq_exp_minus_1)

lemma take8_int:
  fixes a b :: int
  shows "take_bit 8 (take_bit 8 a - b) = take_bit 8 (a - b)" "take_bit 8 (a - take_bit 8 b) = take_bit 8 (a - b)"
    "take_bit 8 (take_bit 8 a + b) = take_bit 8 (a + b)"
  by (simp_all add: take_bit_eq_mod mod_simps)

lemma take8_arith:
  fixes a b :: u32
  shows "take_bit 8 (take_bit 8 a - b) = take_bit 8 (a - b)" "take_bit 8 (a - take_bit 8 b) = take_bit 8 (a - b)"
    "take_bit 8 (take_bit 8 a + b) = take_bit 8 (a + b)"
proof -
  show "take_bit 8 (take_bit 8 a - b) = take_bit 8 (a - b)" by transfer (simp only: take_bit_take_bit, simp add: take8_int)
  show "take_bit 8 (a - take_bit 8 b) = take_bit 8 (a - b)" by transfer (simp only: take_bit_take_bit, simp add: take8_int)
  show "take_bit 8 (take_bit 8 a + b) = take_bit 8 (a + b)" by transfer (simp only: take_bit_take_bit, simp add: take8_int)
qed

lemma count_step:
  fixes h t :: u32
  shows "unat ((((h + 1) AND 255) - t) AND 255) = (unat ((h - t) AND 255) + 1) mod 256"
    and "(h - t) AND 255 \<noteq> 0 \<Longrightarrow> unat ((h - ((t + 1) AND 255)) AND 255) = unat ((h - t) AND 255) - 1"
proof -
  have x: "unat ((h - t) AND 255) < 256" using mask8(1) [of "h - t"] by (simp add: word_less_nat_alt)
  have "take_bit 8 (take_bit 8 (h + 1) - t) = take_bit 8 (take_bit 8 (h - t) + 1)"
    by (simp only: take8_arith) (simp add: algebra_simps)
  then have "unat ((((h + 1) AND 255) - t) AND 255) = unat (((h - t) AND 255) + 1) mod 256"
    by (simp only: mask8_take [symmetric] mask8(2))
  also have "unat (((h - t) AND 255) + 1) = unat ((h - t) AND 255) + 1"
    using x by (subst unat_add_lem [THEN iffD1]) auto
  finally show "unat ((((h + 1) AND 255) - t) AND 255) = (unat ((h - t) AND 255) + 1) mod 256" .
  have "take_bit 8 (h - take_bit 8 (t + 1)) = take_bit 8 (take_bit 8 (h - t) - 1)"
    by (simp only: take8_arith) (simp add: algebra_simps)
  then have "unat ((h - ((t + 1) AND 255)) AND 255) = unat (((h - t) AND 255) - 1) mod 256"
    by (simp only: mask8_take [symmetric] mask8(2))
  moreover assume "(h - t) AND 255 \<noteq> 0"
  then have "unat (((h - t) AND 255) - 1) = unat ((h - t) AND 255) - 1" by (rule unat_minus_one)
  ultimately show "unat ((h - ((t + 1) AND 255)) AND 255) = unat ((h - t) AND 255) - 1"
    using x by simp
qed

lemma count_zero:
  fixes h t :: u32
  assumes "h < 256" and "t < 256"
  shows "(h - t) AND 255 = 0 \<longleftrightarrow> h = t"
proof
  assume "(h - t) AND 255 = 0"
  then have "take_bit 8 (take_bit 8 (h - t) + t) = take_bit 8 t" by (simp only: mask8_take) simp
  then have "take_bit 8 h = take_bit 8 t" by (simp only: take8_arith) simp
  then show "h = t" using assms by (simp only: mask8_take [symmetric] mask8(3))
qed simp

lemma buffered_length: "length (buffered p) = unat (ring_count p)" "length (buffered p) < 256"
  using mask8(1) [of "ring_head p - ring_tail p"] by (simp_all add: buffered_def ring_count_def RING_SIZE_def word_less_nat_alt)

lemma full_count:
  assumes "port_ok p"
  shows "ring_full p \<longleftrightarrow> length (buffered p) = 255"
proof -
  let ?n = "unat ((ring_head p - ring_tail p) AND 255)"
  have "ring_full p \<longleftrightarrow> ((((ring_head p + 1) AND 255) - ring_tail p) AND 255) = 0"
    using assms count_zero [of "(ring_head p + 1) AND 255" "ring_tail p"] mask8(1) [of "ring_head p + 1"]
    by (simp add: ring_full_def RING_SIZE_def port_ok_def)
  also have "\<dots> \<longleftrightarrow> (?n + 1) mod 256 = 0" unfolding count_step(1) [symmetric] by (simp only: unat_eq_0)
  finally show ?thesis using buffered_length [of p] by (simp add: ring_count_def RING_SIZE_def) presburger
qed

text \<open>One byte into the ring, and one out of it.\<close>

lemma ring_push_ok:
  assumes "port_ok p" and "\<not> ring_full p"
  shows "port_ok (ring_push b p)" and "buffered (ring_push b p) = buffered p @ [b]"
proof -
  let ?n = "unat ((ring_head p - ring_tail p) AND 255)"
  show "port_ok (ring_push b p)" using assms(1) mask8(1) by (simp add: port_ok_def ring_push_def RING_SIZE_def)
  have n: "?n < 255" using assms buffered_length [of p] by (simp add: full_count ring_count_def RING_SIZE_def)
  have "take_bit 8 (take_bit 8 (ring_head p - ring_tail p) + ring_tail p) = take_bit 8 (ring_head p)"
    by (simp only: take8_arith) simp
  then have "ring_cell 8 (ring_tail p + of_nat ?n) = ring_cell 8 (ring_head p)"
    by (simp add: ring_cell_def mask8_take add.commute)
  then have c: "unat (ring_head p) = ring_cell 8 (ring_tail p + of_nat ?n)"
    using assms(1) by (simp add: cell8 port_ok_def)
  have "unat (ring_count (ring_push b p)) = Suc ?n"
    using n count_step(1) [of "ring_head p" "ring_tail p"] by (simp add: ring_count_def ring_push_def RING_SIZE_def)
  then show "buffered (ring_push b p) = buffered p @ [b]"
    using n ring_list_put [of 8 ?n "rx_ring p" "ring_tail p" b]
    by (simp only: buffered_def) (simp add: ring_push_def ring_count_def RING_SIZE_def c)
qed

lemma rs232_rx_ok:
  assumes "port_ok p"
  shows "port_ok (snd (rs232_rx p))" and "fst (rs232_rx p) = (case buffered p of [] \<Rightarrow> None | b # _ \<Rightarrow> Some b)"
    and "buffered (snd (rs232_rx p)) = tl (buffered p)" and "uart (snd (rs232_rx p)) = uart p"
proof -
  show "port_ok (snd (rs232_rx p))" "uart (snd (rs232_rx p)) = uart p"
    using assms mask8(1) by (simp_all add: rs232_rx_def port_ok_def RING_SIZE_def)
  have z: "ring_head p = ring_tail p \<longleftrightarrow> ring_count p = 0"
    using assms count_zero by (simp add: ring_count_def RING_SIZE_def port_ok_def)
  have "fst (rs232_rx p) = (case buffered p of [] \<Rightarrow> None | b # _ \<Rightarrow> Some b) \<and> buffered (snd (rs232_rx p)) = tl (buffered p)"
  proof (cases "ring_count p = 0")
    case True
    then show ?thesis using z by (simp add: rs232_rx_def buffered_def)
  next
    case False
    then obtain n where n: "unat (ring_count p) = Suc n" by (metis not0_implies_Suc unat_eq_0)
    have "unat (ring_count (snd (rs232_rx p))) = n"
      using False z n count_step(2) [of "ring_head p" "ring_tail p"] by (simp add: rs232_rx_def ring_count_def RING_SIZE_def)
    then show ?thesis
      using False z n assms by (simp add: buffered_def ring_list_Suc rs232_rx_def ring_list_tail RING_SIZE_def cell8 port_ok_def)
  qed
  then show "fst (rs232_rx p) = (case buffered p of [] \<Rightarrow> None | b # _ \<Rightarrow> Some b)" "buffered (snd (rs232_rx p)) = tl (buffered p)"
    by auto
qed

section \<open>Filling the ring\<close>

text \<open>What is documented of the Arduino driver: reading takes the oldest available byte.\<close>

definition uart_ok :: "'u uart_driver \<Rightarrow> ('u \<Rightarrow> u8 list) \<Rightarrow> bool" where
  "uart_ok U avail \<longleftrightarrow>
     (\<forall>u. serial_available U u = int (length (avail u))) \<and>
     (\<forall>u. avail u \<noteq> [] \<longrightarrow> word_of_int (fst (serial_read U u)) = hd (avail u) \<and> avail (snd (serial_read U u)) = tl (avail u))"

text \<open>
  C27: The poll loop returns and moves bytes without loss. With the driver's documented behaviour the loop
  ends; the bytes now in the ring followed by those still in the UART are the ones there before, in
  order; and it stopped because the UART was empty or the ring full, with its 255 bytes.
\<close>

theorem rs232_poll_moves:
  assumes "uart_ok U avail" and "port_ok p"
  shows "\<exists>q. hal_rs232_poll U p = Some q \<and> port_ok q \<and>
    buffered q @ avail (uart q) = buffered p @ avail (uart p) \<and>
    (avail (uart q) = [] \<or> length (buffered q) = 255)"
  using assms(2)
proof (induction "length (avail (uart p))" arbitrary: p rule: less_induct)
  case less
  show ?case
  proof (cases "serial_available U (uart p) > 0 \<and> \<not> ring_full p")
    case False
    then show ?thesis
      using less.prems assms(1) full_count [OF less.prems] by (subst hal_rs232_poll.simps) (auto simp: uart_ok_def)
  next
    case True
    obtain c u where r: "serial_read U (uart p) = (c, u)" by (cases "serial_read U (uart p)")
    have a: "avail (uart p) = word_of_int c # avail u"
      using assms(1) True r unfolding uart_ok_def by (cases "avail (uart p)") (auto dest: spec [of _ "uart p"])
    let ?p = "ring_push (word_of_int c) (p\<lparr>uart := u\<rparr>)"
    have p: "port_ok (p\<lparr>uart := u\<rparr>)" "\<not> ring_full (p\<lparr>uart := u\<rparr>)" "buffered (p\<lparr>uart := u\<rparr>) = buffered p"
      using less.prems True by (simp_all add: port_ok_def ring_full_def buffered_def ring_count_def)
    have k: "port_ok ?p" "buffered ?p = buffered p @ [word_of_int c]" "uart ?p = u"
      using ring_push_ok [OF p(1,2)] p(3) by (simp_all add: ring_push_def)
    have "hal_rs232_poll U p = hal_rs232_poll U ?p" using True r by (subst hal_rs232_poll.simps) simp
    then show ?thesis using less.hyps [of ?p] a k by simp
  qed
qed

text \<open>A driver over two byte lists, what was sent and what has arrived.\<close>

definition list_uart :: "serial uart_driver" where
  "list_uart =
     \<lparr>serial_available = (\<lambda>(out, inp). int (length inp)),
      serial_read = (\<lambda>(out, inp). case inp of [] \<Rightarrow> (-1, out, inp) | b # bs \<Rightarrow> (uint b, out, bs)),
      serial_write = (\<lambda>b (out, inp). (out @ [b], inp))\<rparr>"

lemma list_uart_ok: "uart_ok list_uart snd"
  by (simp add: uart_ok_def list_uart_def split: list.split)

definition demo_port :: "serial rs232_port" where
  "demo_port = \<lparr>rx_ring = (\<lambda>_. 0), ring_head = 0, ring_tail = 0, uart = ([], [0x48, 0x49])\<rparr>"

lemma rs232_poll_moves_witness:
  "\<exists>q. hal_rs232_poll list_uart demo_port = Some q \<and> buffered q @ snd (uart q) = [0x48, 0x49]"
  using rs232_poll_moves [OF list_uart_ok, of demo_port]
  by (auto simp: demo_port_def port_ok_def buffered_def ring_count_def)

definition port_put :: "u8 list \<Rightarrow> serial rs232_port \<Rightarrow> u8 list \<times> serial rs232_port" where
  "port_put bs p =
     (case hal_rs232_poll list_uart (p\<lparr>uart := (fst (uart p), bs)\<rparr>) of
        Some q \<Rightarrow> (take (length bs - length (snd (uart q))) bs, q) | None \<Rightarrow> ([], p))"

definition port_get :: "unit \<Rightarrow> serial rs232_port \<Rightarrow> u8 list \<times> serial rs232_port" where
  "port_get x p = (let (b, q) = rs232_rx p in (case b of None \<Rightarrow> [] | Some b \<Rightarrow> [b], q))"

lemma port_put_moves:
  assumes "port_ok p"
  shows "port_ok (snd (port_put bs p))" "buffered (snd (port_put bs p)) = buffered p @ fst (port_put bs p)"
proof -
  have "port_ok (p\<lparr>uart := (fst (uart p), bs)\<rparr>)" "buffered (p\<lparr>uart := (fst (uart p), bs)\<rparr>) = buffered p"
    using assms by (simp_all add: port_ok_def buffered_def ring_count_def)
  then obtain q where q: "hal_rs232_poll list_uart (p\<lparr>uart := (fst (uart p), bs)\<rparr>) = Some q" "port_ok q"
    "buffered q @ snd (uart q) = buffered p @ bs" "length (buffered q) = 255 \<or> snd (uart q) = []"
    using rs232_poll_moves [OF list_uart_ok, of "p\<lparr>uart := (fst (uart p), bs)\<rparr>"] by auto
  have "buffered p @ take (length bs - length (snd (uart q))) bs = buffered q"
  proof -
    have l: "length (buffered q) + length (snd (uart q)) = length (buffered p) + length bs" using q(3) by (metis length_append)
    moreover have "length (buffered p) \<le> length (buffered q)"
      using q(4) buffered_length(2) [of p] l by auto
    ultimately have "length (buffered q) = length (buffered p) + (length bs - length (snd (uart q)))" by linarith
    then show ?thesis using arg_cong [OF q(3), of "take (length (buffered q))"] by simp
  qed
  then show "port_ok (snd (port_put bs p))" "buffered (snd (port_put bs p)) = buffered p @ fst (port_put bs p)"
    using q(1,2) by (simp_all add: port_put_def)
qed

interpretation rs232_ring: byte_stream port_ok buffered 255 port_put port_get
proof unfold_locales
  fix p :: "serial rs232_port" and bs x assume p: "port_ok p"
  show "port_ok (snd (port_put bs p))" "buffered (snd (port_put bs p)) = buffered p @ fst (port_put bs p)"
    by (rule port_put_moves [OF p])+
  show "port_ok (snd (port_get x p))" "buffered p = fst (port_get x p) @ buffered (snd (port_get x p))"
    using rs232_rx_ok [OF p] by (simp_all add: port_get_def case_prod_unfold split: list.split)
  show "length (buffered p) \<le> 255" using buffered_length(2) [of p] by simp
qed

section \<open>The ACIA over the ring\<close>

text \<open>Two transports that correspond through a function on their states make two ACIAs that do.\<close>

definition tx_host :: "'h transport \<Rightarrow> u8 \<Rightarrow> 'h \<Rightarrow> 'h" where
  "tx_host T b h = (case mc6551_tx_byte_out T of None \<Rightarrow> h | Some f \<Rightarrow> f b h)"

definition rx_host :: "'h transport \<Rightarrow> 'h \<Rightarrow> u8 option \<times> 'h" where
  "rx_host T h = (case mc6551_rx_byte_in T of None \<Rightarrow> (None, h) | Some f \<Rightarrow> f h)"

definition map_host :: "('h \<Rightarrow> 'k) \<Rightarrow> 'h acia \<Rightarrow> 'k acia" where
  "map_host g a =
     \<lparr>reg_command = reg_command a, reg_control = reg_control a, rx_data = rx_data a, tdre = tdre a, rdrf = rdrf a,
      overrun = overrun a, irq_flag = irq_flag a, rx_irq_en = rx_irq_en a, tx_irq_en = tx_irq_en a,
      echo_en = echo_en a, baud = baud a, cycles_per_byte = cycles_per_byte a, tx_busy = tx_busy a,
      tx_countdown = tx_countdown a, tx_pending = tx_pending a, tx_pending_byte = tx_pending_byte a,
      rx_countdown = rx_countdown a, tx_count = tx_count a, rx_count = rx_count a,
      overrun_count = overrun_count a, firq_count = firq_count a, host = g (host a)\<rparr>"

lemma map_host_sel:
  "reg_command (map_host g a) = reg_command a" "reg_control (map_host g a) = reg_control a" "rx_data (map_host g a) = rx_data a"
  "tdre (map_host g a) = tdre a" "rdrf (map_host g a) = rdrf a" "overrun (map_host g a) = overrun a"
  "irq_flag (map_host g a) = irq_flag a" "rx_irq_en (map_host g a) = rx_irq_en a" "tx_irq_en (map_host g a) = tx_irq_en a"
  "echo_en (map_host g a) = echo_en a" "baud (map_host g a) = baud a" "cycles_per_byte (map_host g a) = cycles_per_byte a"
  "tx_busy (map_host g a) = tx_busy a" "tx_countdown (map_host g a) = tx_countdown a" "tx_pending (map_host g a) = tx_pending a"
  "tx_pending_byte (map_host g a) = tx_pending_byte a" "rx_countdown (map_host g a) = rx_countdown a"
  "tx_count (map_host g a) = tx_count a" "rx_count (map_host g a) = rx_count a"
  "overrun_count (map_host g a) = overrun_count a" "firq_count (map_host g a) = firq_count a" "host (map_host g a) = g (host a)"
  by (simp_all add: map_host_def)

lemma map_host_upd:
  "map_host g (a\<lparr>reg_command := v\<rparr>) = (map_host g a)\<lparr>reg_command := v\<rparr>" "map_host g (a\<lparr>reg_control := v\<rparr>) = (map_host g a)\<lparr>reg_control := v\<rparr>"
  "map_host g (a\<lparr>rx_data := v\<rparr>) = (map_host g a)\<lparr>rx_data := v\<rparr>" "map_host g (a\<lparr>tdre := b\<rparr>) = (map_host g a)\<lparr>tdre := b\<rparr>"
  "map_host g (a\<lparr>rdrf := b\<rparr>) = (map_host g a)\<lparr>rdrf := b\<rparr>" "map_host g (a\<lparr>overrun := b\<rparr>) = (map_host g a)\<lparr>overrun := b\<rparr>"
  "map_host g (a\<lparr>irq_flag := b\<rparr>) = (map_host g a)\<lparr>irq_flag := b\<rparr>" "map_host g (a\<lparr>rx_irq_en := b\<rparr>) = (map_host g a)\<lparr>rx_irq_en := b\<rparr>"
  "map_host g (a\<lparr>tx_irq_en := b\<rparr>) = (map_host g a)\<lparr>tx_irq_en := b\<rparr>" "map_host g (a\<lparr>echo_en := b\<rparr>) = (map_host g a)\<lparr>echo_en := b\<rparr>"
  "map_host g (a\<lparr>baud := w\<rparr>) = (map_host g a)\<lparr>baud := w\<rparr>" "map_host g (a\<lparr>cycles_per_byte := n\<rparr>) = (map_host g a)\<lparr>cycles_per_byte := n\<rparr>"
  "map_host g (a\<lparr>tx_busy := b\<rparr>) = (map_host g a)\<lparr>tx_busy := b\<rparr>" "map_host g (a\<lparr>tx_countdown := n\<rparr>) = (map_host g a)\<lparr>tx_countdown := n\<rparr>"
  "map_host g (a\<lparr>tx_pending := b\<rparr>) = (map_host g a)\<lparr>tx_pending := b\<rparr>" "map_host g (a\<lparr>tx_pending_byte := v\<rparr>) = (map_host g a)\<lparr>tx_pending_byte := v\<rparr>"
  "map_host g (a\<lparr>rx_countdown := n\<rparr>) = (map_host g a)\<lparr>rx_countdown := n\<rparr>" "map_host g (a\<lparr>tx_count := n\<rparr>) = (map_host g a)\<lparr>tx_count := n\<rparr>"
  "map_host g (a\<lparr>rx_count := n\<rparr>) = (map_host g a)\<lparr>rx_count := n\<rparr>" "map_host g (a\<lparr>overrun_count := n\<rparr>) = (map_host g a)\<lparr>overrun_count := n\<rparr>"
  "map_host g (a\<lparr>firq_count := n\<rparr>) = (map_host g a)\<lparr>firq_count := n\<rparr>" "map_host g (a\<lparr>host := h\<rparr>) = (map_host g a)\<lparr>host := g h\<rparr>"
  by (simp_all add: map_host_def)

lemma acia_through_host:
  "tx_out T b a = a\<lparr>host := tx_host T b (host a)\<rparr>"
  "rx_pull T a = (fst (rx_host T (host a)), a\<lparr>host := snd (rx_host T (host a))\<rparr>)"
  by (simp_all add: tx_out_def tx_host_def rx_pull_def rx_host_def case_prod_unfold Let_def split: option.split)

locale transport_sim =
  fixes T :: "'h transport" and T' :: "'k transport" and g :: "'h \<Rightarrow> 'k" and inv :: "'h \<Rightarrow> bool"
  assumes tx_sim: "inv h \<Longrightarrow> g (tx_host T b h) = tx_host T' b (g h)"
    and tx_inv: "inv h \<Longrightarrow> inv (tx_host T b h)"
    and rx_sim: "inv h \<Longrightarrow> rx_host T' (g h) = (fst (rx_host T h), g (snd (rx_host T h)))"
    and rx_inv: "inv h \<Longrightarrow> inv (snd (rx_host T h))"
begin

lemma submit_sim:
  "inv (host a) \<Longrightarrow> map_host g (tx_submit T b a) = tx_submit T' b (map_host g a) \<and> inv (host (tx_submit T b a))"
  by (simp add: tx_submit_def acia_through_host map_host_sel map_host_upd tx_sim tx_inv Let_def)

lemma irq_sim: "map_host g (set_irq a) = set_irq (map_host g a)" "host (set_irq a) = host a"
  "tx_pending (set_irq c) = tx_pending c" "tx_pending_byte (set_irq c) = tx_pending_byte c" "echo_en (set_irq c) = echo_en c"
  "cycles_per_byte (set_irq c) = cycles_per_byte c"
  by (simp_all add: set_irq_def map_host_sel map_host_upd)

lemma command_sim:
  "map_host g (recompute_command a) = recompute_command (map_host g a)" "host (recompute_command a) = host a"
  "map_host g (recompute_control a) = recompute_control (map_host g a)" "host (recompute_control a) = host a"
  by (simp_all add: recompute_command_def recompute_control_def map_host_sel map_host_upd Let_def)

lemma tick_tx_sim:
  "inv (host a) \<Longrightarrow> map_host g (tick_tx T n a) = tick_tx T' n (map_host g a) \<and> inv (host (tick_tx T n a))"
  by (simp add: tick_tx_def map_host_sel map_host_upd submit_sim irq_sim Let_def)

lemma tick_rx_sim:
  "inv (host a) \<Longrightarrow> map_host g (tick_rx T n a) = tick_rx T' n (map_host g a) \<and> inv (host (tick_rx T n a))"
  by (simp add: tick_rx_def acia_through_host map_host_sel map_host_upd submit_sim irq_sim rx_sim rx_inv Let_def split: option.split)

lemma exec_sim:
  "inv (host a) \<Longrightarrow> map_host g (acia_exec T x a) = acia_exec T' x (map_host g a) \<and> inv (host (acia_exec T x a))"
  by (cases x) (simp_all add: mc6551_read_def mc6551_write_def mc6551_tick_def map_host_sel map_host_upd submit_sim command_sim
      tick_tx_sim tick_rx_sim assemble_status_def Let_def)

lemma run_sim:
  "inv (host a) \<Longrightarrow> map_host g (fold (acia_exec T) xs a) = fold (acia_exec T') xs (map_host g a) \<and> inv (host (fold (acia_exec T) xs a))"
  by (induction xs arbitrary: a) (simp_all add: exec_sim)

end

definition port_line :: "serial rs232_port \<Rightarrow> serial" where
  "port_line p = (fst (uart p), buffered p)"

interpretation rs232_sim: transport_sim "rs232_transport list_uart" serial_line port_line port_ok
proof unfold_locales
  fix p :: "serial rs232_port" and b assume p: "port_ok p"
  have k: "buffered (p\<lparr>uart := u\<rparr>) = buffered p" "port_ok (p\<lparr>uart := u\<rparr>) = port_ok p" for u
    by (simp_all add: buffered_def port_ok_def ring_count_def)
  show "port_line (tx_host (rs232_transport list_uart) b p) = tx_host serial_line b (port_line p)"
    "port_ok (tx_host (rs232_transport list_uart) b p)"
    using p by (simp_all add: tx_host_def rs232_transport_def rs232_tx_def serial_line_def port_line_def k list_uart_def case_prod_unfold)
  show "rx_host serial_line (port_line p) = (fst (rx_host (rs232_transport list_uart) p), port_line (snd (rx_host (rs232_transport list_uart) p)))"
    "port_ok (snd (rx_host (rs232_transport list_uart) p))"
    using rs232_rx_ok [OF p] by (simp_all add: rx_host_def rs232_transport_def serial_line_def port_line_def split: list.split)
qed


definition demo_pak :: "serial rs232_port acia" where
  "demo_pak = map_host (\<lambda>_. demo_port) demo_acia"


end
