(* ===== verification/Becker.thy ===== *)
theory Becker
  imports Byte_Stream
begin

text \<open>
  The Becker port, \<open>src/src/core/becker.{h,cpp}\<close>: two byte rings between the CPU core (core 1) and the
  DriveWire back end (core 0), with free-running 32-bit indices. Here each operation is one atomic
  step; \<open>Becker_Race\<close> takes them apart. \<open>wake\<close> is the FreeRTOS notification of the back-end task.
\<close>

section \<open>State\<close>

definition RX_BITS :: nat where "RX_BITS = 12"
definition TX_BITS :: nat where "TX_BITS = 10"
definition RX_SIZE :: u32 where "RX_SIZE = 4096"
definition TX_SIZE :: u32 where "TX_SIZE = 1024"

record 'b becker =
  g_becker_enabled :: bool
  g_becker_tx_pending :: bool
  rx_buf :: "(nat \<Rightarrow> u8) option"
  tx_buf :: "(nat \<Rightarrow> u8) option"
  rx_head :: u32
  rx_tail :: u32
  tx_head :: u32
  tx_tail :: u32
  rx_flush_req :: bool
  rx_flush_mark :: u32
  tx_flush_req :: bool
  tx_flush_mark :: u32
  reset_req :: bool
  link_up :: bool
  bytes_to_coco :: u32
  bytes_from_coco :: u32
  backend_task :: "'b option"

definition skip_to :: "u32 \<Rightarrow> u32 \<Rightarrow> u32" where
  "skip_to tail mark = (if sint (mark - tail) > 0 then mark else tail)"

text \<open>\<open>fits_rx\<close> and \<open>fits_tx\<close>: the two PSRAM allocations, a fresh block if they succeed.\<close>

definition becker_init ::
  "(nat \<Rightarrow> u8) option \<Rightarrow> (nat \<Rightarrow> u8) option \<Rightarrow> 'b becker \<Rightarrow> bool \<times> 'b becker" where
  "becker_init fits_rx fits_tx s =
     (let s = (if rx_buf s = None then s\<lparr>rx_buf := fits_rx\<rparr> else s);
          s = (if tx_buf s = None then s\<lparr>tx_buf := fits_tx\<rparr> else s)
      in if rx_buf s = None \<or> tx_buf s = None then (False, s\<lparr>g_becker_enabled := False\<rparr>)
         else (True, s\<lparr>rx_head := 0, rx_tail := 0, tx_head := 0, tx_tail := 0, g_becker_enabled := True\<rparr>))"

section \<open>CPU side\<close>

definition service_rx_flush :: "'b becker \<Rightarrow> 'b becker" where
  "service_rx_flush s =
     (if rx_flush_req s then
        let s = s\<lparr>rx_tail := skip_to (rx_tail s) (rx_flush_mark s)\<rparr> in s\<lparr>rx_flush_req := False\<rparr>
      else s)"

definition becker_read_status :: "'b becker \<Rightarrow> u8 \<times> 'b becker" where
  "becker_read_status s =
     (let s = service_rx_flush s in (if rx_head s \<noteq> rx_tail s then 0x02 else 0x00, s))"

definition rx_at :: "u32 \<Rightarrow> 'b becker \<Rightarrow> u8" where
  "rx_at i s = the (rx_buf s) (unat (i AND (RX_SIZE - 1)))"

definition becker_read_data :: "'b becker \<Rightarrow> u8 \<times> 'b becker" where
  "becker_read_data s =
     (let s = service_rx_flush s; t = rx_tail s
      in if rx_head s = t then (0x00, s)
         else let b = rx_at t s
              in (b, s\<lparr>rx_tail := t + 1, bytes_to_coco := bytes_to_coco s + 1\<rparr>))"

definition becker_write_data :: "u8 \<Rightarrow> 'b becker \<Rightarrow> 'b becker" where
  "becker_write_data b s =
     (let h = tx_head s
      in if h - tx_tail s \<ge> TX_SIZE then s
         else let s = s\<lparr>tx_buf := map_option (\<lambda>buf. buf(unat (h AND (TX_SIZE - 1)) := b)) (tx_buf s)\<rparr>
              in s\<lparr>tx_head := h + 1, bytes_from_coco := bytes_from_coco s + 1, g_becker_tx_pending := True\<rparr>)"

definition becker_reset :: "'b becker \<Rightarrow> 'b becker" where
  "becker_reset s =
     (if \<not> g_becker_enabled s then s
      else s\<lparr>rx_tail := rx_head s, tx_flush_mark := tx_head s, tx_flush_req := True, reset_req := True\<rparr>)"

definition becker_notify_backend :: "('b \<Rightarrow> 'b) \<Rightarrow> 'b becker \<Rightarrow> 'b becker" where
  "becker_notify_backend wake s =
     (let s = s\<lparr>g_becker_tx_pending := False\<rparr> in s\<lparr>backend_task := map_option wake (backend_task s)\<rparr>)"

definition becker_scanline_tick :: "('b \<Rightarrow> 'b) \<Rightarrow> 'b becker \<Rightarrow> 'b becker" where
  "becker_scanline_tick wake s = (if g_becker_tx_pending s then becker_notify_backend wake s else s)"

section \<open>Back-end side\<close>

definition becker_set_backend_task :: "'b \<Rightarrow> 'b becker \<Rightarrow> 'b becker" where
  "becker_set_backend_task task s = s\<lparr>backend_task := Some task\<rparr>"

definition service_tx_flush :: "'b becker \<Rightarrow> 'b becker" where
  "service_tx_flush s =
     (if tx_flush_req s then
        let s = s\<lparr>tx_tail := skip_to (tx_tail s) (tx_flush_mark s)\<rparr> in s\<lparr>tx_flush_req := False\<rparr>
      else s)"

definition becker_tx_pop :: "nat \<Rightarrow> 'b becker \<Rightarrow> u8 list \<times> 'b becker" where
  "becker_tx_pop max_n s =
     (let s = service_tx_flush s;
          t = tx_tail s;
          avail = tx_head s - t;
          n = (if unat avail < max_n then unat avail else max_n);
          bytes = map (\<lambda>i. the (tx_buf s) (unat ((t + of_nat i) AND (TX_SIZE - 1)))) [0..<n]
      in (bytes, s\<lparr>tx_tail := t + of_nat n\<rparr>))"

definition becker_rx_space :: "'b becker \<Rightarrow> u32" where
  "becker_rx_space s = RX_SIZE - (rx_head s - rx_tail s)"

definition becker_rx_pending :: "'b becker \<Rightarrow> u32" where
  "becker_rx_pending s = rx_head s - rx_tail s"

definition becker_rx_push :: "u8 list \<Rightarrow> 'b becker \<Rightarrow> nat \<times> 'b becker" where
  "becker_rx_push bytes s =
     (let h = rx_head s;
          space = RX_SIZE - (h - rx_tail s);
          n = (if length bytes < unat space then length bytes else unat space);
          s = s\<lparr>rx_buf := map_option (ring_store RX_BITS h (take n bytes)) (rx_buf s)\<rparr>
      in (n, s\<lparr>rx_head := h + of_nat n\<rparr>))"

definition becker_reset_requested :: "'b becker \<Rightarrow> bool" where
  "becker_reset_requested s = reset_req s"

definition becker_clear_reset :: "'b becker \<Rightarrow> 'b becker" where
  "becker_clear_reset s =
     (if \<not> reset_req s then s
      else s\<lparr>tx_tail := skip_to (tx_tail s) (tx_flush_mark s), tx_flush_req := False, reset_req := False\<rparr>)"

definition becker_set_link_up :: "bool \<Rightarrow> 'b becker \<Rightarrow> 'b becker" where
  "becker_set_link_up up s =
     (let s = (if \<not> up then
                 let s = (if reset_req s then becker_clear_reset s else s\<lparr>tx_tail := tx_head s\<rparr>)
                 in s\<lparr>rx_flush_mark := rx_head s, rx_flush_req := True\<rparr>
               else s)
      in s\<lparr>link_up := up\<rparr>)"

section \<open>The rings as queues\<close>

definition rx_queue :: "'b becker \<Rightarrow> u8 list" where
  "rx_queue s = ring_list RX_BITS (the (rx_buf s)) (rx_tail s) (unat (rx_head s - rx_tail s))"

definition tx_queue :: "'b becker \<Rightarrow> u8 list" where
  "tx_queue s = ring_list TX_BITS (the (tx_buf s)) (tx_tail s) (unat (tx_head s - tx_tail s))"

definition rings_ok :: "'b becker \<Rightarrow> bool" where
  "rings_ok s \<longleftrightarrow> rx_buf s \<noteq> None \<and> tx_buf s \<noteq> None \<and> rx_head s - rx_tail s \<le> RX_SIZE \<and> tx_head s - tx_tail s \<le> TX_SIZE"

text \<open>No request to drop anything is outstanding.\<close>

definition settled :: "'b becker \<Rightarrow> bool" where
  "settled s \<longleftrightarrow> rings_ok s \<and> \<not> rx_flush_req s \<and> \<not> tx_flush_req s"

lemma cells: "ring_cell RX_BITS i = unat (i AND (RX_SIZE - 1))" "ring_cell TX_BITS i = unat (i AND (TX_SIZE - 1))"
  by (simp_all add: ring_cell_def RX_BITS_def TX_BITS_def RX_SIZE_def TX_SIZE_def)

lemma u32_lt: "unat (a :: u32) < 4294967296"
  using unsigned_less [of a] by simp

lemma ring_advance:
  fixes h t :: u32
  assumes "n \<le> unat (h - t)"
  shows "unat (h - (t + of_nat n)) = unat (h - t) - n"
proof -
  have "unat (of_nat n :: u32) = n"
    using assms u32_lt [of "h - t"] by (simp add: unsigned_of_nat take_bit_nat_eq_self_iff)
  then show ?thesis using assms unat_sub [of "of_nat n" "h - t"] by (simp add: word_le_nat_alt diff_diff_eq)
qed

lemma ring_extend:
  fixes h t :: u32
  assumes "unat (h - t) + n < 2 ^ 32"
  shows "unat ((h + of_nat n) - t) = unat (h - t) + n"
proof -
  have n: "unat (of_nat n :: u32) = n" using assms by (simp add: unsigned_of_nat take_bit_nat_eq_self_iff)
  have "(h + of_nat n) - t = (h - t) + of_nat n" by simp
  then show ?thesis using assms n by (simp only:) (subst unat_add_lem [THEN iffD1], simp_all)
qed

lemma ring_head: "t + of_nat (unat (h - t)) = (h :: u32)"
  by simp

text \<open>A push appends, as far as there is room.\<close>

lemma rx_push_queue:
  assumes "settled s"
  shows "settled (snd (becker_rx_push bs s))"
    and "fst (becker_rx_push bs s) = min (length bs) (4096 - length (rx_queue s))"
    and "rx_queue (snd (becker_rx_push bs s)) = rx_queue s @ take (fst (becker_rx_push bs s)) bs"
proof -
  let ?n = "unat (rx_head s - rx_tail s)" and ?k = "fst (becker_rx_push bs s)"
  have n: "?n \<le> 4096" using assms by (simp add: settled_def rings_ok_def RX_SIZE_def word_le_nat_alt)
  have sp: "unat (RX_SIZE - (rx_head s - rx_tail s)) = 4096 - ?n"
    using n by (subst unat_sub) (simp_all add: RX_SIZE_def word_le_nat_alt)
  show k: "?k = min (length bs) (4096 - length (rx_queue s))"
    by (simp add: becker_rx_push_def Let_def sp rx_queue_def)
  then have l: "?n + ?k \<le> 4096" "?k \<le> length bs" using n by (auto simp: rx_queue_def)
  have e: "snd (becker_rx_push bs s) = s\<lparr>rx_buf := map_option (ring_store RX_BITS (rx_head s) (take ?k bs)) (rx_buf s),
      rx_head := rx_head s + of_nat ?k\<rparr>"
    by (simp add: becker_rx_push_def Let_def)
  have x: "unat ((rx_head s + of_nat ?k) - rx_tail s) = ?n + ?k" using l by (intro ring_extend) simp
  show "settled (snd (becker_rx_push bs s))"
    using assms l x unfolding e by (auto simp: settled_def rings_ok_def RX_SIZE_def word_le_nat_alt)
  show "rx_queue (snd (becker_rx_push bs s)) = rx_queue s @ take ?k bs"
    unfolding e using assms l ring_store_list [of RX_BITS ?n "take ?k bs" "rx_tail s" "the (rx_buf s)"]
    by (auto simp: rx_queue_def x settled_def rings_ok_def RX_BITS_def)
qed

lemma read_data_queue:
  assumes "settled s"
  shows "settled (snd (becker_read_data s))"
    and "becker_read_status s = (if rx_queue s = [] then 0 else 2, s)"
    and "fst (becker_read_data s) = (case rx_queue s of [] \<Rightarrow> 0 | b # _ \<Rightarrow> b)"
    and "rx_queue (snd (becker_read_data s)) = tl (rx_queue s)"
proof -
  let ?n = "unat (rx_head s - rx_tail s)"
  have f: "service_rx_flush s = s" using assms by (simp add: service_rx_flush_def settled_def)
  have z: "rx_queue s = [] \<longleftrightarrow> rx_head s = rx_tail s"
    by (metis length_0_conv ring_list_0(2) rx_queue_def unat_eq_0 right_minus_eq)
  show "becker_read_status s = (if rx_queue s = [] then 0 else 2, s)"
    by (simp add: becker_read_status_def f z)
  have "settled (snd (becker_read_data s)) \<and> fst (becker_read_data s) = (case rx_queue s of [] \<Rightarrow> 0 | b # _ \<Rightarrow> b) \<and>
      rx_queue (snd (becker_read_data s)) = tl (rx_queue s)"
  proof (cases "rx_head s = rx_tail s")
    case True
    then show ?thesis using z assms by (simp add: becker_read_data_def f Let_def)
  next
    case False
    then obtain k where k: "?n = Suc k" by (metis not0_implies_Suc unat_eq_0 right_minus_eq)
    have a: "unat (rx_head s - (rx_tail s + 1)) = k" using ring_advance [of 1 "rx_head s" "rx_tail s"] k by simp
    have q: "rx_queue s = rx_at (rx_tail s) s # rx_queue (s\<lparr>rx_tail := rx_tail s + 1, bytes_to_coco := bytes_to_coco s + 1\<rparr>)"
      by (simp add: rx_queue_def k a ring_list_Suc cells rx_at_def)
    have "settled (s\<lparr>rx_tail := rx_tail s + 1, bytes_to_coco := bytes_to_coco s + 1\<rparr>)"
      using assms a k by (simp add: settled_def rings_ok_def RX_SIZE_def word_le_nat_alt)
    then show ?thesis using False q by (simp add: becker_read_data_def f Let_def)
  qed
  then show "settled (snd (becker_read_data s))"
    "fst (becker_read_data s) = (case rx_queue s of [] \<Rightarrow> 0 | b # _ \<Rightarrow> b)"
    "rx_queue (snd (becker_read_data s)) = tl (rx_queue s)" by auto
qed

lemma write_data_queue:
  assumes "settled s"
  shows "settled (becker_write_data b s)"
    and "tx_queue (becker_write_data b s) = tx_queue s @ (if length (tx_queue s) < 1024 then [b] else [])"
proof -
  let ?n = "unat (tx_head s - tx_tail s)"
  have full: "tx_head s - tx_tail s \<ge> TX_SIZE \<longleftrightarrow> \<not> length (tx_queue s) < 1024"
    by (simp add: tx_queue_def TX_SIZE_def word_le_nat_alt not_less)
  have "settled (becker_write_data b s) \<and>
      tx_queue (becker_write_data b s) = tx_queue s @ (if length (tx_queue s) < 1024 then [b] else [])"
  proof (cases "length (tx_queue s) < 1024")
    case False
    then show ?thesis using assms full by (simp add: becker_write_data_def Let_def)
  next
    case True
    then have n: "?n < 1024" by (simp add: tx_queue_def)
    obtain buf where b: "tx_buf s = Some buf" using assms by (auto simp: settled_def rings_ok_def)
    have x: "unat ((tx_head s + 1) - tx_tail s) = Suc ?n" using ring_extend [of "tx_head s" "tx_tail s" 1] n by simp
    let ?s = "s\<lparr>tx_buf := Some (buf(ring_cell TX_BITS (tx_head s) := b)), tx_head := tx_head s + 1,
        bytes_from_coco := bytes_from_coco s + 1, g_becker_tx_pending := True\<rparr>"
    have e: "becker_write_data b s = ?s" using True full b by (simp add: becker_write_data_def Let_def cells)
    have "tx_queue ?s = tx_queue s @ [b]"
      using n ring_list_put [of TX_BITS ?n buf "tx_tail s" b] by (simp add: tx_queue_def b x TX_BITS_def)
    moreover have "settled ?s" using assms n x by (simp add: settled_def rings_ok_def TX_SIZE_def word_le_nat_alt)
    ultimately show ?thesis using True by (simp only: e) simp
  qed
  then show "settled (becker_write_data b s)"
    "tx_queue (becker_write_data b s) = tx_queue s @ (if length (tx_queue s) < 1024 then [b] else [])" by auto
qed

lemma tx_pop_queue:
  assumes "settled s"
  shows "settled (snd (becker_tx_pop k s))" and "fst (becker_tx_pop k s) = take k (tx_queue s)"
    and "tx_queue (snd (becker_tx_pop k s)) = drop k (tx_queue s)"
proof -
  let ?n = "unat (tx_head s - tx_tail s)"
  define m where "m = min ?n k"
  have f: "service_tx_flush s = s" using assms by (simp add: service_tx_flush_def settled_def)
  have e: "becker_tx_pop k s = (ring_list TX_BITS (the (tx_buf s)) (tx_tail s) m, s\<lparr>tx_tail := tx_tail s + of_nat m\<rparr>)"
    by (auto simp: becker_tx_pop_def f Let_def ring_list_def cells m_def min_def)
  have a: "unat (tx_head s - (tx_tail s + of_nat m)) = ?n - m" by (rule ring_advance) (simp add: m_def)
  have q: "tx_queue s = ring_list TX_BITS (the (tx_buf s)) (tx_tail s) m @
      ring_list TX_BITS (the (tx_buf s)) (tx_tail s + of_nat m) (?n - m)"
    using ring_list_add [of TX_BITS "the (tx_buf s)" "tx_tail s" m "?n - m"] by (simp add: tx_queue_def m_def)
  have mk: "take k (tx_queue s) = take m (tx_queue s)" "drop k (tx_queue s) = drop m (tx_queue s)"
    by (auto simp: m_def min_def tx_queue_def)
  show "settled (snd (becker_tx_pop k s))"
    using assms a by (auto simp: e settled_def rings_ok_def TX_SIZE_def word_le_nat_alt)
  show "fst (becker_tx_pop k s) = take k (tx_queue s)" unfolding mk e by (subst q) simp
  show "tx_queue (snd (becker_tx_pop k s)) = drop k (tx_queue s)"
    unfolding mk e by (subst q) (simp add: tx_queue_def a)
qed

section \<open>The contract\<close>

definition rx_put :: "u8 list \<Rightarrow> 'b becker \<Rightarrow> u8 list \<times> 'b becker" where
  "rx_put bs s = (let (n, s) = becker_rx_push bs s in (take n bs, s))"

definition rx_get :: "unit \<Rightarrow> 'b becker \<Rightarrow> u8 list \<times> 'b becker" where
  "rx_get u s = (let (st, s) = becker_read_status s; (b, s) = becker_read_data s in (if st AND 2 \<noteq> 0 then [b] else [], s))"

definition tx_put :: "u8 \<Rightarrow> 'b becker \<Rightarrow> u8 list \<times> 'b becker" where
  "tx_put b s = (if length (tx_queue s) < 1024 then [b] else [], becker_write_data b s)"

interpretation becker_rx: byte_stream settled rx_queue 4096 rx_put rx_get
proof unfold_locales
  fix s :: "'b becker" and bs u assume s: "settled s"
  show "settled (snd (rx_put bs s))" "rx_queue (snd (rx_put bs s)) = rx_queue s @ fst (rx_put bs s)"
    using rx_push_queue(1,3) [OF s] by (simp_all add: rx_put_def case_prod_unfold Let_def)
  note r = read_data_queue [OF s]
  show "settled (snd (rx_get u s))" "rx_queue s = fst (rx_get u s) @ rx_queue (snd (rx_get u s))"
    using r(1,3,4) by (simp_all add: rx_get_def r(2) case_prod_unfold Let_def split: list.splits)
  show "length (rx_queue s) \<le> 4096" using s by (simp add: rx_queue_def settled_def rings_ok_def RX_SIZE_def word_le_nat_alt)
qed

interpretation becker_tx: byte_stream settled tx_queue 1024 tx_put becker_tx_pop
proof unfold_locales
  fix s :: "'b becker" and b k assume s: "settled s"
  show "settled (snd (tx_put b s))" "tx_queue (snd (tx_put b s)) = tx_queue s @ fst (tx_put b s)"
    using write_data_queue [OF s] by (simp_all add: tx_put_def)
  show "settled (snd (becker_tx_pop k s))" "tx_queue s = fst (becker_tx_pop k s) @ tx_queue (snd (becker_tx_pop k s))"
    using tx_pop_queue [OF s] by simp_all
  show "length (tx_queue s) \<le> 1024" using s by (simp add: tx_queue_def settled_def rings_ok_def TX_SIZE_def word_le_nat_alt)
qed

section \<open>Flushes\<close>

lemma sint_small: "unat (x :: u32) < 2 ^ 31 \<Longrightarrow> sint x = int (unat x)"
proof -
  assume "unat x < 2 ^ 31"
  then have "uint x < 2 ^ 31" unfolding unat_eq_nat_uint by (simp only: nat_less_iff uint_ge_0) simp
  then have "signed_take_bit 31 (uint x) = uint x" by (intro signed_take_bit_int_eq_self) (simp_all add: order_trans [OF _ uint_ge_0])
  moreover have "sint x = signed_take_bit 31 (uint x)" by (simp only: sint_uint) simp
  ultimately show ?thesis unfolding unat_eq_nat_uint by (simp only: nat_0_le uint_ge_0)
qed

lemma skip_to_mark:
  assumes "unat (mark - tail) < 2 ^ 31"
  shows "skip_to tail mark = mark"
proof (cases "mark = tail")
  case False
  then have "unat (mark - tail) \<noteq> 0" by (simp add: unat_eq_0)
  then have "0 < int (unat (mark - tail))" by linarith
  then show ?thesis by (simp only: skip_to_def sint_small [OF assms] if_True)
qed (simp add: skip_to_def)

lemma ring_list_skip:
  assumes "n \<le> unat (h - t)"
  shows "ring_list k buf (t + of_nat n) (unat (h - (t + of_nat n))) = drop n (ring_list k buf t (unat (h - t)))"
proof -
  have "ring_list k buf t (unat (h - t)) = ring_list k buf t n @ ring_list k buf (t + of_nat n) (unat (h - t) - n)"
    using ring_list_add [of k buf t n "unat (h - t) - n"] assms by simp
  then show ?thesis by (simp add: ring_advance [OF assms])
qed

text \<open>Moving a tail to where the head was drops what was in the ring.\<close>

lemma rx_skip:
  assumes "rx_queue s' = q @ bs" and "rx_tail s' + of_nat (length q) = mark"
  shows "rx_queue (s'\<lparr>rx_tail := mark\<rparr>) = bs"
proof -
  have "length q \<le> unat (rx_head s' - rx_tail s')" using arg_cong [OF assms(1), of length] by (simp add: rx_queue_def)
  from ring_list_skip [OF this, of RX_BITS "the (rx_buf s')"] show ?thesis
    using assms by (simp add: rx_queue_def)
qed

lemma tx_skip:
  assumes "tx_queue s' = q @ bs" and "tx_tail s' + of_nat (length q) = mark"
  shows "tx_queue (s'\<lparr>tx_tail := mark\<rparr>) = bs"
proof -
  have "length q \<le> unat (tx_head s' - tx_tail s')" using arg_cong [OF assms(1), of length] by (simp add: tx_queue_def)
  from ring_list_skip [OF this, of TX_BITS "the (tx_buf s')"] show ?thesis
    using assms by (simp add: tx_queue_def)
qed

lemma queue_ends:
  assumes "settled s"
  shows "rx_tail s + of_nat (length (rx_queue s)) = rx_head s" "tx_tail s + of_nat (length (tx_queue s)) = tx_head s"
    "length (rx_queue s) \<le> 4096" "length (tx_queue s) \<le> 1024"
    "skip_to (rx_tail s) (rx_head s) = rx_head s" "skip_to (tx_tail s) (tx_head s) = tx_head s"
  using assms by (auto intro!: skip_to_mark simp: rx_queue_def tx_queue_def settled_def rings_ok_def RX_SIZE_def TX_SIZE_def word_le_nat_alt)

lemma rx_push_frame:
  "snd (becker_rx_push bs (s\<lparr>rx_flush_req := r\<rparr>)) = (snd (becker_rx_push bs s))\<lparr>rx_flush_req := r\<rparr>"
  "fst (becker_rx_push bs (s\<lparr>rx_flush_req := r\<rparr>)) = fst (becker_rx_push bs s)"
  "rx_tail (snd (becker_rx_push bs s)) = rx_tail s" "rx_flush_mark (snd (becker_rx_push bs s)) = rx_flush_mark s"
  by (simp_all add: becker_rx_push_def Let_def)

lemma link_down_reads:
  assumes s: "settled s" and r: "\<not> reset_req s"
  defines "s1 \<equiv> becker_set_link_up False s"
  shows "tx_queue s1 = []" and "rx_queue (snd (becker_read_status (snd (becker_rx_push bs s1)))) = take (fst (becker_rx_push bs s1)) bs"
proof -
  let ?t = "s\<lparr>tx_tail := tx_head s, rx_flush_mark := rx_head s, link_up := False\<rparr>"
  let ?p = "becker_rx_push bs ?t"
  have e: "s1 = ?t\<lparr>rx_flush_req := True\<rparr>" using r by (simp add: s1_def becker_set_link_up_def Let_def)
  show "tx_queue s1 = []" by (simp add: e tx_queue_def)
  have t: "settled ?t" "rx_queue ?t = rx_queue s" using s by (simp_all add: settled_def rings_ok_def rx_queue_def)
  note q = queue_ends [OF s]
  have "rx_queue ((snd ?p)\<lparr>rx_tail := rx_head s\<rparr>) = take (fst ?p) bs"
    using rx_push_queue(3) [OF t(1), of bs] by (rule rx_skip) (simp add: rx_push_frame t q)
  moreover have "snd (becker_read_status (snd (becker_rx_push bs s1))) = (snd ?p)\<lparr>rx_tail := rx_head s, rx_flush_req := False\<rparr>"
    by (simp add: e rx_push_frame becker_read_status_def service_rx_flush_def q Let_def)
  ultimately show "rx_queue (snd (becker_read_status (snd (becker_rx_push bs s1)))) = take (fst (becker_rx_push bs s1)) bs"
    by (simp add: e rx_push_frame rx_queue_def)
qed

lemma writes_queue:
  "settled s \<Longrightarrow> length bs \<le> 1024 - length (tx_queue s) \<Longrightarrow> settled (fold becker_write_data bs s) \<and>
    tx_queue (fold becker_write_data bs s) = tx_queue s @ bs"
proof (induction bs arbitrary: s)
  case (Cons b bs)
  moreover from this have "length (tx_queue s) < 1024" by simp
  ultimately show ?case using write_data_queue [of s b] by simp
qed simp

lemma write_frame:
  "becker_write_data b (s\<lparr>rx_tail := x, tx_flush_mark := y, tx_flush_req := z, reset_req := w\<rparr>) =
    (becker_write_data b s)\<lparr>rx_tail := x, tx_flush_mark := y, tx_flush_req := z, reset_req := w\<rparr>"
  "tx_tail (becker_write_data b s) = tx_tail s" "rx_head (becker_write_data b s) = rx_head s"
  "tx_flush_req (becker_write_data b s) = tx_flush_req s"
  by (simp_all add: becker_write_data_def Let_def)

lemma writes_frame:
  "fold becker_write_data bs (s\<lparr>rx_tail := x, tx_flush_mark := y, tx_flush_req := z, reset_req := w\<rparr>) =
    (fold becker_write_data bs s)\<lparr>rx_tail := x, tx_flush_mark := y, tx_flush_req := z, reset_req := w\<rparr>"
  "tx_tail (fold becker_write_data bs s) = tx_tail s" "rx_head (fold becker_write_data bs s) = rx_head s"
  "tx_flush_req (fold becker_write_data bs s) = tx_flush_req s"
  by (induction bs arbitrary: s) (simp_all add: write_frame)

lemma reset_pops:
  assumes s: "settled s" and en: "g_becker_enabled s" and len: "length bs \<le> 1024 - length (tx_queue s)"
  shows "fst (becker_tx_pop k (fold becker_write_data bs (becker_reset s))) = take k bs"
proof -
  let ?w = "fold becker_write_data bs s"
  note q = queue_ends [OF s] and w = writes_queue [OF s len]
  let ?v = "?w\<lparr>rx_tail := rx_head s, tx_flush_mark := tx_head s, tx_flush_req := False, reset_req := True, tx_tail := tx_head s\<rparr>"
  have tq: "tx_queue (?w\<lparr>tx_tail := tx_head s\<rparr>) = bs"
    using w by (intro tx_skip [where q = "tx_queue s"]) (simp_all add: writes_frame q)
  have "unat (tx_head ?w - tx_head s) = length (tx_queue (?w\<lparr>tx_tail := tx_head s\<rparr>))" by (simp add: tx_queue_def)
  then have "unat (tx_head ?w - tx_head s) = length bs" by (simp only: tq)
  then have "tx_head ?w - tx_head s \<le> TX_SIZE" using len by (simp add: TX_SIZE_def word_le_nat_alt)
  then have v: "settled ?v" using w by (simp add: settled_def rings_ok_def writes_frame)
  have "service_tx_flush (fold becker_write_data bs (becker_reset s)) = ?v"
    using en by (simp add: becker_reset_def writes_frame service_tx_flush_def q Let_def)
  then have "becker_tx_pop k (fold becker_write_data bs (becker_reset s)) = becker_tx_pop k ?v"
    using v by (simp add: becker_tx_pop_def service_tx_flush_def settled_def)
  then show ?thesis using tx_pop_queue(2) [OF v, of k] tq by (simp add: tx_queue_def)
qed

text \<open>
  C28: What a flush drops and what it keeps. When the link goes down (no reset in progress), the bytes the
  CoCo wrote are dropped at once and the bytes it has not read are dropped at its next access, while
  bytes the back end pushed in between survive; and after a CoCo reset the back end, at its next pop,
  gets exactly the bytes the CoCo wrote since.
\<close>

theorem becker_flush:
  assumes "settled s"
  shows "(\<not> reset_req s \<longrightarrow>
      (let s1 = becker_set_link_up False s; (n, s2) = becker_rx_push bs s1
       in tx_queue s1 = [] \<and> rx_queue (snd (becker_read_status s2)) = take n bs)) \<and>
    (g_becker_enabled s \<and> length bs \<le> 1024 - length (tx_queue s) \<longrightarrow>
      fst (becker_tx_pop k (fold becker_write_data bs (becker_reset s))) = take k bs)"
  using link_down_reads(1) [OF assms] link_down_reads(2) [OF assms, of bs] reset_pops [OF assms, of bs k] by (simp add: Let_def case_prod_unfold)

definition demo_becker :: "unit becker" where
  "demo_becker =
     \<lparr>g_becker_enabled = True, g_becker_tx_pending = False, rx_buf = Some (\<lambda>_. 0), tx_buf = Some (\<lambda>_. 0),
      rx_head = 0xFFFFFFFE, rx_tail = 0xFFFFFFFE, tx_head = 0, tx_tail = 0, rx_flush_req = False, rx_flush_mark = 0,
      tx_flush_req = False, tx_flush_mark = 0, reset_req = False, link_up = True, bytes_to_coco = 0,
      bytes_from_coco = 0, backend_task = None\<rparr>"

lemma demo_becker_ok: "settled demo_becker" "\<not> reset_req demo_becker" "g_becker_enabled demo_becker" "tx_queue demo_becker = []"
  by (simp_all add: demo_becker_def settled_def rings_ok_def tx_queue_def RX_SIZE_def TX_SIZE_def)

lemma becker_flush_witness:
  "tx_queue (becker_set_link_up False demo_becker) = [] \<and>
   fst (becker_tx_pop 8 (fold becker_write_data [1, 2, 3] (becker_reset demo_becker))) = [1, 2, 3]"
  using becker_flush [OF demo_becker_ok(1), where bs = "[1, 2, 3]" and k = 8] demo_becker_ok(2,3,4)
  by (simp add: Let_def case_prod_unfold)

end
