(* ===== verification/Becker_Race.thy ===== *)
theory Becker_Race
  imports Becker
begin

text \<open>
  The rings of \<open>src/src/core/becker.cpp\<close> under interleaving of the two cores. Both rings have the same
  shape: the producer reads its own index and the other side's, stores bytes, and publishes them by
  moving its index; the consumer services a pending flush, reads the indices, copies, and moves its
  index. Here every access to shared memory is a step of its own and the steps of the two cores mix
  freely (the code separates them by full barriers). Each side keeps its local variables in its
  program counter. \<open>accepted\<close>, \<open>delivered\<close>, \<open>taken\<close>, \<open>marked\<close> and \<open>dropped\<close> are ghosts: the bytes
  published and handed out so far, how many have left the ring, the count at the last flush request,
  and the positions skipped.
\<close>

section \<open>Steps\<close>

datatype producer =
    P_idle
  | P_store u32 "u8 list" nat
  | P_mark

datatype consumer =
    C_idle
  | C_skip nat
  | C_clear nat
  | C_start nat
  | C_copy u32 nat "u8 list"

record race =
  buf :: "nat \<Rightarrow> u8"
  head :: u32
  tail :: u32
  mark :: u32
  req :: bool
  ppc :: producer
  cpc :: consumer
  accepted :: "u8 list"
  delivered :: "u8 list"
  taken :: nat
  marked :: nat
  dropped :: "nat set"

inductive producer_step :: "nat \<Rightarrow> race \<Rightarrow> race \<Rightarrow> bool" for k :: nat where
  push_start: "ppc s = P_idle \<Longrightarrow> n = min (length bs) (unat (2 ^ k - (head s - tail s))) \<Longrightarrow>
    producer_step k s (s\<lparr>ppc := P_store (head s) (take n bs) 0\<rparr>)"
| push_byte: "ppc s = P_store h ys i \<Longrightarrow> i < length ys \<Longrightarrow>
    producer_step k s (s\<lparr>buf := (buf s)(ring_cell k (h + of_nat i) := ys ! i), ppc := P_store h ys (Suc i)\<rparr>)"
| push_publish: "ppc s = P_store h ys (length ys) \<Longrightarrow>
    producer_step k s (s\<lparr>head := h + of_nat (length ys), accepted := accepted s @ ys, ppc := P_idle\<rparr>)"
| flush_mark: "ppc s = P_idle \<Longrightarrow>
    producer_step k s (s\<lparr>mark := head s, marked := length (accepted s), ppc := P_mark\<rparr>)"
| flush_request: "ppc s = P_mark \<Longrightarrow> producer_step k s (s\<lparr>req := True, ppc := P_idle\<rparr>)"

inductive consumer_step :: "nat \<Rightarrow> race \<Rightarrow> race \<Rightarrow> bool" for k :: nat where
  pop_check: "cpc s = C_idle \<Longrightarrow>
    consumer_step k s (s\<lparr>cpc := (if req s then C_skip m else C_start m)\<rparr>)"
| pop_skip: "cpc s = C_skip m \<Longrightarrow>
    consumer_step k s (s\<lparr>tail := skip_to (tail s) (mark s), taken := max (taken s) (marked s),
      dropped := dropped s \<union> {taken s..<marked s}, cpc := C_clear m\<rparr>)"
| pop_clear: "cpc s = C_clear m \<Longrightarrow> consumer_step k s (s\<lparr>req := False, cpc := C_start m\<rparr>)"
| pop_start: "cpc s = C_start m \<Longrightarrow>
    consumer_step k s (s\<lparr>cpc := C_copy (tail s) (min (unat (head s - tail s)) m) []\<rparr>)"
| pop_byte: "cpc s = C_copy t n acc \<Longrightarrow> length acc < n \<Longrightarrow>
    consumer_step k s (s\<lparr>cpc := C_copy t n (acc @ [buf s (ring_cell k (t + of_nat (length acc)))])\<rparr>)"
| pop_finish: "cpc s = C_copy t (length acc) acc \<Longrightarrow>
    consumer_step k s (s\<lparr>tail := t + of_nat (length acc), delivered := delivered s @ acc,
      taken := taken s + length acc, cpc := C_idle\<rparr>)"

inductive ring_run :: "nat \<Rightarrow> race \<Rightarrow> race \<Rightarrow> bool" for k :: nat where
  run_refl: "ring_run k s s"
| run_producer: "ring_run k s t \<Longrightarrow> producer_step k t u \<Longrightarrow> ring_run k s u"
| run_consumer: "ring_run k s t \<Longrightarrow> consumer_step k t u \<Longrightarrow> ring_run k s u"

text \<open>\<open>becker_init\<close>: both indices zero.\<close>

definition race_init :: "(nat \<Rightarrow> u8) \<Rightarrow> u32 \<Rightarrow> race" where
  "race_init b m = \<lparr>buf = b, head = 0, tail = 0, mark = m, req = False, ppc = P_idle, cpc = C_idle,
     accepted = [], delivered = [], taken = 0, marked = 0, dropped = {}\<rparr>"

section \<open>Invariant\<close>

definition slots_ok :: "nat \<Rightarrow> race \<Rightarrow> bool" where
  "slots_ok k s \<longleftrightarrow>
     head s = of_nat (length (accepted s)) \<and> tail s = of_nat (taken s) \<and>
     taken s \<le> length (accepted s) \<and> length (accepted s) \<le> taken s + 2 ^ k \<and> marked s \<le> length (accepted s) \<and>
     (\<forall>i. taken s \<le> i \<and> i < length (accepted s) \<longrightarrow> buf s (i mod 2 ^ k) = accepted s ! i)"

definition ghosts_ok :: "race \<Rightarrow> bool" where
  "ghosts_ok s \<longleftrightarrow> delivered s = nths (accepted s) ({..<taken s} - dropped s) \<and>
     dropped s \<subseteq> {..<taken s} \<and> dropped s \<subseteq> {..<marked s}"

definition producer_ok :: "nat \<Rightarrow> race \<Rightarrow> bool" where
  "producer_ok k s \<longleftrightarrow>
     (case ppc s of
        P_idle \<Rightarrow> True
      | P_mark \<Rightarrow> mark s = of_nat (marked s) \<and> marked s = length (accepted s)
      | P_store h ys i \<Rightarrow> h = of_nat (length (accepted s)) \<and> i \<le> length ys \<and>
          length (accepted s) + length ys \<le> taken s + 2 ^ k \<and>
          (\<forall>j<i. buf s ((length (accepted s) + j) mod 2 ^ k) = ys ! j))"

definition consumer_ok :: "nat \<Rightarrow> race \<Rightarrow> bool" where
  "consumer_ok k s \<longleftrightarrow>
     (req s \<longrightarrow> mark s = of_nat (marked s)) \<and>
     (case cpc s of
        C_idle \<Rightarrow> req s \<longrightarrow> taken s \<le> marked s + 2 ^ k
      | C_skip m \<Rightarrow> req s \<and> taken s \<le> marked s + 2 ^ k
      | C_clear m \<Rightarrow> True
      | C_start m \<Rightarrow> req s \<longrightarrow> taken s \<le> marked s
      | C_copy t n acc \<Rightarrow> (req s \<longrightarrow> taken s \<le> marked s) \<and> t = of_nat (taken s) \<and> length acc \<le> n \<and> n \<le> 2 ^ k \<and>
          taken s + n \<le> length (accepted s) \<and> (\<forall>j<length acc. acc ! j = accepted s ! (taken s + j)))"

definition race_inv :: "nat \<Rightarrow> race \<Rightarrow> bool" where
  "race_inv k s \<longleftrightarrow> slots_ok k s \<and> ghosts_ok s \<and> producer_ok k s \<and> consumer_ok k s"

lemma race_init_inv: "race_inv k (race_init b m)"
  by (simp add: race_inv_def slots_ok_def ghosts_ok_def producer_ok_def consumer_ok_def race_init_def)

lemma cell_pos: "k \<le> 32 \<Longrightarrow> ring_cell k (of_nat p + of_nat i) = (p + i) mod 2 ^ k"
  using ring_cell_mod [of k 0 "p + i"] by simp

lemma pos_diff: "t \<le> h \<Longrightarrow> h \<le> t + 2 ^ k \<Longrightarrow> k \<le> 30 \<Longrightarrow> unat ((of_nat h :: u32) - of_nat t) = h - t"
proof -
  assume a: "t \<le> h" "h \<le> t + 2 ^ k" "k \<le> 30"
  have "(2 :: nat) ^ k \<le> 2 ^ 30" using a(3) by (intro power_increasing) simp_all
  then have "h - t < 2 ^ 32" using a by simp
  moreover have "(of_nat h :: u32) - of_nat t = of_nat (h - t)" using a(1) by (simp add: of_nat_diff)
  ultimately show ?thesis by (simp add: unsigned_of_nat take_bit_nat_eq_self_iff)
qed

lemma skip_pos:
  assumes "k \<le> 30" and "m \<le> t + 2 ^ k" and "t \<le> m + 2 ^ k"
  shows "skip_to (of_nat t) (of_nat m) = of_nat (max t m)"
proof -
  have p: "(2 :: nat) ^ k \<le> 2 ^ 30" using assms(1) by (intro power_increasing) simp_all
  show ?thesis
  proof (cases "t \<le> m")
    case True
    then have "unat ((of_nat m :: u32) - of_nat t) < 2 ^ 31" using assms p by (subst pos_diff [of t m k]) auto
    then show ?thesis using True by (simp add: skip_to_mark)
  next
    case False
    let ?d = "(of_nat t :: u32) - of_nat m"
    have "unat ?d = t - m" using assms False by (intro pos_diff) auto
    then have d: "unat ?d < 2 ^ 31" "0 < unat ?d" using assms p False by auto
    have "sint (- ?d) = - sint ?d"
    proof -
      have "sint (- ?d) = signed_take_bit 31 (- sint ?d)" by (simp only: sint_word_ariths) simp
      also have "\<dots> = - sint ?d"
      proof -
        have "- (2 ^ 31) \<le> - int n \<and> - int n < 2 ^ 31" if "n < 2 ^ 31" for n using that by simp
        then show ?thesis unfolding sint_small [OF d(1)] using d(1) by (intro signed_take_bit_int_eq_self) blast+
      qed
      finally show ?thesis .
    qed
    then have "\<not> 0 < sint ((of_nat m :: u32) - of_nat t)" using d sint_small [of ?d] by simp
    then show ?thesis using False by (simp add: skip_to_def)
  qed
qed

lemma nths_prefix:
  assumes "D \<subseteq> {..<t}" and "t + n \<le> length xs"
  shows "nths xs ({..<t + n} - D) = nths xs ({..<t} - D) @ take n (drop t xs)"
proof -
  have split: "nths xs S = nths (take t xs) S @ nths (drop t xs) {j. j + t \<in> S}" for S
    using nths_append [of "take t xs" "drop t xs" S] assms(2) by (simp add: min_def)
  have "{j. j + t \<in> {..<t + n} - D} = {..<n}" "{j. j + t \<in> {..<t} - D} = {}" using assms(1) by auto
  moreover have "nths (take t xs) ({..<t + n} - D) = nths (take t xs) ({..<t} - D)"
    unfolding nths_def by (rule arg_cong [where f = "map fst"]) (rule filter_cong, auto dest: set_zip_rightD)
  ultimately show ?thesis unfolding split [of "{..<t + n} - D"] split [of "{..<t} - D"]
    by (simp add: nths_upt_eq_take)
qed

lemma nths_grow: "S \<subseteq> {..<length xs} \<Longrightarrow> nths (xs @ ys) S = nths xs S"
proof -
  assume "S \<subseteq> {..<length xs}"
  then have "{j. j + length xs \<in> S} = {}" by auto
  then show ?thesis by (simp add: nths_append)
qed

section \<open>The producer keeps the invariant\<close>

lemmas inv_defs = race_inv_def slots_ok_def ghosts_ok_def producer_ok_def consumer_ok_def

lemma consumer_frame [simp]:
  "consumer_ok k (s\<lparr>ppc := p\<rparr>) = consumer_ok k s" "consumer_ok k (s\<lparr>buf := b\<rparr>) = consumer_ok k s"
  by (simp_all add: consumer_ok_def split: consumer.split)

lemma room_left:
  assumes "k \<le> 30" and "race_inv k s"
  shows "unat (head s - tail s) = length (accepted s) - taken s"
    and "unat (2 ^ k - (head s - tail s)) = taken s + 2 ^ k - length (accepted s)"
proof -
  have d: "unat (head s - tail s) = length (accepted s) - taken s" "taken s \<le> length (accepted s)" "length (accepted s) \<le> taken s + 2 ^ k"
    using assms pos_diff [of "taken s" "length (accepted s)" k] by (auto simp: race_inv_def slots_ok_def)
  show "unat (head s - tail s) = length (accepted s) - taken s" by (rule d(1))
  have "(2 :: nat) ^ k < 2 ^ 32" using assms(1) by (intro power_strict_increasing) simp_all
  then have "unat (of_nat (2 ^ k) :: u32) = 2 ^ k" using assms(1) by (simp only: unsigned_of_nat) (simp add: take_bit_nat_eq_self_iff)
  then have p: "unat (2 ^ k :: u32) = 2 ^ k" by (metis of_nat_numeral of_nat_power)
  then have "unat (2 ^ k - (head s - tail s)) = 2 ^ k - unat (head s - tail s)"
    using d by (subst unat_sub) (simp_all add: word_le_nat_alt)
  then show "unat (2 ^ k - (head s - tail s)) = taken s + 2 ^ k - length (accepted s)" using d by simp
qed

lemma push_start_keeps:
  assumes "k \<le> 30" and "race_inv k s" and "ppc s = P_idle" and "n = min (length bs) (unat (2 ^ k - (head s - tail s)))"
  shows "race_inv k (s\<lparr>ppc := P_store (head s) (take n bs) 0\<rparr>)"
proof -
  have a: "length (accepted s) \<le> taken s + 2 ^ k" "head s = of_nat (length (accepted s))"
    using assms(2) by (simp_all add: race_inv_def slots_ok_def)
  have "length (accepted s) + length (take n bs) \<le> taken s + 2 ^ k"
    using a(1) by (simp add: assms(4) room_left [OF assms(1,2)])
  then have "producer_ok k (s\<lparr>ppc := P_store (head s) (take n bs) 0\<rparr>)"
    using a(2) by (simp add: producer_ok_def del: length_take)
  then show ?thesis
    using assms(2) by (simp add: race_inv_def) (simp add: slots_ok_def ghosts_ok_def)
qed

lemma push_byte_keeps:
  assumes k: "k \<le> 30" and i: "race_inv k s" and p: "ppc s = P_store h ys j" and j: "j < length ys"
  shows "race_inv k (s\<lparr>buf := (buf s)(ring_cell k (h + of_nat j) := ys ! j), ppc := P_store h ys (Suc j)\<rparr>)"
proof -
  have a: "h = of_nat (length (accepted s))" "length (accepted s) + length ys \<le> taken s + 2 ^ k"
    "\<And>i. i < j \<Longrightarrow> buf s ((length (accepted s) + i) mod 2 ^ k) = ys ! i"
    using i p by (simp_all add: race_inv_def producer_ok_def)
  have t: "taken s \<le> length (accepted s)" using i by (simp add: race_inv_def slots_ok_def)
  have k': "k \<le> 32" using k by simp
  have far: "x mod 2 ^ k \<noteq> (length (accepted s) + j) mod 2 ^ k" if "taken s \<le> x" "x < length (accepted s) + j" for x
  proof -
    have "ring_cell k (0 + of_nat x) \<noteq> ring_cell k (0 + of_nat (length (accepted s) + j))"
      using that j a(2) by (intro ring_cell_inj [OF k']) auto
    then show ?thesis unfolding ring_cell_mod [OF k'] by simp
  qed
  let ?s = "s\<lparr>buf := (buf s)((length (accepted s) + j) mod 2 ^ k := ys ! j), ppc := P_store h ys (Suc j)\<rparr>"
  have "slots_ok k ?s" using i far j by (auto simp: race_inv_def slots_ok_def)
  moreover have "producer_ok k ?s" using a far t j by (simp add: producer_ok_def less_Suc_eq)
  moreover have "ghosts_ok ?s" "consumer_ok k ?s" using i by (simp_all add: race_inv_def ghosts_ok_def)
  ultimately show ?thesis by (simp add: race_inv_def a(1) cell_pos [OF k'])
qed

lemma push_publish_keeps:
  assumes i: "race_inv k s" and p: "ppc s = P_store h ys (length ys)"
  shows "race_inv k (s\<lparr>head := h + of_nat (length ys), accepted := accepted s @ ys, ppc := P_idle\<rparr>)"
proof -
  let ?s = "s\<lparr>head := h + of_nat (length ys), accepted := accepted s @ ys, ppc := P_idle\<rparr>"
  have a: "h = of_nat (length (accepted s))" "length (accepted s) + length ys \<le> taken s + 2 ^ k"
    "\<And>i. i < length ys \<Longrightarrow> buf s ((length (accepted s) + i) mod 2 ^ k) = ys ! i"
    using i p by (simp_all add: race_inv_def producer_ok_def)
  have g: "nths (accepted s @ ys) ({..<taken s} - dropped s) = nths (accepted s) ({..<taken s} - dropped s)"
    using i by (intro nths_grow) (auto simp: race_inv_def slots_ok_def)
  have "buf s (x mod 2 ^ k) = ys ! (x - length (accepted s))"
    if "length (accepted s) \<le> x" "x < length (accepted s) + length ys" for x
    using a(3) [of "x - length (accepted s)"] that by simp
  then have "slots_ok k ?s" using i a by (auto simp: race_inv_def slots_ok_def nth_append)
  moreover have "ghosts_ok ?s" using i g by (simp add: race_inv_def ghosts_ok_def)
  moreover have "producer_ok k ?s" by (simp add: producer_ok_def)
  moreover have "consumer_ok k ?s" using i by (auto simp: race_inv_def consumer_ok_def nth_append split: consumer.splits)
  ultimately show ?thesis by (simp add: race_inv_def)
qed

lemma producer_keeps:
  assumes k: "k \<le> 30" and i: "race_inv k s" and p: "producer_step k s s'"
  shows "race_inv k s'"
  using p
proof cases
  case (push_start n bs)
  then show ?thesis using push_start_keeps [OF k i] by simp
next
  case (push_byte h ys j)
  then show ?thesis using push_byte_keeps [OF k i] by simp
next
  case (push_publish h ys)
  then show ?thesis using push_publish_keeps [OF i] by simp
next
  case flush_mark
  then show ?thesis using i by (auto simp: inv_defs split: consumer.splits)
next
  case flush_request
  then show ?thesis using i by (auto simp: inv_defs split: consumer.splits)
qed

section \<open>The consumer keeps the invariant\<close>

lemma consumer_keeps:
  assumes k: "k \<le> 30" and i: "race_inv k s" and c: "consumer_step k s s'"
  shows "race_inv k s'"
  using c
proof cases
  case (pop_check m)
  then show ?thesis
    using i by (auto simp: race_inv_def slots_ok_def ghosts_ok_def producer_ok_def consumer_ok_def split: producer.splits)
next
  case (pop_skip m)
  have b: "mark s = of_nat (marked s)" "tail s = of_nat (taken s)" "marked s \<le> taken s + 2 ^ k" "taken s \<le> marked s + 2 ^ k"
    using i pop_skip by (auto simp: race_inv_def slots_ok_def consumer_ok_def)
  have "skip_to (tail s) (mark s) = of_nat (max (taken s) (marked s))" using skip_pos [OF k b(3,4)] b by simp
  moreover have "{..<max (taken s) (marked s)} - (dropped s \<union> {taken s..<marked s}) = {..<taken s} - dropped s"
    by (auto simp: max_def)
  ultimately show ?thesis
    using i pop_skip by (auto simp: race_inv_def slots_ok_def ghosts_ok_def producer_ok_def consumer_ok_def max_def split: producer.splits)
next
  case (pop_clear m)
  then show ?thesis
    using i by (auto simp: race_inv_def slots_ok_def ghosts_ok_def producer_ok_def consumer_ok_def split: producer.splits)
next
  case (pop_start m)
  have "unat (head s - tail s) = length (accepted s) - taken s"
    using i pos_diff [of "taken s" "length (accepted s)" k] k by (auto simp: race_inv_def slots_ok_def)
  then show ?thesis
    using i pop_start by (auto simp: race_inv_def slots_ok_def ghosts_ok_def producer_ok_def consumer_ok_def split: producer.splits)
next
  case (pop_byte t n acc)
  have "buf s (ring_cell k (t + of_nat (length acc))) = accepted s ! (taken s + length acc)"
    using i pop_byte k by (simp add: race_inv_def slots_ok_def consumer_ok_def cell_pos)
  then show ?thesis
    using i pop_byte
    by (auto simp: race_inv_def slots_ok_def ghosts_ok_def producer_ok_def consumer_ok_def nth_append less_Suc_eq split: producer.splits)
next
  case (pop_finish t acc)
  have a: "taken s + length acc \<le> length (accepted s)" "\<forall>j<length acc. acc ! j = accepted s ! (taken s + j)"
    using i pop_finish by (simp_all add: race_inv_def consumer_ok_def)
  then have "acc = take (length acc) (drop (taken s) (accepted s))" by (intro nth_equalityI) simp_all
  then have "delivered s @ acc = nths (accepted s) ({..<taken s + length acc} - dropped s)"
    using i a nths_prefix [of "dropped s" "taken s" "length acc" "accepted s"] by (simp add: race_inv_def ghosts_ok_def)
  then show ?thesis
    using i pop_finish a by (auto simp: race_inv_def slots_ok_def ghosts_ok_def producer_ok_def consumer_ok_def split: producer.splits)
qed

lemma run_keeps: "ring_run k s s' \<Longrightarrow> k \<le> 30 \<Longrightarrow> race_inv k s \<Longrightarrow> race_inv k s'"
  by (induction rule: ring_run.induct) (auto intro: producer_keeps consumer_keeps)

text \<open>
  C17: The lock-free rings lose nothing but what a flush drops, whatever the two cores interleave. In every
  state reachable from \<open>becker_init\<close>, with free-running 32-bit indices and any number of bytes: what the
  consumer was handed is, in order and each byte once, what the producer published, less the positions
  skipped by flushes; a flush skips only positions published before its request; and what is still in
  the ring is the rest, at most the size of the ring. Without a flush request the consumer gets exactly
  the published bytes.
\<close>

theorem becker_race_fifo:
  assumes "ring_run k (race_init b m) s" and "k \<le> 30"
  shows "delivered s = nths (accepted s) ({..<taken s} - dropped s) \<and> dropped s \<subseteq> {..<marked s} \<and>
    ring_list k (buf s) (tail s) (unat (head s - tail s)) = drop (taken s) (accepted s) \<and>
    length (accepted s) \<le> taken s + 2 ^ k \<and>
    (dropped s = {} \<longrightarrow> delivered s @ ring_list k (buf s) (tail s) (unat (head s - tail s)) = accepted s)"
proof -
  have i: "race_inv k s" using run_keeps [OF assms] race_init_inv by blast
  then have n: "unat (head s - tail s) = length (accepted s) - taken s" "tail s = of_nat (taken s)" "taken s \<le> length (accepted s)"
    using pos_diff [of "taken s" "length (accepted s)" k] assms(2) by (auto simp: race_inv_def slots_ok_def)
  have "ring_list k (buf s) (tail s) (unat (head s - tail s)) = drop (taken s) (accepted s)"
    using i n assms(2) unfolding ring_list_def by (intro nth_equalityI) (simp_all add: cell_pos race_inv_def slots_ok_def)
  moreover have "nths (accepted s) {..<taken s} = take (taken s) (accepted s)" by (rule nths_upt_eq_take)
  ultimately show ?thesis using i by (auto simp: race_inv_def ghosts_ok_def slots_ok_def)
qed

section \<open>The atomic operations\<close>

text \<open>Run without interference, the steps of a push are \<open>becker_rx_push\<close> and those of a pop
  \<open>becker_tx_pop\<close>, on the same indices and buffer.\<close>

lemma push_stores:
  "i \<le> length ys \<Longrightarrow> ppc s = P_store h ys i \<Longrightarrow>
    ring_run k s0 s \<Longrightarrow> ring_run k s0 (s\<lparr>buf := fold (\<lambda>i b. b(ring_cell k (h + of_nat i) := ys ! i)) [i..<length ys] (buf s),
      ppc := P_store h ys (length ys)\<rparr>)"
proof (induction "length ys - i" arbitrary: i s)
  case 0
  then have "i = length ys" "s\<lparr>ppc := P_store h ys i\<rparr> = s" by (simp, cases s, simp)
  then show ?case using "0.prems"(3) by simp
next
  case (Suc n)
  let ?s = "s\<lparr>buf := (buf s)(ring_cell k (h + of_nat i) := ys ! i), ppc := P_store h ys (Suc i)\<rparr>"
  have i: "i < length ys" using Suc.hyps(2) by simp
  have "ring_run k s0 ?s" using run_producer [OF Suc.prems(3) push_byte [OF Suc.prems(2) i]] .
  then have "ring_run k s0 (?s\<lparr>buf := fold (\<lambda>i b. b(ring_cell k (h + of_nat i) := ys ! i)) [Suc i..<length ys] (buf ?s), ppc := P_store h ys (length ys)\<rparr>)"
    using Suc.hyps(1) [of "Suc i" ?s] Suc.hyps(2) i by simp
  then show ?case using i by (simp add: upt_conv_Cons)
qed

lemma push_alone:
  fixes b :: "'b becker"
  assumes "ppc s = P_idle" and "rx_buf b = Some (buf s)" and "rx_head b = head s" and "rx_tail b = tail s"
  shows "\<exists>s'. ring_run RX_BITS s s' \<and> ppc s' = P_idle \<and> accepted s' = accepted s @ take (fst (becker_rx_push bs b)) bs \<and>
    rx_buf (snd (becker_rx_push bs b)) = Some (buf s') \<and> rx_head (snd (becker_rx_push bs b)) = head s'"
proof -
  define n where "n = fst (becker_rx_push bs b)"
  have n: "n = min (length bs) (unat (2 ^ RX_BITS - (head s - tail s)))"
    by (simp add: n_def becker_rx_push_def Let_def assms RX_SIZE_def RX_BITS_def)
  let ?s1 = "s\<lparr>ppc := P_store (head s) (take n bs) 0\<rparr>"
  have "ring_run RX_BITS s ?s1" by (rule run_producer [OF run_refl push_start [OF assms(1) n]])
  from push_stores [OF _ _ this, of 0 "take n bs" "head s"]
  have "ring_run RX_BITS s (?s1\<lparr>buf := ring_store RX_BITS (head s) (take n bs) (buf s), ppc := P_store (head s) (take n bs) (length (take n bs))\<rparr>)"
    (is "ring_run _ _ ?s2") by (simp add: ring_store_def)
  moreover have "ppc ?s2 = P_store (head s) (take n bs) (length (take n bs))" by simp
  ultimately have "ring_run RX_BITS s (?s2\<lparr>head := head s + of_nat (length (take n bs)), accepted := accepted ?s2 @ take n bs, ppc := P_idle\<rparr>)"
    by (intro run_producer [OF _ push_publish])
  then show ?thesis
    by (intro exI conjI) (auto simp: n_def becker_rx_push_def Let_def assms min_def)
qed

text \<open>Two flush requests whose services overlap: the second request is cleared with the first, and the
  byte published between them stays in the ring although it was published before that request.\<close>

definition lost_flush :: race where
  "lost_flush = \<lparr>buf = (\<lambda>_. 0)(0 := 0x41), head = 1, tail = 0, mark = 1, req = False, ppc = P_idle, cpc = C_start 1,
     accepted = [0x41], delivered = [], taken = 0, marked = 1, dropped = {}\<rparr>"

lemma becker_flush_lost: "ring_run 12 (race_init (\<lambda>_. 0) 0) lost_flush"
proof -
  let ?s0 = "race_init (\<lambda>_. 0) 0"
  note c = run_consumer [OF _ pop_check] and p = run_producer
  have "ring_run 12 ?s0 (?s0\<lparr>mark := 0, marked := 0, ppc := P_mark\<rparr>)" (is "ring_run _ _ ?s1")
    using run_producer [OF run_refl [of 12 ?s0] flush_mark] by (simp add: race_init_def)
  then have "ring_run 12 ?s0 (?s1\<lparr>req := True, ppc := P_idle\<rparr>)" (is "ring_run _ _ ?s2")
    using run_producer [OF _ flush_request, of 12 ?s0 ?s1] by simp
  then have "ring_run 12 ?s0 (?s2\<lparr>cpc := C_skip 1\<rparr>)" (is "ring_run _ _ ?s3")
    using run_consumer [OF _ pop_check, of 12 ?s0 ?s2 1] by (simp add: race_init_def)
  then have "ring_run 12 ?s0 (?s3\<lparr>cpc := C_clear 1\<rparr>)" (is "ring_run _ _ ?s4")
    using run_consumer [OF _ pop_skip, of 12 ?s0 ?s3 1] by (simp add: race_init_def skip_to_def)
  then have "ring_run 12 ?s0 (?s4\<lparr>ppc := P_store 0 [0x41] 0\<rparr>)" (is "ring_run _ _ ?s5")
    using run_producer [OF _ push_start, of 12 ?s0 ?s4 _ "[0x41]"] by (simp add: race_init_def)
  then have "ring_run 12 ?s0 (?s5\<lparr>buf := (\<lambda>_. 0)(0 := 0x41), ppc := P_store 0 [0x41] 1\<rparr>)" (is "ring_run _ _ ?s6")
    using run_producer [OF _ push_byte, of 12 ?s0 ?s5 0 "[0x41]" 0] by (simp add: race_init_def ring_cell_def)
  then have "ring_run 12 ?s0 (?s6\<lparr>head := 1, accepted := [0x41], ppc := P_idle\<rparr>)" (is "ring_run _ _ ?s7")
    using run_producer [OF _ push_publish, of 12 ?s0 ?s6 0 "[0x41]"] by (simp add: race_init_def)
  then have "ring_run 12 ?s0 (?s7\<lparr>mark := 1, marked := 1, ppc := P_mark\<rparr>)" (is "ring_run _ _ ?s8")
    using run_producer [OF _ flush_mark, of 12 ?s0 ?s7] by (simp add: race_init_def)
  then have "ring_run 12 ?s0 (?s8\<lparr>req := True, ppc := P_idle\<rparr>)" (is "ring_run _ _ ?s9")
    using run_producer [OF _ flush_request, of 12 ?s0 ?s8] by simp
  then have "ring_run 12 ?s0 (?s9\<lparr>req := False, cpc := C_start 1\<rparr>)" (is "ring_run _ _ ?s10")
    using run_consumer [OF _ pop_clear, of 12 ?s0 ?s9 1] by simp
  then show ?thesis by (simp add: lost_flush_def race_init_def)
qed

lemma becker_race_fifo_witness:
  "delivered lost_flush @ ring_list 12 (buf lost_flush) (tail lost_flush) (unat (head lost_flush - tail lost_flush)) =
     accepted lost_flush"
  using becker_race_fifo [OF becker_flush_lost] by (simp add: lost_flush_def)

end
