(* ===== verification/Sv_Disk.thy ===== *)
theory Sv_Disk
  imports CoCo_Prelude
begin

text \<open>
  The WD1793-style floppy controller, \<open>src/src/supervisor/sv_disk.{h,cpp}\<close>: the registers and the
  transfers of the chip, images cached in RAM, mounting, ejecting and flushing. The SD card library and
  the heap are an argument, a record of operations on the file that is open. The two callbacks into the
  CPU come back as the list \<open>calls\<close>. The drive-table mutex has no counterpart: every operation is one
  step. A \<open>memcpy\<close> from a null cache is the value \<open>None\<close>.
\<close>

section \<open>State\<close>

definition SV_DISK_MAX_DRIVES :: nat where "SV_DISK_MAX_DRIVES = 4"
definition DISK_TRACKS :: u8 where "DISK_TRACKS = 35"
definition DISK_SECTORS :: u8 where "DISK_SECTORS = 18"
definition DISK_SECTOR_SIZE :: u32 where "DISK_SECTOR_SIZE = 256"
definition UINT32_MAX :: u32 where "UINT32_MAX = 0xFFFFFFFF"

record disk_image =
  path :: string
  mounted :: bool
  dirty :: bool
  read_only :: bool
  tracks :: u8
  sectors_per_track :: u8
  sector_size :: u16
  sides :: u8
  header_size :: u16
  image_size :: u32
  cache :: "u8 list option"
  cache_size :: u32
  dirty_map :: "u8 list option"

record sv_disk =
  command :: u8
  status :: u8
  track :: u8
  sector :: u8
  data_reg :: u8
  drive_select :: u8
  motor_on :: bool
  halt_enable :: bool
  density :: bool
  busy :: bool
  drq :: bool
  intrq :: bool
  intrq_defer :: u8
  step_direction :: int
  side :: u8
  sector_buf :: "u8 list"
  buf_pos :: u16
  buf_len :: u16
  reading :: bool
  read_pending :: bool
  writing :: bool
  write_track :: bool
  wt_state :: u8
  wt_f5_count :: u8
  wt_id_pos :: u8
  wt_id_sector :: u8
  wt_data_pos :: u16
  wt_byte_count :: u16
  drives :: "disk_image list"
  nmi_callback :: bool
  halt_callback :: bool
  calls :: "fdc_signal list"

text \<open>The selected drive's image, and a change of it.\<close>

definition disk :: "sv_disk \<Rightarrow> disk_image" where
  "disk f = drives f ! unat (drive_select f)"

definition set_disk :: "disk_image \<Rightarrow> sv_disk \<Rightarrow> sv_disk" where
  "set_disk d f = f\<lparr>drives := (drives f)[unat (drive_select f) := d]\<rparr>"

text \<open>\<open>memcpy\<close> into a buffer.\<close>

definition blit :: "nat \<Rightarrow> 'a list \<Rightarrow> 'a list \<Rightarrow> 'a list" where
  "blit off bs xs = take off xs @ bs @ drop (off + length bs) xs"

definition mark_sector :: "nat \<Rightarrow> u8 list \<Rightarrow> u8 list" where
  "mark_sector s dm = dm[s div 8 := dm ! (s div 8) OR push_bit (s mod 8) 1]"

definition sv_disk_mark_dirty :: "u32 \<Rightarrow> u32 \<Rightarrow> disk_image \<Rightarrow> disk_image" where
  "sv_disk_mark_dirty off len img =
     (let img = img\<lparr>dirty := True\<rparr>
      in if dirty_map img = None \<or> len = 0 then img
         else img\<lparr>dirty_map := map_option
           (fold mark_sector [unat (off div DISK_SECTOR_SIZE)..<Suc (unat ((off + len - 1) div DISK_SECTOR_SIZE))])
           (dirty_map img)\<rparr>)"

section \<open>Signals\<close>

definition signal_halt :: "bool \<Rightarrow> sv_disk \<Rightarrow> sv_disk" where
  "signal_halt h f = (if halt_callback f then f\<lparr>calls := calls f @ [FdcHalt h]\<rparr> else f)"

definition signal_nmi :: "bool \<Rightarrow> sv_disk \<Rightarrow> sv_disk" where
  "signal_nmi a f = (if nmi_callback f then f\<lparr>calls := calls f @ [FdcNmi a]\<rparr> else f)"

definition set_intrq :: "bool \<Rightarrow> sv_disk \<Rightarrow> sv_disk" where
  "set_intrq v f =
     (let f = f\<lparr>intrq := v\<rparr>;
          f = (if v then signal_halt False (f\<lparr>halt_enable := False\<rparr>) else f)
      in if \<not> density f \<and> intrq f then signal_nmi True f else signal_nmi False f)"

definition set_drq :: "bool \<Rightarrow> sv_disk \<Rightarrow> sv_disk" where
  "set_drq v f =
     (let f = f\<lparr>drq := v\<rparr>
      in if v then signal_halt False f else if halt_enable f then signal_halt True f else f)"

section \<open>Commands\<close>

definition sector_offset :: "disk_image \<Rightarrow> u8 \<Rightarrow> u8 \<Rightarrow> u8 \<Rightarrow> u32" where
  "sector_offset img trk sd sec =
     (if sec < 1 \<or> sec > sectors_per_track img then UINT32_MAX
      else if trk \<ge> tracks img then UINT32_MAX
      else if sd \<ge> sides img then UINT32_MAX
      else
        let linear_track = ucast trk * ucast (sides img) + ucast sd;
            offset = linear_track * ucast (sectors_per_track img) * ucast (sector_size img)
        in offset + (ucast sec - 1) * ucast (sector_size img))"

definition not_ready :: "sv_disk \<Rightarrow> sv_disk" where
  "not_ready f = (if \<not> mounted (disk f) then f\<lparr>status := status f OR 0x80\<rparr> else f)"

definition cmd_restore :: "sv_disk \<Rightarrow> sv_disk" where
  "cmd_restore f = (not_ready (f\<lparr>track := 0, step_direction := -1, status := 0x04\<rparr>))\<lparr>busy := False\<rparr>"

definition cmd_seek :: "sv_disk \<Rightarrow> sv_disk" where
  "cmd_seek f =
     (let f = f\<lparr>track := data_reg f\<rparr>
      in (not_ready (f\<lparr>status := (if track f = 0 then 0x04 else 0x00)\<rparr>))\<lparr>busy := False\<rparr>)"

definition cmd_read_sector :: "sv_disk \<Rightarrow> sv_disk" where
  "cmd_read_sector f =
     (if \<not> mounted (disk f) \<or> cache (disk f) = None then f\<lparr>status := 0x80, busy := False\<rparr>
      else f\<lparr>buf_pos := 0, buf_len := sector_size (disk f), reading := True, read_pending := True, drq := True,
             status := 0x03\<rparr>)"

definition cmd_write_sector :: "sv_disk \<Rightarrow> sv_disk" where
  "cmd_write_sector f =
     (if \<not> mounted (disk f) \<or> cache (disk f) = None then f\<lparr>status := 0x80, busy := False\<rparr>
      else if read_only (disk f) then f\<lparr>status := 0x40, busy := False\<rparr>
      else f\<lparr>buf_pos := 0, buf_len := sector_size (disk f), writing := True, drq := True, status := 0x03\<rparr>)"

definition cmd_read_address :: "sv_disk \<Rightarrow> sv_disk" where
  "cmd_read_address f =
     (let f = f\<lparr>sector_buf := blit 0 [track f, side f, sector f, 0x01, 0x00, 0x00] (sector_buf f)\<rparr>;
          f = f\<lparr>buf_pos := 0, buf_len := 6, reading := True, drq := True\<rparr>;
          f = f\<lparr>data_reg := sector_buf f ! 0, status := 0x03\<rparr>
      in f\<lparr>sector := track f\<rparr>)"

definition WT_IDLE :: u8 where "WT_IDLE = 0"
definition WT_ID_FIELD :: u8 where "WT_ID_FIELD = 1"
definition WT_WAIT_DAM :: u8 where "WT_WAIT_DAM = 2"
definition WT_DATA_FIELD :: u8 where "WT_DATA_FIELD = 3"
definition WT_TRACK_BYTES :: u16 where "WT_TRACK_BYTES = 6250"

definition cmd_write_track :: "sv_disk \<Rightarrow> sv_disk" where
  "cmd_write_track f =
     (if \<not> mounted (disk f) \<or> cache (disk f) = None then f\<lparr>status := 0x80, busy := False\<rparr>
      else if read_only (disk f) then f\<lparr>status := 0x40, busy := False\<rparr>
      else f\<lparr>write_track := True, wt_state := WT_IDLE, wt_f5_count := 0, wt_id_pos := 0, wt_id_sector := 1,
             wt_data_pos := 0, wt_byte_count := 0, drq := True, status := 0x03\<rparr>)"

definition cmd_force_interrupt :: "u8 \<Rightarrow> sv_disk \<Rightarrow> sv_disk" where
  "cmd_force_interrupt cmd f =
     (let f = f\<lparr>busy := False, reading := False, writing := False, write_track := False, drq := False, status := 0x00\<rparr>;
          f = (if track f = 0 then f\<lparr>status := 0x04\<rparr> else f);
          f = not_ready f
      in if tst cmd 0x08 then set_intrq True f else f)"

definition cmd_step :: "u8 \<Rightarrow> sv_disk \<Rightarrow> sv_disk" where
  "cmd_step cmd f =
     (let ct = cmd AND 0xF0;
          f = (if ct \<ge> 0x40 \<and> ct \<le> 0x5F then f\<lparr>step_direction := 1\<rparr> else f);
          f = (if ct \<ge> 0x60 \<and> ct \<le> 0x7F then f\<lparr>step_direction := -1\<rparr> else f);
          new_track = uint (track f) + step_direction f;
          new_track = (if new_track < 0 then 0 else new_track);
          new_track = (if new_track > 79 then 79 else new_track);
          f = (if tst cmd 0x10 then f\<lparr>track := word_of_int new_track\<rparr> else f);
          f = f\<lparr>status := 0x00\<rparr>;
          f = (if track f = 0 then f\<lparr>status := 0x04\<rparr> else f)
      in (not_ready f)\<lparr>busy := False\<rparr>)"

definition fdc_execute_command :: "u8 \<Rightarrow> sv_disk \<Rightarrow> sv_disk" where
  "fdc_execute_command cmd f =
     (let ct = cmd AND 0xF0;
          f = f\<lparr>reading := False, read_pending := False, writing := False, write_track := False, drq := False,
                intrq_defer := 0, command := cmd, busy := True, status := 0x01\<rparr>
      in if ct = 0xD0 then cmd_force_interrupt cmd f
         else
           let f = (if ct = 0x00 then cmd_restore f
                    else if ct = 0x10 then cmd_seek f
                    else if ct = 0x80 \<or> ct = 0x90 then cmd_read_sector f
                    else if ct = 0xA0 \<or> ct = 0xB0 then cmd_write_sector f
                    else if ct = 0xC0 then cmd_read_address f
                    else if ct = 0xE0 then f\<lparr>status := 0x00, busy := False\<rparr>
                    else if ct = 0xF0 then cmd_write_track f
                    else if ct \<ge> 0x20 \<and> ct \<le> 0x7F then cmd_step cmd f
                    else f\<lparr>status := 0x00, busy := False\<rparr>)
           in if \<not> busy f then set_intrq True f else f)"

section \<open>Data register\<close>

text \<open>The deferred sector load of the first read: \<open>Inr\<close> the machine to go on with, \<open>Inl\<close> the early return.\<close>

definition load_sector :: "sv_disk \<Rightarrow> (sv_disk + sv_disk) option" where
  "load_sector f =
     (let f = f\<lparr>read_pending := False\<rparr>;
          d = disk f;
          off = sector_offset d (track f) (side f) (sector f)
      in if off = UINT32_MAX \<or> off + ucast (sector_size d) > cache_size d then
           Some (Inl (set_intrq True (f\<lparr>reading := False, drq := False, busy := False, status := 0x10\<rparr>)))
         else
           case cache d of
             None \<Rightarrow> None
           | Some c \<Rightarrow>
               let f = f\<lparr>sector_buf := blit 0 (take (unat (sector_size d)) (drop (unat off) c)) (sector_buf f)\<rparr>
               in Some (Inr (f\<lparr>data_reg := sector_buf f ! 0\<rparr>)))"

definition fdc_next_byte :: "sv_disk \<Rightarrow> u8 \<times> sv_disk" where
  "fdc_next_byte f =
     (let val = data_reg f in
      if reading f \<and> buf_pos f < buf_len f then
        let f = f\<lparr>buf_pos := buf_pos f + 1\<rparr>
        in if buf_pos f < buf_len f then (val, f\<lparr>data_reg := sector_buf f ! unat (buf_pos f), drq := True\<rparr>)
           else (val, f\<lparr>reading := False, drq := False, busy := False, status := 0x00, intrq_defer := 5\<rparr>)
      else if intrq_defer f > 0 \<and> \<not> intrq f then (val, set_intrq True (f\<lparr>intrq_defer := 0\<rparr>))
      else (val, f))"

definition fdc_read_data :: "sv_disk \<Rightarrow> (u8 \<times> sv_disk) option" where
  "fdc_read_data f =
     (if read_pending f then
        (case load_sector f of
           None \<Rightarrow> None
         | Some (Inl f) \<Rightarrow> Some (0xFF, f)
         | Some (Inr f) \<Rightarrow> Some (fdc_next_byte f))
      else Some (fdc_next_byte f))"

text \<open>A full sector buffer written to the cache, where the sector exists. The result says whether its
  number was valid.\<close>

definition store_sector :: "u8 \<Rightarrow> sv_disk \<Rightarrow> bool \<times> sv_disk" where
  "store_sector sec f =
     (let d = disk f;
          off = sector_offset d (track f) (side f) sec
      in (off \<noteq> UINT32_MAX,
          case cache d of
            Some c \<Rightarrow>
              if off \<noteq> UINT32_MAX \<and> off + ucast (sector_size d) \<le> cache_size d then
                set_disk (sv_disk_mark_dirty off (ucast (sector_size d))
                  (d\<lparr>cache := Some (blit (unat off) (take (unat (sector_size d)) (sector_buf f)) c)\<rparr>)) f
              else f
          | None \<Rightarrow> f))"

definition write_track_field :: "u8 \<Rightarrow> u8 \<Rightarrow> sv_disk \<Rightarrow> sv_disk" where
  "write_track_field f5 v f =
     (if wt_state f = WT_IDLE \<or> wt_state f = WT_WAIT_DAM then
        if f5 \<ge> 3 \<and> v = 0xFE then f\<lparr>wt_state := WT_ID_FIELD, wt_id_pos := 0\<rparr>
        else if f5 \<ge> 3 \<and> v = 0xFB then f\<lparr>wt_state := WT_DATA_FIELD, wt_data_pos := 0\<rparr>
        else f
      else if wt_state f = WT_ID_FIELD then
        let f = (if wt_id_pos f = 2 then f\<lparr>wt_id_sector := v\<rparr> else f);
            f = f\<lparr>wt_id_pos := wt_id_pos f + 1\<rparr>
        in if wt_id_pos f \<ge> 4 then f\<lparr>wt_state := WT_WAIT_DAM\<rparr> else f
      else if wt_state f = WT_DATA_FIELD then
        let f = f\<lparr>sector_buf := (sector_buf f)[unat (wt_data_pos f) := v]\<rparr>;
            f = f\<lparr>wt_data_pos := wt_data_pos f + 1\<rparr>
        in if wt_data_pos f \<ge> sector_size (disk f)
           then (snd (store_sector (wt_id_sector f) f))\<lparr>wt_state := WT_IDLE\<rparr> else f
      else f)"

definition fdc_write_track_byte :: "u8 \<Rightarrow> sv_disk \<Rightarrow> sv_disk" where
  "fdc_write_track_byte v f =
     (let f = f\<lparr>wt_byte_count := wt_byte_count f + 1\<rparr>;
          f5 = wt_f5_count f;
          f = (if v = 0xF5 then f\<lparr>wt_f5_count := wt_f5_count f + 1\<rparr>
               else write_track_field f5 v (f\<lparr>wt_f5_count := 0\<rparr>))
      in if wt_byte_count f \<ge> WT_TRACK_BYTES
         then set_intrq True (f\<lparr>write_track := False, drq := False, busy := False, status := 0x00\<rparr>)
         else set_drq True f)"

definition fdc_write_data :: "u8 \<Rightarrow> sv_disk \<Rightarrow> sv_disk" where
  "fdc_write_data v f =
     (if write_track f then fdc_write_track_byte v f
      else if writing f \<and> buf_pos f < buf_len f then
        let f = f\<lparr>sector_buf := (sector_buf f)[unat (buf_pos f) := v]\<rparr>;
            f = f\<lparr>buf_pos := buf_pos f + 1\<rparr>
        in if buf_pos f \<ge> buf_len f then
             let (valid, f) = store_sector (sector f) f
             in set_intrq True (f\<lparr>writing := False, drq := False, busy := False,
                  status := (if \<not> valid then 0x10 else 0x00)\<rparr>)
           else f\<lparr>drq := True\<rparr>
      else f)"

section \<open>Bus interface\<close>

definition fdc_write_drive_select :: "u8 \<Rightarrow> sv_disk \<Rightarrow> sv_disk" where
  "fdc_write_drive_select v f =
     (let (ds, drive3) = (if tst v 0x01 then (0, False) else if tst v 0x02 then (1, False)
            else if tst v 0x04 then (2, False) else if tst v 0x40 then (3, True) else (0, False));
          f = f\<lparr>drive_select := ds\<rparr>;
          f = (if unat (drive_select f) \<ge> SV_DISK_MAX_DRIVES then f\<lparr>drive_select := 0\<rparr> else f);
          f = f\<lparr>motor_on := tst v 0x08\<rparr>;
          f = f\<lparr>side := (if drive3 then 0 else drop_bit 6 v AND 0x01)\<rparr>;
          xored = v XOR 0x20;
          f = f\<lparr>density := tst xored 0x20\<rparr>;
          f = (if \<not> density f \<and> intrq f then signal_nmi True f else signal_nmi False f);
          f = f\<lparr>halt_enable := tst v 0x80\<rparr>;
          f = (if intrq f then f\<lparr>halt_enable := False\<rparr> else f)
      in signal_halt (halt_enable f \<and> \<not> drq f \<and> busy f) f)"

definition sv_disk_image_init :: "disk_image \<Rightarrow> disk_image" where
  "sv_disk_image_init d =
     d\<lparr>path := [], mounted := False, dirty := False, read_only := False, header_size := 0, image_size := 0,
       cache := None, cache_size := 0, dirty_map := None, sectors_per_track := DISK_SECTORS,
       sector_size := ucast DISK_SECTOR_SIZE, tracks := DISK_TRACKS, sides := 1\<rparr>"

definition sv_disk_init :: "sv_disk \<Rightarrow> sv_disk" where
  "sv_disk_init f =
     (let f = f\<lparr>command := 0, status := 0, track := 0, sector := 0, data_reg := 0, drive_select := 0,
               motor_on := False, halt_enable := False, density := False, busy := False, drq := False,
               intrq := False, intrq_defer := 0, side := 0, sector_buf := replicate 256 0, buf_pos := 0,
               buf_len := 0, reading := False, read_pending := False, writing := False, write_track := False,
               wt_state := 0, wt_f5_count := 0, wt_id_pos := 0, wt_id_sector := 0, wt_data_pos := 0,
               wt_byte_count := 0, nmi_callback := False, halt_callback := False\<rparr>;
          f = f\<lparr>step_direction := -1, status := 0x04\<rparr>
      in f\<lparr>drives := map sv_disk_image_init (drives f)\<rparr>)"

definition sv_disk_reset :: "sv_disk \<Rightarrow> sv_disk" where
  "sv_disk_reset f =
     f\<lparr>command := 0, status := 0x04, track := 0, sector := 1, data_reg := 0, busy := False, drq := False,
       intrq := False, intrq_defer := 0, reading := False, read_pending := False, writing := False,
       write_track := False, step_direction := -1, side := 0, drive_select := 0, motor_on := False,
       halt_enable := False, density := False\<rparr>"

definition read_status :: "sv_disk \<Rightarrow> u8 \<times> sv_disk" where
  "read_status f =
     (let s = status f;
          s = (if mounted (disk f) then s AND NOT 0x80 else s OR 0x80);
          s = (if reading f \<or> writing f \<or> write_track f then
                 if drq f then s OR 0x02 else s AND NOT 0x02
               else s)
      in (s, set_intrq False f))"

definition sv_disk_read :: "u16 \<Rightarrow> sv_disk \<Rightarrow> (u8 \<times> sv_disk) option" where
  "sv_disk_read address f =
     (if address < 0xFF48 then Some (0x00, f)
      else
        let r = address AND 0x03 in
        if r = 0 then Some (read_status f)
        else if r = 1 then Some (track f, f)
        else if r = 2 then Some (sector f, f)
        else fdc_read_data f)"

definition sv_disk_write :: "u16 \<Rightarrow> u8 \<Rightarrow> sv_disk \<Rightarrow> sv_disk" where
  "sv_disk_write address v f =
     (if address < 0xFF48 then fdc_write_drive_select v f
      else
        let r = address AND 0x03 in
        if r = 0 then fdc_execute_command v (set_intrq False f)
        else if r = 1 then f\<lparr>track := v\<rparr>
        else if r = 2 then f\<lparr>sector := v\<rparr>
        else fdc_write_data v (f\<lparr>data_reg := v\<rparr>))"

definition sv_disk_tick :: "sv_disk \<Rightarrow> sv_disk" where
  "sv_disk_tick f =
     (if intrq_defer f > 0 then
        let f = f\<lparr>intrq_defer := intrq_defer f - 1\<rparr>
        in if intrq_defer f = 0 then set_intrq True f else f
      else f)"

end
