(* ===== verification/Sv_Disk_Files.thy ===== *)
theory Sv_Disk_Files
  imports Sv_Disk
begin

text \<open>
  Mounting, ejecting and flushing of \<open>src/src/supervisor/sv_disk.cpp\<close>: geometry detection, the load of
  an image into its cache, and the write-back of the sectors the dirty map marks.
\<close>

section \<open>The card\<close>

text \<open>\<open>sd_open\<close> opens the one file the other operations act on; \<open>heap_alloc\<close> is the allocation of the
  cache (PSRAM, then the heap), \<open>map_alloc\<close> that of the dirty map.\<close>

record 'w sd_card =
  sd_open :: "string \<Rightarrow> string \<Rightarrow> 'w \<Rightarrow> bool \<times> 'w"
  file_size :: "'w \<Rightarrow> u32"
  file_seek :: "u32 \<Rightarrow> 'w \<Rightarrow> 'w"
  file_read :: "nat \<Rightarrow> 'w \<Rightarrow> u8 list \<times> 'w"
  file_write :: "u8 list \<Rightarrow> 'w \<Rightarrow> nat \<times> 'w"
  file_close :: "'w \<Rightarrow> 'w"
  heap_alloc :: "nat \<Rightarrow> 'w \<Rightarrow> bool \<times> 'w"
  map_alloc :: "nat \<Rightarrow> 'w \<Rightarrow> bool \<times> 'w"

section \<open>Geometry\<close>

definition to_lower :: "char \<Rightarrow> char" where
  "to_lower c = (let n = (of_char c :: nat) in if 65 \<le> n \<and> n \<le> 90 then char_of (n + 32) else c)"

text \<open>\<open>strrchr(path, '.')\<close> compared with \<open>.vdk\<close> by \<open>strcasecmp\<close>.\<close>

definition vdk_name :: "string \<Rightarrow> bool" where
  "vdk_name p \<longleftrightarrow> CHR ''.'' \<in> set p \<and> map to_lower (rev (takeWhile (\<lambda>c. c \<noteq> CHR ''.'') (rev p))) = ''vdk''"

definition sv_disk_detect_geometry :: "disk_image \<Rightarrow> bool \<times> disk_image" where
  "sv_disk_detect_geometry img =
     (let size = image_size img;
          (size, img) = (if vdk_name (path img) then (size - 12, img\<lparr>header_size := 12\<rparr>)
                         else (size, img\<lparr>header_size := ucast (size mod DISK_SECTOR_SIZE)\<rparr>));
          data_size = size - ucast (header_size img);
          img = img\<lparr>sector_size := ucast DISK_SECTOR_SIZE, sectors_per_track := DISK_SECTORS\<rparr>;
          track_size = ucast (sectors_per_track img) * ucast (sector_size img) :: u32
      in if track_size = 0 then (False, img)
         else
           let linear_tracks = data_size div track_size
           in if linear_tracks = 0 then (False, img)
              else if linear_tracks > 2 * 255 then (False, img)
              else
                let img = img\<lparr>tracks := (if linear_tracks > 255 then 255 else ucast linear_tracks)\<rparr>
                in if linear_tracks > 40 then (True, img\<lparr>sides := 2, tracks := ucast (linear_tracks div 2)\<rparr>)
                   else (True, img\<lparr>sides := 1\<rparr>))"

section \<open>Flush\<close>

function flush_write :: "'w sd_card \<Rightarrow> u8 list \<Rightarrow> nat \<Rightarrow> nat \<Rightarrow> nat \<times> 'w \<Rightarrow> nat \<times> 'w" where
  "flush_write S c pos remaining (tot, w) =
     (if remaining = 0 then (tot, w)
      else
        let chunk = (if remaining > 512 then 512 else remaining);
            (wrote, w) = file_write S (take chunk (drop pos c)) w
        in if wrote = 0 then (tot, w)
           else flush_write S c (pos + wrote) (remaining - wrote) (tot + wrote, w))"
  by pat_completeness auto
termination by (relation "measure (\<lambda>(S, c, pos, remaining, t). remaining)") auto

declare flush_write.simps [simp del]

definition flush_run :: "'w sd_card \<Rightarrow> disk_image \<Rightarrow> u8 list \<Rightarrow> nat \<Rightarrow> nat \<Rightarrow> 'w \<Rightarrow> nat \<times> 'w" where
  "flush_run S img c first count w =
     (let pos = first * unat DISK_SECTOR_SIZE;
          remaining = count * unat DISK_SECTOR_SIZE;
          remaining = (if pos + remaining > unat (cache_size img) then unat (cache_size img) - pos else remaining);
          w = file_seek S (ucast (header_size img) + of_nat pos) w
      in flush_write S c pos remaining (0, w))"

definition dirty_bit :: "u8 list \<Rightarrow> nat \<Rightarrow> bool" where
  "dirty_bit dm s = tst (dm ! (s div 8)) (push_bit (s mod 8) 1)"

text \<open>The inner loop: the end of the run of dirty sectors at \<open>s\<close>.\<close>

function run_end :: "u8 list \<Rightarrow> nat \<Rightarrow> nat \<Rightarrow> nat" where
  "run_end dm nsec s = (if s < nsec \<and> dirty_bit dm s then run_end dm nsec (Suc s) else s)"
  by pat_completeness auto
termination by (relation "measure (\<lambda>(dm, nsec, s). nsec - s)") auto

declare run_end.simps [simp del]

lemma run_end_le: "s \<le> run_end dm nsec s"
  by (induction dm nsec s rule: run_end.induct) (subst run_end.simps, auto)

lemma run_end_less: "s < nsec \<Longrightarrow> dirty_bit dm s \<Longrightarrow> s < run_end dm nsec s"
  using run_end_le [of "Suc s" dm nsec] by (subst run_end.simps) simp

function flush_runs :: "'w sd_card \<Rightarrow> disk_image \<Rightarrow> u8 list \<Rightarrow> u8 list \<Rightarrow> nat \<Rightarrow> nat \<Rightarrow> nat \<times> 'w \<Rightarrow> nat \<times> 'w" where
  "flush_runs S img c dm nsec s (tot, w) =
     (if s < nsec then
        if \<not> dirty_bit dm s then flush_runs S img c dm nsec (Suc s) (tot, w)
        else
          let e = run_end dm nsec s; (n, w) = flush_run S img c s (e - s) w
          in flush_runs S img c dm nsec e (tot + n, w)
      else (tot, w))"
  by pat_completeness auto
termination
  by (relation "measure (\<lambda>(S, img, c, dm, nsec, s, t). nsec - s)") (auto intro!: diff_less_mono2 run_end_less)

declare flush_runs.simps [simp del]

definition flush_image :: "'w sd_card \<Rightarrow> disk_image \<times> 'w \<Rightarrow> disk_image \<times> 'w" where
  "flush_image S = (\<lambda>(img, w).
     case cache img of
       None \<Rightarrow> (img, w)
     | Some c \<Rightarrow>
         if \<not> mounted img \<or> \<not> dirty img \<or> read_only img then (img, w)
         else
           let (ok, w) = sd_open S (path img) ''r+'' w
           in if \<not> ok then (img, w)
              else
                let nsec = unat (cache_size img div DISK_SECTOR_SIZE);
                    (img, w) =
                      (case dirty_map img of
                         None \<Rightarrow> (img, snd (flush_run S img c 0 nsec w))
                       | Some dm \<Rightarrow>
                           (img\<lparr>dirty_map := Some (blit 0 (replicate ((nsec + 7) div 8) 0) dm)\<rparr>,
                            snd (flush_runs S img c dm nsec 0 (0, w))));
                    w = file_close S w
                in (img\<lparr>dirty := False\<rparr>, w))"

definition sv_disk_flush :: "'w sd_card \<Rightarrow> nat \<Rightarrow> sv_disk \<times> 'w \<Rightarrow> sv_disk \<times> 'w" where
  "sv_disk_flush S drive = (\<lambda>(f, w).
     if drive \<ge> SV_DISK_MAX_DRIVES then (f, w)
     else let (img, w) = flush_image S (drives f ! drive, w) in (f\<lparr>drives := (drives f)[drive := img]\<rparr>, w))"

definition sv_disk_flush_all :: "'w sd_card \<Rightarrow> sv_disk \<times> 'w \<Rightarrow> sv_disk \<times> 'w" where
  "sv_disk_flush_all S fw = fold (sv_disk_flush S) [0..<SV_DISK_MAX_DRIVES] fw"

section \<open>Mount and eject\<close>

definition close_image :: "disk_image \<Rightarrow> disk_image" where
  "close_image img =
     (let img = (if cache img \<noteq> None then img\<lparr>cache := None, cache_size := 0\<rparr> else img)
      in img\<lparr>dirty_map := None, mounted := False, dirty := False, path := []\<rparr>)"

definition sv_disk_eject :: "'w sd_card \<Rightarrow> nat \<Rightarrow> sv_disk \<times> 'w \<Rightarrow> sv_disk \<times> 'w" where
  "sv_disk_eject S drive = (\<lambda>(f, w).
     if drive \<ge> SV_DISK_MAX_DRIVES \<or> \<not> mounted (drives f ! drive) then (f, w)
     else
       let (f, w) = (if dirty (drives f ! drive) \<and> cache (drives f ! drive) \<noteq> None
                     then sv_disk_flush S drive (f, w) else (f, w));
           img = close_image (drives f ! drive)
       in (f\<lparr>drives := (drives f)[drive := img]\<rparr>, w))"

text \<open>The load loop: what is read, then zeros if the file ends early.\<close>

function load_cache :: "'w sd_card \<Rightarrow> u8 list \<Rightarrow> nat \<Rightarrow> 'w \<Rightarrow> u8 list \<times> 'w" where
  "load_cache S acc remaining w =
     (if remaining = 0 then (acc, w)
      else
        let chunk = (if remaining > 512 then 512 else remaining);
            (got, w) = file_read S chunk w
        in if got = [] then (acc @ replicate remaining 0, w)
           else load_cache S (acc @ got) (remaining - length got) w)"
  by pat_completeness auto
termination by (relation "measure (\<lambda>(S, acc, remaining, w). remaining)") auto

declare load_cache.simps [simp del]

text \<open>Mounting into a drive that is empty; \<open>img\<close> is its image record.\<close>

definition size_cache :: "disk_image \<Rightarrow> disk_image" where
  "size_cache img =
     (let img = img\<lparr>cache_size := ucast (tracks img) * ucast (sectors_per_track img) * ucast (sector_size img)\<rparr>
      in if sides img = 2 then img\<lparr>cache_size := cache_size img * 2\<rparr> else img)"

definition fill_cache :: "'w sd_card \<Rightarrow> disk_image \<Rightarrow> 'w \<Rightarrow> disk_image \<times> 'w" where
  "fill_cache S img w =
     (let w = (if header_size img > 0 then file_seek S (ucast (header_size img)) w else w);
          (c, w) = load_cache S [] (unat (cache_size img)) w;
          mapsize = unat ((cache_size img div DISK_SECTOR_SIZE + 7) div 8);
          (ok, w) = map_alloc S mapsize w
      in (img\<lparr>cache := Some c, dirty_map := (if ok then Some (replicate mapsize 0) else None)\<rparr>, file_close S w))"

definition test_writable :: "'w sd_card \<Rightarrow> disk_image \<Rightarrow> 'w \<Rightarrow> disk_image \<times> 'w" where
  "test_writable S img w =
     (let (rw, w) = sd_open S (path img) ''r+'' w
      in if rw then (img, file_close S w) else (img\<lparr>read_only := True\<rparr>, w))"

definition fill_image :: "'w sd_card \<Rightarrow> disk_image \<Rightarrow> 'w \<Rightarrow> bool \<times> disk_image \<times> 'w" where
  "fill_image S img w =
     (let img = size_cache img;
          (ok, w) = heap_alloc S (unat (cache_size img)) w
      in if \<not> ok then (False, img, file_close S w)
         else
           let (img, w) = fill_cache S img w;
               (img, w) = test_writable S img w
           in (True, img\<lparr>mounted := True\<rparr>, w))"

definition open_image :: "'w sd_card \<Rightarrow> nat \<Rightarrow> string \<Rightarrow> sv_disk \<times> 'w \<Rightarrow> bool \<times> sv_disk \<times> 'w" where
  "open_image S drive p = (\<lambda>(f, w).
     let (ok, w) = sd_open S p ''r'' w
     in if \<not> ok then (False, f, w)
        else
          let img = (drives f ! drive)\<lparr>path := take 255 p, image_size := file_size S w, read_only := False, dirty := False\<rparr>;
              (good, img) = sv_disk_detect_geometry img
          in if \<not> good then (False, f\<lparr>drives := (drives f)[drive := img]\<rparr>, file_close S w)
             else
               let (done, img, w) = fill_image S img w
               in (done, f\<lparr>drives := (drives f)[drive := img]\<rparr>, w))"

definition mount_locked :: "'w sd_card \<Rightarrow> nat \<Rightarrow> string \<Rightarrow> sv_disk \<times> 'w \<Rightarrow> bool \<times> sv_disk \<times> 'w" where
  "mount_locked S drive p = (\<lambda>(f, w).
     open_image S drive p (if mounted (drives f ! drive) then sv_disk_eject S drive (f, w) else (f, w)))"

definition sv_disk_mount :: "'w sd_card \<Rightarrow> nat \<Rightarrow> string \<Rightarrow> sv_disk \<times> 'w \<Rightarrow> bool \<times> sv_disk \<times> 'w" where
  "sv_disk_mount S drive p = (\<lambda>(f, w). if drive \<ge> SV_DISK_MAX_DRIVES then (False, f, w) else mount_locked S drive p (f, w))"

definition sv_disk_is_mounted :: "nat \<Rightarrow> sv_disk \<Rightarrow> bool" where
  "sv_disk_is_mounted drive f \<longleftrightarrow> drive < SV_DISK_MAX_DRIVES \<and> mounted (drives f ! drive)"

definition sv_disk_get_path :: "nat \<Rightarrow> sv_disk \<Rightarrow> string" where
  "sv_disk_get_path drive f = (if drive \<ge> SV_DISK_MAX_DRIVES then [] else path (drives f ! drive))"

section \<open>Geometry facts\<close>

text \<open>A VDK image of 35 tracks, header included, mounts as 34: its header is taken off twice.\<close>

lemma vdk_loses_track:
  assumes "vdk_name (path img)" and "image_size img = 35 * 18 * 256 + 12"
  shows "fst (sv_disk_detect_geometry img)" and "tracks (snd (sv_disk_detect_geometry img)) = 34"
  using assms by (simp_all add: sv_disk_detect_geometry_def DISK_SECTOR_SIZE_def DISK_SECTORS_def Let_def)

end
