(* ===== verification/Sv_Disk_Bus.thy ===== *)
theory Sv_Disk_Bus
  imports Sv_Disk_Files
begin

text \<open>
  The controller seen from the bus: the well-formedness every access keeps, so that no access leaves a
  buffer or follows a null pointer, whatever is mounted, ejected and flushed in between.
\<close>

section \<open>Well-formedness\<close>

definition img_ok :: "disk_image \<Rightarrow> bool" where
  "img_ok d \<longleftrightarrow> sector_size d = 256 \<and> sectors_per_track d = 18 \<and> (sides d = 1 \<or> sides d = 2) \<and>
     (case cache d of
        None \<Rightarrow> cache_size d = 0 \<and> \<not> mounted d
      | Some c \<Rightarrow> mounted d \<and> length c = unat (cache_size d) \<and> unat (cache_size d) = unat (tracks d) * unat (sides d) * 4608) \<and>
     (\<forall>dm. dirty_map d = Some dm \<longrightarrow> length dm = (unat (cache_size d) div 256 + 7) div 8)"

definition fdc_ok :: "sv_disk \<Rightarrow> bool" where
  "fdc_ok f \<longleftrightarrow> length (drives f) = 4 \<and> unat (drive_select f) < 4 \<and> (\<forall>d\<in>set (drives f). img_ok d) \<and>
     length (sector_buf f) = 256 \<and> buf_len f \<le> 256 \<and> buf_pos f \<le> buf_len f \<and>
     (wt_state f = WT_DATA_FIELD \<longrightarrow> wt_data_pos f < 256)"

text \<open>The fields \<open>fdc_ok\<close> does not read.\<close>

lemma fdc_ok_fields [simp]:
  "fdc_ok (f\<lparr>command := v\<rparr>) = fdc_ok f" "fdc_ok (f\<lparr>status := v\<rparr>) = fdc_ok f" "fdc_ok (f\<lparr>track := v\<rparr>) = fdc_ok f"
  "fdc_ok (f\<lparr>sector := v\<rparr>) = fdc_ok f" "fdc_ok (f\<lparr>data_reg := v\<rparr>) = fdc_ok f" "fdc_ok (f\<lparr>motor_on := b\<rparr>) = fdc_ok f"
  "fdc_ok (f\<lparr>halt_enable := b\<rparr>) = fdc_ok f" "fdc_ok (f\<lparr>density := b\<rparr>) = fdc_ok f" "fdc_ok (f\<lparr>busy := b\<rparr>) = fdc_ok f"
  "fdc_ok (f\<lparr>drq := b\<rparr>) = fdc_ok f" "fdc_ok (f\<lparr>intrq := b\<rparr>) = fdc_ok f" "fdc_ok (f\<lparr>intrq_defer := v\<rparr>) = fdc_ok f"
  "fdc_ok (f\<lparr>step_direction := i\<rparr>) = fdc_ok f" "fdc_ok (f\<lparr>side := v\<rparr>) = fdc_ok f" "fdc_ok (f\<lparr>reading := b\<rparr>) = fdc_ok f"
  "fdc_ok (f\<lparr>read_pending := b\<rparr>) = fdc_ok f" "fdc_ok (f\<lparr>writing := b\<rparr>) = fdc_ok f" "fdc_ok (f\<lparr>write_track := b\<rparr>) = fdc_ok f"
  "fdc_ok (f\<lparr>wt_f5_count := v\<rparr>) = fdc_ok f" "fdc_ok (f\<lparr>wt_id_pos := v\<rparr>) = fdc_ok f" "fdc_ok (f\<lparr>wt_id_sector := v\<rparr>) = fdc_ok f"
  "fdc_ok (f\<lparr>wt_byte_count := w\<rparr>) = fdc_ok f" "fdc_ok (f\<lparr>calls := cs\<rparr>) = fdc_ok f"
  by (simp_all add: fdc_ok_def)

lemma ok_signals [simp]:
  "fdc_ok (signal_halt h f) = fdc_ok f" "fdc_ok (signal_nmi h f) = fdc_ok f" "fdc_ok (set_intrq h f) = fdc_ok f"
  "fdc_ok (set_drq h f) = fdc_ok f" "fdc_ok (not_ready f) = fdc_ok f"
  by (simp_all add: signal_halt_def signal_nmi_def set_intrq_def set_drq_def not_ready_def Let_def)

lemma disk_fields [simp]:
  "disk (f\<lparr>command := v\<rparr>) = disk f" "disk (f\<lparr>status := v\<rparr>) = disk f" "disk (f\<lparr>track := v\<rparr>) = disk f"
  "disk (f\<lparr>sector := v\<rparr>) = disk f" "disk (f\<lparr>data_reg := v\<rparr>) = disk f" "disk (f\<lparr>busy := b\<rparr>) = disk f"
  "disk (f\<lparr>drq := b\<rparr>) = disk f" "disk (f\<lparr>intrq_defer := v\<rparr>) = disk f" "disk (f\<lparr>reading := b\<rparr>) = disk f"
  "disk (f\<lparr>read_pending := b\<rparr>) = disk f" "disk (f\<lparr>writing := b\<rparr>) = disk f" "disk (f\<lparr>write_track := b\<rparr>) = disk f"
  "disk (f\<lparr>wt_byte_count := w\<rparr>) = disk f" "disk (f\<lparr>wt_f5_count := v\<rparr>) = disk f" "disk (f\<lparr>sector_buf := l\<rparr>) = disk f"
  "disk (f\<lparr>buf_pos := w\<rparr>) = disk f" "disk (f\<lparr>buf_len := w\<rparr>) = disk f" "disk (f\<lparr>intrq := b\<rparr>) = disk f"
  "disk (f\<lparr>wt_data_pos := w\<rparr>) = disk f" "disk (f\<lparr>calls := cs\<rparr>) = disk f" "disk (f\<lparr>halt_enable := b\<rparr>) = disk f"
  "disk (f\<lparr>step_direction := i\<rparr>) = disk f"
  by (simp_all add: disk_def)

lemma disk_signals [simp]:
  "disk (signal_halt h f) = disk f" "disk (signal_nmi h f) = disk f" "disk (set_intrq h f) = disk f" "disk (set_drq h f) = disk f"
  by (simp_all add: signal_halt_def signal_nmi_def set_intrq_def set_drq_def Let_def)

lemma disk_in: "fdc_ok f \<Longrightarrow> disk f \<in> set (drives f)" "fdc_ok f \<Longrightarrow> img_ok (disk f)"
  by (auto simp: fdc_ok_def disk_def)

lemma set_disk_ok: "fdc_ok f \<Longrightarrow> img_ok d \<Longrightarrow> fdc_ok (set_disk d f)"
  by (auto simp: fdc_ok_def set_disk_def dest!: set_update_subset_insert [THEN subsetD])

section \<open>Sectors\<close>

lemma lt_256: "unat (a :: u8) < 256" using unsigned_less [of a] by simp

text \<open>The arithmetic of \<open>sector_offset\<close> does not wrap, and a valid sector lies in the cache.\<close>

lemma sides_le: "img_ok d \<Longrightarrow> unat (sides d) \<le> 2"
  by (auto simp: img_ok_def)

lemma sector_offset_bound:
  assumes "img_ok d" and "unat sec \<le> 18" "trk < tracks d" "sd < sides d"
  shows "((unat trk * unat (sides d) + unat sd) * 18 + (unat sec - 1)) * 256 + 256
    \<le> unat (tracks d) * unat (sides d) * 4608"
proof -
  have t: "unat trk < unat (tracks d)" "unat sd < unat (sides d)" using assms(3,4) by (simp_all add: word_less_nat_alt)
  have "unat trk * unat (sides d) + unat sd + 1 \<le> unat (tracks d) * unat (sides d)"
  proof -
    have "(unat trk + 1) * unat (sides d) \<le> unat (tracks d) * unat (sides d)" using t(1) by (intro mult_le_mono1) simp
    then show ?thesis using t(2) by simp
  qed
  then show ?thesis using assms(2) by simp
qed

lemma sector_offset_nat:
  assumes "img_ok d" and "1 \<le> unat sec" "unat sec \<le> 18" "trk < tracks d" "sd < sides d"
  shows "unat (sector_offset d trk sd sec) = ((unat trk * unat (sides d) + unat sd) * 18 + (unat sec - 1)) * 256"
    and "unat (sector_offset d trk sd sec + 256) = unat (sector_offset d trk sd sec) + 256"
proof -
  define lin where "lin = unat trk * unat (sides d) + unat sd"
  define n where "n = (lin * 18 + (unat sec - 1)) * 256"
  have "unat (tracks d) * unat (sides d) \<le> 510"
    using mult_le_mono [OF _ sides_le [OF assms(1)], of "unat (tracks d)" 255] lt_256 [of "tracks d"] by simp
  moreover have "n + 256 \<le> unat (tracks d) * unat (sides d) * 4608"
    unfolding n_def lin_def by (rule sector_offset_bound [OF assms(1,3,4,5)])
  ultimately have "n + 256 \<le> 510 * 4608" by (meson le_trans mult_le_mono1 order_refl) 
  then have small: "n + 256 < 2 ^ 32" by simp
  have c: "(sec < 1) = False" "(sec > 18) = False" "(trk \<ge> tracks d) = False" "(sd \<ge> sides d) = False"
    using assms(2-5) by (simp_all add: word_less_nat_alt not_le)
  have i: "sector_size d = 256" "sectors_per_track d = 18" using assms(1) by (simp_all add: img_ok_def)
  have o: "sector_offset d trk sd sec = of_nat n"
  proof -
    have u: "(ucast x :: u32) = of_nat (unat x)" for x :: u8 by (simp add: of_nat_unat)
    have l: "ucast trk * ucast (sides d) + ucast sd = (of_nat lin :: u32)" unfolding lin_def u by (simp only: of_nat_add of_nat_mult)
    have s: "(ucast sec - 1 :: u32) = of_nat (unat sec - 1)" using assms(2) unfolding u by (simp only: of_nat_diff of_nat_1)
    have "sector_offset d trk sd sec = (ucast trk * ucast (sides d) + ucast sd) * ucast (18::u8) * ucast (256::u16)
        + (ucast sec - 1) * ucast (256::u16)"
      unfolding sector_offset_def Let_def i c if_False simp_thms ..
    then show ?thesis unfolding l s n_def by (simp add: distrib_right)
  qed
  have e: "unat (sector_offset d trk sd sec) = n"
    unfolding o using small by (simp only: unsigned_of_nat) (simp add: take_bit_nat_eq_self_iff)
  then show "unat (sector_offset d trk sd sec) = ((unat trk * unat (sides d) + unat sd) * 18 + (unat sec - 1)) * 256"
    unfolding n_def lin_def .
  show "unat (sector_offset d trk sd sec + 256) = unat (sector_offset d trk sd sec) + 256"
    using small e by (simp add: unat_word_ariths)
qed

lemma sector_in_cache:
  assumes "img_ok d" and "cache d = Some c" and "unat sec \<le> 18" "trk < tracks d" "sd < sides d" "1 \<le> unat sec"
  shows "unat (sector_offset d trk sd sec) + 256 \<le> length c" and "length c = unat (cache_size d)"
proof -
  have "length c = unat (cache_size d)" "unat (cache_size d) = unat (tracks d) * unat (sides d) * 4608"
    using assms(1,2) by (auto simp: img_ok_def)
  then show "length c = unat (cache_size d)" "unat (sector_offset d trk sd sec) + 256 \<le> length c"
    using sector_offset_bound [OF assms(1,3,4,5)] sector_offset_nat(1) [OF assms(1,6,3,4,5)] by simp_all
qed

lemma offset_valid:
  assumes "img_ok d" and "sector_offset d trk sd sec \<noteq> UINT32_MAX"
  shows "1 \<le> unat sec" "unat sec \<le> 18" "trk < tracks d" "sd < sides d"
proof -
  have "\<not> sec < 1 \<and> \<not> sec > 18 \<and> \<not> trk \<ge> tracks d \<and> \<not> sd \<ge> sides d"
    using assms by (auto simp: sector_offset_def img_ok_def split: if_splits)
  then show "1 \<le> unat sec" "unat sec \<le> 18" "trk < tracks d" "sd < sides d"
    by (simp_all add: word_less_nat_alt word_le_nat_alt)
qed

lemma length_blit: "off + length bs \<le> length xs \<Longrightarrow> length (blit off bs xs) = length xs"
  by (simp add: blit_def)

lemma mark_length: "length (fold mark_sector ss dm) = length dm"
  by (induction ss arbitrary: dm) (simp_all add: mark_sector_def)

lemma mark_dirty_fields [simp]:
  "cache (sv_disk_mark_dirty a l d) = cache d" "cache_size (sv_disk_mark_dirty a l d) = cache_size d"
  "sector_size (sv_disk_mark_dirty a l d) = sector_size d" "sectors_per_track (sv_disk_mark_dirty a l d) = sectors_per_track d"
  "tracks (sv_disk_mark_dirty a l d) = tracks d" "sides (sv_disk_mark_dirty a l d) = sides d"
  "mounted (sv_disk_mark_dirty a l d) = mounted d" "read_only (sv_disk_mark_dirty a l d) = read_only d"
  "header_size (sv_disk_mark_dirty a l d) = header_size d" "path (sv_disk_mark_dirty a l d) = path d"
  by (simp_all add: sv_disk_mark_dirty_def Let_def)

lemma mark_dirty_ok: "img_ok d \<Longrightarrow> img_ok (sv_disk_mark_dirty a l d)"
  unfolding img_ok_def mark_dirty_fields
  by (auto simp: sv_disk_mark_dirty_def Let_def mark_length simp del: upt_Suc length_0_conv split: if_splits)

lemma stored_ok:
  assumes f: "fdc_ok f" and c: "cache (disk f) = Some c" and "sector_offset (disk f) t s sec \<noteq> UINT32_MAX"
  shows "img_ok ((disk f)\<lparr>cache := Some (blit (unat (sector_offset (disk f) t s sec))
    (take (unat (sector_size (disk f))) (sector_buf f)) c)\<rparr>)"
proof -
  have d: "img_ok (disk f)" using f by (rule disk_in)
  have "unat (sector_offset (disk f) t s sec) + 256 \<le> length c"
    using offset_valid [OF d assms(3)] by (intro sector_in_cache [OF d c])
  moreover have "sector_size (disk f) = 256" "length (sector_buf f) = 256" using d f by (simp_all add: img_ok_def fdc_ok_def)
  ultimately show ?thesis using d c by (simp add: img_ok_def length_blit)
qed

text \<open>A sector stored while the field machine goes back to idle.\<close>

lemma ok_idle: "wt_data_pos f \<le> 256 \<Longrightarrow> fdc_ok (f\<lparr>wt_data_pos := 0\<rparr>) \<Longrightarrow> fdc_ok (f\<lparr>wt_state := WT_IDLE\<rparr>)"
  by (simp add: fdc_ok_def WT_IDLE_def WT_DATA_FIELD_def)

lemma store_sector_pos: "(snd (store_sector sec f))\<lparr>wt_data_pos := p\<rparr> = snd (store_sector sec (f\<lparr>wt_data_pos := p\<rparr>))"
  by (simp add: store_sector_def disk_def set_disk_def Let_def split: option.split)

lemma store_sector_wt [simp]: "wt_data_pos (snd (store_sector sec f)) = wt_data_pos f"
  by (simp add: store_sector_def disk_def set_disk_def Let_def split: option.split)

lemma store_sector_ok: "fdc_ok f \<Longrightarrow> fdc_ok (snd (store_sector sec f))"
  by (auto simp: store_sector_def Let_def intro!: set_disk_ok mark_dirty_ok stored_ok split: option.split)

section \<open>Every access keeps it\<close>

lemma commands_ok:
  assumes "fdc_ok f"
  shows "fdc_ok (cmd_restore f)" "fdc_ok (cmd_seek f)" "fdc_ok (cmd_read_sector f)" "fdc_ok (cmd_write_sector f)"
    "fdc_ok (cmd_read_address f)" "fdc_ok (cmd_write_track f)" "fdc_ok (cmd_force_interrupt c f)" "fdc_ok (cmd_step c f)"
proof -
  have s: "sector_size (disk f) = 256" using disk_in(2) [OF assms] by (simp add: img_ok_def)
  show "fdc_ok (cmd_restore f)" "fdc_ok (cmd_seek f)" "fdc_ok (cmd_force_interrupt c f)" "fdc_ok (cmd_step c f)"
    using assms by (simp_all add: cmd_restore_def cmd_seek_def cmd_force_interrupt_def cmd_step_def Let_def)
  show "fdc_ok (cmd_read_sector f)" "fdc_ok (cmd_write_sector f)" "fdc_ok (cmd_read_address f)" "fdc_ok (cmd_write_track f)"
    using assms s by (simp_all add: cmd_read_sector_def cmd_write_sector_def cmd_read_address_def cmd_write_track_def Let_def)
      (simp_all add: fdc_ok_def length_blit WT_IDLE_def WT_DATA_FIELD_def)
qed

lemma execute_ok: "fdc_ok f \<Longrightarrow> fdc_ok (fdc_execute_command c f)"
  by (simp add: fdc_execute_command_def commands_ok Let_def)

lemma inc16: "a < b \<Longrightarrow> unat (a + 1 :: u16) = Suc (unat a)"
proof -
  assume "a < b"
  then have "unat a + 1 < 65536" using unsigned_less [of b, where ?'a = nat] by (simp add: word_less_nat_alt)
  then show ?thesis by (simp add: unat_word_ariths)
qed

lemma fdc_next_byte_ok: "fdc_ok f \<Longrightarrow> fdc_ok (snd (fdc_next_byte f))"
proof -
  assume f: "fdc_ok f"
  have "fdc_ok (f\<lparr>buf_pos := buf_pos f + 1\<rparr>)" if "buf_pos f < buf_len f"
    using f inc16 [OF that] that by (simp add: fdc_ok_def word_le_nat_alt word_less_nat_alt)
  then show ?thesis using f by (simp add: fdc_next_byte_def Let_def)
qed

lemma load_sector_ok:
  assumes "fdc_ok f"
  shows "\<exists>g. fdc_ok g \<and> (load_sector f = Some (Inl g) \<or> load_sector f = Some (Inr g))"
proof -
  have d: "img_ok (disk f)" and l: "length (sector_buf f) = 256" using disk_in(2) [OF assms] assms by (simp_all add: fdc_ok_def)
  let ?o = "sector_offset (disk f) (track f) (side f) (sector f)"
  show ?thesis
  proof (cases "?o = UINT32_MAX \<or> ?o + ucast (sector_size (disk f)) > cache_size (disk f)")
    case True
    then show ?thesis using assms by (simp add: load_sector_def Let_def)
  next
    case False
    have i: "sector_size (disk f) = 256" using d by (simp add: img_ok_def)
    have ov: "?o \<noteq> UINT32_MAX" and le: "?o + 256 \<le> cache_size (disk f)" using False i by (simp_all add: not_less)
    note v = offset_valid [OF d ov]
    have "cache (disk f) \<noteq> None"
    proof
      assume "cache (disk f) = None"
      then have "cache_size (disk f) = 0" using d by (simp add: img_ok_def)
      then show False using le sector_offset_nat(2) [OF d v] by (simp add: word_le_nat_alt)
    qed
    then obtain c where c: "cache (disk f) = Some c" by auto
    have "unat ?o + 256 \<le> length c" by (rule sector_in_cache [OF d c v(2,3,4,1)])
    then have "fdc_ok (f\<lparr>read_pending := False, sector_buf := blit 0 (take (unat (sector_size (disk f))) (drop (unat ?o) c)) (sector_buf f)\<rparr>)"
      using assms i by (simp add: fdc_ok_def length_blit)
    then show ?thesis using False c by (simp add: load_sector_def Let_def)
  qed
qed

lemma read_data_ok:
  assumes "fdc_ok f"
  shows "\<exists>v g. fdc_read_data f = Some (v, g) \<and> fdc_ok g"
proof -
  have n: "\<exists>v g'. fdc_next_byte g = (v, g') \<and> fdc_ok g'" if "fdc_ok g" for g
    using fdc_next_byte_ok [OF that] by (cases "fdc_next_byte g") simp
  obtain g where "fdc_ok g" "load_sector f = Some (Inl g) \<or> load_sector f = Some (Inr g)"
    using load_sector_ok [OF assms] by blast
  then show ?thesis using n [OF assms] n [of g] by (auto simp: fdc_read_data_def)
qed

lemma data_byte_ok:
  assumes f: "fdc_ok f" and w: "wt_state f = WT_DATA_FIELD"
  shows "fdc_ok (write_track_field f5 v f)"
proof -
  have s: "sector_size (disk f) = 256" using disk_in(2) [OF f] by (simp add: img_ok_def)
  have p: "wt_data_pos f < 256" using f w by (simp add: fdc_ok_def)
  define g where "g = f\<lparr>sector_buf := (sector_buf f)[unat (wt_data_pos f) := v], wt_data_pos := wt_data_pos f + 1\<rparr>"
  have e: "write_track_field f5 v f =
      (if wt_data_pos g \<ge> 256 then (snd (store_sector (wt_id_sector g) g))\<lparr>wt_state := WT_IDLE\<rparr> else g)"
    using w s by (simp add: write_track_field_def g_def WT_IDLE_def WT_DATA_FIELD_def WT_WAIT_DAM_def WT_ID_FIELD_def Let_def)
  have "fdc_ok (g\<lparr>wt_data_pos := 0\<rparr>)" using f by (simp add: fdc_ok_def g_def)
  then have "fdc_ok ((snd (store_sector (wt_id_sector g) g))\<lparr>wt_data_pos := 0\<rparr>)"
    unfolding store_sector_pos by (rule store_sector_ok)
  moreover have "wt_data_pos g \<le> 256" using inc16 [OF p] p by (simp add: g_def word_le_nat_alt word_less_nat_alt)
  ultimately have "fdc_ok ((snd (store_sector (wt_id_sector g) g))\<lparr>wt_state := WT_IDLE\<rparr>)" by (intro ok_idle) simp_all
  moreover have "fdc_ok g" if "\<not> wt_data_pos g \<ge> 256" using that f by (simp add: fdc_ok_def g_def not_le)
  ultimately show ?thesis by (simp add: e)
qed

lemma write_track_field_ok: "fdc_ok f \<Longrightarrow> fdc_ok (write_track_field f5 v f)"
proof (cases "wt_state f = WT_DATA_FIELD")
  case False
  assume f: "fdc_ok f"
  show ?thesis using False f
    by (simp add: write_track_field_def Let_def)
      (simp add: fdc_ok_def WT_IDLE_def WT_DATA_FIELD_def WT_WAIT_DAM_def WT_ID_FIELD_def)
qed (rule data_byte_ok)

lemma write_track_byte_ok: "fdc_ok f \<Longrightarrow> fdc_ok (fdc_write_track_byte v f)"
  by (simp add: fdc_write_track_byte_def write_track_field_ok Let_def)

lemma write_data_ok: "fdc_ok f \<Longrightarrow> fdc_ok (fdc_write_data v f)"
proof -
  assume f: "fdc_ok f"
  have "fdc_ok (f\<lparr>sector_buf := (sector_buf f)[unat (buf_pos f) := v], buf_pos := buf_pos f + 1\<rparr>)"
    if "buf_pos f < buf_len f"
    using f inc16 [OF that] that by (simp add: fdc_ok_def word_le_nat_alt word_less_nat_alt)
  from store_sector_ok [OF this] this show ?thesis using f
    by (simp add: fdc_write_data_def write_track_byte_ok Let_def split_beta)
qed

lemma drive_select_ok: "fdc_ok f \<Longrightarrow> fdc_ok (fdc_write_drive_select v f)"
proof -
  assume f: "fdc_ok f"
  have "fdc_ok (f\<lparr>drive_select := d\<rparr>)" if "unat d < 4" for d using f that by (simp add: fdc_ok_def)
  from this [of 0] this [of 1] this [of 2] this [of 3] show ?thesis
    by (auto simp: fdc_write_drive_select_def SV_DISK_MAX_DRIVES_def Let_def)
qed

lemma image_init_ok: "img_ok (sv_disk_image_init d)"
  by (simp add: sv_disk_image_init_def img_ok_def DISK_SECTOR_SIZE_def DISK_SECTORS_def)

lemma init_ok: "length (drives f) = 4 \<Longrightarrow> fdc_ok (sv_disk_init f)"
  by (auto simp: sv_disk_init_def fdc_ok_def image_init_ok WT_DATA_FIELD_def Let_def)

lemma reset_ok: "fdc_ok f \<Longrightarrow> fdc_ok (sv_disk_reset f)"
  by (simp add: sv_disk_reset_def) (simp add: fdc_ok_def)

lemma tick_ok: "fdc_ok f \<Longrightarrow> fdc_ok (sv_disk_tick f)"
  by (simp add: sv_disk_tick_def Let_def)

lemma write_ok: "fdc_ok f \<Longrightarrow> fdc_ok (sv_disk_write a v f)"
  by (simp add: sv_disk_write_def drive_select_ok execute_ok write_data_ok Let_def)

lemma read_ok: "fdc_ok f \<Longrightarrow> \<exists>v g. sv_disk_read a f = Some (v, g) \<and> fdc_ok g"
  using read_data_ok [of f] by (auto simp: sv_disk_read_def read_status_def Let_def)

section \<open>Mounting, ejecting and flushing keep it\<close>

lemma set_drive_ok: "fdc_ok f \<Longrightarrow> img_ok d \<Longrightarrow> fdc_ok (f\<lparr>drives := (drives f)[n := d]\<rparr>)"
  by (auto simp: fdc_ok_def dest!: set_update_subset_insert [THEN subsetD])

lemma drive_ok: "fdc_ok f \<Longrightarrow> n < 4 \<Longrightarrow> img_ok (drives f ! n)"
  by (simp add: fdc_ok_def)

lemma flush_image_ok: "img_ok d \<Longrightarrow> img_ok (fst (flush_image S (d, w)))"
proof -
  assume d: "img_ok d"
  have b: "img_ok (d\<lparr>dirty_map := Some (blit 0 (replicate ((unat (cache_size d div DISK_SECTOR_SIZE) + 7) div 8) 0) dm), dirty := False\<rparr>)"
    if "dirty_map d = Some dm" for dm
  proof -
    have "length dm = (unat (cache_size d div DISK_SECTOR_SIZE) + 7) div 8"
      using d that by (simp add: img_ok_def DISK_SECTOR_SIZE_def unat_div)
    then show ?thesis using d that by (simp add: img_ok_def blit_def split: option.splits)
  qed
  have "img_ok (d\<lparr>dirty := False\<rparr>)" using d by (simp add: img_ok_def split: option.splits)
  then show ?thesis using d b by (simp add: flush_image_def Let_def split_beta split: option.split)
qed

lemma flush_ok: "fdc_ok f \<Longrightarrow> fdc_ok (fst (sv_disk_flush S n (f, w)))"
  by (simp add: sv_disk_flush_def SV_DISK_MAX_DRIVES_def split_beta set_drive_ok flush_image_ok drive_ok)

lemma close_image_ok: "img_ok d \<Longrightarrow> img_ok (close_image d)"
  by (auto simp: close_image_def img_ok_def split: option.splits)

lemma eject_ok: "fdc_ok f \<Longrightarrow> fdc_ok (fst (sv_disk_eject S n (f, w)))"
  by (simp add: sv_disk_eject_def SV_DISK_MAX_DRIVES_def Let_def split_beta set_drive_ok close_image_ok drive_ok flush_ok)

lemma load_cache_length:
  assumes "\<And>n w. length (fst (file_read S n w)) \<le> n"
  shows "length (fst (load_cache S acc n w)) = length acc + n"
  using assms
proof (induction S acc n w rule: load_cache.induct)
  case (1 S acc remaining w)
  let ?chunk = "if remaining > 512 then 512 else remaining"
  obtain got w' where g: "file_read S ?chunk w = (got, w')" by (cases "file_read S ?chunk w")
  then have "length got \<le> remaining" using "1.prems" [of ?chunk w] by (auto split: if_splits)
  then show ?case using "1.IH" [OF _ refl g [symmetric] refl] g "1.prems"
    by (subst load_cache.simps) (simp add: Let_def)
qed

text \<open>What a mount fills in.\<close>

lemma geometry_fields:
  "cache (snd (sv_disk_detect_geometry d)) = cache d" "cache_size (snd (sv_disk_detect_geometry d)) = cache_size d"
  "dirty_map (snd (sv_disk_detect_geometry d)) = dirty_map d" "mounted (snd (sv_disk_detect_geometry d)) = mounted d"
  "sector_size (snd (sv_disk_detect_geometry d)) = 256" "sectors_per_track (snd (sv_disk_detect_geometry d)) = 18"
  "sides d = 1 \<or> sides d = 2 \<Longrightarrow> sides (snd (sv_disk_detect_geometry d)) = 1 \<or> sides (snd (sv_disk_detect_geometry d)) = 2"
  by (simp_all add: sv_disk_detect_geometry_def DISK_SECTOR_SIZE_def DISK_SECTORS_def Let_def)

lemma geometry_failed_ok: "img_ok d \<Longrightarrow> cache d = None \<Longrightarrow> img_ok (snd (sv_disk_detect_geometry d))"
  using geometry_fields [of d] by (simp add: img_ok_def)

lemma cache_size_nat:
  "unat (4608 * ucast (t :: u8) :: u32) = unat t * 4608" "unat (9216 * ucast (t :: u8) :: u32) = 9216 * unat t"
proof -
  have "unat (ucast t :: u32) = unat t" using lt_256 [of t] by (simp add: unsigned_ucast_eq take_bit_nat_eq_self_iff)
  then show "unat (4608 * ucast t :: u32) = unat t * 4608" "unat (9216 * ucast t :: u32) = 9216 * unat t"
    using lt_256 [of t] by (simp_all add: unat_word_ariths)
qed

lemma size_cache_nat:
  assumes "img_ok d"
  shows "unat (cache_size (size_cache d)) = unat (tracks (size_cache d)) * unat (sides (size_cache d)) * 4608"
    "sector_size (size_cache d) = 256" "sectors_per_track (size_cache d) = 18"
    "sides (size_cache d) = 1 \<or> sides (size_cache d) = 2"
  using assms by (auto simp: size_cache_def img_ok_def Let_def cache_size_nat)

lemma fill_cache_ok:
  assumes "unat (cache_size e) = unat (tracks e) * unat (sides e) * 4608" "sector_size e = 256"
    "sectors_per_track e = 18" "sides e = 1 \<or> sides e = 2" "\<And>n w. length (fst (file_read S n w)) \<le> n"
  shows "img_ok ((fst (fill_cache S e w))\<lparr>mounted := True\<rparr>)"
proof -
  have "unat ((cache_size e div DISK_SECTOR_SIZE + 7) div 8) = (unat (cache_size e) div 256 + 7) div 8"
    using unsigned_less [of "cache_size e", where ?'a = nat] by (simp add: DISK_SECTOR_SIZE_def unat_div unat_word_ariths)
  then show ?thesis
    using assms(1-4) by (auto simp: fill_cache_def img_ok_def Let_def split_beta load_cache_length [OF assms(5)])
qed

lemma test_writable_ok: "img_ok (d\<lparr>mounted := True\<rparr>) \<Longrightarrow> img_ok ((fst (test_writable S d w))\<lparr>mounted := True\<rparr>)"
  by (simp add: test_writable_def split_beta img_ok_def split: option.splits)

lemma fill_image_ok:
  assumes "img_ok d" "\<And>n w. length (fst (file_read S n w)) \<le> n" and "\<And>n w. fst (heap_alloc S n w)"
  shows "img_ok (fst (snd (fill_image S d w)))"
  using assms(3) test_writable_ok [OF fill_cache_ok [OF size_cache_nat [OF assms(1)] assms(2)]]
  by (simp add: fill_image_def split_beta Let_def)

lemma open_image_ok:
  assumes g: "fdc_ok g" "n < 4" "cache (drives g ! n) = None"
    and S: "\<And>n w. length (fst (file_read S n w)) \<le> n" "\<And>n w. fst (heap_alloc S n w)"
  shows "fdc_ok (fst (snd (open_image S n p (g, w))))"
proof -
  define d where "d = (drives g ! n)\<lparr>path := take 255 p, image_size := file_size S (snd (sd_open S p ''r'' w)),
    read_only := False, dirty := False\<rparr>"
  have "img_ok d" "cache d = None" using drive_ok [OF g(1,2)] g(3) by (simp_all add: d_def img_ok_def)
  note e = geometry_failed_ok [OF this]
  note ok = set_drive_ok [OF g(1) fill_image_ok [OF e S]] set_drive_ok [OF g(1) e]
  show ?thesis using g(1) ok by (simp add: open_image_def d_def [symmetric] split_beta Let_def)
qed

lemma eject_empties:
  assumes "fdc_ok f" and "n < 4"
  shows "mounted (drives f ! n) \<Longrightarrow> cache (drives (fst (sv_disk_eject S n (f, w))) ! n) = None"
proof -
  have c: "cache (close_image d) = None" for d by (simp add: close_image_def)
  have l: "length (drives f) = 4" "length (drives (fst (sv_disk_flush S n (f, w)))) = 4"
    using assms(1) flush_ok [OF assms(1), of S n w] by (simp_all add: fdc_ok_def)
  show "mounted (drives f ! n) \<Longrightarrow> cache (drives (fst (sv_disk_eject S n (f, w))) ! n) = None"
    using l assms(2) by (simp add: sv_disk_eject_def SV_DISK_MAX_DRIVES_def Let_def split_beta c)
qed

lemma mount_ok:
  assumes f: "fdc_ok f"
    and S: "\<And>n w. length (fst (file_read S n w)) \<le> n" "\<And>n w. fst (heap_alloc S n w)"
  shows "fdc_ok (fst (snd (sv_disk_mount S n p (f, w))))"
proof (cases "n < 4")
  case True
  have "fdc_ok (fst (snd (mount_locked S n p (f, w))))"
  proof (cases "mounted (drives f ! n)")
    case m: True
    obtain g w1 where e: "sv_disk_eject S n (f, w) = (g, w1)" by fastforce
    show ?thesis
      using eject_ok [OF f, of S n w] eject_empties [OF f True m, of S w] m e
      by (simp add: mount_locked_def open_image_ok [OF _ True _ S])
  next
    case False
    then have "cache (drives f ! n) = None" using drive_ok [OF f True] by (auto simp: img_ok_def split: option.splits)
    then show ?thesis using False f by (simp add: mount_locked_def open_image_ok [OF _ True _ S])
  qed
  then show ?thesis using True by (simp add: sv_disk_mount_def SV_DISK_MAX_DRIVES_def)
qed (use f in \<open>simp add: sv_disk_mount_def SV_DISK_MAX_DRIVES_def\<close>)

section \<open>Runs\<close>

text \<open>What the machine does to the controller, and what the supervisor does besides.\<close>

inductive fdc_bus :: "sv_disk \<Rightarrow> sv_disk \<Rightarrow> bool" where
  bus_read: "sv_disk_read a f = Some (v, g) \<Longrightarrow> fdc_bus f g"
| bus_write: "fdc_bus f (sv_disk_write a v f)"
| tick: "fdc_bus f (sv_disk_tick f)"

inductive fdc_access :: "sv_disk \<Rightarrow> sv_disk \<Rightarrow> bool" where
  bus: "fdc_bus f g \<Longrightarrow> fdc_access f g"
| reset: "fdc_access f (sv_disk_reset f)"

inductive fdc_step :: "'w sd_card \<Rightarrow> sv_disk \<times> 'w \<Rightarrow> sv_disk \<times> 'w \<Rightarrow> bool" for S where
  access: "fdc_access f g \<Longrightarrow> fdc_step S (f, w) (g, w)"
| mount: "fdc_step S (f, w) (snd (sv_disk_mount S n p (f, w)))"
| eject: "fdc_step S (f, w) (sv_disk_eject S n (f, w))"
| flush: "fdc_step S (f, w) (sv_disk_flush S n (f, w))"

lemma bus_ok: "fdc_bus f g \<Longrightarrow> fdc_ok f \<Longrightarrow> fdc_ok g"
proof (induction rule: fdc_bus.induct)
  case (bus_read a f v g)
  then show ?case using read_ok [of f a] by auto
qed (simp_all add: write_ok tick_ok)

lemma access_ok: "fdc_access f g \<Longrightarrow> fdc_ok f \<Longrightarrow> fdc_ok g"
  by (induction rule: fdc_access.induct) (simp_all add: bus_ok reset_ok)

lemma step_ok:
  assumes S: "\<And>n w. length (fst (file_read S n w)) \<le> n" "\<And>n w. fst (heap_alloc S n w)"
  shows "fdc_step S fw gw \<Longrightarrow> fdc_ok (fst fw) \<Longrightarrow> fdc_ok (fst gw)"
  by (induction rule: fdc_step.induct) (auto intro: access_ok mount_ok [OF _ S] eject_ok flush_ok)


section \<open>A blank disk\<close>

text \<open>A controller with a blank disk of one track in every drive, and a card that is one file in RAM.\<close>

definition blank_drive :: disk_image where
  "blank_drive = \<lparr>path = ''A.DSK'', mounted = True, dirty = False, read_only = False, tracks = 1, sectors_per_track = 18,
     sector_size = 256, sides = 1, header_size = 0, image_size = 4608, cache = Some (replicate 4608 0), cache_size = 4608,
     dirty_map = Some (replicate 3 0)\<rparr>"

definition blank_disk :: sv_disk where
  "blank_disk = \<lparr>command = 0, status = 4, track = 0, sector = 1, data_reg = 0, drive_select = 0, motor_on = False,
     halt_enable = False, density = False, busy = False, drq = False, intrq = False, intrq_defer = 0, step_direction = -1,
     side = 0, sector_buf = replicate 256 0, buf_pos = 0, buf_len = 0, reading = False, read_pending = False, writing = False,
     write_track = False, wt_state = 0, wt_f5_count = 0, wt_id_pos = 0, wt_id_sector = 0, wt_data_pos = 0, wt_byte_count = 0,
     drives = replicate 4 blank_drive, nmi_callback = True, halt_callback = True, calls = []\<rparr>"

definition ram_card :: "(u8 list \<times> nat) sd_card" where
  "ram_card = \<lparr>sd_open = (\<lambda>_ _ w. (True, w)), file_size = (\<lambda>w. of_nat (length (fst w))), file_seek = (\<lambda>a w. (fst w, unat a)),
     file_read = (\<lambda>n w. (take n (drop (snd w) (fst w)), (fst w, snd w + n))),
     file_write = (\<lambda>bs w. (length bs, (blit (snd w) bs (fst w), snd w + length bs))), file_close = (\<lambda>w. w),
     heap_alloc = (\<lambda>_ w. (True, w)), map_alloc = (\<lambda>_ w. (True, w))\<rparr>"

lemma blank_img_ok: "img_ok blank_drive"
  by (simp add: blank_drive_def img_ok_def)

lemma blank_disk_ok: "fdc_ok blank_disk"
  by (simp add: blank_disk_def fdc_ok_def blank_img_ok WT_DATA_FIELD_def)


end
