(* ===== verification/Sv_Disk_Transfer.thy ===== *)
theory Sv_Disk_Transfer
  imports Sv_Disk_Bus
begin

text \<open>
  Whole sectors through the data register \<open>$FF4B\<close>: what a driver that writes a command and moves its bytes
  gets, and what it leaves on the disk.
\<close>

section \<open>Accesses of the data register\<close>

fun fdc_read_bytes :: "nat \<Rightarrow> sv_disk \<Rightarrow> (u8 list \<times> sv_disk) option" where
  "fdc_read_bytes 0 f = Some ([], f)"
| "fdc_read_bytes (Suc n) f =
     (case sv_disk_read 0xFF4B f of
        None \<Rightarrow> None
      | Some (b, g) \<Rightarrow> (case fdc_read_bytes n g of None \<Rightarrow> None | Some (bs, h) \<Rightarrow> Some (b # bs, h)))"

definition fdc_write_bytes :: "u8 list \<Rightarrow> sv_disk \<Rightarrow> sv_disk" where
  "fdc_write_bytes bs f = fold (sv_disk_write 0xFF4B) bs f"

lemma data_port: "sv_disk_read 0xFF4B f = fdc_read_data f" "sv_disk_write 0xFF4B v f = fdc_write_data v (f\<lparr>data_reg := v\<rparr>)"
  by (simp_all add: sv_disk_read_def sv_disk_write_def Let_def)

lemma command_port: "sv_disk_write 0xFF48 v f = fdc_execute_command v (set_intrq False f)"
  by (simp add: sv_disk_write_def)

lemma read_bytes_cong: "0 < n \<Longrightarrow> fdc_read_data f = fdc_read_data g \<Longrightarrow> fdc_read_bytes n f = fdc_read_bytes n g"
  by (cases n) (simp_all add: data_port)

lemma pos16: "n \<le> 256 \<Longrightarrow> unat (of_nat n :: u16) = n" "n \<le> 256 \<Longrightarrow> m \<le> 256 \<Longrightarrow> ((of_nat n :: u16) < of_nat m) = (n < m)"
proof -
  have "unat (of_nat k :: u16) = k" if "k \<le> 256" for k using that by (simp only: unsigned_of_nat) (simp add: take_bit_nat_eq_self_iff)
  then show "n \<le> 256 \<Longrightarrow> unat (of_nat n :: u16) = n" "n \<le> 256 \<Longrightarrow> m \<le> 256 \<Longrightarrow> ((of_nat n :: u16) < of_nat m) = (n < m)"
    by (simp_all add: word_less_nat_alt)
qed

section \<open>Reading\<close>

definition in_read :: "sv_disk \<Rightarrow> nat \<Rightarrow> nat \<Rightarrow> bool" where
  "in_read f p len \<longleftrightarrow> reading f \<and> \<not> read_pending f \<and> buf_pos f = of_nat p \<and> buf_len f = of_nat len \<and> p < len \<and> len \<le> 256 \<and>
     length (sector_buf f) = 256 \<and> data_reg f = sector_buf f ! p"

definition read_done :: "nat \<Rightarrow> sv_disk \<Rightarrow> sv_disk" where
  "read_done len f = f\<lparr>buf_pos := of_nat len, data_reg := sector_buf f ! (len - 1), reading := False, drq := False,
     busy := False, status := 0x00, intrq_defer := 5\<rparr>"

lemma read_mid:
  assumes "in_read f p len" "Suc p < len"
  shows "fdc_read_data f = Some (sector_buf f ! p, f\<lparr>buf_pos := of_nat (Suc p), data_reg := sector_buf f ! Suc p, drq := True\<rparr>)"
    and "in_read (f\<lparr>buf_pos := of_nat (Suc p), data_reg := sector_buf f ! Suc p, drq := True\<rparr>) (Suc p) len"
proof -
  have s: "(of_nat p + 1 :: u16) = of_nat (Suc p)" by simp
  show "fdc_read_data f = Some (sector_buf f ! p, f\<lparr>buf_pos := of_nat (Suc p), data_reg := sector_buf f ! Suc p, drq := True\<rparr>)"
    using assms unfolding in_read_def
    by (simp add: fdc_read_data_def fdc_next_byte_def s pos16 Let_def del: of_nat_Suc)
  show "in_read (f\<lparr>buf_pos := of_nat (Suc p), data_reg := sector_buf f ! Suc p, drq := True\<rparr>) (Suc p) len"
    using assms by (simp add: in_read_def del: of_nat_Suc)
qed

lemma read_last:
  assumes "in_read f p (Suc p)"
  shows "fdc_read_data f = Some (sector_buf f ! p, read_done (Suc p) f)"
proof -
  have s: "(of_nat p + 1 :: u16) = of_nat (Suc p)" by simp
  show ?thesis
    using assms unfolding in_read_def
    by (simp add: fdc_read_data_def fdc_next_byte_def read_done_def s pos16 Let_def del: of_nat_Suc)
qed

lemma read_rest:
  "in_read f p len \<Longrightarrow> fdc_read_bytes (len - p) f = Some (take (len - p) (drop p (sector_buf f)), read_done len f)"
proof (induction "len - p" arbitrary: f p)
  case (Suc k)
  have p: "p < len" "p < length (sector_buf f)" using Suc.prems by (simp_all add: in_read_def)
  have n: "len - p = Suc k" "k = len - Suc p" using Suc.hyps(2) by simp_all
  have d: "take (Suc k) (drop p (sector_buf f)) = sector_buf f ! p # take k (drop (Suc p) (sector_buf f))"
    using p(2) by (simp add: Cons_nth_drop_Suc [symmetric])
  show ?case
  proof (cases "Suc p < len")
    case True
    note m = read_mid [OF Suc.prems True]
    have "fdc_read_bytes k (f\<lparr>buf_pos := of_nat (Suc p), data_reg := sector_buf f ! Suc p, drq := True\<rparr>)
        = Some (take k (drop (Suc p) (sector_buf f)), read_done len f)"
      using Suc.hyps(1) [OF n(2) m(2)] unfolding n(2) [symmetric] by (simp add: read_done_def)
    then show ?thesis unfolding n(1) d by (simp only: fdc_read_bytes.simps data_port m(1) option.case prod.case)
  next
    case False
    then have l: "len = Suc p" "k = 0" using p(1) n by simp_all
    then have "fdc_read_data f = Some (sector_buf f ! p, read_done len f)" using read_last [of f p] Suc.prems by simp
    then show ?thesis unfolding n(1) l(2) d [unfolded l(2)] by (simp only: fdc_read_bytes.simps data_port option.case prod.case take_0)
  qed
qed (simp add: in_read_def)

text \<open>The bytes of a sector, as the cache holds them.\<close>

definition sector_bytes :: "disk_image \<Rightarrow> u8 \<Rightarrow> u8 \<Rightarrow> u8 \<Rightarrow> u8 list" where
  "sector_bytes d trk sd sec = take 256 (drop (unat (sector_offset d trk sd sec)) (the (cache d)))"

definition valid_sector :: "disk_image \<Rightarrow> u8 \<Rightarrow> u8 \<Rightarrow> u8 \<Rightarrow> bool" where
  "valid_sector d trk sd sec \<longleftrightarrow> 1 \<le> sec \<and> sec \<le> sectors_per_track d \<and> trk < tracks d \<and> sd < sides d"

lemma valid_sector_offset:
  assumes "img_ok d" and "cache d = Some c"
  shows "valid_sector d trk sd sec \<longleftrightarrow> sector_offset d trk sd sec \<noteq> UINT32_MAX"
    and "valid_sector d trk sd sec \<Longrightarrow> unat (sector_offset d trk sd sec) + 256 \<le> length c"
    and "valid_sector d trk sd sec \<Longrightarrow> \<not> sector_offset d trk sd sec + 256 > cache_size d"
proof -
  have v: "1 \<le> unat sec" "unat sec \<le> 18" "trk < tracks d" "sd < sides d" if "valid_sector d trk sd sec"
    using that assms(1) by (simp_all add: valid_sector_def img_ok_def word_le_nat_alt)
  show b: "unat (sector_offset d trk sd sec) + 256 \<le> length c" if "valid_sector d trk sd sec"
    by (rule sector_in_cache [OF assms v(2,3,4,1)]) (rule that)+
  show "\<not> sector_offset d trk sd sec + 256 > cache_size d" if "valid_sector d trk sd sec"
    using b [OF that] sector_offset_nat(2) [OF assms(1) v] that sector_in_cache(2) [OF assms v(2,3,4,1)]
    by (simp add: word_less_nat_alt)
  have "sector_offset d trk sd sec \<noteq> UINT32_MAX" if "valid_sector d trk sd sec"
  proof
    assume m: "sector_offset d trk sd sec = UINT32_MAX"
    have "unat (sector_offset d trk sd sec + 256) = unat (sector_offset d trk sd sec) + 256"
      using sector_offset_nat(2) [OF assms(1) v] that by blast
    then show False by (simp add: m UINT32_MAX_def)
  qed
  moreover have "valid_sector d trk sd sec" if "sector_offset d trk sd sec \<noteq> UINT32_MAX"
    using that by (auto simp: sector_offset_def valid_sector_def word_less_nat_alt word_le_nat_alt split: if_splits)
  ultimately show "valid_sector d trk sd sec \<longleftrightarrow> sector_offset d trk sd sec \<noteq> UINT32_MAX" by blast
qed

definition is_read :: "u8 \<Rightarrow> bool" where "is_read v \<longleftrightarrow> v AND 0xF0 = 0x80 \<or> v AND 0xF0 = 0x90"
definition is_write :: "u8 \<Rightarrow> bool" where "is_write v \<longleftrightarrow> v AND 0xF0 = 0xA0 \<or> v AND 0xF0 = 0xB0"

lemma execute_read: "is_read v \<Longrightarrow> cache (disk f) \<noteq> None \<Longrightarrow> mounted (disk f) \<Longrightarrow>
    fdc_execute_command v f = f\<lparr>command := v, busy := True, write_track := False, writing := False, intrq_defer := 0,
      buf_pos := 0, buf_len := sector_size (disk f), reading := True, read_pending := True, drq := True, status := 0x03\<rparr>"
  by (auto simp: is_read_def fdc_execute_command_def cmd_read_sector_def Let_def disk_def)

definition loaded :: "sv_disk \<Rightarrow> sv_disk" where
  "loaded f = (let b = sector_bytes (disk f) (track f) (side f) (sector f)
     in f\<lparr>read_pending := False, sector_buf := b, data_reg := b ! 0\<rparr>)"

lemma mounted_cache: "img_ok d \<Longrightarrow> mounted d \<Longrightarrow> \<exists>c. cache d = Some c"
  by (cases "cache d") (simp_all add: img_ok_def)

lemma sector_bytes_length:
  assumes "img_ok d" "mounted d" "valid_sector d trk sd sec"
  shows "length (sector_bytes d trk sd sec) = 256"
  using valid_sector_offset(2) [OF assms(1) _ assms(3)] mounted_cache [OF assms(1,2)] by (auto simp: sector_bytes_def)

lemma load_first:
  assumes f: "fdc_ok f" "mounted (disk f)" "valid_sector (disk f) (track f) (side f) (sector f)" and p: "read_pending f"
  shows "fdc_read_data f = fdc_read_data (loaded f)"
proof -
  have d: "img_ok (disk f)" using f(1) by (rule disk_in)
  obtain c where c: "cache (disk f) = Some c" using mounted_cache [OF d f(2)] ..
  let ?o = "sector_offset (disk f) (track f) (side f) (sector f)"
  note v = valid_sector_offset [OF d c, of "track f" "side f" "sector f"]
  have n: "?o \<noteq> UINT32_MAX" "\<not> ?o + 256 > cache_size (disk f)" "unat ?o + 256 \<le> length c" using v f(3) by simp_all
  have s: "sector_size (disk f) = 256" "length (sector_buf f) = 256" using d f(1) by (simp_all add: img_ok_def fdc_ok_def)
  have b: "sector_bytes (disk f) (track f) (side f) (sector f) = take 256 (drop (unat ?o) c)" by (simp add: sector_bytes_def c)
  have "load_sector f = Some (Inr (loaded f))"
    using n s by (simp add: load_sector_def loaded_def b blit_def c Let_def)
  then show ?thesis using p by (simp add: fdc_read_data_def loaded_def Let_def)
qed

lemma read_sector:
  assumes f: "fdc_ok f" "mounted (disk f)" "valid_sector (disk f) (track f) (side f) (sector f)" and v: "is_read v"
  shows "\<exists>h. fdc_read_bytes 256 (sv_disk_write 0xFF48 v f)
      = Some (sector_bytes (disk f) (track f) (side f) (sector f), h) \<and>
    status h = 0 \<and> \<not> busy h \<and> \<not> drq h \<and> drives h = drives f \<and> drive_select h = drive_select f \<and> intrq_defer h = 5 \<and> \<not> intrq h"
proof -
  define g where "g = sv_disk_write 0xFF48 v f"
  have d: "img_ok (disk f)" using f(1) by (rule disk_in)
  obtain c where c: "cache (disk f) = Some c" using mounted_cache [OF d f(2)] ..
  have e: "g = (set_intrq False f)\<lparr>command := v, busy := True, write_track := False, writing := False, intrq_defer := 0,
      buf_pos := 0, buf_len := sector_size (disk f), reading := True, read_pending := True, drq := True, status := 0x03\<rparr>"
    unfolding g_def command_port using f(2) c v by (simp add: execute_read)
  have k: "track (set_intrq False f) = track f" "side (set_intrq False f) = side f" "sector (set_intrq False f) = sector f"
    "drives (set_intrq False f) = drives f" "drive_select (set_intrq False f) = drive_select f" "\<not> intrq (set_intrq False f)"
    by (simp_all add: set_intrq_def signal_nmi_def Let_def)
  have s: "disk g = disk f" "track g = track f" "side g = side f" "sector g = sector f" "drives g = drives f"
    "drive_select g = drive_select f" "\<not> intrq g" "read_pending g" "reading g"
    by (simp_all add: e k disk_def)
  have ok: "fdc_ok g" unfolding g_def by (rule write_ok [OF f(1)])
  let ?b = "sector_bytes (disk f) (track f) (side f) (sector f)"
  have l: "length ?b = 256" by (rule sector_bytes_length [OF d f(2,3)])
  have "in_read (loaded g) 0 256"
    using l d by (simp add: in_read_def loaded_def s Let_def) (simp add: e img_ok_def)
  then have "fdc_read_bytes 256 (loaded g) = Some (take 256 (sector_buf (loaded g)), read_done 256 (loaded g))"
    using read_rest [of "loaded g" 0 256] by simp
  moreover have "fdc_read_bytes 256 g = fdc_read_bytes 256 (loaded g)"
    using load_first [OF ok] f(2,3) s by (intro read_bytes_cong) simp_all
  ultimately show ?thesis
    unfolding g_def [symmetric] using l by (simp add: loaded_def read_done_def s Let_def)
qed

section \<open>Writing\<close>

definition in_write :: "sv_disk \<Rightarrow> nat \<Rightarrow> bool" where
  "in_write f p \<longleftrightarrow> writing f \<and> \<not> write_track f \<and> buf_pos f = of_nat p \<and> buf_len f = 256 \<and> p < 256 \<and> length (sector_buf f) = 256"

definition finish_write :: "sv_disk \<Rightarrow> sv_disk" where
  "finish_write f =
     (let (valid, f) = store_sector (sector f) f
      in set_intrq True (f\<lparr>writing := False, drq := False, busy := False, status := (if \<not> valid then 0x10 else 0x00)\<rparr>))"

lemma finish_write_drq: "finish_write (f\<lparr>drq := b\<rparr>) = finish_write f"
  by (simp add: finish_write_def store_sector_def disk_def set_disk_def Let_def split: option.split)

lemma write_mid:
  assumes "in_write f p" "Suc p < 256"
  shows "fdc_write_data v f = f\<lparr>sector_buf := (sector_buf f)[p := v], buf_pos := of_nat (Suc p), drq := True\<rparr>"
proof -
  have s: "(of_nat p + 1 :: u16) = of_nat (Suc p)" by simp
  have n: "\<not> (256 :: u16) \<le> of_nat (Suc p)" "(of_nat p :: u16) < 256" "unat (of_nat p :: u16) = p"
    using pos16(2) [of "Suc p" 256] pos16(2) [of p 256] pos16(1) [of p] assms(2) by (simp_all add: not_le)
  show ?thesis
    using assms n unfolding in_write_def by (simp add: fdc_write_data_def s Let_def del: of_nat_Suc)
qed

lemma write_last:
  assumes "in_write f 255"
  shows "fdc_write_data v f = finish_write (f\<lparr>sector_buf := (sector_buf f)[255 := v], buf_pos := 256\<rparr>)"
  using assms unfolding in_write_def by (simp add: fdc_write_data_def finish_write_def Let_def)

lemma write_rest:
  "in_write f p \<Longrightarrow> length bs = 256 - p \<Longrightarrow>
    fdc_write_bytes bs f = finish_write (f\<lparr>data_reg := last bs, sector_buf := take p (sector_buf f) @ bs, buf_pos := 256\<rparr>)"
proof (induction bs arbitrary: f p)
  case (Cons b bs)
  have p: "p < 256" "length (sector_buf f) = 256" using Cons.prems(1) by (simp_all add: in_write_def)
  let ?f = "f\<lparr>data_reg := b\<rparr>"
  have w: "in_write ?f p" using Cons.prems(1) by (simp add: in_write_def)
  have e: "fdc_write_bytes (b # bs) f = fdc_write_bytes bs (fdc_write_data b ?f)"
    by (simp add: fdc_write_bytes_def data_port)
  have t: "take (Suc p) ((sector_buf f)[p := b]) = take p (sector_buf f) @ [b]"
    using p by (simp add: take_Suc_conv_app_nth)
  show ?case
  proof (cases "Suc p < 256")
    case True
    let ?g = "?f\<lparr>sector_buf := (sector_buf ?f)[p := b], buf_pos := of_nat (Suc p), drq := True\<rparr>"
    have "in_write ?g (Suc p)" using w True by (simp add: in_write_def del: of_nat_Suc)
    from Cons.IH [OF this] have "fdc_write_bytes bs ?g =
        finish_write (?g\<lparr>data_reg := last bs, sector_buf := take (Suc p) (sector_buf ?g) @ bs, buf_pos := 256\<rparr>)"
      using Cons.prems(2) p by simp
    also have "\<dots> = finish_write (f\<lparr>data_reg := last bs, sector_buf := take p (sector_buf f) @ b # bs, buf_pos := 256\<rparr>\<lparr>drq := True\<rparr>)"
      by (rule arg_cong [where f = finish_write]) (simp add: t)
    finally have "fdc_write_bytes bs ?g =
        finish_write (f\<lparr>data_reg := last bs, sector_buf := take p (sector_buf f) @ b # bs, buf_pos := 256\<rparr>)"
      unfolding finish_write_drq .
    moreover have "bs \<noteq> []" using Cons.prems(2) True by auto
    ultimately show ?thesis unfolding e write_mid [OF w True] by simp
  next
    case False
    then have l: "p = 255" using p by simp
    then have l: "p = 255" "bs = []" using Cons.prems(2) by simp_all
    have "(sector_buf f)[255 := b] = take 255 (sector_buf f) @ [b]"
      using t p(2) by (simp add: l)
    then show ?thesis unfolding e write_last [OF w [unfolded l(1)]] by (simp add: l fdc_write_bytes_def)
  qed
qed (simp add: in_write_def)

lemma execute_write:
  assumes "is_write v" "cache (disk f) \<noteq> None" "mounted (disk f)" "\<not> read_only (disk f)"
  shows "fdc_execute_command v f = f\<lparr>command := v, busy := True, reading := False, read_pending := False, write_track := False,
      intrq_defer := 0, buf_pos := 0, buf_len := sector_size (disk f), writing := True, drq := True, status := 0x03\<rparr>"
  using assms by (auto simp: is_write_def fdc_execute_command_def cmd_write_sector_def Let_def disk_def)

text \<open>The state a WRITE SECTOR of the bytes \<open>bs\<close> ends in.\<close>

definition written :: "u8 \<Rightarrow> u8 list \<Rightarrow> sv_disk \<Rightarrow> sv_disk" where
  "written v bs f = finish_write ((set_intrq False f)\<lparr>command := v, busy := True, reading := False, read_pending := False,
     write_track := False, intrq_defer := 0, buf_pos := 256, buf_len := 256, writing := True, drq := True, status := 0x03,
     data_reg := last bs, sector_buf := bs\<rparr>)"

lemma set_intrq_keeps [simp]:
  "track (set_intrq b f) = track f" "side (set_intrq b f) = side f" "sector (set_intrq b f) = sector f"
  "drives (set_intrq b f) = drives f" "drive_select (set_intrq b f) = drive_select f" "intrq (set_intrq b f) = b"
  "sector_buf (set_intrq b f) = sector_buf f" "busy (set_intrq b f) = busy f" "status (set_intrq b f) = status f"
  "drq (set_intrq b f) = drq f" "reading (set_intrq b f) = reading f" "writing (set_intrq b f) = writing f"
  "write_track (set_intrq b f) = write_track f" "read_pending (set_intrq b f) = read_pending f" "density (set_intrq b f) = density f"
  "buf_len (set_intrq b f) = buf_len f" "buf_pos (set_intrq b f) = buf_pos f"
  by (simp_all add: set_intrq_def signal_nmi_def signal_halt_def Let_def)

lemma write_command:
  assumes f: "fdc_ok f" "mounted (disk f)" "\<not> read_only (disk f)" and v: "is_write v" and bs: "length bs = 256"
  shows "fdc_write_bytes bs (sv_disk_write 0xFF48 v f) = written v bs f"
proof -
  define g where "g = (set_intrq False f)\<lparr>command := v, busy := True, reading := False, read_pending := False, write_track := False,
      intrq_defer := 0, buf_pos := 0, buf_len := sector_size (disk f), writing := True, drq := True, status := 0x03\<rparr>"
  have d: "img_ok (disk f)" using f(1) by (rule disk_in)
  obtain c where c: "cache (disk f) = Some c" using mounted_cache [OF d f(2)] ..
  have "sv_disk_write 0xFF48 v f = g"
    unfolding command_port g_def using f(2,3) c by (subst execute_write [OF v]) simp_all
  moreover have s: "length (sector_buf f) = 256" "sector_size (disk f) = 256" using d f(1) by (simp_all add: img_ok_def fdc_ok_def)
  moreover from s have "in_write g 0" by (simp add: g_def in_write_def)
  moreover note write_rest [OF this, of bs]
  ultimately show ?thesis using bs
    unfolding written_def by simp (rule arg_cong [where f = finish_write], simp add: g_def)
qed

lemma finish_write_valid:
  assumes f: "fdc_ok f" "cache (disk f) = Some c" "valid_sector (disk f) (track f) (side f) (sector f)"
  shows "finish_write f = set_intrq True ((set_disk (sv_disk_mark_dirty (sector_offset (disk f) (track f) (side f) (sector f)) 256
      ((disk f)\<lparr>cache := Some (blit (unat (sector_offset (disk f) (track f) (side f) (sector f))) (sector_buf f) c)\<rparr>)) f)
      \<lparr>writing := False, drq := False, busy := False, status := 0\<rparr>)"
proof -
  have d: "img_ok (disk f)" using f(1) by (rule disk_in)
  note v = valid_sector_offset [OF d f(2), of "track f" "side f" "sector f"]
  have "sector_size (disk f) = 256" "length (sector_buf f) = 256" using d f(1) by (simp_all add: img_ok_def fdc_ok_def)
  then show ?thesis using v(1,3) f(2,3) by (simp add: finish_write_def store_sector_def not_less Let_def)
qed

text \<open>Different sectors do not overlap.\<close>

definition sector_index :: "disk_image \<Rightarrow> u8 \<Rightarrow> u8 \<Rightarrow> u8 \<Rightarrow> nat" where
  "sector_index d trk sd sec = (unat trk * unat (sides d) + unat sd) * 18 + (unat sec - 1)"

lemma valid_nat:
  assumes "img_ok d" "valid_sector d trk sd sec"
  shows "1 \<le> unat sec" "unat sec \<le> 18" "trk < tracks d" "sd < sides d" "unat sd < unat (sides d)"
  using assms by (simp_all add: valid_sector_def img_ok_def word_le_nat_alt word_less_nat_alt)

lemma sector_index_offset:
  "img_ok d \<Longrightarrow> valid_sector d trk sd sec \<Longrightarrow> unat (sector_offset d trk sd sec) = sector_index d trk sd sec * 256"
  using sector_offset_nat(1) valid_nat unfolding sector_index_def by blast

lemma mixed_radix: "(a :: nat) * n + b = a' * n + b' \<Longrightarrow> b < n \<Longrightarrow> b' < n \<Longrightarrow> a = a' \<and> b = b'"
  by (metis add.commute div_mult_self3 div_less add.left_neutral mod_mult_self3 mod_less less_nat_zero_code)

lemma sector_index_inj:
  assumes "img_ok d" "valid_sector d trk sd sec" "valid_sector d trk' sd' sec'"
    and "sector_index d trk sd sec = sector_index d trk' sd' sec'"
  shows "trk = trk' \<and> sd = sd' \<and> sec = sec'"
proof -
  note v = valid_nat [OF assms(1,2)] valid_nat [OF assms(1,3)]
  have "unat trk * unat (sides d) + unat sd = unat trk' * unat (sides d) + unat sd' \<and> unat sec - 1 = unat sec' - 1"
    using v by (intro mixed_radix [OF assms(4) [unfolded sector_index_def]]) simp_all
  moreover from this have "unat trk = unat trk' \<and> unat sd = unat sd'"
    using v by (intro mixed_radix [of "unat trk" "unat (sides d)"]) simp_all
  ultimately show ?thesis using v by (auto simp: word_unat_eq_iff)
qed

lemma blit_slice:
  assumes "m * 256 + 256 \<le> length c" "length bs = 256" "n * 256 + 256 \<le> length c"
  shows "take 256 (drop (n * 256) (blit (m * 256) bs c)) = (if n = m then bs else take 256 (drop (n * 256) c))"
proof -
  consider "n = m" | "n < m" | "m < n" by linarith
  then show ?thesis
  proof cases
    case 2
    then have "n * 256 + 256 \<le> m * 256" "256 \<le> m * 256 - n * 256" by simp_all
    then show ?thesis using 2 assms by (simp add: blit_def drop_take min_def)
  next
    case 3
    then have "m * 256 + 256 \<le> n * 256" by simp
    then show ?thesis using 3 assms by (simp add: blit_def min_def)
  qed (use assms in \<open>simp add: blit_def\<close>)
qed

lemma valid_mark [simp]: "valid_sector (sv_disk_mark_dirty a l d) trk sd sec = valid_sector d trk sd sec"
  "sector_offset (sv_disk_mark_dirty a l d) trk sd sec = sector_offset d trk sd sec"
  by (simp_all add: valid_sector_def sector_offset_def)

lemma valid_cache [simp]: "valid_sector (d\<lparr>cache := c\<rparr>) trk sd sec = valid_sector d trk sd sec"
  "sector_offset (d\<lparr>cache := c\<rparr>) trk sd sec = sector_offset d trk sd sec"
  by (simp_all add: valid_sector_def sector_offset_def)

lemma disk_set_disk: "fdc_ok f \<Longrightarrow> disk (set_disk d f) = d"
  by (simp add: disk_def set_disk_def fdc_ok_def)

lemma disk_keeps [simp]:
  "disk (f\<lparr>buf_pos := a, buf_len := b, writing := w, drq := q, status := s, data_reg := x, sector_buf := y\<rparr>) = disk f"
  by (simp add: disk_def)

lemma written_result:
  assumes f: "fdc_ok f" "cache (disk f) = Some c" "valid_sector (disk f) (track f) (side f) (sector f)" and bs: "length bs = 256"
  shows "drives (written v bs f) = drives (set_disk (sv_disk_mark_dirty (sector_offset (disk f) (track f) (side f) (sector f)) 256
      ((disk f)\<lparr>cache := Some (blit (unat (sector_offset (disk f) (track f) (side f) (sector f))) bs c)\<rparr>)) f)"
    and "status (written v bs f) = 0" "\<not> busy (written v bs f)" "intrq (written v bs f)" "\<not> writing (written v bs f)"
    and "track (written v bs f) = track f" "side (written v bs f) = side f" "sector (written v bs f) = sector f"
    and "drive_select (written v bs f) = drive_select f"
proof -
  define g where "g = (set_intrq False f)\<lparr>command := v, busy := True, reading := False, read_pending := False,
     write_track := False, intrq_defer := 0, buf_pos := 256, buf_len := 256, writing := True, drq := True, status := 0x03,
     data_reg := last bs, sector_buf := bs\<rparr>"
  have k: "disk g = disk f" "track g = track f" "side g = side f" "sector g = sector f" "sector_buf g = bs"
    "drives g = drives f" "drive_select g = drive_select f"
    by (simp_all add: g_def disk_def)
  have "fdc_ok g" using f(1) ok_signals(3) [of False f] bs unfolding g_def by (simp add: fdc_ok_def)
  from finish_write_valid [OF this] have w: "written v bs f = set_intrq True ((set_disk (sv_disk_mark_dirty
      (sector_offset (disk f) (track f) (side f) (sector f)) 256
      ((disk f)\<lparr>cache := Some (blit (unat (sector_offset (disk f) (track f) (side f) (sector f))) bs c)\<rparr>)) g)
      \<lparr>writing := False, drq := False, busy := False, status := 0\<rparr>)"
    using f(2,3) unfolding written_def g_def [symmetric] k by simp
  show "drives (written v bs f) = drives (set_disk (sv_disk_mark_dirty (sector_offset (disk f) (track f) (side f) (sector f)) 256
      ((disk f)\<lparr>cache := Some (blit (unat (sector_offset (disk f) (track f) (side f) (sector f))) bs c)\<rparr>)) f)"
    "status (written v bs f) = 0" "\<not> busy (written v bs f)" "intrq (written v bs f)" "\<not> writing (written v bs f)"
    "track (written v bs f) = track f" "side (written v bs f) = side f" "sector (written v bs f) = sector f"
    "drive_select (written v bs f) = drive_select f"
    unfolding w by (simp_all add: set_disk_def k)
qed

lemma write_bytes_ok: "fdc_ok f \<Longrightarrow> fdc_ok (fdc_write_bytes bs f)"
  unfolding fdc_write_bytes_def by (induction bs arbitrary: f) (simp_all add: write_ok)

text \<open>
  C21: A WRITE SECTOR command for an existing sector of a mounted, writable drive, followed by its 256
  bytes, ends at once with a clean status and INTRQ; from then on that sector reads as the bytes, every
  other sector of the disk as before, and a READ SECTOR of it delivers exactly the bytes written.
\<close>

theorem disk_write_read:
  assumes f: "fdc_ok f" "mounted (disk f)" "\<not> read_only (disk f)" "valid_sector (disk f) (track f) (side f) (sector f)"
    and v: "is_write wc" "is_read rc" and bs: "length bs = 256"
  shows "let g = fdc_write_bytes bs (sv_disk_write 0xFF48 wc f)
    in status g = 0 \<and> \<not> busy g \<and> intrq g \<and>
      (\<forall>trk sd sec. valid_sector (disk g) trk sd sec = valid_sector (disk f) trk sd sec) \<and>
      (\<forall>trk sd sec. valid_sector (disk f) trk sd sec \<longrightarrow> sector_bytes (disk g) trk sd sec =
        (if trk = track f \<and> sd = side f \<and> sec = sector f then bs else sector_bytes (disk f) trk sd sec)) \<and>
      (\<exists>h. fdc_read_bytes 256 (sv_disk_write 0xFF48 rc g) = Some (bs, h) \<and> status h = 0 \<and> \<not> busy h)"
proof -
  have d: "img_ok (disk f)" using f(1) by (rule disk_in)
  obtain c where c: "cache (disk f) = Some c" using mounted_cache [OF d f(2)] ..
  define g where "g = fdc_write_bytes bs (sv_disk_write 0xFF48 wc f)"
  have e: "g = written wc bs f" unfolding g_def by (rule write_command [OF f(1,2,3) v(1) bs])
  note r = written_result [OF f(1) c f(4) bs, of wc, folded e]
  let ?o = "sector_offset (disk f) (track f) (side f) (sector f)"
  have dg: "disk g = sv_disk_mark_dirty ?o 256 ((disk f)\<lparr>cache := Some (blit (unat ?o) bs c)\<rparr>)"
    using r(1,9) f(1) by (simp add: disk_def set_disk_def fdc_ok_def)
  have va: "valid_sector (disk g) trk sd sec = valid_sector (disk f) trk sd sec" for trk sd sec by (simp add: dg)
  have sb: "sector_bytes (disk g) trk sd sec =
      (if trk = track f \<and> sd = side f \<and> sec = sector f then bs else sector_bytes (disk f) trk sd sec)"
    if w: "valid_sector (disk f) trk sd sec" for trk sd sec
  proof -
    note o = sector_index_offset [OF d f(4)] sector_index_offset [OF d w]
    have "sector_bytes (disk g) trk sd sec =
        (if sector_index (disk f) trk sd sec = sector_index (disk f) (track f) (side f) (sector f) then bs
         else sector_bytes (disk f) trk sd sec)"
      using valid_sector_offset(2) [OF d c w] valid_sector_offset(2) [OF d c f(4)] bs
      unfolding sector_bytes_def dg by (simp add: o c blit_slice)
    then show ?thesis using sector_index_inj [OF d w f(4)] by auto
  qed
  have "fdc_ok g" unfolding g_def by (intro write_bytes_ok write_ok f(1))
  from read_sector [OF this _ _ v(2)]
  have "\<exists>h. fdc_read_bytes 256 (sv_disk_write 0xFF48 rc g) = Some (bs, h) \<and> status h = 0 \<and> \<not> busy h"
    using f(2,4) va sb [OF f(4)] r by (auto simp: dg)
  then show ?thesis unfolding g_def [symmetric] using r va sb by simp
qed

theorem disk_write_read_witness:
  "let g = fdc_write_bytes (replicate 256 0x5A) (sv_disk_write 0xFF48 0xA0 blank_disk)
    in status g = 0 \<and> \<not> busy g \<and> intrq g \<and>
      (\<forall>trk sd sec. valid_sector (disk g) trk sd sec = valid_sector (disk blank_disk) trk sd sec) \<and>
      (\<forall>trk sd sec. valid_sector (disk blank_disk) trk sd sec \<longrightarrow> sector_bytes (disk g) trk sd sec =
        (if trk = track blank_disk \<and> sd = side blank_disk \<and> sec = sector blank_disk then replicate 256 0x5A
         else sector_bytes (disk blank_disk) trk sd sec)) \<and>
      (\<exists>h. fdc_read_bytes 256 (sv_disk_write 0xFF48 0x80 g) = Some (replicate 256 0x5A, h) \<and> status h = 0 \<and> \<not> busy h)"
  by (rule disk_write_read [OF blank_disk_ok])
    (simp_all add: disk_def blank_disk_def blank_drive_def valid_sector_def is_write_def is_read_def)

end
