(* ===== verification/Sv_Disk_Finish.thy ===== *)
theory Sv_Disk_Finish
  imports Sv_Disk_Transfer
begin

text \<open>
  How commands of the disk controller end: the errors a driver is told of, and INTRQ at the end of every
  command whatever drive, track and sector it names.
\<close>

section \<open>Errors\<close>

lemma disk_intrq [simp]: "disk ((set_intrq b f)\<lparr>busy := x, status := y\<rparr>) = disk f"
  by (simp add: disk_def)

lemma refuse_unmounted:
  assumes "\<not> mounted (disk f)" and "is_read v \<or> is_write v \<or> v AND 0xF0 = 0xF0"
  shows "status (sv_disk_write 0xFF48 v f) = 0x80 \<and> \<not> busy (sv_disk_write 0xFF48 v f) \<and> intrq (sv_disk_write 0xFF48 v f) \<and>
    drives (sv_disk_write 0xFF48 v f) = drives f"
  unfolding command_port using assms
  by (auto simp: is_read_def is_write_def fdc_execute_command_def cmd_read_sector_def cmd_write_sector_def cmd_write_track_def Let_def disk_def)

lemma refuse_protected:
  assumes "mounted (disk f)" "cache (disk f) \<noteq> None" "read_only (disk f)" and "is_write v \<or> v AND 0xF0 = 0xF0"
  shows "status (sv_disk_write 0xFF48 v f) = 0x40 \<and> \<not> busy (sv_disk_write 0xFF48 v f) \<and> intrq (sv_disk_write 0xFF48 v f) \<and>
    drives (sv_disk_write 0xFF48 v f) = drives f"
  unfolding command_port using assms
  by (auto simp: is_write_def fdc_execute_command_def cmd_write_sector_def cmd_write_track_def Let_def disk_def)

lemma read_started:
  assumes "fdc_ok f" "mounted (disk f)" "is_read v"
  shows "\<exists>g. sv_disk_write 0xFF48 v f = g \<and> fdc_ok g \<and> read_pending g \<and> reading g \<and> busy g \<and> \<not> intrq g \<and> disk g = disk f \<and>
    drives g = drives f \<and> track g = track f \<and> side g = side f \<and> sector g = sector f \<and> intrq_defer g = 0"
proof -
  obtain c where c: "cache (disk f) = Some c" using mounted_cache [OF disk_in(2) [OF assms(1)] assms(2)] ..
  have "sv_disk_write 0xFF48 v f = (set_intrq False f)\<lparr>command := v, busy := True, write_track := False, writing := False,
      intrq_defer := 0, buf_pos := 0, buf_len := sector_size (disk f), reading := True, read_pending := True, drq := True, status := 0x03\<rparr>"
    unfolding command_port using assms c by (simp add: execute_read)
  moreover have "fdc_ok (sv_disk_write 0xFF48 v f)" by (rule write_ok [OF assms(1)])
  ultimately show ?thesis by (simp add: disk_def)
qed

lemma set_intrq_defer [simp]: "intrq_defer (set_intrq b f) = intrq_defer f"
  by (simp add: set_intrq_def signal_nmi_def signal_halt_def Let_def)

lemma read_missing:
  assumes f: "fdc_ok f" "mounted (disk f)" "\<not> valid_sector (disk f) (track f) (side f) (sector f)" and v: "is_read v"
  shows "\<exists>h. sv_disk_read 0xFF4B (sv_disk_write 0xFF48 v f) = Some (0xFF, h) \<and> status h = 0x10 \<and> \<not> busy h \<and> intrq h \<and>
    drives h = drives f \<and> intrq_defer h = 0"
proof -
  obtain g where g: "sv_disk_write 0xFF48 v f = g" "read_pending g" "disk g = disk f" "drives g = drives f"
    "track g = track f" "side g = side f" "sector g = sector f" "intrq_defer g = 0"
    using read_started [OF f(1,2) v] by blast
  have d: "img_ok (disk f)" using f(1) by (rule disk_in)
  obtain c where c: "cache (disk f) = Some c" using mounted_cache [OF d f(2)] ..
  have "sector_offset (disk f) (track f) (side f) (sector f) = UINT32_MAX"
    using valid_sector_offset(1) [OF d c] f(3) by blast
  then show ?thesis unfolding g(1) data_port
    using g by (simp add: fdc_read_data_def load_sector_def Let_def)
qed

lemma finish_invalid:
  assumes "sector_offset (disk f) (track f) (side f) (sector f) = UINT32_MAX"
  shows "status (finish_write f) = 0x10 \<and> \<not> busy (finish_write f) \<and> intrq (finish_write f) \<and> drives (finish_write f) = drives f"
  using assms by (simp add: finish_write_def store_sector_def Let_def split: option.split)

lemma write_missing:
  assumes f: "fdc_ok f" "mounted (disk f)" "\<not> read_only (disk f)" "\<not> valid_sector (disk f) (track f) (side f) (sector f)"
    and v: "is_write v" and bs: "length bs = 256"
  shows "let g = fdc_write_bytes bs (sv_disk_write 0xFF48 v f) in status g = 0x10 \<and> \<not> busy g \<and> intrq g \<and> drives g = drives f"
proof -
  have d: "img_ok (disk f)" using f(1) by (rule disk_in)
  obtain c where c: "cache (disk f) = Some c" using mounted_cache [OF d f(2)] ..
  have "sector_offset (disk f) (track f) (side f) (sector f) = UINT32_MAX"
    using valid_sector_offset(1) [OF d c] f(4) by blast
  moreover define g where "g = (set_intrq False f)\<lparr>command := v, busy := True, reading := False, read_pending := False,
     write_track := False, intrq_defer := 0, buf_pos := 256, buf_len := 256, writing := True, drq := True, status := 0x03,
     data_reg := last bs, sector_buf := bs\<rparr>"
  moreover have "disk g = disk f" "track g = track f" "side g = side f" "sector g = sector f" "drives g = drives f"
    by (simp_all add: g_def disk_def)
  ultimately show ?thesis
    using finish_invalid [of g] unfolding write_command [OF f(1,2,3) v bs] Let_def written_def g_def [symmetric] by simp
qed

text \<open>
  C26: An empty drive refuses sector commands with NOT READY, a write-protected one refuses writes with
  WRITE PROTECT, and a sector the disk does not have is RECORD NOT FOUND: at the first byte of a read,
  at the end of a write. Each raises INTRQ, leaves the controller idle and no disk changed.
\<close>

theorem disk_errors:
  assumes f: "fdc_ok f" and bs: "length bs = 256"
  shows "let g = sv_disk_write 0xFF48 v f; w = fdc_write_bytes bs g;
      refused = (\<lambda>g st. status g = st \<and> \<not> busy g \<and> intrq g \<and> drives g = drives f);
      missing = (\<not> valid_sector (disk f) (track f) (side f) (sector f))
    in (\<not> mounted (disk f) \<and> (is_read v \<or> is_write v \<or> v AND 0xF0 = 0xF0) \<longrightarrow> refused g 0x80) \<and>
      (mounted (disk f) \<and> read_only (disk f) \<and> (is_write v \<or> v AND 0xF0 = 0xF0) \<longrightarrow> refused g 0x40) \<and>
      (mounted (disk f) \<and> missing \<and> is_read v \<longrightarrow> (\<exists>h. sv_disk_read 0xFF4B g = Some (0xFF, h) \<and> refused h 0x10)) \<and>
      (mounted (disk f) \<and> \<not> read_only (disk f) \<and> missing \<and> is_write v \<longrightarrow> refused w 0x10)"
proof -
  have c: "mounted (disk f) \<Longrightarrow> cache (disk f) \<noteq> None" using mounted_cache [OF disk_in(2) [OF f]] by auto
  show ?thesis
    unfolding Let_def
    using refuse_unmounted [of f v] refuse_protected [OF _ c, of v] read_missing [OF f, of v]
      write_missing [OF f _ _ _ _ bs, of v, unfolded Let_def]
    by blast
qed

theorem disk_errors_witness:
  "let f = blank_disk\<lparr>sector := 19\<rparr>; g = sv_disk_write 0xFF48 0x80 f; w = fdc_write_bytes (replicate 256 0) g;
      refused = (\<lambda>g st. status g = st \<and> \<not> busy g \<and> intrq g \<and> drives g = drives f);
      missing = (\<not> valid_sector (disk f) (track f) (side f) (sector f))
    in (\<not> mounted (disk f) \<and> (is_read 0x80 \<or> is_write 0x80 \<or> (0x80 :: u8) AND 0xF0 = 0xF0) \<longrightarrow> refused g 0x80) \<and>
      (mounted (disk f) \<and> read_only (disk f) \<and> (is_write 0x80 \<or> (0x80 :: u8) AND 0xF0 = 0xF0) \<longrightarrow> refused g 0x40) \<and>
      (mounted (disk f) \<and> missing \<and> is_read 0x80 \<longrightarrow> (\<exists>h. sv_disk_read 0xFF4B g = Some (0xFF, h) \<and> refused h 0x10)) \<and>
      (mounted (disk f) \<and> \<not> read_only (disk f) \<and> missing \<and> is_write 0x80 \<longrightarrow> refused w 0x10)"
  unfolding Let_def by (rule disk_errors [unfolded Let_def]) (simp_all add: blank_disk_ok)

section \<open>Every command ends\<close>

lemma tick_defer: "intrq_defer f = of_nat (Suc n) \<Longrightarrow> n < 255 \<Longrightarrow> intrq ((sv_disk_tick ^^ Suc n) f)"
proof (induction n arbitrary: f)
  case (Suc n)
  have b: "(of_nat (Suc (Suc n)) :: u8) \<noteq> 0" "(of_nat (Suc n) :: u8) \<noteq> 0"
    using Suc.prems(2) by (simp_all add: word_unat_eq_iff unsigned_of_nat take_bit_nat_eq_self del: of_nat_Suc)
  have "(of_nat (Suc (Suc n)) - 1 :: u8) = of_nat (Suc n)" by simp
  then have "sv_disk_tick f = f\<lparr>intrq_defer := of_nat (Suc n)\<rparr>"
    using Suc.prems(1) b by (simp add: sv_disk_tick_def word_neq_0_conv Let_def del: of_nat_Suc)
  then show ?case using Suc.IH [of "f\<lparr>intrq_defer := of_nat (Suc n)\<rparr>"] Suc.prems(2)
    by (simp add: funpow_Suc_right del: funpow.simps of_nat_Suc)
qed (simp add: sv_disk_tick_def Let_def)

lemma tick_idle: "intrq_defer f = 0 \<Longrightarrow> (sv_disk_tick ^^ n) f = f"
  by (induction n) (simp_all add: sv_disk_tick_def)

lemma read_ends:
  assumes "in_read f 0 len"
  shows "\<exists>n\<le>256. \<exists>bs h. fdc_read_bytes n f = Some (bs, h) \<and> \<not> busy h \<and> intrq ((sv_disk_tick ^^ 5) h)"
proof -
  have "len \<le> 256" using assms by (simp add: in_read_def)
  moreover have "intrq ((sv_disk_tick ^^ 5) (read_done len f))"
    using tick_defer [of "read_done len f" 4] by (simp add: read_done_def)
  moreover have "\<not> busy (read_done len f)" by (simp add: read_done_def)
  ultimately show ?thesis using read_rest [OF assms] by auto
qed

lemma execute_address:
  assumes "fdc_ok f" "v AND 0xF0 = 0xC0"
  shows "in_read (sv_disk_write 0xFF48 v f) 0 6"
proof -
  have l: "length (sector_buf (set_intrq False f)) = 256" using assms(1) by (simp add: fdc_ok_def)
  show ?thesis unfolding command_port in_read_def
    using assms(2) l by (simp add: fdc_execute_command_def cmd_read_address_def blit_def Let_def)
qed

lemma store_sector_keeps [simp]:
  "write_track (snd (store_sector s f)) = write_track f" "wt_byte_count (snd (store_sector s f)) = wt_byte_count f"
  by (simp_all add: store_sector_def set_disk_def Let_def split: option.split)

lemma write_track_field_keeps [simp]:
  "write_track (write_track_field n v f) = write_track f" "wt_byte_count (write_track_field n v f) = wt_byte_count f"
  by (simp_all add: write_track_field_def Let_def)

lemma set_drq_keeps [simp]:
  "write_track (set_drq b f) = write_track f" "wt_byte_count (set_drq b f) = wt_byte_count f"
  by (simp_all add: set_drq_def signal_halt_def Let_def)

lemma write_track_step:
  assumes "write_track f" "wt_byte_count f = of_nat k" "k < 6250"
  shows "if Suc k = 6250 then intrq (fdc_write_data v f) \<and> \<not> busy (fdc_write_data v f)
    else write_track (fdc_write_data v f) \<and> wt_byte_count (fdc_write_data v f) = of_nat (Suc k)"
proof -
  have s: "(of_nat k + 1 :: u16) = of_nat (Suc k)" by simp
  have "unat (of_nat (Suc k) :: u16) = Suc k"
    using assms(3) by (simp only: unsigned_of_nat) (simp add: take_bit_nat_eq_self_iff)
  then have "(WT_TRACK_BYTES \<le> of_nat (Suc k)) = (Suc k = 6250)"
    using assms(3) by (auto simp: WT_TRACK_BYTES_def word_le_nat_alt simp del: of_nat_Suc)
  then show ?thesis
    using assms by (cases "k = 6249") (simp_all add: fdc_write_data_def fdc_write_track_byte_def WT_TRACK_BYTES_def s Let_def del: of_nat_Suc)
qed

lemma write_track_ends:
  "write_track f \<Longrightarrow> wt_byte_count f = of_nat k \<Longrightarrow> k + length bs = 6250 \<Longrightarrow> bs \<noteq> [] \<Longrightarrow>
    intrq (fdc_write_bytes bs f) \<and> \<not> busy (fdc_write_bytes bs f)"
proof (induction bs arbitrary: f k)
  case (Cons b bs)
  have e: "fdc_write_bytes (b # bs) f = fdc_write_bytes bs (fdc_write_data b (f\<lparr>data_reg := b\<rparr>))"
    by (simp add: fdc_write_bytes_def data_port)
  have s: "if Suc k = 6250 then intrq (fdc_write_data b (f\<lparr>data_reg := b\<rparr>)) \<and> \<not> busy (fdc_write_data b (f\<lparr>data_reg := b\<rparr>))
      else write_track (fdc_write_data b (f\<lparr>data_reg := b\<rparr>)) \<and> wt_byte_count (fdc_write_data b (f\<lparr>data_reg := b\<rparr>)) = of_nat (Suc k)"
    using Cons.prems by (intro write_track_step) auto
  show ?case
  proof (cases "bs = []")
    case True
    then show ?thesis using s Cons.prems(3) unfolding e by (simp add: fdc_write_bytes_def)
  next
    case False
    then have "Suc k \<noteq> 6250" using Cons.prems(3) by auto
    then show ?thesis unfolding e using s False Cons.prems(3) by (intro Cons.IH [of _ "Suc k"]) (simp_all del: of_nat_Suc)
  qed
qed simp

lemma write_track_started:
  assumes "mounted (disk f)" "cache (disk f) \<noteq> None" "\<not> read_only (disk f)" and "v AND 0xF0 = 0xF0"
  shows "write_track (sv_disk_write 0xFF48 v f) \<and> wt_byte_count (sv_disk_write 0xFF48 v f) = 0"
  unfolding command_port using assms
  by (auto simp: fdc_execute_command_def cmd_write_track_def Let_def disk_def)

lemma single_step_commands:
  assumes "\<not> is_read v" "\<not> is_write v" "v AND 0xF0 \<notin> {0xC0, 0xD0, 0xF0}"
  shows "intrq (sv_disk_write 0xFF48 v f) \<and> \<not> busy (sv_disk_write 0xFF48 v f)"
  unfolding command_port using assms
  by (simp add: is_read_def is_write_def fdc_execute_command_def cmd_restore_def cmd_seek_def cmd_step_def not_ready_def Let_def)

text \<open>
  C23: Every command but FORCE INTERRUPT comes to its end with INTRQ, whatever drive, track and sector it
  names: at once, or with at most 256 reads of the data register and five ticks, or with the 256 bytes of
  a sector or the 6250 of a track written. The driver's transfer loops, which only NMI leaves, end.
\<close>

theorem disk_commands_finish:
  assumes f: "fdc_ok f" and v: "v AND 0xF0 \<noteq> 0xD0"
  shows "let g = sv_disk_write 0xFF48 v f; ends = (\<lambda>h. intrq h \<and> \<not> busy h)
    in ends g \<or>
      ((is_read v \<or> v AND 0xF0 = 0xC0) \<and> (\<exists>n\<le>256. \<exists>bs h. fdc_read_bytes n g = Some (bs, h) \<and> \<not> busy h \<and> intrq ((sv_disk_tick ^^ 5) h))) \<or>
      (is_write v \<and> (\<forall>bs. length bs = 256 \<longrightarrow> ends (fdc_write_bytes bs g))) \<or>
      (v AND 0xF0 = 0xF0 \<and> (\<forall>bs. length bs = 6250 \<longrightarrow> ends (fdc_write_bytes bs g)))"
proof (cases "is_read v \<or> is_write v \<or> v AND 0xF0 = 0xF0")
  case False
  then show ?thesis
    using single_step_commands [of v f] execute_address [OF f, of v] read_ends v by (fastforce simp: Let_def)
next
  case True
  have c: "mounted (disk f) \<Longrightarrow> cache (disk f) \<noteq> None" using mounted_cache [OF disk_in(2) [OF f]] by auto
  consider "\<not> mounted (disk f)" | "mounted (disk f)" "is_read v"
    | "mounted (disk f)" "read_only (disk f)" "is_write v \<or> v AND 0xF0 = 0xF0"
    | "mounted (disk f)" "\<not> read_only (disk f)" "is_write v" | "mounted (disk f)" "\<not> read_only (disk f)" "v AND 0xF0 = 0xF0"
    using True by blast
  then show ?thesis
  proof cases
    case 1
    then show ?thesis using refuse_unmounted [OF 1 True] by (simp add: Let_def)
  next
    case 2
    show ?thesis
    proof (cases "valid_sector (disk f) (track f) (side f) (sector f)")
      case True
      obtain h where "fdc_read_bytes 256 (sv_disk_write 0xFF48 v f) = Some (sector_bytes (disk f) (track f) (side f) (sector f), h)"
        "\<not> busy h" "intrq_defer h = 5"
        using read_sector [OF f 2(1) True 2(2)] by blast
      moreover from this(3) have "intrq ((sv_disk_tick ^^ 5) h)" using tick_defer [of h 4] by simp
      ultimately show ?thesis unfolding Let_def using 2(2) by blast
    next
      case False
      obtain h where "sv_disk_read 0xFF4B (sv_disk_write 0xFF48 v f) = Some (0xFF, h)" "\<not> busy h" "intrq h" "intrq_defer h = 0"
        using read_missing [OF f 2(1) False 2(2)] by blast
      then have "fdc_read_bytes 1 (sv_disk_write 0xFF48 v f) = Some ([0xFF], h)" "\<not> busy h" "intrq ((sv_disk_tick ^^ 5) h)"
        by (simp_all add: tick_idle)
      moreover have "(1::nat) \<le> 256" by simp
      ultimately show ?thesis unfolding Let_def using 2(2) by blast
    qed
  next
    case 3
    then show ?thesis using refuse_protected [OF 3(1) c [OF 3(1)] 3(2,3)] by (simp add: Let_def)
  next
    case 4
    have "intrq (fdc_write_bytes bs (sv_disk_write 0xFF48 v f)) \<and> \<not> busy (fdc_write_bytes bs (sv_disk_write 0xFF48 v f))"
      if "length bs = 256" for bs
      unfolding write_command [OF f 4 that] written_def by (simp add: finish_write_def split_beta Let_def)
    then show ?thesis using 4(3) by (simp add: Let_def)
  next
    case 5
    have "intrq (fdc_write_bytes bs (sv_disk_write 0xFF48 v f)) \<and> \<not> busy (fdc_write_bytes bs (sv_disk_write 0xFF48 v f))"
      if "length bs = 6250" for bs
      using write_track_started [OF 5(1) c [OF 5(1)] 5(2,3)] that by (intro write_track_ends [where k = 0]) auto
    then show ?thesis using 5(3) by (simp add: Let_def)
  qed
qed

theorem disk_commands_finish_witness:
  "let g = sv_disk_write 0xFF48 0x80 blank_disk; ends = (\<lambda>h. intrq h \<and> \<not> busy h)
    in ends g \<or>
      ((is_read 0x80 \<or> (0x80 :: u8) AND 0xF0 = 0xC0) \<and> (\<exists>n\<le>256. \<exists>bs h. fdc_read_bytes n g = Some (bs, h) \<and> \<not> busy h \<and> intrq ((sv_disk_tick ^^ 5) h))) \<or>
      (is_write 0x80 \<and> (\<forall>bs. length bs = 256 \<longrightarrow> ends (fdc_write_bytes bs g))) \<or>
      ((0x80 :: u8) AND 0xF0 = 0xF0 \<and> (\<forall>bs. length bs = 6250 \<longrightarrow> ends (fdc_write_bytes bs g)))"
  by (rule disk_commands_finish [OF blank_disk_ok]) simp

end
