(* ===== verification/Sv_Disk_Flush.thy ===== *)
theory Sv_Disk_Flush
  imports Sv_Disk_Transfer
begin

text \<open>
  What \<open>sv_disk_flush\<close> leaves on the card: the dirty map covers every difference between an image's cache
  and its file, and a flush makes the two equal.
\<close>

section \<open>The card\<close>

text \<open>
  What the flush relies on of the open file: its content, and its position \<open>pos\<close>. A write may be short,
  but it moves at least one byte.
\<close>

definition card_laws :: "'w sd_card \<Rightarrow> ('w \<Rightarrow> u8 list) \<Rightarrow> ('w \<Rightarrow> nat) \<Rightarrow> bool" where
  "card_laws S content pos \<longleftrightarrow>
     (\<forall>p w. fst (sd_open S p ''r+'' w) \<and> content (snd (sd_open S p ''r+'' w)) = content w) \<and>
     (\<forall>a w. content (file_seek S a w) = content w \<and> (unat a \<le> length (content w) \<longrightarrow> pos (file_seek S a w) = unat a)) \<and>
     (\<forall>bs w. bs \<noteq> [] \<and> pos w + length bs \<le> length (content w) \<longrightarrow>
        0 < fst (file_write S bs w) \<and> fst (file_write S bs w) \<le> length bs \<and>
        content (snd (file_write S bs w)) = blit (pos w) (take (fst (file_write S bs w)) bs) (content w) \<and>
        pos (snd (file_write S bs w)) = pos w + fst (file_write S bs w)) \<and>
     (\<forall>w. content (file_close S w) = content w)"

lemma card_lawsD:
  assumes "card_laws S content pos"
  shows "fst (sd_open S p ''r+'' w)" "content (snd (sd_open S p ''r+'' w)) = content w"
    and "content (file_seek S a w) = content w" "unat a \<le> length (content w) \<Longrightarrow> pos (file_seek S a w) = unat a"
    and "content (file_close S w) = content w"
    and "bs \<noteq> [] \<Longrightarrow> pos w + length bs \<le> length (content w) \<Longrightarrow> 0 < fst (file_write S bs w)"
    and "bs \<noteq> [] \<Longrightarrow> pos w + length bs \<le> length (content w) \<Longrightarrow> fst (file_write S bs w) \<le> length bs"
    and "bs \<noteq> [] \<Longrightarrow> pos w + length bs \<le> length (content w) \<Longrightarrow>
      content (snd (file_write S bs w)) = blit (pos w) (take (fst (file_write S bs w)) bs) (content w)"
    and "bs \<noteq> [] \<Longrightarrow> pos w + length bs \<le> length (content w) \<Longrightarrow> pos (snd (file_write S bs w)) = pos w + fst (file_write S bs w)"
  using assms unfolding card_laws_def by blast+

section \<open>Writing a run\<close>

lemma blit_blit:
  "a + length xs + length ys \<le> length f \<Longrightarrow> blit (a + length xs) ys (blit a xs f) = blit a (xs @ ys) f"
  by (simp add: blit_def add.commute add.left_commute)

lemma blit_nil: "blit a [] f = f" by (simp add: blit_def)

lemma flush_write_content:
  assumes "card_laws S content pos"
  shows "pos w = h + p \<Longrightarrow> p + remaining \<le> length c \<Longrightarrow> h + length c \<le> length (content w) \<Longrightarrow>
    content (snd (flush_write S c p remaining (t, w))) = blit (h + p) (take remaining (drop p c)) (content w)"
proof (induction remaining arbitrary: p t w rule: less_induct)
  case (less remaining)
  show ?case
  proof (cases "remaining = 0")
    case True
    then show ?thesis by (subst flush_write.simps) (simp add: blit_nil)
  next
    case False
    let ?chunk = "if remaining > 512 then 512 else remaining"
    let ?bs = "take ?chunk (drop p c)"
    obtain n w' where e: "file_write S ?bs w = (n, w')" by fastforce
    have ch: "0 < ?chunk" "?chunk \<le> remaining" using False by auto
    then have l: "length ?bs = ?chunk" using less.prems(2) by simp
    have "0 < length ?bs" unfolding l by (rule ch(1))
    moreover have "pos w + length ?bs \<le> length (content w)" unfolding l using ch(2) less.prems by linarith
    ultimately have p: "?bs \<noteq> []" "pos w + length ?bs \<le> length (content w)" by blast+
    note r = card_lawsD(6-9) [OF assms p, unfolded e fst_conv snd_conv l]
    have n: "take n ?bs = take n (drop p c)" using r(2) by (simp add: min_def)
    have c': "content w' = blit (h + p) (take n (drop p c)) (content w)" using r(3) less.prems(1) n by simp
    have ln: "length (take n (drop p c)) = n" using r(2) ch less.prems(2) by simp
    have "length (content w') = length (content w)"
      unfolding c' using ln r(2) ch less.prems(2,3) by (intro length_blit) simp
    then have "content (snd (flush_write S c (p + n) (remaining - n) (t + n, w'))) =
        blit (h + (p + n)) (take (remaining - n) (drop (p + n) c)) (content w')"
      using r ch less.prems by (intro less.IH) auto
    also have "\<dots> = blit (h + p) (take n (drop p c) @ take (remaining - n) (drop n (drop p c))) (content w)"
      using blit_blit [of "h + p" "take n (drop p c)" "take (remaining - n) (drop n (drop p c))" "content w"] ln
        less.prems(2,3) r(2) ch by (simp add: c' add.assoc add.commute add.left_commute)
    also have "take n (drop p c) @ take (remaining - n) (drop n (drop p c)) = take remaining (drop p c)"
      using take_add [of n "remaining - n" "drop p c"] le_trans [OF r(2) ch(2)] by simp
    finally show ?thesis using False e r(1) by (subst flush_write.simps) (simp add: Let_def)
  qed
qed

text \<open>The sectors of a file behind its header of \<open>h\<close> bytes, and those of a cache.\<close>

definition fsec :: "nat \<Rightarrow> u8 list \<Rightarrow> nat \<Rightarrow> u8 list" where
  "fsec h xs s = take 256 (drop (h + s * 256) xs)"

lemma nth_blit:
  "off + length bs \<le> length xs \<Longrightarrow> i < length xs \<Longrightarrow>
    blit off bs xs ! i = (if off \<le> i \<and> i < off + length bs then bs ! (i - off) else xs ! i)"
  by (auto simp: blit_def nth_append min_def)

lemma fsec_eqI:
  assumes "h + s * 256 + 256 \<le> length xs" "g + t * 256 + 256 \<le> length ys"
    and "\<And>k. k < 256 \<Longrightarrow> xs ! (h + s * 256 + k) = ys ! (g + t * 256 + k)"
  shows "fsec h xs s = fsec g ys t"
  using assms by (intro nth_equalityI) (simp_all add: fsec_def)

lemma blit_sectors:
  assumes l: "h + length c \<le> length xs" "(first + count) * 256 \<le> length c" "s * 256 + 256 \<le> length c"
  shows "fsec h (blit (h + first * 256) (take (count * 256) (drop (first * 256) c)) xs) s =
    (if first \<le> s \<and> s < first + count then fsec 0 c s else fsec h xs s)"
proof -
  let ?bs = "take (count * 256) (drop (first * 256) c)"
  have b: "length ?bs = count * 256" using l(2) by (simp add: algebra_simps)
  have le: "h + first * 256 + length ?bs \<le> length xs" unfolding b using l(1,2) by (simp add: algebra_simps)
  note n = nth_blit [OF le] and len = length_blit [OF le]
  show ?thesis
  proof (cases "first \<le> s \<and> s < first + count")
    case True
    then obtain k where k: "s = first + k" "k < count" by (metis add_less_cancel_left le_iff_add)
    have "fsec h (blit (h + first * 256) ?bs xs) s = fsec 0 c s"
    proof (rule fsec_eqI)
      fix i :: nat assume i: "i < 256"
      have ki: "k * 256 + i < count * 256" using k(2) i by (simp add: div_less_iff_less_mult [symmetric])
      have "blit (h + first * 256) ?bs xs ! (h + s * 256 + i) = ?bs ! (k * 256 + i)"
        using n [of "h + s * 256 + i"] ki l k i unfolding b by (simp add: algebra_simps)
      also have "\<dots> = c ! (0 + s * 256 + i)" using ki l(2) k by (simp add: algebra_simps)
      finally show "blit (h + first * 256) ?bs xs ! (h + s * 256 + i) = c ! (0 + s * 256 + i)" .
    qed (use l len in simp_all)
    then show ?thesis using True by simp
  next
    case False
    then have o: "s * 256 + 256 \<le> first * 256 \<or> (first + count) * 256 \<le> s * 256" by auto
    have "fsec h (blit (h + first * 256) ?bs xs) s = fsec h xs s"
    proof (rule fsec_eqI)
      fix i :: nat assume i: "i < 256"
      have "\<not> (h + first * 256 \<le> h + s * 256 + i \<and> h + s * 256 + i < h + first * 256 + count * 256)"
        using o i by (auto simp: algebra_simps)
      then show "blit (h + first * 256) ?bs xs ! (h + s * 256 + i) = xs ! (h + s * 256 + i)"
        using n [of "h + s * 256 + i", unfolded b] l i by auto
    qed (use l len in simp_all)
    then show ?thesis using False by auto
  qed
qed

text \<open>A file that has grown into the cache in the sectors of \<open>T\<close>, and is otherwise as it was.\<close>

definition updated :: "nat \<Rightarrow> u8 list \<Rightarrow> (nat \<Rightarrow> bool) \<Rightarrow> u8 list \<Rightarrow> u8 list \<Rightarrow> bool" where
  "updated h c T xs ys \<longleftrightarrow> length ys = length xs \<and> take h ys = take h xs \<and> drop (h + length c) ys = drop (h + length c) xs \<and>
     (\<forall>s. s * 256 + 256 \<le> length c \<longrightarrow> fsec h ys s = (if T s then fsec 0 c s else fsec h xs s))"

lemma flush_run_updates:
  assumes laws: "card_laws S content pos" and img: "img_ok img" "cache img = Some c"
    and len: "unat (header_size img) + length c \<le> length (content w)" and b: "(first + count) * 256 \<le> length c"
  shows "updated (unat (header_size img)) c (\<lambda>s. first \<le> s \<and> s < first + count) (content w)
    (content (snd (flush_run S img c first count w)))"
proof -
  let ?h = "unat (header_size img)"
  have sz: "unat (cache_size img) = length c" "length c \<le> 255 * 2 * 4608"
  proof -
    show "unat (cache_size img) = length c" using img by (simp add: img_ok_def)
    have "length c = unat (tracks img) * unat (sides img) * 4608" using img by (simp add: img_ok_def)
    also have "\<dots> \<le> 255 * 2 * 4608" using lt_256 [of "tracks img"] sides_le [OF img(1)] by (intro mult_le_mono) simp_all
    finally show "length c \<le> 255 * 2 * 4608" .
  qed
  let ?a = "ucast (header_size img) + of_nat (first * 256) :: u32"
  have "?h < 65536" using unsigned_less [of "header_size img", where ?'a = nat] by simp
  then have u: "unat ?a = ?h + first * 256"
    using b sz(2) by (simp add: unat_word_ariths unsigned_of_nat take_bit_nat_eq_self)
  let ?w = "file_seek S ?a w"
  have r: "content ?w = content w" "pos ?w = ?h + first * 256"
    using card_lawsD(3,4) [OF laws] u len b by simp_all
  let ?bs = "take (count * 256) (drop (first * 256) c)"
  have fb: "first * 256 + count * 256 \<le> length c" using b by (simp add: add_mult_distrib)
  have e: "flush_run S img c first count w = flush_write S c (first * 256) (count * 256) (0, ?w)"
    using fb sz(1) by (simp add: flush_run_def DISK_SECTOR_SIZE_def Let_def)
  have lb: "length ?bs = count * 256" using fb by simp
  have le: "?h + first * 256 + length ?bs \<le> length (content w)" unfolding lb using fb len by linarith
  have c: "content (snd (flush_run S img c first count w)) = blit (?h + first * 256) ?bs (content w)"
    unfolding e r(1) [symmetric] using r fb len by (intro flush_write_content [OF laws]) simp_all
  have "take ?h (blit (?h + first * 256) ?bs (content w)) = take ?h (content w)"
    using le by (simp add: blit_def min_def)
  moreover have "drop (?h + length c) (blit (?h + first * 256) ?bs (content w)) = drop (?h + length c) (content w)"
    using le lb fb by (simp add: blit_def add.commute)
  ultimately show ?thesis
    unfolding updated_def c using blit_sectors [OF len b] length_blit [OF le] by blast
qed

lemma updated_trans:
  "updated h c T xs ys \<Longrightarrow> updated h c U ys zs \<Longrightarrow> updated h c (\<lambda>s. T s \<or> U s) xs zs"
  by (simp add: updated_def)

lemma updated_weaken:
  "updated h c T xs ys \<Longrightarrow> (\<And>s. s * 256 + 256 \<le> length c \<Longrightarrow> T s = U s) \<Longrightarrow> updated h c U xs ys"
  by (simp add: updated_def)

lemma updated_refl: "updated h c (\<lambda>s. False) xs xs"
  by (simp add: updated_def)

section \<open>Writing what is dirty\<close>

lemma run_end_bound: "s \<le> nsec \<Longrightarrow> run_end dm nsec s \<le> nsec"
proof (induction dm nsec s rule: run_end.induct)
  case (1 dm nsec s)
  then show ?case by (subst run_end.simps) simp
qed

lemma run_end_dirty: "s \<le> t \<Longrightarrow> t < run_end dm nsec s \<Longrightarrow> dirty_bit dm t"
proof (induction dm nsec s rule: run_end.induct)
  case (1 dm nsec s)
  show ?case
  proof (cases "s < nsec \<and> dirty_bit dm s")
    case True
    then have e: "run_end dm nsec s = run_end dm nsec (Suc s)" by (subst run_end.simps) simp
    show ?thesis using 1 True e by (cases "t = s") auto
  next
    case False
    then have e: "run_end dm nsec s = s" by (subst run_end.simps) auto
    then show ?thesis using 1 by simp
  qed
qed

lemma flush_runs_updates:
  assumes laws: "card_laws S content pos" and img: "img_ok img" "cache img = Some c" and nsec: "nsec * 256 = length c"
  shows "unat (header_size img) + length c \<le> length (content w) \<Longrightarrow>
    updated (unat (header_size img)) c (\<lambda>t. s \<le> t \<and> dirty_bit dm t) (content w)
      (content (snd (flush_runs S img c dm nsec s (tot, w))))"
proof (induction "nsec - s" arbitrary: s tot w rule: less_induct)
  case less
  have lt: "t < nsec" if "t * 256 + 256 \<le> length c" for t using that unfolding nsec [symmetric] by simp
  consider "nsec \<le> s" | "s < nsec" "\<not> dirty_bit dm s" | "s < nsec" "dirty_bit dm s" by linarith
  then show ?case
  proof cases
    case 1
    then show ?thesis using lt by (subst flush_runs.simps) (fastforce intro!: updated_weaken [OF updated_refl])
  next
    case 2
    have "updated (unat (header_size img)) c (\<lambda>t. Suc s \<le> t \<and> dirty_bit dm t) (content w)
        (content (snd (flush_runs S img c dm nsec (Suc s) (tot, w))))"
      using 2(1) less.prems by (intro less.hyps) simp_all
    then show ?thesis using 2
      by (subst flush_runs.simps) (auto elim!: updated_weaken simp: Suc_le_eq le_less)
  next
    case 3
    let ?e = "run_end dm nsec s"
    have e: "s < ?e" "?e \<le> nsec" using run_end_less run_end_bound 3 by simp_all
    obtain n w' where r: "flush_run S img c s (?e - s) w = (n, w')" by fastforce
    have "(s + (?e - s)) * 256 \<le> length c" using e unfolding nsec [symmetric] by simp
    note u1 = flush_run_updates [OF laws img less.prems this, unfolded r snd_conv]
    have l: "unat (header_size img) + length c \<le> length (content w')" using u1 less.prems by (simp add: updated_def)
    have "updated (unat (header_size img)) c (\<lambda>t. ?e \<le> t \<and> dirty_bit dm t) (content w')
        (content (snd (flush_runs S img c dm nsec ?e (tot + n, w'))))"
      using e l by (intro less.hyps) simp_all
    from updated_trans [OF u1 this] show ?thesis using 3 e r
      by (subst flush_runs.simps) (auto elim!: updated_weaken simp: Let_def intro: run_end_dirty)
  qed
qed

text \<open>What the dirty map says: a clean sector is on the card as it is in the cache.\<close>

definition in_sync :: "disk_image \<Rightarrow> u8 list \<Rightarrow> bool" where
  "in_sync d xs \<longleftrightarrow>
     (\<forall>c. cache d = Some c \<longrightarrow> unat (header_size d) + length c \<le> length xs \<and>
       (\<forall>s. s * 256 + 256 \<le> length c \<longrightarrow>
          \<not> (dirty d \<and> (case dirty_map d of None \<Rightarrow> True | Some dm \<Rightarrow> dirty_bit dm s)) \<longrightarrow>
          fsec (unat (header_size d)) xs s = fsec 0 c s))"

lemma img_sectors:
  assumes "img_ok d" "cache d = Some c"
  shows "unat (cache_size d div DISK_SECTOR_SIZE) * 256 = length c"
proof -
  have "length c = unat (cache_size d)" "unat (cache_size d) = unat (tracks d) * unat (sides d) * 18 * 256"
    using assms by (simp_all add: img_ok_def)
  moreover from this(2) have "unat (cache_size d) div 256 * 256 = unat (cache_size d)" by (metis nonzero_mult_div_cancel_right zero_neq_numeral)
  ultimately show ?thesis by (simp add: DISK_SECTOR_SIZE_def unat_div)
qed

lemma sectors_all:
  assumes l: "n * 256 = length c" "h + length c \<le> length xs" and s: "\<And>s. s * 256 + 256 \<le> length c \<Longrightarrow> fsec h xs s = fsec 0 c s"
  shows "take (length c) (drop h xs) = c"
proof (rule nth_equalityI)
  fix i assume "i < length (take (length c) (drop h xs))"
  then have i: "i < n * 256" using l by simp
  then have "i div 256 < n" by (simp add: less_mult_imp_div_less)
  then have "(i div 256) * 256 + 256 \<le> length c" unfolding l(1) [symmetric] by simp
  from s [OF this] have "fsec h xs (i div 256) ! (i mod 256) = fsec 0 c (i div 256) ! (i mod 256)" by simp
  then show "take (length c) (drop h xs) ! i = c ! i" using i l by (simp add: fsec_def add.commute)
qed (use l in simp)

lemma flush_image_equal:
  assumes laws: "card_laws S content pos" and img: "img_ok img" "cache img = Some c" "\<not> read_only img"
    and sync: "in_sync img (content w)"
  shows "let (img', w') = flush_image S (img, w); h = unat (header_size img)
    in content w' = take h (content w) @ c @ drop (h + length c) (content w) \<and> cache img' = Some c \<and> \<not> dirty img'"
proof -
  let ?h = "unat (header_size img)"
  have m: "mounted img" using img(1,2) by (simp add: img_ok_def)
  note n = img_sectors [OF img(1,2)]
  let ?n = "unat (cache_size img div DISK_SECTOR_SIZE)"
  have len: "?h + length c \<le> length (content w)" using sync img(2) by (simp add: in_sync_def)
  have whole: "xs = take ?h (content w) @ c @ drop (?h + length c) (content w)"
    if u: "updated ?h c T (content w) xs" and t: "\<And>s. s * 256 + 256 \<le> length c \<Longrightarrow> \<not> T s \<Longrightarrow> fsec ?h (content w) s = fsec 0 c s" for T xs
  proof -
    have l: "?h + length c \<le> length xs" "take ?h xs = take ?h (content w)"
      "drop (?h + length c) xs = drop (?h + length c) (content w)"
      using u len by (simp_all add: updated_def)
    have "take (length c) (drop ?h xs) = c"
      using u t by (intro sectors_all [OF n l(1)]) (auto simp: updated_def)
    then show ?thesis using l by (metis append_take_drop_id drop_drop add.commute)
  qed
  show ?thesis
  proof (cases "dirty img")
    case False
    then show ?thesis
      using img m whole [OF updated_refl] sync by (simp add: flush_image_def in_sync_def)
  next
    case True
    define w1 where "w1 = snd (sd_open S (path img) ''r+'' w)"
    have c1: "content w1 = content w" by (simp add: w1_def card_lawsD(2) [OF laws])
    have o: "sd_open S (path img) ''r+'' w = (True, w1)"
      using card_lawsD(1) [OF laws, of "path img" w] by (simp add: w1_def prod_eq_iff)
    define w2 where "w2 = (case dirty_map img of None \<Rightarrow> snd (flush_run S img c 0 ?n w1)
      | Some dm \<Rightarrow> snd (flush_runs S img c dm ?n 0 (0, w1)))"
    have u: "updated ?h c (\<lambda>s. case dirty_map img of None \<Rightarrow> True | Some dm \<Rightarrow> dirty_bit dm s) (content w) (content w2)"
    proof (cases "dirty_map img")
      case None
      have l: "?h + length c \<le> length (content w1)" "(0 + ?n) * 256 \<le> length c" using len n c1 by simp_all
      have "s < ?n" if "s * 256 + 256 \<le> length c" for s using that unfolding n [symmetric] by simp
      then show ?thesis using flush_run_updates [OF laws img(1,2) l] None
        by (auto simp: w2_def c1 elim!: updated_weaken)
    next
      case (Some dm)
      then show ?thesis using flush_runs_updates [OF laws img(1,2) n, of w1 0 dm 0] len by (simp add: w2_def c1)
    qed
    have w: "content w2 = take ?h (content w) @ c @ drop (?h + length c) (content w)"
      by (rule whole [OF u]) (use sync img(2) True in \<open>auto simp: in_sync_def\<close>)
    have e: "fst (flush_image S (img, w)) = (case dirty_map img of None \<Rightarrow> img
        | Some dm \<Rightarrow> img\<lparr>dirty_map := Some (blit 0 (replicate ((?n + 7) div 8) 0) dm)\<rparr>)\<lparr>dirty := False\<rparr>"
      "snd (flush_image S (img, w)) = file_close S w2"
      using img m True by (simp_all add: flush_image_def o w2_def Let_def split: option.split)
    then have "content (snd (flush_image S (img, w))) = content w2" using card_lawsD(5) [OF laws] by simp
    moreover have "cache (fst (flush_image S (img, w))) = Some c" "\<not> dirty (fst (flush_image S (img, w)))"
      unfolding e using img(2) by (simp_all split: option.split)
    ultimately show ?thesis using w by (simp add: split_beta Let_def)
  qed
qed

section \<open>The dirty map covers the changes\<close>

lemma drives_signals [simp]:
  "drives (signal_halt h f) = drives f" "drives (signal_nmi h f) = drives f" "drives (set_drq h f) = drives f" "drives (not_ready f) = drives f"
  by (simp_all add: signal_halt_def signal_nmi_def set_drq_def not_ready_def Let_def)

lemma drives_execute [simp]: "drives (fdc_execute_command v f) = drives f"
  by (simp add: fdc_execute_command_def cmd_restore_def cmd_seek_def cmd_read_sector_def cmd_write_sector_def
    cmd_read_address_def cmd_write_track_def cmd_force_interrupt_def cmd_step_def Let_def)

lemma drives_next_byte: "fdc_next_byte f = (v, g) \<Longrightarrow> drives g = drives f"
  by (auto simp: fdc_next_byte_def Let_def split: if_splits)

lemma drives_read_data: "fdc_read_data f = Some (v, g) \<Longrightarrow> drives g = drives f"
  by (auto simp: fdc_read_data_def load_sector_def Let_def dest!: drives_next_byte split: if_splits option.splits)

lemma drives_read: "sv_disk_read a f = Some (v, g) \<Longrightarrow> drives g = drives f"
  by (auto simp: sv_disk_read_def read_status_def Let_def dest: drives_read_data split: if_splits)

lemma dirty_mark:
  assumes "s div 8 < length dm" "t div 8 < length dm"
  shows "dirty_bit (mark_sector s dm) t \<longleftrightarrow> t = s \<or> dirty_bit dm t"
proof -
  have e: "(t = s) = (t div 8 = s div 8 \<and> t mod 8 = s mod 8)" by (metis div_mult_mod_eq)
  have b: "dirty_bit xs t = bit (xs ! (t div 8)) (t mod 8)" for xs unfolding dirty_bit_def by (rule tst_push_bit)
  have "t mod 8 < 8" "s mod 8 < 8" by simp_all
  then have p: "bit (push_bit (s mod 8) 1 :: u8) (t mod 8) = (t mod 8 = s mod 8)"
    by (auto simp: bit_simps)
  show ?thesis
    unfolding b e mark_sector_def using assms by (cases "t div 8 = s div 8") (auto simp: bit_or_iff p simp del: push_bit_of_1)
qed

lemma store_image_sync:
  assumes d: "img_ok d" "cache d = Some c" and v: "valid_sector d trk sd sec" and bs: "length bs = 256" and sync: "in_sync d xs"
  shows "in_sync (sv_disk_mark_dirty (sector_offset d trk sd sec) 256 (d\<lparr>cache := Some (blit (unat (sector_offset d trk sd sec)) bs c)\<rparr>)) xs"
proof -
  let ?o = "sector_offset d trk sd sec" and ?i = "sector_index d trk sd sec"
  have o: "unat ?o = ?i * 256" by (rule sector_index_offset [OF d(1) v])
  have le: "?i * 256 + 256 \<le> length c" using valid_sector_offset(2) [OF d v] o by simp
  note n = valid_nat [OF d(1) v]
  have lt: "unat ?o + 256 < 2 ^ 32"
    using sector_offset_nat(2) [OF d(1) n(1,2,3,4)] unsigned_less [of "?o + 256", where ?'a = nat] by simp
  then have "unat (255 + ?o) = ?i * 256 + 255" by (simp add: unat_word_ariths o)
  then have r: "[unat (?o div DISK_SECTOR_SIZE)..<Suc (unat ((255 + ?o) div DISK_SECTOR_SIZE))] = [?i]"
    by (simp add: DISK_SECTOR_SIZE_def unat_div o)
  let ?d = "sv_disk_mark_dirty ?o 256 (d\<lparr>cache := Some (blit (unat ?o) bs c)\<rparr>)"
  have m: "dirty ?d" "dirty_map ?d = map_option (mark_sector ?i) (dirty_map d)"
    unfolding sv_disk_mark_dirty_def by (simp_all add: Let_def r del: upt_Suc)
  have lc: "length (blit (unat ?o) bs c) = length c" using le o bs by (simp add: length_blit)
  have other: "fsec 0 (blit (unat ?o) bs c) s = fsec 0 c s" if "s * 256 + 256 \<le> length c" "s \<noteq> ?i" for s
    using blit_slice [OF le bs that(1)] that(2) by (simp add: fsec_def o)
  have lm: "s div 8 < length dm" if "dirty_map d = Some dm" "s * 256 + 256 \<le> length c" for s dm
  proof -
    have "length dm = (length c div 256 + 7) div 8" using d that(1) by (simp add: img_ok_def)
    moreover have "s < length c div 256" using that(2) by (simp add: less_eq_div_iff_mult_less_eq Suc_le_eq [symmetric])
    ultimately show ?thesis by linarith
  qed
  show ?thesis
    unfolding in_sync_def mark_dirty_fields
  proof (intro allI impI conjI)
    fix c' assume c': "cache (d\<lparr>cache := Some (blit (unat ?o) bs c)\<rparr>) = Some c'"
    then have e: "c' = blit (unat ?o) bs c" by simp
    show "unat (header_size (d\<lparr>cache := Some (blit (unat ?o) bs c)\<rparr>)) + length c' \<le> length xs"
      using sync d(2) lc by (simp add: in_sync_def e)
    fix s assume s: "s * 256 + 256 \<le> length c'"
      and clean: "\<not> (dirty ?d \<and> (case dirty_map ?d of None \<Rightarrow> True | Some dm \<Rightarrow> dirty_bit dm s))"
    obtain dm where dm: "dirty_map d = Some dm" "\<not> dirty_bit (mark_sector ?i dm) s"
      using clean m(1) unfolding m(2) by (cases "dirty_map d") simp_all
    have s: "s * 256 + 256 \<le> length c" using s lc by (simp add: e)
    have "s \<noteq> ?i \<and> \<not> dirty_bit dm s" using dirty_mark [OF lm [OF dm(1) le] lm [OF dm(1) s]] dm(2) by blast
    then show "fsec (unat (header_size (d\<lparr>cache := Some (blit (unat ?o) bs c)\<rparr>))) xs s = fsec 0 c' s"
      using sync d(2) dm(1) s other [OF s] by (simp add: in_sync_def e)
  qed
qed

lemma store_sector_sync:
  assumes f: "length (drives f) = 4" "unat (drive_select f) < 4" "img_ok (disk f)" "length (sector_buf f) = 256"
    and sync: "in_sync (drives f ! n) xs"
  shows "in_sync (drives (snd (store_sector sec f)) ! n) xs"
proof -
  have s: "sector_size (disk f) = 256" using f(3) by (simp add: img_ok_def)
  have "in_sync (drives (set_disk d f) ! n) xs" if "n = unat (drive_select f) \<Longrightarrow> in_sync d xs" for d
    using that sync f(1,2) by (cases "n = unat (drive_select f)") (simp_all add: set_disk_def)
  moreover have "in_sync (sv_disk_mark_dirty o' 256 ((disk f)\<lparr>cache := Some (blit (unat o') (sector_buf f) c)\<rparr>)) xs"
    if "n = unat (drive_select f)" "cache (disk f) = Some c" "o' = sector_offset (disk f) (track f) (side f) sec" "o' \<noteq> UINT32_MAX" for c o'
    unfolding that(3) using sync valid_sector_offset(1) [OF f(3) that(2)] that f(4)
    by (intro store_image_sync [OF f(3) that(2)]) (simp_all add: disk_def)
  ultimately show ?thesis
    using sync f(4) s by (simp add: store_sector_def Let_def split: option.split)
qed

lemma bus_sync:
  "fdc_bus f g \<Longrightarrow> fdc_ok f \<Longrightarrow> in_sync (drives f ! n) xs \<Longrightarrow> in_sync (drives g ! n) xs"
proof (induction rule: fdc_bus.induct)
  case (bus_read a f v g)
  then show ?case using drives_read by metis
next
  case (bus_write f a v)
  note f = bus_write.prems(1) and sync = bus_write.prems(2)
  have d: "img_ok (disk f)" "length (drives f) = 4" "unat (drive_select f) < 4" "length (sector_buf f) = 256"
    using disk_in [OF f] f by (simp_all add: fdc_ok_def)
  have st: "in_sync (drives (snd (store_sector sec g)) ! n) xs"
    if "drives g = drives f" "drive_select g = drive_select f" "length (sector_buf g) = 256" for g sec
    using d sync that by (intro store_sector_sync) (simp_all add: disk_def)
  have wt: "in_sync (drives (write_track_field f5 v g) ! n) xs"
    if "drives g = drives f" "drive_select g = drive_select f" "length (sector_buf g) = 256" for g f5
    using that sync by (simp add: write_track_field_def st Let_def)
  have "in_sync (drives (fdc_write_data v (f\<lparr>data_reg := v\<rparr>)) ! n) xs"
    using sync d by (simp add: fdc_write_data_def fdc_write_track_byte_def st wt split_beta Let_def)
  moreover have "drives (fdc_write_drive_select v f) = drives f"
    by (simp add: fdc_write_drive_select_def split_beta Let_def)
  ultimately show ?case using sync by (simp add: sv_disk_write_def Let_def)
qed (simp add: sv_disk_tick_def Let_def)

lemma access_sync:
  "fdc_access f g \<Longrightarrow> fdc_ok f \<Longrightarrow> in_sync (drives f ! n) xs \<Longrightarrow> in_sync (drives g ! n) xs"
  by (induction rule: fdc_access.induct) (auto intro: bus_sync simp: sv_disk_reset_def)

section \<open>Mounting starts in sync\<close>

definition read_laws :: "'w sd_card \<Rightarrow> ('w \<Rightarrow> u8 list) \<Rightarrow> ('w \<Rightarrow> nat) \<Rightarrow> bool" where
  "read_laws S content pos \<longleftrightarrow>
     (\<forall>n w. 0 < n \<and> pos w + n \<le> length (content w) \<longrightarrow>
        (let (got, w') = file_read S n w
         in got \<noteq> [] \<and> length got \<le> n \<and> got = take (length got) (drop (pos w) (content w)) \<and>
           content w' = content w \<and> pos w' = pos w + length got))"

lemma load_cache_content:
  assumes "read_laws S content pos"
  shows "pos w + n \<le> length (content w) \<Longrightarrow> fst (load_cache S acc n w) = acc @ take n (drop (pos w) (content w)) \<and>
    content (snd (load_cache S acc n w)) = content w"
proof (induction n arbitrary: acc w rule: less_induct)
  case (less n)
  show ?case
  proof (cases "n = 0")
    case True
    then show ?thesis by (subst (1 2) load_cache.simps) simp
  next
    case False
    let ?chunk = "if n > 512 then 512 else n"
    obtain got w' where e: "file_read S ?chunk w = (got, w')" by fastforce
    have ch: "0 < ?chunk \<and> pos w + ?chunk \<le> length (content w)" using False less.prems by auto
    have r: "got \<noteq> []" "length got \<le> ?chunk" "got = take (length got) (drop (pos w) (content w))"
      "content w' = content w" "pos w' = pos w + length got"
      using assms [unfolded read_laws_def, rule_format, OF ch] unfolding e by simp_all
    have l: "length got \<le> n" "0 < length got" using r(1,2) by (auto split: if_splits)
    have ih: "fst (load_cache S (acc @ got) (n - length got) w') = (acc @ got) @ take (n - length got) (drop (pos w') (content w')) \<and>
        content (snd (load_cache S (acc @ got) (n - length got) w')) = content w'"
      using l False r(4,5) less.prems by (intro less.IH) simp_all
    have "got @ take (n - length got) (drop (length got + pos w) (content w)) = take n (drop (pos w) (content w))"
      using take_add [of "length got" "n - length got" "drop (pos w) (content w)"] r(3) l(1) by (simp add: add.commute)
    then show ?thesis using False e r(1) ih unfolding r(4,5)
      by (subst (1 2) load_cache.simps) (simp add: Let_def add.commute)
  qed
qed

lemma fill_cache_sync:
  assumes laws: "card_laws S content pos" "read_laws S content pos"
    and e: "unat (header_size e) + unat (cache_size e) \<le> length (content w)" "header_size e = 0 \<Longrightarrow> pos w = 0" "\<not> dirty e"
  shows "in_sync (fst (fill_cache S e w)) (content w)"
    and "cache (fst (fill_cache S e w)) = Some (take (unat (cache_size e)) (drop (unat (header_size e)) (content w)))"
proof -
  define w1 where "w1 = (if header_size e > 0 then file_seek S (ucast (header_size e)) w else w)"
  have u: "unat (ucast (header_size e) :: u32) = unat (header_size e)" by simp
  have w1: "content w1 = content w" "pos w1 = unat (header_size e)"
    using card_lawsD(3,4) [OF laws(1)] e(1,2) by (auto simp: w1_def word_neq_0_conv [symmetric])
  have "fst (load_cache S [] (unat (cache_size e)) w1) = take (unat (cache_size e)) (drop (unat (header_size e)) (content w))"
    using load_cache_content [OF laws(2), of w1 "unat (cache_size e)" "[]"] e(1) w1 by simp
  then show c: "cache (fst (fill_cache S e w)) = Some (take (unat (cache_size e)) (drop (unat (header_size e)) (content w)))"
    by (simp add: fill_cache_def w1_def [symmetric] split_beta Let_def)
  have "fsec h (content w) s = fsec 0 (take n (drop h (content w))) s" if "s * 256 + 256 \<le> n" for h s n
    using that by (simp add: fsec_def drop_take min_def add.commute)
  moreover have "header_size (fst (fill_cache S e w)) = header_size e" "dirty (fst (fill_cache S e w)) = dirty e"
    by (simp_all add: fill_cache_def split_beta Let_def)
  ultimately show "in_sync (fst (fill_cache S e w)) (content w)"
    using e(1,3) by (auto simp: in_sync_def c)
qed

section \<open>Flushing\<close>

text \<open>A drive's flush that meets a card that writes nothing forgets what was dirty: the changes stay in the
  cache, but no later flush writes them.\<close>

lemma flush_stall_forgets:
  assumes "\<And>bs w. fst (file_write S bs w) = 0" and "fst (sd_open S (path img) ''r+'' w)"
    and "mounted img" "dirty img" "\<not> read_only img" "cache img = Some c"
  shows "\<not> dirty (fst (flush_image S (img, w)))"
    and "flush_image S (flush_image S (img, w)) = flush_image S (img, w)"
proof -
  show d: "\<not> dirty (fst (flush_image S (img, w)))"
    using assms by (simp add: flush_image_def split_beta Let_def)
  obtain img' w' where e: "flush_image S (img, w) = (img', w')" by fastforce
  then show "flush_image S (flush_image S (img, w)) = flush_image S (img, w)"
    using d by (simp add: e) (simp add: flush_image_def split: option.split)
qed

text \<open>A mount whose cache allocation fails leaves the size of the cache behind. A READ SECTOR pending from
  the disk mounted before then copies from the null cache.\<close>

lemma failed_mount_null_read:
  assumes "img_ok d" "cache d = None" "tracks d \<noteq> 0" and "\<not> fst (heap_alloc S (unat (cache_size (size_cache d))) w)"
    and f: "disk f = fst (snd (fill_image S d w))" "read_pending f" "track f = 0" "side f = 0" "sector f = 1"
  shows "\<not> fst (fill_image S d w)" "sv_disk_read 0xFF4B f = None"
proof -
  have e: "disk f = size_cache d" "\<not> fst (fill_image S d w)"
    using assms(4) f(1) by (simp_all add: fill_image_def split_beta Let_def)
  show "\<not> fst (fill_image S d w)" by (rule e(2))
  note n = size_cache_nat [OF assms(1)]
  have "tracks (size_cache d) = tracks d" "cache (size_cache d) = None" using assms(2) by (simp_all add: size_cache_def Let_def)
  moreover from this have "unat (tracks d) * unat (sides (size_cache d)) \<ge> 1"
    using assms(3) n(4) by (auto simp: Suc_le_eq unat_gt_0 simp flip: word_neq_0_conv)
  then have "256 \<le> unat (cache_size (size_cache d))" using n(1) calculation(1) by simp
  then have "\<not> (256 :: u32) > cache_size (size_cache d)" by (simp add: word_less_nat_alt)
  moreover have "sector_offset (size_cache d) 0 0 1 = 0"
    using n(2,3,4) assms(3) calculation(1) by (auto simp: sector_offset_def Let_def)
  ultimately show "sv_disk_read 0xFF4B f = None"
    using f(2-5) n(2) by (simp add: data_port fdc_read_data_def load_sector_def UINT32_MAX_def e(1) Let_def)
qed

text \<open>
  C22: Whatever the machine does with the controller after an image was in step with its file, a flush
  leaves the file with its header and tail untouched and the whole cache between them: no written sector
  is missed, none is written to another place. The card may write any part of what it is given, but not
  nothing.
\<close>

theorem disk_flush_persists:
  assumes "card_laws S content pos" and "fdc_ok f" "n < 4" and "in_sync (drives f ! n) (content w)"
    and "fdc_access\<^sup>*\<^sup>* f g" and "cache (drives g ! n) = Some c" "\<not> read_only (drives g ! n)"
  shows "let (g', w') = sv_disk_flush S n (g, w); h = unat (header_size (drives g ! n))
    in content w' = take h (content w) @ c @ drop (h + length c) (content w) \<and>
      cache (drives g' ! n) = Some c \<and> \<not> dirty (drives g' ! n)"
proof -
  have g: "fdc_ok g \<and> in_sync (drives g ! n) (content w)"
    using assms(5) by (induction rule: rtranclp_induct) (auto intro: assms(2,4) access_ok access_sync)
  then have "length (drives g) = 4" by (simp add: fdc_ok_def)
  then show ?thesis
    using flush_image_equal [OF assms(1) drive_ok [OF _ assms(3)] assms(6,7), of w] g assms(3)
    by (simp add: sv_disk_flush_def SV_DISK_MAX_DRIVES_def split_beta Let_def)
qed

theorem disk_flush_persists_witness:
  "let (g', w') = sv_disk_flush ram_card 0 (sv_disk_write 0xFF48 0xA0 blank_disk, (replicate 4608 0, 0));
      h = unat (header_size (drives (sv_disk_write 0xFF48 0xA0 blank_disk) ! 0))
    in fst w' = take h (replicate 4608 0) @ replicate 4608 0 @ drop (h + length (replicate 4608 (0 :: u8))) (replicate 4608 0) \<and>
      cache (drives g' ! 0) = Some (replicate 4608 0) \<and> \<not> dirty (drives g' ! 0)"
proof -
  have "card_laws ram_card fst snd" by (simp add: card_laws_def ram_card_def)
  moreover have "drives (sv_disk_write 0xFF48 0xA0 blank_disk) = drives blank_disk"
    by (simp add: sv_disk_write_def)
  moreover have "drives blank_disk ! 0 = blank_drive" by (simp add: blank_disk_def)
  moreover have "in_sync blank_drive (replicate 4608 0)" by (simp add: in_sync_def blank_drive_def)
  moreover have "fdc_access\<^sup>*\<^sup>* blank_disk (sv_disk_write 0xFF48 0xA0 blank_disk)"
    by (intro r_into_rtranclp fdc_access.bus fdc_bus.bus_write)
  ultimately show ?thesis
    using disk_flush_persists [of ram_card fst snd blank_disk 0 "(replicate 4608 0, 0)" "sv_disk_write 0xFF48 0xA0 blank_disk" "replicate 4608 0"]
    by (simp add: blank_disk_ok blank_drive_def)
qed

end
