(* ===== verification/Sv_Disk_Lines.thy ===== *)
theory Sv_Disk_Lines
  imports Sv_Disk_Transfer
begin

text \<open>The two lines from the disk controller into the CPU, NMI and HALT.\<close>

text \<open>The levels last reported through the callbacks.\<close>

fun line_set :: "fdc_signal \<Rightarrow> bool \<times> bool \<Rightarrow> bool \<times> bool" where
  "line_set (FdcNmi a) l = (a, snd l)"
| "line_set (FdcHalt h) l = (fst l, h)"

definition fdc_lines :: "sv_disk \<Rightarrow> bool \<times> bool" where
  "fdc_lines f = fold line_set (calls f) (False, False)"

text \<open>A command in progress always has its data ready, so HALT is never asked for.\<close>

definition lines_ok :: "sv_disk \<Rightarrow> bool" where
  "lines_ok f \<longleftrightarrow> nmi_callback f \<and> halt_callback f \<and> fdc_lines f = (\<not> density f \<and> intrq f, False) \<and> (busy f \<longrightarrow> drq f) \<and>
     (\<forall>h. FdcHalt h \<in> set (calls f) \<longrightarrow> \<not> h)"

definition wired :: "sv_disk \<Rightarrow> bool" where
  "wired f \<longleftrightarrow> nmi_callback f \<and> halt_callback f \<and> snd (fdc_lines f) = False \<and> (\<forall>h. FdcHalt h \<in> set (calls f) \<longrightarrow> \<not> h)"

lemma wired_intrq: "wired f \<Longrightarrow> wired (set_intrq b f) \<and> fdc_lines (set_intrq b f) = (\<not> density f \<and> b, False)"
  by (auto simp: wired_def fdc_lines_def set_intrq_def signal_halt_def signal_nmi_def Let_def)

lemma lines_wired: "lines_ok f \<longleftrightarrow> wired f \<and> fdc_lines f = (\<not> density f \<and> intrq f, False) \<and> (busy f \<longrightarrow> drq f)"
  by (auto simp: lines_ok_def wired_def)

lemma lines_intrq: "wired f \<Longrightarrow> busy f \<longrightarrow> drq f \<Longrightarrow> lines_ok (set_intrq b f)"
  using wired_intrq [of f b] by (simp add: lines_wired)

lemma set_drq_lines: "lines_ok f \<Longrightarrow> lines_ok (set_drq True f)"
  by (auto simp: lines_ok_def fdc_lines_def set_drq_def signal_halt_def Let_def)

text \<open>What the two predicates read.\<close>

definition line_state :: "sv_disk \<Rightarrow> (bool \<times> bool \<times> fdc_signal list) \<times> bool \<times> bool" where
  "line_state f = ((nmi_callback f, halt_callback f, calls f), density f, intrq f)"

lemma wired_cong: "fst (line_state f) = fst (line_state g) \<Longrightarrow> wired f = wired g"
  by (simp add: line_state_def wired_def fdc_lines_def)

lemma lines_cong: "line_state f = line_state g \<Longrightarrow> lines_ok g \<Longrightarrow> busy f \<longrightarrow> drq f \<Longrightarrow> lines_ok f"
  by (auto simp: line_state_def lines_ok_def fdc_lines_def)

lemma lines_to_intrq: "fst (line_state f) = fst (line_state g) \<Longrightarrow> lines_ok g \<Longrightarrow> \<not> busy f \<Longrightarrow> lines_ok (set_intrq b f)"
  using wired_cong by (metis lines_intrq lines_wired)

lemma not_ready_lines [simp]: "line_state (not_ready f) = line_state f" "busy (not_ready f) = busy f" "drq (not_ready f) = drq f"
  by (simp_all add: not_ready_def line_state_def)

lemma cmd_lines [simp]:
  "line_state (cmd_restore f) = line_state f" "line_state (cmd_seek f) = line_state f" "line_state (cmd_read_sector f) = line_state f"
  "line_state (cmd_write_sector f) = line_state f" "line_state (cmd_read_address f) = line_state f"
  "line_state (cmd_write_track f) = line_state f" "line_state (cmd_step v f) = line_state f"
  by (simp_all add: cmd_restore_def cmd_seek_def cmd_read_sector_def cmd_write_sector_def cmd_read_address_def cmd_write_track_def
    cmd_step_def not_ready_def line_state_def Let_def)

lemma cmd_busy [simp]:
  "\<not> busy (cmd_restore f)" "\<not> busy (cmd_seek f)" "busy (cmd_read_sector f) \<longrightarrow> drq (cmd_read_sector f)"
  "busy (cmd_write_sector f) \<longrightarrow> drq (cmd_write_sector f)" "drq (cmd_read_address f)"
  "busy (cmd_write_track f) \<longrightarrow> drq (cmd_write_track f)" "\<not> busy (cmd_step v f)"
  by (simp_all add: cmd_restore_def cmd_seek_def cmd_read_sector_def cmd_write_sector_def cmd_read_address_def cmd_write_track_def
    cmd_step_def Let_def)

lemma execute_lines: "lines_ok f \<Longrightarrow> lines_ok (fdc_execute_command v f)"
proof -
  assume f: "lines_ok f"
  define g where "g = f\<lparr>reading := False, read_pending := False, writing := False, write_track := False, drq := False,
    intrq_defer := 0, command := v, busy := True, status := 0x01\<rparr>"
  have g: "line_state g = line_state f" by (simp add: g_def line_state_def)
  define h where "h = (let ct = v AND 0xF0 in if ct = 0x00 then cmd_restore g
                    else if ct = 0x10 then cmd_seek g
                    else if ct = 0x80 \<or> ct = 0x90 then cmd_read_sector g
                    else if ct = 0xA0 \<or> ct = 0xB0 then cmd_write_sector g
                    else if ct = 0xC0 then cmd_read_address g
                    else if ct = 0xE0 then g\<lparr>status := 0x00, busy := False\<rparr>
                    else if ct = 0xF0 then cmd_write_track g
                    else if ct \<ge> 0x20 \<and> ct \<le> 0x7F then cmd_step v g
                    else g\<lparr>status := 0x00, busy := False\<rparr>)"
  have "line_state h = line_state g \<and> (busy h \<longrightarrow> drq h)"
    unfolding h_def Let_def by (simp add: line_state_def [of "_\<lparr>status := _, busy := _\<rparr>"] cong: if_cong) (simp add: line_state_def)
  then have h: "line_state h = line_state f" "busy h \<longrightarrow> drq h" using g by simp_all
  define k where "k = not_ready (let k = g\<lparr>busy := False, reading := False, writing := False, write_track := False, drq := False, status := 0x00\<rparr>
    in if track k = 0 then k\<lparr>status := 0x04\<rparr> else k)"
  have k: "line_state k = line_state f" "\<not> busy k" unfolding k_def not_ready_lines g [symmetric] by (simp_all add: Let_def line_state_def)
  have "fdc_execute_command v f = (if v AND 0xF0 = 0xD0 then if tst v 0x08 then set_intrq True k else k
      else if \<not> busy h then set_intrq True h else h)"
    by (simp add: fdc_execute_command_def g_def [symmetric] h_def k_def cmd_force_interrupt_def Let_def)
  then show ?thesis
    using lines_to_intrq [of k f True] lines_to_intrq [of h f True] lines_cong [OF h(1) f h(2)] lines_cong [OF k(1) f] f h k by simp
qed

lemma next_byte_lines: "lines_ok f \<Longrightarrow> lines_ok (snd (fdc_next_byte f))"
proof -
  assume f: "lines_ok f"
  have w: "wired (f\<lparr>intrq_defer := 0\<rparr>)" using f wired_cong [of "f\<lparr>intrq_defer := 0\<rparr>" f] by (simp add: lines_wired line_state_def)
  have b: "busy f \<longrightarrow> drq f" using f by (simp add: lines_wired)
  have "lines_ok (f\<lparr>buf_pos := p, data_reg := d, drq := True\<rparr>)"
    "lines_ok (f\<lparr>buf_pos := p, reading := False, drq := False, busy := False, status := 0x00, intrq_defer := 5\<rparr>)"
    "lines_ok (set_intrq True (f\<lparr>intrq_defer := 0\<rparr>))" for p d
    using f w b by (auto intro: lines_cong [OF _ f] lines_intrq simp: line_state_def)
  then show ?thesis using f by (simp add: fdc_next_byte_def Let_def)
qed

lemma read_data_lines:
  assumes "lines_ok f" "fdc_read_data f = Some (v, g)"
  shows "lines_ok g"
proof -
  have p: "lines_ok (set_intrq True (f\<lparr>read_pending := False, reading := False, drq := False, busy := False, status := 0x10\<rparr>))"
    by (rule lines_to_intrq [OF _ assms(1)]) (simp_all add: line_state_def)
  have q: "lines_ok (f\<lparr>read_pending := False, sector_buf := b, data_reg := d\<rparr>)" for b d
    using assms(1) by (intro lines_cong [OF _ assms(1)]) (simp_all add: line_state_def lines_wired)
  show ?thesis using assms(2) p next_byte_lines [OF q] next_byte_lines [OF assms(1)]
    by (auto simp: fdc_read_data_def load_sector_def Let_def prod_eq_iff split: if_splits option.splits)
qed

lemma store_sector_lines [simp]: "line_state (snd (store_sector s f)) = line_state f" "busy (snd (store_sector s f)) = busy f"
  "drq (snd (store_sector s f)) = drq f"
  by (simp_all add: store_sector_def set_disk_def line_state_def Let_def split: option.split)

lemma write_track_field_lines [simp]:
  "line_state (write_track_field n v f) = line_state f" "busy (write_track_field n v f) = busy f" "drq (write_track_field n v f) = drq f"
proof -
  have s: "line_state ((snd (store_sector s g))\<lparr>wt_state := x\<rparr>) = line_state g" for s g x
    using store_sector_lines(1) [of s g] by (simp add: line_state_def)
  show "line_state (write_track_field n v f) = line_state f" "busy (write_track_field n v f) = busy f" "drq (write_track_field n v f) = drq f"
    by (simp_all add: write_track_field_def s Let_def) (simp_all add: line_state_def)
qed

lemma write_data_lines:
  assumes f: "lines_ok f"
  shows "lines_ok (fdc_write_data v f)"
proof -
  have b: "busy f \<longrightarrow> drq f" using f by (simp add: lines_wired)
  define g where "g = (if v = 0xF5 then f\<lparr>wt_byte_count := wt_byte_count f + 1, wt_f5_count := wt_f5_count f + 1\<rparr>
    else write_track_field (wt_f5_count f) v (f\<lparr>wt_byte_count := wt_byte_count f + 1, wt_f5_count := 0\<rparr>))"
  have g: "line_state g = line_state f" "busy g = busy f" "drq g = drq f"
    unfolding g_def by simp_all (simp_all add: line_state_def)
  have t: "fdc_write_track_byte v f = (if wt_byte_count g \<ge> WT_TRACK_BYTES
      then set_intrq True (g\<lparr>write_track := False, drq := False, busy := False, status := 0x00\<rparr>) else set_drq True g)"
    by (simp add: fdc_write_track_byte_def g_def Let_def)
  have "lines_ok g" using lines_cong [OF g(1) f] g(2,3) b by simp
  then have w: "lines_ok (fdc_write_track_byte v f)"
    unfolding t using g(1) by (auto intro: set_drq_lines lines_to_intrq [OF _ f] simp: line_state_def)
  define h where "h = f\<lparr>sector_buf := (sector_buf f)[unat (buf_pos f) := v], buf_pos := buf_pos f + 1\<rparr>"
  have h: "line_state h = line_state f" "busy h = busy f" by (simp_all add: h_def line_state_def)
  have "lines_ok (set_intrq True ((snd (store_sector (sector h) h))\<lparr>writing := False, drq := False, busy := False, status := s\<rparr>))" for s
    using h store_sector_lines(1) [of "sector h" h] by (intro lines_to_intrq [OF _ f]) (simp_all add: line_state_def)
  moreover have "lines_ok (h\<lparr>drq := True\<rparr>)" using h by (intro lines_cong [OF _ f]) (simp_all add: line_state_def)
  ultimately show ?thesis using f w by (simp add: fdc_write_data_def h_def [symmetric] split_beta Let_def)
qed

lemma drive_select_lines: "lines_ok f \<Longrightarrow> lines_ok (fdc_write_drive_select v f)"
proof -
  assume f: "lines_ok f"
  define p where "p = (if tst v 0x01 then (0, False) else if tst v 0x02 then (1, False)
            else if tst v 0x04 then (2, False) else if tst v 0x40 then (3, True) else (0 :: u8, False))"
  define e where "e = (if unat (drive_select (f\<lparr>drive_select := fst p\<rparr>)) \<ge> SV_DISK_MAX_DRIVES
    then f\<lparr>drive_select := fst p\<rparr>\<lparr>drive_select := 0\<rparr> else f\<lparr>drive_select := fst p\<rparr>)"
  define g where "g = e\<lparr>motor_on := tst v 0x08\<rparr>\<lparr>side := (if snd p then 0 else drop_bit 6 v AND 0x01)\<rparr>\<lparr>density := tst (v XOR 0x20) 0x20\<rparr>"
  have g: "fst (line_state g) = fst (line_state f)" "intrq g = intrq f" "busy g = busy f" "drq g = drq f"
    by (simp_all add: g_def e_def line_state_def)
  define h where "h = (if \<not> density g \<and> intrq g then signal_nmi True g else signal_nmi False g)"
  have "wired g" using f wired_cong [OF g(1)] by (simp add: lines_wired)
  then have "wired h \<and> fdc_lines h = (\<not> density h \<and> intrq h, False) \<and> busy h = busy f \<and> drq h = drq f"
    using g by (auto simp: h_def wired_def fdc_lines_def signal_nmi_def)
  then have h: "lines_ok h" using f by (simp add: lines_wired)
  define k where "k = (if intrq (h\<lparr>halt_enable := tst v 0x80\<rparr>) then h\<lparr>halt_enable := tst v 0x80\<rparr>\<lparr>halt_enable := False\<rparr>
    else h\<lparr>halt_enable := tst v 0x80\<rparr>)"
  have e: "fdc_write_drive_select v f = signal_halt (halt_enable k \<and> \<not> drq k \<and> busy k) k"
    unfolding fdc_write_drive_select_def p_def [symmetric] split_beta Let_def k_def h_def g_def e_def ..
  have "busy h \<longrightarrow> drq h" using h by (simp add: lines_wired)
  then have "lines_ok k" by (intro lines_cong [OF _ h]) (simp_all add: k_def line_state_def)
  then have "lines_ok (signal_halt False k)" by (auto simp: signal_halt_def lines_ok_def fdc_lines_def)
  moreover have "\<not> (drq k = False \<and> busy k)" using \<open>lines_ok k\<close> by (auto simp: lines_wired)
  ultimately show ?thesis unfolding e by (cases "drq k") auto
qed

lemma bus_lines: "fdc_bus f g \<Longrightarrow> lines_ok f \<Longrightarrow> lines_ok g"
proof (induction rule: fdc_bus.induct)
  case (bus_read a f v g)
  have b: "busy f \<longrightarrow> drq f" using bus_read.prems by (simp add: lines_wired)
  have "lines_ok (set_intrq False f)" using bus_read.prems b by (intro lines_intrq) (simp_all add: lines_wired)
  then show ?case using bus_read read_data_lines [OF bus_read.prems]
    by (auto simp: sv_disk_read_def read_status_def Let_def split: if_splits)
next
  case (bus_write f a v)
  note f = bus_write
  have b: "busy f \<longrightarrow> drq f" using f by (simp add: lines_wired)
  have "lines_ok (set_intrq False f)" using f b by (intro lines_intrq) (simp_all add: lines_wired)
  moreover have "lines_ok (f\<lparr>track := v\<rparr>)" "lines_ok (f\<lparr>sector := v\<rparr>)" "lines_ok (f\<lparr>data_reg := v\<rparr>)"
    using b by (intro lines_cong [OF _ f], simp add: line_state_def, simp)+
  ultimately show ?case using f
    by (simp add: sv_disk_write_def execute_lines write_data_lines drive_select_lines Let_def)
next
  case (tick f)
  then have "busy f \<longrightarrow> drq f" by (simp add: lines_wired)
  then have "lines_ok (f\<lparr>intrq_defer := n\<rparr>)" for n
    by (intro lines_cong [OF _ tick]) (simp_all add: line_state_def)
  moreover from this have "lines_ok (set_intrq True (f\<lparr>intrq_defer := n\<rparr>))" for n
    by (intro lines_intrq) (simp_all add: lines_wired)
  ultimately show ?case using tick by (simp add: sv_disk_tick_def Let_def)
qed

text \<open>
  C25: Along every sequence of bus accesses and ticks of a controller wired to the CPU, the NMI level last
  reported is INTRQ gated by the density bit of the drive latch, so that a finished command interrupts the
  driver exactly when the latch lets it; and HALT is never asserted: whatever the latch asks for, the CPU
  never stops waiting for a byte.
\<close>

theorem disk_lines:
  assumes "nmi_callback f" "halt_callback f" "calls f = []" "\<not> intrq f" "\<not> busy f" and "fdc_bus\<^sup>*\<^sup>* f g"
  shows "fst (fdc_lines g) = (\<not> density g \<and> intrq g) \<and> FdcHalt True \<notin> set (calls g)"
proof -
  have "lines_ok f" using assms by (simp add: lines_ok_def fdc_lines_def)
  with assms(6) have "lines_ok g" by (induction rule: rtranclp_induct) (auto intro: bus_lines)
  then show ?thesis by (auto simp: lines_ok_def)
qed

theorem disk_lines_witness:
  "fst (fdc_lines (sv_disk_write 0xFF48 0x00 blank_disk)) =
      (\<not> density (sv_disk_write 0xFF48 0x00 blank_disk) \<and> intrq (sv_disk_write 0xFF48 0x00 blank_disk)) \<and>
    FdcHalt True \<notin> set (calls (sv_disk_write 0xFF48 0x00 blank_disk))"
  by (rule disk_lines [of blank_disk]) (simp_all add: blank_disk_def r_into_rtranclp fdc_bus.bus_write)

end
