(* ===== verification/Spec2Isabelle.thy ===== *)
theory Spec2Isabelle
  imports Mc6809_Alu CoCo2_Stack Gime_Skip CoCo3_Frame CoCo3_Direct Gime_Rows Hal_Rs232 Becker_Race Sv_Disk_Finish Sv_Disk_Flush Sv_Disk_Lines
begin

text \<open>Verification of the emulation core of TTGO-VGA32-COCO.\<close>

end
